(* ===== verification/GoLib.thy ===== *)
theory GoLib
  imports Prelude
begin

text \<open>
  What the program uses of the package \<open>strings\<close> of Go's standard library.

  A Go string is a sequence of bytes, here a \<open>string\<close>. White space and letter case are those of
  ASCII: every constant the program compares with is ASCII, and bytes above 127 are neither
  white space nor letters.
\<close>

subsection \<open>Package strings\<close>

definition is_space :: "char \<Rightarrow> bool" where
  "is_space c = (c \<in> {CHR 0x09, CHR 0x0A, CHR 0x0B, CHR 0x0C, CHR 0x0D, CHR 0x20})"

definition trim_left :: "string \<Rightarrow> string" where
  "trim_left s = dropWhile is_space s"

definition trim_space :: "string \<Rightarrow> string" where
  "trim_space s = rev (trim_left (rev (trim_left s)))"

definition upper_char :: "char \<Rightarrow> char" where
  "upper_char c =
     (let n = of_char c :: nat in if 97 \<le> n \<and> n \<le> 122 then char_of (n - 32) else c)"

definition lower_char :: "char \<Rightarrow> char" where
  "lower_char c =
     (let n = of_char c :: nat in if 65 \<le> n \<and> n \<le> 90 then char_of (n + 32) else c)"

definition to_upper :: "string \<Rightarrow> string" where
  "to_upper s = map upper_char s"

definition to_lower :: "string \<Rightarrow> string" where
  "to_lower s = map lower_char s"

definition equal_fold :: "string \<Rightarrow> string \<Rightarrow> bool" where
  "equal_fold s t = (to_lower s = to_lower t)"

definition has_prefix :: "string \<Rightarrow> string \<Rightarrow> bool" where
  "has_prefix s p = (take (length p) s = p)"

definition has_suffix :: "string \<Rightarrow> string \<Rightarrow> bool" where
  "has_suffix s p = (length p \<le> length s \<and> drop (length s - length p) s = p)"

definition trim_prefix :: "string \<Rightarrow> string \<Rightarrow> string" where
  "trim_prefix s p = (if has_prefix s p then drop (length p) s else s)"

definition trim_suffix :: "string \<Rightarrow> string \<Rightarrow> string" where
  "trim_suffix s p = (if has_suffix s p then take (length s - length p) s else s)"

definition trim_right_char :: "string \<Rightarrow> char \<Rightarrow> string" where
  "trim_right_char s c = rev (dropWhile (\<lambda>x. x = c) (rev s))"

definition remove_char :: "string \<Rightarrow> char \<Rightarrow> string" where
  "remove_char s c = filter (\<lambda>x. x \<noteq> c) s"  \<comment> \<open>\<open>strings.ReplaceAll(s, c, "")\<close>\<close>

fun join_with :: "string \<Rightarrow> string list \<Rightarrow> string" where
  "join_with sep [] = []"
| "join_with sep [x] = x"
| "join_with sep (x # xs) = x @ sep @ join_with sep xs"

fun split_on :: "char \<Rightarrow> string \<Rightarrow> string list" where
  "split_on c [] = [[]]"
| "split_on c (x # xs) =
     (if x = c then [] # split_on c xs
      else (case split_on c xs of [] \<Rightarrow> [[x]] | p # ps \<Rightarrow> (x # p) # ps))"

text \<open>The composition the program applies to symbols and codes everywhere.\<close>

definition norm_upper :: "string \<Rightarrow> string" where
  "norm_upper s = to_upper (trim_space s)"

definition norm_lower :: "string \<Rightarrow> string" where
  "norm_lower s = to_lower (trim_space s)"

subsection \<open>Laws of the string functions\<close>

lemma of_char_upper_char:
  "(of_char (upper_char c) :: nat) =
     (let n = of_char c in if 97 \<le> n \<and> n \<le> 122 then n - 32 else n)"
  by (auto simp: upper_char_def Let_def)

lemma of_char_lower_char:
  "(of_char (lower_char c) :: nat) =
     (let n = of_char c in if 65 \<le> n \<and> n \<le> 90 then n + 32 else n)"
  by (auto simp: lower_char_def Let_def)

lemma upper_char_fix: "\<not> (97 \<le> (of_char c :: nat) \<and> (of_char c :: nat) \<le> 122) \<Longrightarrow> upper_char c = c"
  unfolding upper_char_def Let_def by (rule if_not_P)

lemma lower_char_fix: "\<not> (65 \<le> (of_char c :: nat) \<and> (of_char c :: nat) \<le> 90) \<Longrightarrow> lower_char c = c"
  unfolding lower_char_def Let_def by (rule if_not_P)

lemma upper_char_idem [simp]: "upper_char (upper_char c) = upper_char c"
  by (rule upper_char_fix) (auto simp: of_char_upper_char Let_def)

lemma lower_char_idem [simp]: "lower_char (lower_char c) = lower_char c"
  by (rule lower_char_fix) (auto simp: of_char_lower_char Let_def)

lemma is_space_iff:
  "is_space c \<longleftrightarrow> (of_char c :: nat) \<in> {9, 10, 11, 12, 13, 32}"
proof -
  have eq: "c = d \<longleftrightarrow> (of_char c :: nat) = of_char d" for d
    by simp
  show ?thesis
    unfolding is_space_def insert_iff empty_iff eq by simp
qed

lemma is_space_upper_char [simp]: "is_space (upper_char c) = is_space c"
  by (auto simp: is_space_iff of_char_upper_char Let_def)

lemma is_space_lower_char [simp]: "is_space (lower_char c) = is_space c"
  by (auto simp: is_space_iff of_char_lower_char Let_def)

lemma to_upper_idem [simp, go_norm]: "to_upper (to_upper s) = to_upper s"
  by (simp add: to_upper_def)

lemma to_lower_idem [simp, go_norm]: "to_lower (to_lower s) = to_lower s"
  by (simp add: to_lower_def)

lemma trim_left_upper: "trim_left (to_upper s) = to_upper (trim_left s)"
  by (simp add: trim_left_def to_upper_def dropWhile_map_inv)

lemma trim_left_lower: "trim_left (to_lower s) = to_lower (trim_left s)"
  by (simp add: trim_left_def to_lower_def dropWhile_map_inv)

lemma trim_space_upper [go_norm]: "trim_space (to_upper s) = to_upper (trim_space s)"
  by (simp add: trim_space_def trim_left_upper)
     (metis rev_map to_upper_def trim_left_upper)

lemma trim_space_lower [go_norm]: "trim_space (to_lower s) = to_lower (trim_space s)"
  by (simp add: trim_space_def trim_left_lower)
     (metis rev_map to_lower_def trim_left_lower)

lemma trim_left_nil_or_hd: "trim_left s = [] \<or> \<not> is_space (hd (trim_left s))"
  by (metis hd_dropWhile trim_left_def)

lemma trim_left_id: "s = [] \<or> \<not> is_space (hd s) \<Longrightarrow> trim_left s = s"
  by (cases s) (auto simp: trim_left_def)

lemma trim_left_suffix: "\<exists>p. s = p @ trim_left s"
  by (metis takeWhile_dropWhile_id trim_left_def)

lemma trim_space_idem [simp, go_norm]: "trim_space (trim_space s) = trim_space s"
proof -
  let ?t = "trim_left s"
  let ?u = "trim_left (rev ?t)"
  have "trim_left (rev ?u) = rev ?u"
  proof (rule trim_left_id)
    obtain p where p: "rev ?t = p @ ?u" using trim_left_suffix by blast
    then have t: "?t = rev ?u @ rev p" by (metis rev_append rev_rev_ident)
    show "rev ?u = [] \<or> \<not> is_space (hd (rev ?u))"
    proof (cases "rev ?u = []")
      case False
      then have "hd ?t = hd (rev ?u)" using t by (metis hd_append2)
      moreover have "?t \<noteq> []" using False t by auto
      ultimately show ?thesis using trim_left_nil_or_hd [of s] by auto
    qed simp
  qed
  then show ?thesis by (simp add: trim_space_def trim_left_def)
qed

lemma norm_upper_idem [simp, go_norm]: "norm_upper (norm_upper s) = norm_upper s"
  by (simp add: norm_upper_def trim_space_upper)

lemma norm_lower_idem [simp, go_norm]: "norm_lower (norm_lower s) = norm_lower s"
  by (simp add: norm_lower_def trim_space_lower)

lemma trim_norm_upper [simp]: "trim_space (norm_upper s) = norm_upper s"
  by (simp add: norm_upper_def trim_space_upper)

lemma trim_norm_lower [simp]: "trim_space (norm_lower s) = norm_lower s"
  by (simp add: norm_lower_def trim_space_lower)

lemma upper_norm_upper [simp]: "to_upper (norm_upper s) = norm_upper s"
  by (simp add: norm_upper_def)

lemma norm_upper_trim [simp]: "norm_upper (trim_space s) = norm_upper s"
  by (simp add: norm_upper_def)

lemma norm_lower_trim [simp]: "norm_lower (trim_space s) = norm_lower s"
  by (simp add: norm_lower_def)

lemma norm_upper_upper [simp]: "norm_upper (to_upper s) = norm_upper s"
  by (simp add: norm_upper_def trim_space_upper)

lemma to_upper_eq_Nil [simp]: "to_upper s = [] \<longleftrightarrow> s = []"
  by (simp add: to_upper_def)

lemma to_lower_eq_Nil [simp]: "to_lower s = [] \<longleftrightarrow> s = []"
  by (simp add: to_lower_def)

lemma norm_upper_eq_Nil: "norm_upper s = [] \<longleftrightarrow> trim_space s = []"
  by (simp add: norm_upper_def)

lemma norm_lower_eq_Nil: "norm_lower s = [] \<longleftrightarrow> trim_space s = []"
  by (simp add: norm_lower_def)

lemma trim_space_Nil [simp]: "trim_space [] = []"
  by (simp add: trim_space_def trim_left_def)

lemma remove_char_absent: "c \<notin> set (remove_char s c)"
  by (simp add: remove_char_def)

lemma set_remove_char: "set (remove_char s c) \<subseteq> set s"
  by (auto simp: remove_char_def)

end
