(* ===== verification/GoNum.thy ===== *)
theory GoNum
  imports GoLib
begin

text \<open>
  Numbers and instants: decimal formatting and parsing of integers (\<open>strconv.FormatInt\<close>,
  \<open>strconv.ParseInt(s, 10, 64)\<close>), the 64-bit integers, \<open>time.Time\<close>, \<open>time.Duration\<close> and the
  nullable columns of \<open>database/sql\<close>. A \<open>time.Time\<close> is an instant, a number of nanoseconds since
  the Unix epoch as an \<open>int\<close>; the zero \<open>Time\<close> is January 1 of year 1.
\<close>

subsection \<open>Decimal integers\<close>

definition digit_char :: "nat \<Rightarrow> char" where
  "digit_char d = char_of (48 + d)"

definition digit_val :: "char \<Rightarrow> nat option" where
  "digit_val c = (let n = of_char c :: nat in if 48 \<le> n \<and> n \<le> 57 then Some (n - 48) else None)"

fun nat_digits :: "nat \<Rightarrow> string" where
  "nat_digits n =
     (if n < 10 then [digit_char n] else nat_digits (n div 10) @ [digit_char (n mod 10)])"

declare nat_digits.simps [simp del]

definition format_int :: "int \<Rightarrow> string" where
  "format_int i = (if i < 0 then CHR ''-'' # nat_digits (nat (- i)) else nat_digits (nat i))"

fun parse_acc :: "nat \<Rightarrow> string \<Rightarrow> nat option" where
  "parse_acc a [] = Some a"
| "parse_acc a (c # cs) =
     (case digit_val c of None \<Rightarrow> None | Some d \<Rightarrow> parse_acc (10 * a + d) cs)"

definition parse_nat :: "string \<Rightarrow> nat option" where
  "parse_nat s = (if s = [] then None else parse_acc 0 s)"

definition in_int64 :: "int \<Rightarrow> bool" where
  "in_int64 i = (- (2 ^ 63) \<le> i \<and> i < 2 ^ 63)"

definition parse_int64 :: "string \<Rightarrow> int option" where
  "parse_int64 s =
     (let v = (case s of
          [] \<Rightarrow> None
        | c # cs \<Rightarrow>
            if c = CHR ''-'' then map_option (\<lambda>n. - int n) (parse_nat cs)
            else if c = CHR ''+'' then map_option int (parse_nat cs)
            else map_option int (parse_nat s))
      in case v of None \<Rightarrow> None | Some i \<Rightarrow> if in_int64 i then Some i else None)"

lemma digit_val_char [simp]: "d < 10 \<Longrightarrow> digit_val (digit_char d) = Some d"
  by (simp add: digit_val_def digit_char_def Let_def)

lemma parse_acc_append:
  "parse_acc a (xs @ ys) = (case parse_acc a xs of None \<Rightarrow> None | Some b \<Rightarrow> parse_acc b ys)"
  by (induction xs arbitrary: a) (auto split: option.splits)

lemma parse_acc_nat_digits [simp]: "parse_acc 0 (nat_digits n) = Some n"
proof (induction n rule: nat_digits.induct)
  case (1 n)
  show ?case
  proof (cases "n < 10")
    case True
    then show ?thesis by (simp add: nat_digits.simps [of n])
  next
    case False
    with 1 show ?thesis by (simp add: nat_digits.simps [of n] parse_acc_append)
  qed
qed

lemma nat_digits_not_Nil [simp]: "nat_digits n \<noteq> []"
  by (subst nat_digits.simps) simp

lemma parse_nat_digits [simp]: "parse_nat (nat_digits n) = Some n"
  by (simp add: parse_nat_def)

lemma of_char_digit_char: "d < 10 \<Longrightarrow> (of_char (digit_char d) :: nat) = 48 + d"
  by (simp add: digit_char_def)

lemma digit_char_not_sign:
  assumes "d < 10"
  shows "digit_char d \<noteq> CHR ''-'' \<and> digit_char d \<noteq> CHR ''+''"
proof -
  have "(of_char (digit_char d) :: nat) \<noteq> of_char (CHR ''-'')"
    "(of_char (digit_char d) :: nat) \<noteq> of_char (CHR ''+'')"
    unfolding of_char_digit_char [OF assms] by simp_all
  then show ?thesis by metis
qed

lemma hd_nat_digits: "\<exists>d < 10. hd (nat_digits n) = digit_char d"
proof (induction n rule: nat_digits.induct)
  case (1 n)
  show ?case
  proof (cases "n < 10")
    case True
    then show ?thesis by (subst nat_digits.simps) auto
  next
    case False
    with 1 obtain d where "d < 10" "hd (nat_digits (n div 10)) = digit_char d" by auto
    with False show ?thesis by (subst nat_digits.simps) auto
  qed
qed

lemma parse_int64_format_int:
  assumes "in_int64 i"
  shows "parse_int64 (format_int i) = Some i"
proof (cases "i < 0")
  case True
  with assms show ?thesis by (simp add: parse_int64_def format_int_def)
next
  case False
  obtain c cs where d: "nat_digits (nat i) = c # cs"
    by (meson list.exhaust nat_digits_not_Nil)
  have "c \<noteq> CHR ''-'' \<and> c \<noteq> CHR ''+''"
    using hd_nat_digits [of "nat i"] digit_char_not_sign d by (metis list.sel(1))
  moreover have "parse_nat (c # cs) = Some (nat i)"
    by (metis d parse_nat_digits)
  ultimately show ?thesis
    using assms False d by (simp add: parse_int64_def format_int_def)
qed

lemma format_int_inj: "in_int64 i \<Longrightarrow> in_int64 j \<Longrightarrow> format_int i = format_int j \<Longrightarrow> i = j"
  by (metis option.inject parse_int64_format_int)

lemma format_int_not_Nil [simp]: "format_int i \<noteq> []"
  by (simp add: format_int_def)

subsection \<open>Instants and durations\<close>

type_synonym gotime = int      \<comment> \<open>nanoseconds since the Unix epoch\<close>
type_synonym duration = int    \<comment> \<open>nanoseconds\<close>

definition zero_time :: gotime where
  "zero_time = - 62135596800 * 1000000000"

definition second :: duration where
  "second = 1000000000"

definition minute :: duration where
  "minute = 60 * second"

definition unix_milli :: "gotime \<Rightarrow> int" where
  "unix_milli t = t div 1000000"

definition from_unix_milli :: "int \<Rightarrow> gotime" where
  "from_unix_milli ms = ms * 1000000"

definition unix_sec :: "gotime \<Rightarrow> int" where
  "unix_sec t = t div 1000000000"

lemma unix_milli_from [simp]: "unix_milli (from_unix_milli ms) = ms"
  by (simp add: unix_milli_def from_unix_milli_def)

subsection \<open>Nullable columns\<close>

record null_string =
  str_val :: string
  str_valid :: bool

record null_time =
  time_val :: gotime
  time_valid :: bool

abbreviation no_string :: null_string where
  "no_string \<equiv> \<lparr>str_val = [], str_valid = False\<rparr>"

abbreviation some_string :: "string \<Rightarrow> null_string" where
  "some_string s \<equiv> \<lparr>str_val = s, str_valid = True\<rparr>"

abbreviation no_time :: null_time where
  "no_time \<equiv> \<lparr>time_val = zero_time, time_valid = False\<rparr>"

abbreviation some_time :: "gotime \<Rightarrow> null_time" where
  "some_time t \<equiv> \<lparr>time_val = t, time_valid = True\<rparr>"

end
