(* ===== verification/Decimal.thy ===== *)
theory Decimal
  imports Complex_Main GoNum
begin

text \<open>
  Decimal numbers. The program computes with \<open>decimal.Decimal\<close> of the package
  \<open>shopspring/decimal\<close>, which is not part of the repository: a value is the rational number it
  denotes, comparisons are those of the numbers, and the operations the program calls are the
  fields of a parameter \<open>decimal_ops\<close>. The locale \<open>decimal_lib\<close> states the documented behaviour
  the program relies on: \<open>Floor\<close>, \<open>Mul\<close> and \<open>Truncate\<close> are exact, and \<open>Div\<close> rounds the quotient
  to 16 digits (\<open>DivisionPrecision\<close>).
\<close>

record decimal_ops =
  d_parse :: "string \<Rightarrow> rat option"        \<comment> \<open>\<open>NewFromString\<close>\<close>
  d_show :: "rat \<Rightarrow> string"                \<comment> \<open>\<open>String\<close>\<close>
  d_div :: "rat \<Rightarrow> rat \<Rightarrow> rat"
  d_mul :: "rat \<Rightarrow> rat \<Rightarrow> rat"
  d_floor :: "rat \<Rightarrow> rat"
  d_trunc :: "rat \<Rightarrow> int \<Rightarrow> rat"

definition trunc_digits :: "rat \<Rightarrow> nat \<Rightarrow> rat" where
  "trunc_digits x p = sgn x * (of_int \<lfloor>\<bar>x\<bar> * 10 ^ p\<rfloor> / 10 ^ p)"

locale decimal_lib =
  fixes D :: decimal_ops
  assumes floor_exact: "d_floor D x = of_int \<lfloor>x\<rfloor>"
    and mul_exact: "d_mul D x y = x * y"
    and trunc_exact: "0 \<le> p \<Longrightarrow> d_trunc D x p = trunc_digits x (nat p)"
    and div_close: "y \<noteq> 0 \<Longrightarrow> \<bar>d_div D x y - x / y\<bar> \<le> 1 / (2 * 10 ^ 16)"
    and div_exact: "y \<noteq> 0 \<Longrightarrow> x / y * 10 ^ 16 \<in> \<int> \<Longrightarrow> d_div D x y = x / y"

lemma trunc_digits_nonneg:
  assumes "0 \<le> x"
  shows "0 \<le> trunc_digits x p" "trunc_digits x p \<le> x" "x < trunc_digits x p + 1 / 10 ^ p"
proof -
  have eq: "trunc_digits x p = of_int \<lfloor>x * 10 ^ p\<rfloor> / 10 ^ p"
    using assms by (cases "x = 0") (auto simp: trunc_digits_def sgn_if)
  have pos: "(0::rat) < 10 ^ p" by simp
  show "0 \<le> trunc_digits x p" using assms by (simp add: eq)
  show "trunc_digits x p \<le> x"
    unfolding eq using of_int_floor_le [of "x * 10 ^ p"] pos by (simp add: divide_le_eq)
  have "x * 10 ^ p < of_int \<lfloor>x * 10 ^ p\<rfloor> + 1" by linarith
  then have "x < (of_int \<lfloor>x * 10 ^ p\<rfloor> + 1) / 10 ^ p"
    using pos by (simp add: less_divide_eq)
  then show "x < trunc_digits x p + 1 / 10 ^ p" by (simp add: eq add_divide_distrib)
qed

subsection \<open>A reference instance\<close>

text \<open>
  Fixed-point arithmetic that satisfies the laws, so that they can be instantiated: rounding half
  away from zero at 16 digits, the exact operations, and plain decimal notation.
\<close>

definition round16 :: "rat \<Rightarrow> rat" where
  "round16 x = sgn x * (of_int \<lfloor>\<bar>x\<bar> * 10 ^ 16 + 1 / 2\<rfloor> / 10 ^ 16)"

definition ref_parse :: "string \<Rightarrow> rat option" where
  "ref_parse s =
     (case split_on CHR ''.'' s of
        [a] \<Rightarrow> map_option rat_of_int (parse_int64 a)
      | [a, b] \<Rightarrow> (case (parse_nat a, parse_nat b) of
            (Some m, Some n) \<Rightarrow> Some (of_nat m + of_nat n / 10 ^ length b)
          | _ \<Rightarrow> None)
      | _ \<Rightarrow> None)"

definition ref_show :: "rat \<Rightarrow> string" where
  "ref_show x = format_int \<lfloor>x\<rfloor> @
     (if x = of_int \<lfloor>x\<rfloor> then [] else CHR ''.'' # nat_digits (nat \<lfloor>(x - of_int \<lfloor>x\<rfloor>) * 10 ^ 16\<rfloor>))"

definition ref_decimal :: decimal_ops where
  "ref_decimal = \<lparr>d_parse = ref_parse, d_show = ref_show,
     d_div = (\<lambda>x y. round16 (x / y)), d_mul = (*), d_floor = (\<lambda>x. of_int \<lfloor>x\<rfloor>),
     d_trunc = (\<lambda>x p. if 0 \<le> p then trunc_digits x (nat p) else x)\<rparr>"

lemma ref_decimal_sel [simp]:
  "d_parse ref_decimal = ref_parse" "d_show ref_decimal = ref_show"
  "d_div ref_decimal x y = round16 (x / y)" "d_mul ref_decimal x y = x * y"
  "d_floor ref_decimal x = of_int \<lfloor>x\<rfloor>"
  "d_trunc ref_decimal x p = (if 0 \<le> p then trunc_digits x (nat p) else x)"
  by (simp_all add: ref_decimal_def)

lemma round16_pos:
  assumes "0 \<le> x"
  shows "round16 x = of_int \<lfloor>x * 10 ^ 16 + 1 / 2\<rfloor> / 10 ^ 16"
proof (cases "x = 0")
  case True
  have "\<lfloor>(1 :: rat) / 2\<rfloor> = 0" by (simp add: floor_eq_iff)
  with True show ?thesis by (simp add: round16_def)
next
  case False
  with assms show ?thesis by (simp add: round16_def)
qed

lemma round16_neg: "round16 (- x) = - round16 x"
  by (simp add: round16_def sgn_minus)

lemma round_scaled_close:
  fixes y s :: rat
  assumes "0 < s"
  shows "\<bar>of_int \<lfloor>y * s + 1 / 2\<rfloor> / s - y\<bar> \<le> 1 / (2 * s)"
proof -
  let ?n = "of_int \<lfloor>y * s + 1 / 2\<rfloor> :: rat"
  have "?n \<le> y * s + 1 / 2" "y * s + 1 / 2 < ?n + 1" by linarith+
  then have "\<bar>?n - y * s\<bar> \<le> 1 / 2" by linarith
  then have "\<bar>?n - y * s\<bar> / s \<le> (1 / 2) / s"
    using assms by (intro divide_right_mono) auto
  moreover have "\<bar>?n / s - y\<bar> = \<bar>?n - y * s\<bar> / s"
  proof -
    have "?n / s - y = (?n - y * s) / s" using assms by (simp add: field_simps)
    then show ?thesis using assms by (simp add: abs_divide)
  qed
  ultimately show ?thesis by simp
qed

lemma round16_close: "\<bar>round16 x - x\<bar> \<le> 1 / (2 * 10 ^ 16)"
proof -
  have pos: "\<bar>round16 y - y\<bar> \<le> 1 / (2 * 10 ^ 16)" if "0 \<le> y" for y
    unfolding round16_pos [OF that] by (rule round_scaled_close) simp
  show ?thesis
  proof (cases "0 \<le> x")
    case True
    then show ?thesis by (rule pos)
  next
    case False
    then have "\<bar>round16 (- x) - (- x)\<bar> \<le> 1 / (2 * 10 ^ 16)" by (intro pos) simp
    moreover have "round16 (- x) - (- x) = - (round16 x - x)"
      unfolding round16_neg by (rule minus_diff_minus)
    ultimately show ?thesis by (simp only: abs_minus_cancel)
  qed
qed

lemma round16_exact:
  assumes "x * 10 ^ 16 \<in> \<int>"
  shows "round16 x = x"
proof -
  have pos: "round16 y = y" if "0 \<le> y" "y * 10 ^ 16 \<in> \<int>" for y
  proof -
    from that(2) obtain k :: int where k: "y * 10 ^ 16 = of_int k" by (rule Ints_cases)
    have "\<lfloor>(of_int k :: rat) + 1 / 2\<rfloor> = k" by linarith
    with that(1) k show ?thesis
      by (simp add: round16_pos k nonzero_divide_eq_eq)
  qed
  show ?thesis
  proof (cases "0 \<le> x")
    case True
    with assms show ?thesis by (intro pos)
  next
    case False
    then have "round16 (- x) = - x" using assms by (intro pos) auto
    then show ?thesis by (simp add: round16_neg)
  qed
qed

interpretation refdec: decimal_lib ref_decimal
proof
  show "d_trunc ref_decimal x p = trunc_digits x (nat p)" if "0 \<le> p" for x p
    using that by simp
  show "\<bar>d_div ref_decimal x y - x / y\<bar> \<le> 1 / (2 * 10 ^ 16)" for x y
    unfolding ref_decimal_sel by (rule round16_close)
  show "d_div ref_decimal x y = x / y" if "x / y * 10 ^ 16 \<in> \<int>" for x y
    unfolding ref_decimal_sel using that by (rule round16_exact)
qed simp_all

end
