(* ===== verification/Entity.thy ===== *)
theory Entity
  imports Decimal
begin

text \<open>
  The domain values of \<open>internal/entity\<close>: market types, order sides and their normalisation
  (\<open>market_type.go\<close>, \<open>order_engine.go\<close>), order requests, order histories and the events that
  carry them. Go's string types are strings here, with the same constants.
\<close>

subsection \<open>Market types\<close>

abbreviation MarketTypeSpot :: string where "MarketTypeSpot \<equiv> ''spot''"
abbreviation MarketTypeFutures :: string where "MarketTypeFutures \<equiv> ''futures''"

abbreviation ExchangeBinance :: string where "ExchangeBinance \<equiv> ''binance''"
abbreviation ExchangeTokoCrypto :: string where "ExchangeTokoCrypto \<equiv> ''tokocrypto''"

definition NormalizeMarketType :: "string \<Rightarrow> string" where
  "NormalizeMarketType raw =
     (let normalized = to_lower (trim_space raw)
      in if normalized = MarketTypeFutures then MarketTypeFutures else MarketTypeSpot)"

subsection \<open>Order constants and normalisation\<close>

abbreviation OrderSideBuy :: string where "OrderSideBuy \<equiv> ''BUY''"
abbreviation OrderSideSell :: string where "OrderSideSell \<equiv> ''SELL''"
abbreviation OrderSideLong :: string where "OrderSideLong \<equiv> ''LONG''"
abbreviation OrderSideShort :: string where "OrderSideShort \<equiv> ''SHORT''"

abbreviation OrderTypeLimit :: string where "OrderTypeLimit \<equiv> ''LIMIT''"
abbreviation OrderTypeMarket :: string where "OrderTypeMarket \<equiv> ''MARKET''"

abbreviation PositionSideBoth :: string where "PositionSideBoth \<equiv> ''BOTH''"
abbreviation PositionSideLong :: string where "PositionSideLong \<equiv> ''LONG''"
abbreviation PositionSideShort :: string where "PositionSideShort \<equiv> ''SHORT''"

abbreviation TradeConditionEntry :: string where "TradeConditionEntry \<equiv> ''ENTRY''"
abbreviation TradeConditionExit :: string where "TradeConditionExit \<equiv> ''EXIT''"
abbreviation TradeConditionTakeProfit :: string where "TradeConditionTakeProfit \<equiv> ''TAKE_PROFIT''"
abbreviation TradeConditionStopLoss :: string where "TradeConditionStopLoss \<equiv> ''STOP_LOSS''"
abbreviation TradeConditionTrailingStop :: string where "TradeConditionTrailingStop \<equiv> ''TRAILING_STOP''"
abbreviation TradeConditionSignal :: string where "TradeConditionSignal \<equiv> ''SIGNAL''"
abbreviation TradeConditionUnknown :: string where "TradeConditionUnknown \<equiv> ''UNKNOWN''"

abbreviation ExitTypeTakeProfit :: string where "ExitTypeTakeProfit \<equiv> ''TAKE_PROFIT''"
abbreviation ExitTypeStopLoss :: string where "ExitTypeStopLoss \<equiv> ''STOP_LOSS''"
abbreviation ExitTypeTrailingStop :: string where "ExitTypeTrailingStop \<equiv> ''TRAILING_STOP''"

definition NormalizePositionSide :: "string \<Rightarrow> string" where
  "NormalizePositionSide raw =
     (let n = to_upper (trim_space raw)
      in if n = PositionSideLong then PositionSideLong
         else if n = PositionSideShort then PositionSideShort
         else PositionSideBoth)"

definition NormalizeOrderSide :: "string \<Rightarrow> string" where
  "NormalizeOrderSide raw =
     (let n = to_upper (trim_space raw)
      in if n = OrderSideBuy then OrderSideBuy
         else if n = OrderSideSell then OrderSideSell
         else if n = OrderSideLong then OrderSideLong
         else if n = OrderSideShort then OrderSideShort
         else [])"

definition NormalizeOrderSideByMarket :: "string \<Rightarrow> string \<Rightarrow> string" where
  "NormalizeOrderSideByMarket raw marketType =
     (let normalized = NormalizeOrderSide raw
      in if normalized = [] then []
         else if NormalizeMarketType marketType = MarketTypeFutures then
           (if normalized = OrderSideBuy \<or> normalized = OrderSideLong then OrderSideLong
            else if normalized = OrderSideSell \<or> normalized = OrderSideShort then OrderSideShort
            else [])
         else if normalized = OrderSideBuy \<or> normalized = OrderSideSell then normalized
         else [])"

definition NormalizeTradeCondition :: "string \<Rightarrow> string" where
  "NormalizeTradeCondition raw =
     (let n = to_upper (trim_space raw)
      in if n = TradeConditionEntry then TradeConditionEntry
         else if n = TradeConditionExit then TradeConditionExit
         else if n = TradeConditionTakeProfit then TradeConditionTakeProfit
         else if n = TradeConditionStopLoss then TradeConditionStopLoss
         else if n = TradeConditionTrailingStop then TradeConditionTrailingStop
         else if n = TradeConditionSignal then TradeConditionSignal
         else TradeConditionUnknown)"

definition NormalizeExitType :: "string \<Rightarrow> string" where
  "NormalizeExitType raw =
     (let n = to_upper (trim_space raw)
      in if n = ExitTypeTakeProfit then ExitTypeTakeProfit
         else if n = ExitTypeStopLoss then ExitTypeStopLoss
         else if n = ExitTypeTrailingStop then ExitTypeTrailingStop
         else [])"

subsection \<open>Order requests, histories and events\<close>

record order_request =
  rq_request_id :: string
  rq_user_id :: string
  rq_order_id :: "string option"
  rq_entry_order_id :: string
  rq_exchange :: string
  rq_market_type :: string
  rq_position_side :: string
  rq_symbol :: string
  rq_type :: string
  rq_side :: string
  rq_price :: rat
  rq_quantity :: rat
  rq_requested_at :: int
  rq_expired_at :: "int option"
  rq_source :: string
  rq_strategy_id :: "string option"
  rq_strategy_name :: string
  rq_interval :: string
  rq_internal :: string
  rq_entry_price :: string
  rq_exit_price :: string
  rq_pnl_percentage :: string
  rq_trade_condition :: string
  rq_order_reason :: string
  rq_exit_type :: string
  rq_need_notification :: bool
  rq_is_paper_trading :: bool

record order_notification =
  on_request_id :: string
  on_entry_order_id :: string
  on_exchange :: string
  on_market_type :: string
  on_strategy_id :: string
  on_strategy_name :: string
  on_symbol :: string
  on_interval :: string
  on_side :: string
  on_price :: string
  on_entry_price :: string
  on_exit_price :: string
  on_pnl_percentage :: string
  on_trade_condition :: string
  on_order_reason :: string
  on_exit_type :: string

record strategy_position_closed =
  pc_entry_order_id :: string
  pc_strategy_id :: string
  pc_exchange :: string
  pc_market_type :: string
  pc_symbol :: string

record order_history =
  oh_id :: string
  oh_request_id :: string
  oh_user_id :: string
  oh_exchange :: string
  oh_market_type :: string
  oh_position_side :: string
  oh_symbol :: string
  oh_order_id :: string
  oh_entry_order_id :: string
  oh_client_order_id :: null_string
  oh_side :: string
  oh_type :: string
  oh_price :: "rat option"
  oh_quantity :: rat
  oh_filled_quantity :: rat
  oh_avg_fill_price :: "rat option"
  oh_status :: string
  oh_leverage :: "rat option"
  oh_fee :: "rat option"
  oh_realized_pnl :: "rat option"
  oh_created_at_exchange :: null_time
  oh_sent_at :: null_time
  oh_acknowledged_at :: null_time
  oh_filled_at :: null_time
  oh_strategy_id :: null_string
  oh_trade_condition :: string
  oh_order_reason :: string
  oh_exit_type :: string
  oh_error_message :: null_string
  oh_created_at :: gotime
  oh_updated_at :: gotime
  oh_is_paper_trading :: bool

record market_kline =
  mk_id :: string
  mk_exchange :: string
  mk_market_type :: string
  mk_event_type :: string
  mk_event_time :: gotime
  mk_symbol :: string
  mk_interval :: string
  mk_open_time :: gotime
  mk_close_time :: gotime
  mk_open_price :: rat
  mk_high_price :: rat
  mk_low_price :: rat
  mk_close_price :: rat
  mk_base_volume :: rat
  mk_quote_volume :: rat
  mk_taker_base_volume :: rat
  mk_taker_quote_volume :: rat
  mk_trade_count :: int
  mk_is_closed :: bool
  mk_created_at :: gotime
  mk_updated_at :: gotime

record symbol_mapping =
  sm_id :: string
  sm_exchange :: string
  sm_market_type :: string
  sm_symbol :: string
  sm_kline_symbol :: string
  sm_order_symbol :: string
  sm_created_at :: gotime
  sm_updated_at :: gotime

record kline_subscription =
  ks_id :: string
  ks_exchange :: string
  ks_market_type :: string
  ks_symbol :: string
  ks_interval :: string
  ks_payload :: string
  ks_max_kline_data :: int
  ks_created_at :: gotime
  ks_updated_at :: gotime

text \<open>The messages the services publish on JetStream, each with its subject.\<close>

datatype event =
    PlaceOrderEvent order_request
  | NotificationEvent order_notification
  | PositionClosedEvent strategy_position_closed
  | KlineEvent string market_kline

text \<open>Why an exchange adapter fails (\<open>fmt.Errorf\<close> in the source, with the same data).\<close>

datatype exchange_error =
    ExchangeContextDone
  | CredentialsMissing string
  | UnsupportedOrderSide string
  | UnsupportedOrderType string
  | EmptyClientID
  | BadClientID
  | QuantityBecomesZero rat int
  | PriceBecomesZero rat int
  | HttpFailed
  | RequestRejected int int string
  | RequestRejectedUnparsed int string
  | ResponseParseFailed int string
  | InvalidNumber string
  | UnsupportedCode string
  | OrderSymbolEmpty
  | MissingOrderID
  | NilOrder

subsection \<open>Facts about the normal forms\<close>

lemma NormalizeMarketType_cases:
  "NormalizeMarketType raw = MarketTypeFutures \<or> NormalizeMarketType raw = MarketTypeSpot"
  by (simp add: NormalizeMarketType_def Let_def)

lemma NormalizeMarketType_lits [simp]:
  "NormalizeMarketType ''spot'' = ''spot''" "NormalizeMarketType ''futures'' = ''futures''"
  by code_simp+

lemma NormalizeMarketType_idem [simp, go_norm]:
  "NormalizeMarketType (NormalizeMarketType raw) = NormalizeMarketType raw"
  using NormalizeMarketType_cases [of raw] by auto

lemma NormalizePositionSide_cases:
  "NormalizePositionSide raw \<in> {PositionSideLong, PositionSideShort, PositionSideBoth}"
  by (simp add: NormalizePositionSide_def Let_def)

lemma NormalizePositionSide_lits [simp]:
  "NormalizePositionSide ''LONG'' = ''LONG''" "NormalizePositionSide ''SHORT'' = ''SHORT''"
  "NormalizePositionSide ''BOTH'' = ''BOTH''"
  by code_simp+

lemma NormalizePositionSide_idem [simp, go_norm]:
  "NormalizePositionSide (NormalizePositionSide raw) = NormalizePositionSide raw"
  using NormalizePositionSide_cases [of raw] by auto

lemma NormalizeOrderSide_cases:
  "NormalizeOrderSide raw \<in> {OrderSideBuy, OrderSideSell, OrderSideLong, OrderSideShort, []}"
  by (simp add: NormalizeOrderSide_def Let_def)

lemma NormalizeOrderSide_lits [simp]:
  "NormalizeOrderSide ''BUY'' = ''BUY''" "NormalizeOrderSide ''SELL'' = ''SELL''"
  "NormalizeOrderSide ''LONG'' = ''LONG''" "NormalizeOrderSide ''SHORT'' = ''SHORT''"
  "NormalizeOrderSide [] = []"
  by code_simp+

lemma NormalizeOrderSideByMarket_spot:
  assumes "NormalizeMarketType mt = MarketTypeSpot"
  shows "NormalizeOrderSideByMarket raw mt \<in> {OrderSideBuy, OrderSideSell, []}"
  using assms by (auto simp: NormalizeOrderSideByMarket_def Let_def)

lemma NormalizeOrderSideByMarket_futures:
  assumes "NormalizeMarketType mt = MarketTypeFutures"
  shows "NormalizeOrderSideByMarket raw mt \<in> {OrderSideLong, OrderSideShort, []}"
  using assms by (auto simp: NormalizeOrderSideByMarket_def Let_def)

lemma NormalizeOrderSideByMarket_idem [simp, go_norm]:
  "NormalizeOrderSideByMarket (NormalizeOrderSideByMarket raw mt) mt = NormalizeOrderSideByMarket raw mt"
proof (cases "NormalizeMarketType mt = MarketTypeFutures")
  case True
  with NormalizeOrderSideByMarket_futures [OF this, of raw] show ?thesis
    by (auto simp: NormalizeOrderSideByMarket_def [of _ mt] Let_def)
next
  case False
  then have "NormalizeMarketType mt = MarketTypeSpot"
    using NormalizeMarketType_cases [of mt] by simp
  with NormalizeOrderSideByMarket_spot [OF this, of raw] show ?thesis
    by (auto simp: NormalizeOrderSideByMarket_def [of _ mt] Let_def)
qed

lemma NormalizeTradeCondition_lits [simp]:
  "NormalizeTradeCondition ''ENTRY'' = ''ENTRY''" "NormalizeTradeCondition ''EXIT'' = ''EXIT''"
  "NormalizeTradeCondition ''TAKE_PROFIT'' = ''TAKE_PROFIT''"
  "NormalizeTradeCondition ''STOP_LOSS'' = ''STOP_LOSS''"
  "NormalizeTradeCondition ''TRAILING_STOP'' = ''TRAILING_STOP''"
  "NormalizeTradeCondition ''SIGNAL'' = ''SIGNAL''" "NormalizeTradeCondition ''UNKNOWN'' = ''UNKNOWN''"
  by code_simp+

lemma NormalizeTradeCondition_cases:
  "NormalizeTradeCondition raw \<in> {TradeConditionEntry, TradeConditionExit, TradeConditionTakeProfit,
     TradeConditionStopLoss, TradeConditionTrailingStop, TradeConditionSignal, TradeConditionUnknown}"
  by (simp add: NormalizeTradeCondition_def Let_def)

lemma NormalizeTradeCondition_idem [simp, go_norm]:
  "NormalizeTradeCondition (NormalizeTradeCondition raw) = NormalizeTradeCondition raw"
  using NormalizeTradeCondition_cases [of raw] by (elim insertE) auto

lemma NormalizeExitType_lits [simp]:
  "NormalizeExitType ''TAKE_PROFIT'' = ''TAKE_PROFIT''" "NormalizeExitType ''STOP_LOSS'' = ''STOP_LOSS''"
  "NormalizeExitType ''TRAILING_STOP'' = ''TRAILING_STOP''" "NormalizeExitType [] = []"
  by code_simp+

lemma NormalizeExitType_cases:
  "NormalizeExitType raw \<in> {ExitTypeTakeProfit, ExitTypeStopLoss, ExitTypeTrailingStop, []}"
  by (simp add: NormalizeExitType_def Let_def)

lemma NormalizeExitType_idem [simp, go_norm]:
  "NormalizeExitType (NormalizeExitType raw) = NormalizeExitType raw"
  using NormalizeExitType_cases [of raw] by (elim insertE) auto

end
