(* ===== verification/OrderStore.thy ===== *)
theory OrderStore
  imports Entity
begin

text \<open>
  The table \<open>order_histories\<close> and its repository
  (\<open>internal/repository/order_history.repository.go\<close>). The table is the list of its rows in
  insertion order. Each operation takes a flag that says whether the database answers; when it
  does not, the operation fails and changes nothing. The id of a new row is drawn by the database
  (\<open>gen_random_uuid()\<close>), so it is an argument. The unique index on
  \<open>(user_id, exchange, market_type, order_id)\<close> and the primary key are checked; the widths of
  \<open>VARCHAR\<close> and \<open>NUMERIC\<close> columns are not.
\<close>

datatype db_error = ErrNoRows | UniqueViolation | DbFault

type_synonym order_table = "order_history list"

definition history_key :: "order_history \<Rightarrow> string \<times> string \<times> string \<times> string" where
  "history_key h = (oh_user_id h, oh_exchange h, oh_market_type h, oh_order_id h)"

definition Create :: "bool \<Rightarrow> string \<Rightarrow> order_history \<Rightarrow> order_table
    \<Rightarrow> (db_error + order_history) \<times> order_table" where
  "Create db_ok new_id h t =
     (if \<not> db_ok then (Inl DbFault, t)
      else if history_key h \<in> history_key ` set t \<or> new_id \<in> oh_id ` set t
      then (Inl UniqueViolation, t)
      else (let row = h\<lparr>oh_id := new_id\<rparr> in (Inr row, t @ [row])))"

text \<open>With no \<open>ORDER BY\<close> the database may return any matching row; here it is the oldest.\<close>

definition GetByRequestID :: "bool \<Rightarrow> string \<Rightarrow> order_table \<Rightarrow> db_error + order_history" where
  "GetByRequestID db_ok requestID t =
     (if \<not> db_ok then Inl DbFault
      else of_option ErrNoRows (find (\<lambda>h. oh_request_id h = requestID) t))"

definition FindByID :: "bool \<Rightarrow> string \<Rightarrow> order_table \<Rightarrow> db_error + order_history option" where
  "FindByID db_ok i t = (if \<not> db_ok then Inl DbFault else Inr (find (\<lambda>h. oh_id h = i) t))"

definition GetByStatus :: "bool \<Rightarrow> string list \<Rightarrow> order_table \<Rightarrow> db_error + order_history list" where
  "GetByStatus db_ok statuses t =
     (if statuses = [] then Inr []
      else if \<not> db_ok then Inl DbFault
      else Inr (sort_key (\<lambda>h. - oh_created_at h) (filter (\<lambda>h. oh_status h \<in> set statuses) t)))"

text \<open>The \<open>UPDATE\<close> sets every column but \<open>id\<close> and \<open>created_at\<close>.\<close>

definition updated_row :: "order_history \<Rightarrow> order_history \<Rightarrow> order_history" where
  "updated_row h row = h\<lparr>oh_id := oh_id row, oh_created_at := oh_created_at row\<rparr>"

definition Update :: "bool \<Rightarrow> order_history \<Rightarrow> order_table \<Rightarrow> db_error option \<times> order_table" where
  "Update db_ok h t =
     (if \<not> db_ok then (Some DbFault, t)
      else if (\<exists>row\<in>set t. oh_id row = oh_id h)
           \<and> (\<exists>row\<in>set t. oh_id row \<noteq> oh_id h \<and> history_key row = history_key h)
      then (Some UniqueViolation, t)
      else if (\<exists>row\<in>set t. oh_id row = oh_id h)
      then (None, map (\<lambda>row. if oh_id row = oh_id h then updated_row h row else row) t)
      else (Some ErrNoRows, t))"

definition Delete :: "bool \<Rightarrow> string \<Rightarrow> order_table \<Rightarrow> db_error option \<times> order_table" where
  "Delete db_ok i t =
     (if \<not> db_ok then (Some DbFault, t)
      else if (\<exists>row\<in>set t. oh_id row = i) then (None, filter (\<lambda>row. oh_id row \<noteq> i) t)
      else (Some ErrNoRows, t))"

subsection \<open>The table's constraints\<close>

definition table_ok :: "order_table \<Rightarrow> bool" where
  "table_ok t = (distinct (map oh_id t) \<and> distinct (map history_key t))"

lemma history_key_id [simp]: "history_key (h\<lparr>oh_id := i\<rparr>) = history_key h"
  by (simp add: history_key_def)

lemma history_key_updated_row [simp]: "history_key (updated_row h row) = history_key h"
  by (simp add: history_key_def updated_row_def)

lemma updated_row_id [simp]: "oh_id (updated_row h row) = oh_id row"
  by (simp add: updated_row_def)

lemma updated_row_created [simp]: "oh_created_at (updated_row h row) = oh_created_at row"
  by (simp add: updated_row_def)

lemma updated_row_request [simp]: "oh_request_id (updated_row h row) = oh_request_id h"
  by (simp add: updated_row_def)

lemma updated_row_status [simp]: "oh_status (updated_row h row) = oh_status h"
  by (simp add: updated_row_def)

lemma distinct_map_upd_one:
  assumes "distinct (map k t)" and "distinct (map i t)"
    and "\<And>row. row \<in> set t \<Longrightarrow> i row \<noteq> x \<Longrightarrow> k row \<noteq> y"
  shows "distinct (map (\<lambda>row. if i row = x then y else k row) t)"
  using assms
proof (induction t)
  case Nil
  then show ?case by simp
next
  case (Cons r t)
  have tail: "distinct (map (\<lambda>row. if i row = x then y else k row) t)"
    using Cons by simp
  have "(if i r = x then y else k r) \<notin> (\<lambda>row. if i row = x then y else k row) ` set t"
    using Cons.prems by (auto simp: image_iff)
  with tail show ?case by simp
qed

lemma table_ok_Create: "table_ok t \<Longrightarrow> table_ok (snd (Create db_ok i h t))"
  by (auto simp: Create_def table_ok_def Let_def)

lemma table_ok_Update:
  assumes ok: "table_ok t"
  shows "table_ok (snd (Update db_ok h t))"
proof (cases "db_ok \<and> (\<exists>row\<in>set t. oh_id row = oh_id h) \<and>
    \<not> (\<exists>row\<in>set t. oh_id row \<noteq> oh_id h \<and> history_key row = history_key h)")
  case True
  then have upd: "snd (Update db_ok h t) =
      map (\<lambda>row. if oh_id row = oh_id h then updated_row h row else row) t"
    unfolding Update_def by auto
  have ids: "map oh_id (snd (Update db_ok h t)) = map oh_id t" by (auto simp: upd)
  have "map history_key (snd (Update db_ok h t)) =
      map (\<lambda>row. if oh_id row = oh_id h then history_key h else history_key row) t"
    by (auto simp: upd)
  moreover have "distinct \<dots>"
    using ok True by (intro distinct_map_upd_one) (auto simp: table_ok_def)
  ultimately show ?thesis using ok ids by (simp add: table_ok_def)
next
  case False
  then have "snd (Update db_ok h t) = t" unfolding Update_def by auto
  then show ?thesis using ok by simp
qed

lemma table_ok_Delete: "table_ok t \<Longrightarrow> table_ok (snd (Delete db_ok i t))"
  by (auto simp: Delete_def table_ok_def distinct_map_filter)

lemmas table_ok_ops = table_ok_Create table_ok_Update table_ok_Delete

subsection \<open>What an operation leaves in the table\<close>

lemma Create_fail [store_simps]: "fst (Create db_ok i h t) = Inl e \<Longrightarrow> snd (Create db_ok i h t) = t"
  by (auto simp: Create_def Let_def split: if_splits)

lemma Create_Inr_iff:
  "fst (Create db_ok i h t) = Inr row \<longleftrightarrow>
     db_ok \<and> history_key h \<notin> history_key ` set t \<and> i \<notin> oh_id ` set t \<and> row = h\<lparr>oh_id := i\<rparr>"
  by (auto simp: Create_def Let_def)

lemma Create_success:
  "fst (Create db_ok i h t) = Inr row \<Longrightarrow> row = h\<lparr>oh_id := i\<rparr> \<and> snd (Create db_ok i h t) = t @ [row]"
  by (auto simp: Create_def Let_def split: if_splits)

lemma Update_rows:
  "snd (Update db_ok h t) = t \<or>
   snd (Update db_ok h t) = map (\<lambda>row. if oh_id row = oh_id h then updated_row h row else row) t"
  by (simp add: Update_def)

lemma Update_length [simp]: "length (snd (Update db_ok h t)) = length t"
  by (simp add: Update_def)

lemma Update_ids [simp]: "map oh_id (snd (Update db_ok h t)) = map oh_id t"
  by (auto simp: Update_def)

lemma Update_created [simp]: "map oh_created_at (snd (Update db_ok h t)) = map oh_created_at t"
  by (auto simp: Update_def)

lemma Update_fail: "fst (Update db_ok h t) = Some e \<Longrightarrow> snd (Update db_ok h t) = t"
  by (auto simp: Update_def split: if_splits)

lemma Update_success:
  assumes "fst (Update db_ok h t) = None" "row \<in> set t" "oh_id row = oh_id h"
  shows "updated_row h row \<in> set (snd (Update db_ok h t))"
  using assms unfolding Update_def by (auto split: if_splits)

subsection \<open>The interface of an order-history store\<close>

text \<open>
  What the order engine relies on: a request id is looked up by \<open>lookup\<close>, \<open>add\<close> makes it found,
  \<open>change\<close> does not lose it as long as the changed row keeps its request id.
\<close>

locale history_store =
  fixes lookup :: "string \<Rightarrow> 't \<Rightarrow> order_history option"
    and add :: "'a \<Rightarrow> order_history \<Rightarrow> 't \<Rightarrow> (db_error + order_history) \<times> 't"
    and change :: "'c \<Rightarrow> order_history \<Rightarrow> 't \<Rightarrow> db_error option \<times> 't"
    and keeps_request :: "order_history \<Rightarrow> 't \<Rightarrow> bool"
  assumes add_failed: "fst (add a h t) = Inl e \<Longrightarrow> snd (add a h t) = t"
    and add_found: "fst (add a h t) = Inr row \<Longrightarrow> lookup (oh_request_id h) (snd (add a h t)) \<noteq> None"
    and add_keeps: "lookup r t = Some x \<Longrightarrow> lookup r (snd (add a h t)) = Some x"
    and lookup_request: "lookup r t = Some x \<Longrightarrow> oh_request_id x = r"
    and change_keeps: "keeps_request h t \<Longrightarrow> lookup r t \<noteq> None \<Longrightarrow> lookup r (snd (change c h t)) \<noteq> None"
begin

definition known :: "string \<Rightarrow> 't \<Rightarrow> bool" where
  "known r t = (lookup r t \<noteq> None)"

lemma known_add: "known r t \<Longrightarrow> known r (snd (add a h t))"
  unfolding known_def using add_keeps by (metis not_Some_eq)

lemma known_added: "is_ok (fst (add a h t)) \<Longrightarrow> known (oh_request_id h) (snd (add a h t))"
  unfolding known_def is_ok_iff using add_found by blast

lemma known_change: "keeps_request h t \<Longrightarrow> known r t \<Longrightarrow> known r (snd (change c h t))"
  unfolding known_def using change_keeps by blast

lemma known_adds:
  "known r t \<Longrightarrow> known r (foldl (\<lambda>t (a, h). snd (add a h t)) t xs)"
  by (induction xs arbitrary: t) (auto simp: known_add split: prod.splits)

end

definition lookup_request_id :: "string \<Rightarrow> order_table \<Rightarrow> order_history option" where
  "lookup_request_id r t = find (\<lambda>h. oh_request_id h = r) t"

definition same_request :: "order_history \<Rightarrow> order_table \<Rightarrow> bool" where
  "same_request h t = (\<forall>row\<in>set t. oh_id row = oh_id h \<longrightarrow> oh_request_id row = oh_request_id h)"

interpretation order_store: history_store lookup_request_id "\<lambda>(ok, i). Create ok i" Update same_request
proof
  fix a :: "bool \<times> string" and h row :: order_history and t e
  obtain ok i where a: "a = (ok, i)" by (cases a)
  show "fst ((case a of (ok, i) \<Rightarrow> Create ok i) h t) = Inl e \<Longrightarrow>
      snd ((case a of (ok, i) \<Rightarrow> Create ok i) h t) = t"
    unfolding a prod.case by (rule Create_fail)
  show "fst ((case a of (ok, i) \<Rightarrow> Create ok i) h t) = Inr row \<Longrightarrow>
      lookup_request_id (oh_request_id h) (snd ((case a of (ok, i) \<Rightarrow> Create ok i) h t)) \<noteq> None"
    unfolding a prod.case
    by (auto dest: Create_success simp: lookup_request_id_def find_append split: option.splits)
next
  fix a :: "bool \<times> string" and h x :: order_history and t r
  assume "lookup_request_id r t = Some x"
  then show "lookup_request_id r (snd ((case a of (ok, i) \<Rightarrow> Create ok i) h t)) = Some x"
    by (cases a) (auto simp: lookup_request_id_def Create_def Let_def find_append)
next
  fix r t x
  assume "lookup_request_id r t = Some x"
  then show "oh_request_id x = r"
    by (auto simp: lookup_request_id_def dest: find_Some_prop)
next
  fix h t r c
  assume same: "same_request h t" and found: "lookup_request_id r t \<noteq> None"
  let ?f = "\<lambda>row. if oh_id row = oh_id h then updated_row h row else row"
  have "find (\<lambda>x. oh_request_id x = r) (map ?f t) = map_option ?f (find (\<lambda>x. oh_request_id x = r) t)"
    using same by (intro find_map_same) (auto simp: same_request_def)
  then have "lookup_request_id r (map ?f t) \<noteq> None"
    using found by (simp add: lookup_request_id_def)
  then show "lookup_request_id r (snd (Update c h t)) \<noteq> None"
    using found Update_rows [of c h t] by auto
qed

lemma GetByRequestID_lookup:
  "GetByRequestID True r t = of_option ErrNoRows (lookup_request_id r t)"
  by (simp add: GetByRequestID_def lookup_request_id_def)

subsection \<open>Report filters\<close>

record report_filter =
  rf_start :: "gotime option"
  rf_end :: "gotime option"
  rf_strategy :: string
  rf_symbol :: string
  rf_page :: int
  rf_limit :: int

datatype sql_arg = ArgTime gotime | ArgString string | ArgInt int

definition orderReportPagination :: "report_filter \<Rightarrow> int \<times> int" where
  "orderReportPagination filt =
     (let page = (if rf_page filt \<le> 0 then 1 else rf_page filt);
          limit = (if rf_limit filt \<le> 0 \<or> rf_limit filt > 100 then 50 else rf_limit filt)
      in (page, limit))"

text \<open>Each \<open>if\<close> of the source appends its argument first and numbers the placeholder after it.\<close>

definition add_condition ::
  "string \<Rightarrow> sql_arg option \<Rightarrow> string list \<times> sql_arg list \<Rightarrow> string list \<times> sql_arg list" where
  "add_condition cond arg ca =
     (case arg of None \<Rightarrow> ca
      | Some a \<Rightarrow> (let args = snd ca @ [a]
                  in (fst ca @ [cond @ CHR ''$'' # format_int (int (length args))], args)))"

definition nonblank :: "string \<Rightarrow> sql_arg option" where
  "nonblank s = (if trim_space s = [] then None else Some (ArgString (trim_space s)))"

definition tradeReportWhere :: "report_filter \<Rightarrow> string \<times> sql_arg list" where
  "tradeReportWhere filt =
     (let ca0 = ([''exit_price IS NOT NULL'', ''profit IS NOT NULL''], []);
          ca1 = add_condition ''exit_time >= '' (map_option ArgTime (rf_start filt)) ca0;
          ca2 = add_condition ''exit_time <= '' (map_option ArgTime (rf_end filt)) ca1;
          ca3 = add_condition ''strategy_id = '' (nonblank (rf_strategy filt)) ca2;
          ca4 = add_condition ''symbol = '' (nonblank (rf_symbol filt)) ca3
      in (join_with '' AND '' (fst ca4), snd ca4))"

definition signalPerformanceWhere :: "report_filter \<Rightarrow> sql_arg list \<Rightarrow> string \<times> sql_arg list" where
  "signalPerformanceWhere filt args =
     (let ca0 = ([''oh.status = '' @ [CHR 0x27] @ ''FILLED'' @ [CHR 0x27],
                  ''oh.market_type = '' @ [CHR 0x27] @ ''spot'' @ [CHR 0x27],
                  ''oh.trade_condition = '' @ [CHR 0x27] @ ''SIGNAL'' @ [CHR 0x27],
                  ''oh.side IN ('' @ [CHR 0x27] @ ''BUY'' @ [CHR 0x27] @ '', '' @ [CHR 0x27] @ ''SELL''
                    @ [CHR 0x27] @ '')'',
                  ''COALESCE(oh.avg_fill_price, oh.price) IS NOT NULL'',
                  ''NOT EXISTS (SELECT 1 FROM order_trades ot WHERE ot.strategy_id = oh.strategy_id)''],
                 args);
          ca1 = add_condition ''COALESCE(oh.filled_at, oh.created_at) >= ''
                  (map_option ArgTime (rf_start filt)) ca0;
          ca2 = add_condition ''COALESCE(oh.filled_at, oh.created_at) <= ''
                  (map_option ArgTime (rf_end filt)) ca1;
          ca3 = add_condition ''oh.strategy_id = '' (nonblank (rf_strategy filt)) ca2;
          ca4 = add_condition ''oh.symbol = '' (nonblank (rf_symbol filt)) ca3
      in (join_with '' AND '' (fst ca4), snd ca4))"

lemma orderReportPagination_bounds:
  "1 \<le> fst (orderReportPagination f)" "1 \<le> snd (orderReportPagination f)"
  "snd (orderReportPagination f) \<le> 100"
  by (auto simp: orderReportPagination_def Let_def)

text \<open>
  The argument lists: the window and the non-blank filters, in the order of their placeholders.
\<close>

definition report_args :: "report_filter \<Rightarrow> sql_arg list" where
  "report_args filt = concat (map (case_option [] (\<lambda>a. [a]))
     [map_option ArgTime (rf_start filt), map_option ArgTime (rf_end filt),
      nonblank (rf_strategy filt), nonblank (rf_symbol filt)])"

lemma snd_add_condition: "snd (add_condition p a ca) = snd ca @ (case a of None \<Rightarrow> [] | Some x \<Rightarrow> [x])"
  by (simp add: add_condition_def Let_def split: option.splits)

lemma tradeReportWhere_args: "snd (tradeReportWhere f) = report_args f"
  by (simp add: tradeReportWhere_def Let_def snd_add_condition report_args_def)

lemma signalPerformanceWhere_args: "snd (signalPerformanceWhere f args) = args @ report_args f"
  by (simp add: signalPerformanceWhere_def Let_def snd_add_condition report_args_def)

end
