(* ===== verification/Delivery.thy ===== *)
theory Delivery
  imports Prelude GoNum
begin

text \<open>
  Message delivery (\<open>internal/util/event.go\<close>): one delivery of a JetStream message
  (\<open>ProcessWithTimeout\<close>), the retry decision on its 64-bit words, publication of an event, and
  the life of a message over its redeliveries. The server's side is the documented behaviour of
  JetStream: a delivery that was not acknowledged or terminated is redelivered with the delivery
  counter increased by one.
\<close>

subsection \<open>One delivery\<close>

datatype ack_action = Ack | Term | NakWithDelay duration

datatype 'e processing_error = Timeout | CallbackError 'e

text \<open>The callback runs in a goroutine of its own, so a panic in it ends the process.\<close>

datatype 'e outcome = Returned "'e option" | Panicked

datatype 'e delivery_error =
    MetadataError
  | ProcessDied
  | AckError
  | TermError "'e processing_error"
  | NakError "'e processing_error"
  | Failed "'e processing_error"

text \<open>
  What the outside world decides about a delivery: the delivery counter of the metadata, or no
  metadata, whether the context expires before the callback returns, and whether the answer to
  the server gets through.
\<close>

record delivery =
  dl_attempt :: "64 word option"
  dl_timeout :: bool
  dl_answer_ok :: bool

definition messageRetryDecision :: "64 word \<Rightarrow> 64 word \<Rightarrow> duration \<times> bool" where
  "messageRetryDecision attempt maxRetry =
     (if maxRetry = 0 \<or> maxRetry \<le> attempt then (0, True)
      else (sint (attempt * 2 * (1000000000 :: 64 word)), False))"

text \<open>
  The callback runs in a goroutine of its own: when the context expires first its effect still
  happens, and only its result is ignored. The effect is placed before the next delivery.
\<close>

definition ProcessWithTimeout ::
  "64 word \<Rightarrow> delivery \<Rightarrow> ('s \<Rightarrow> 'e outcome \<times> 's) \<Rightarrow> 's
     \<Rightarrow> 'e delivery_error option \<times> ack_action option \<times> 's" where
  "ProcessWithTimeout maxRetry dl callback s =
     (case dl_attempt dl of
        None \<Rightarrow> (Some MetadataError, (if dl_answer_ok dl then Some Term else None), s)
      | Some attempt \<Rightarrow>
          (case callback s of
             (Panicked, s') \<Rightarrow> (Some ProcessDied, None, s')
           | (Returned result, s') \<Rightarrow>
               (let processingErr =
                      (if dl_timeout dl then Some Timeout else map_option CallbackError result)
                in case processingErr of
                     None \<Rightarrow> (if dl_answer_ok dl then (None, Some Ack, s') else (Some AckError, None, s'))
                   | Some err \<Rightarrow>
                       (let (delay, terminate) = messageRetryDecision attempt maxRetry
                        in if terminate then
                             (if dl_answer_ok dl then (Some (Failed err), Some Term, s')
                              else (Some (TermError err), None, s'))
                           else if dl_answer_ok dl then (Some (Failed err), Some (NakWithDelay delay), s')
                           else (Some (NakError err), None, s')))))"

definition PublishEvent :: "bool \<Rightarrow> 'ev \<Rightarrow> 'ev list \<Rightarrow> bool \<times> 'ev list" where
  "PublishEvent publish_ok data log = (if publish_ok then (True, log @ [data]) else (False, log))"

lemma PublishEvent_simps [simp]:
  "PublishEvent True data log = (True, log @ [data])"
  "PublishEvent False data log = (False, log)"
  by (simp_all add: PublishEvent_def)

lemma PublishEvent_prefix: "\<exists>l. snd (PublishEvent ok data log) = log @ l"
  by (cases ok) auto

subsection \<open>The life of a message\<close>

definition settled_by :: "ack_action option \<Rightarrow> bool" where
  "settled_by a = (a = Some Ack \<or> a = Some Term)"

text \<open>
  \<open>deliver_from n\<close> plays the deliveries of one message from delivery number \<open>n\<close>: each element of
  the list is the callback of that delivery, run in its own environment, with its timeout and
  answer flags. The list is consumed until the message is settled. The trace holds the answers.
\<close>

fun deliver_from ::
  "64 word \<Rightarrow> 64 word \<Rightarrow> (('s \<Rightarrow> 'e outcome \<times> 's) \<times> bool \<times> bool) list \<Rightarrow> 's
     \<Rightarrow> ack_action option list \<times> 's" where
  "deliver_from maxRetry n [] s = ([], s)"
| "deliver_from maxRetry n ((cb, timeout, ok) # rest) s =
     (let (err, act, s') =
            ProcessWithTimeout maxRetry
              \<lparr>dl_attempt = Some n, dl_timeout = timeout, dl_answer_ok = ok\<rparr> cb s
      in if settled_by act then ([act], s')
         else (let (acts, s'') = deliver_from maxRetry (n + 1) rest s' in (act # acts, s'')))"

lemma settled_by_simps [simp]:
  "settled_by (Some Ack)" "settled_by (Some Term)" "\<not> settled_by (Some (NakWithDelay d))"
  "\<not> settled_by None"
  by (simp_all add: settled_by_def)

text \<open>The callback's effect is the delivery's effect, whatever happens to the answer.\<close>

lemma ProcessWithTimeout_effect:
  "dl_attempt dl = Some n \<Longrightarrow> snd (snd (ProcessWithTimeout maxRetry dl cb s)) = snd (cb s)"
  by (auto simp: ProcessWithTimeout_def Let_def split: prod.splits option.splits outcome.splits)

lemma ProcessWithTimeout_success:
  assumes "dl_attempt dl = Some n" "\<not> dl_timeout dl" "fst (cb s) = Returned None" "dl_answer_ok dl"
  shows "ProcessWithTimeout maxRetry dl cb s = (None, Some Ack, snd (cb s))"
  using assms by (cases "cb s") (simp add: ProcessWithTimeout_def)

lemma ProcessWithTimeout_failure:
  assumes "dl_attempt dl = Some n" "fst (cb s) = Returned r" "dl_timeout dl \<or> r \<noteq> None"
    "dl_answer_ok dl"
  shows "fst (snd (ProcessWithTimeout maxRetry dl cb s)) =
     (if maxRetry = 0 \<or> maxRetry \<le> n then Some Term
      else Some (NakWithDelay (sint (n * 2 * (1000000000 :: 64 word)))))"
  using assms
  by (cases "cb s") (auto simp: ProcessWithTimeout_def messageRetryDecision_def Let_def)

lemma deliver_from_Cons:
  "deliver_from maxRetry n ((cb, timeout, ok) # rest) s =
     (let r = ProcessWithTimeout maxRetry
                \<lparr>dl_attempt = Some n, dl_timeout = timeout, dl_answer_ok = ok\<rparr> cb s
      in if settled_by (fst (snd r)) then ([fst (snd r)], snd (cb s))
         else (fst (snd r) # fst (deliver_from maxRetry (n + 1) rest (snd (cb s))),
               snd (deliver_from maxRetry (n + 1) rest (snd (cb s)))))"
  using ProcessWithTimeout_effect
    [of "\<lparr>dl_attempt = Some n, dl_timeout = timeout, dl_answer_ok = ok\<rparr>" n maxRetry cb s]
  by (auto simp: Let_def split: prod.splits)

declare deliver_from.simps(2) [simp del]

subsection \<open>The delay as a number of seconds\<close>

lemma retry_delay_exact:
  assumes "unat n \<le> 4611686018"
  shows "sint (n * 2 * (1000000000 :: 64 word)) = int (unat n) * (2 * second)"
proof -
  let ?m = "unat n * 2000000000"
  have bound: "?m < 2 ^ 63" using assms by simp
  have "n * 2 * (1000000000 :: 64 word) = of_nat ?m"
    by (simp add: ac_simps)
  then have "sint (n * 2 * (1000000000 :: 64 word)) = sint (of_nat ?m :: 64 word)"
    by (rule arg_cong)
  also have "\<dots> = signed_take_bit 63 (int ?m)"
    unfolding signed_of_nat by simp
  also have "\<dots> = int ?m"
  proof (rule signed_take_bit_int_eq_self)
    have "int ?m < int (2 ^ 63)" using bound by (simp only: of_nat_less_iff)
    then show "int ?m < 2 ^ 63" by (simp only: of_nat_power of_nat_numeral)
    have "0 \<le> int ?m" by (rule of_nat_0_le_iff)
    moreover have "- (2 ^ 63) \<le> (0 :: int)" by simp
    ultimately show "- (2 ^ 63) \<le> int ?m" by (rule order_trans [rotated])
  qed
  finally show ?thesis by (simp add: second_def)
qed

text \<open>The deliveries of a message to a handler, in the given environments.\<close>

definition plays :: "('n \<Rightarrow> 's \<Rightarrow> 'e outcome \<times> 's) \<Rightarrow> ('n \<times> bool \<times> bool) list
    \<Rightarrow> (('s \<Rightarrow> 'e outcome \<times> 's) \<times> bool \<times> bool) list" where
  "plays run ds = map (\<lambda>d. (run (fst d), snd d)) ds"

lemma plays_simps:
  "plays run [] = []" "plays run ((e, f) # ds) = (run e, f) # plays run ds"
  by (simp_all add: plays_def)

subsection \<open>The interface of a message handler\<close>

text \<open>
  A handler that must not repeat an effect when its message is redelivered. \<open>run e\<close> is the
  handler in the environment \<open>e\<close>, \<open>count\<close> counts the effects, and \<open>done_before\<close> says that the
  state remembers the effect. An effect that the state does not remember must be followed by the
  answer that ends the message.
\<close>

locale once_handler =
  fixes run :: "'n \<Rightarrow> 's \<Rightarrow> 'e outcome \<times> 's"
    and count :: "'s \<Rightarrow> nat"
    and done_before :: "'s \<Rightarrow> bool"
  assumes done_stays: "done_before s \<Longrightarrow> done_before (snd (run e s))"
    and done_no_effect: "done_before s \<Longrightarrow> count (snd (run e s)) = count s"
    and at_most_one: "count (snd (run e s)) \<le> Suc (count s)"
    and no_loss: "count s \<le> count (snd (run e s))"
    and effect_accounted:
      "count s < count (snd (run e s)) \<Longrightarrow> done_before (snd (run e s)) \<or> fst (run e s) = Returned None"
begin

lemma done_final:
  "done_before s \<Longrightarrow> count (snd (deliver_from maxRetry n (plays run ds) s)) = count s"
proof (induction ds arbitrary: n s)
  case Nil
  then show ?case by (simp add: plays_simps)
next
  case (Cons d ds)
  obtain e t ok where d: "d = (e, t, ok)" by (cases d)
  have "done_before (snd (run e s))" "count (snd (run e s)) = count s"
    using Cons.prems done_stays done_no_effect by blast+
  with Cons.IH [of "snd (run e s)" "n + 1"] show ?case
    by (simp add: d plays_simps deliver_from_Cons Let_def)
qed

text \<open>The effect happens at most once when every delivery is answered in time.\<close>

lemma once_if_answered:
  "\<forall>d\<in>set ds. snd d = (False, True) \<Longrightarrow>
     count (snd (deliver_from maxRetry n (plays run ds) s)) \<le> Suc (count s)"
proof (induction ds arbitrary: n s)
  case Nil
  then show ?case by (simp add: plays_simps)
next
  case (Cons d ds)
  obtain e where d: "d = (e, False, True)" using Cons.prems by (cases d) auto
  let ?s = "snd (run e s)"
  consider "count ?s = count s" | "done_before ?s" | "fst (run e s) = Returned None" "count ?s \<le> Suc (count s)"
    using effect_accounted [of s e] at_most_one [of e s] no_loss [of s e] by fastforce
  then show ?case
  proof cases
    case 1
    with Cons.IH [of "n + 1" ?s] Cons.prems show ?thesis
      by (auto simp: d plays_simps deliver_from_Cons Let_def)
  next
    case 2
    then show ?thesis
      using at_most_one [of e s] by (simp add: d plays_simps deliver_from_Cons Let_def done_final)
  next
    case 3
    then show ?thesis
      by (simp add: d plays_simps deliver_from_Cons Let_def ProcessWithTimeout_success)
  qed
qed

end

subsection \<open>A failing message\<close>

definition always_fails :: "(('s \<Rightarrow> 'e outcome \<times> 's) \<times> bool \<times> bool) \<Rightarrow> bool" where
  "always_fails d = (snd (snd d)
     \<and> (\<forall>s. fst (fst d s) \<noteq> Panicked \<and> (fst (snd d) \<or> fst (fst d s) \<noteq> Returned None)))"

lemma deliver_from_failing_step:
  assumes "always_fails (cb, t, ok)"
  shows "fst (deliver_from maxRetry n ((cb, t, ok) # ds) s) =
     (if maxRetry = 0 \<or> maxRetry \<le> n then [Some Term]
      else Some (NakWithDelay (sint (n * 2 * (1000000000 :: 64 word)))) #
           fst (deliver_from maxRetry (n + 1) ds (snd (cb s))))"
proof -
  obtain r where ok: ok and "fst (cb s) = Returned r" "t \<or> r \<noteq> None"
    using assms unfolding always_fails_def by (metis fst_conv outcome.exhaust snd_conv)
  then have "fst (snd (ProcessWithTimeout maxRetry
        \<lparr>dl_attempt = Some n, dl_timeout = t, dl_answer_ok = ok\<rparr> cb s)) =
      (if maxRetry = 0 \<or> maxRetry \<le> n then Some Term
       else Some (NakWithDelay (sint (n * 2 * (1000000000 :: 64 word)))))"
    by (intro ProcessWithTimeout_failure [where r = r]) simp_all
  then show ?thesis by (simp add: deliver_from_Cons Let_def split del: if_split) simp
qed

lemma deliver_from_failing:
  assumes "\<forall>d\<in>set ds. always_fails d" "unat maxRetry \<le> 4611686018"
    "1 \<le> unat n" "unat n \<le> max 1 (unat maxRetry)"
    "max 1 (unat maxRetry) - unat n < length ds"
  shows "fst (deliver_from maxRetry n ds s) =
     map (\<lambda>k. Some (NakWithDelay (int k * (2 * second)))) [unat n ..< max 1 (unat maxRetry)] @ [Some Term]"
  using assms
proof (induction ds arbitrary: n s)
  case Nil
  then show ?case by simp
next
  case (Cons d ds)
  obtain cb t ok where d: "d = (cb, t, ok)" by (cases d)
  have fails: "always_fails (cb, t, ok)" using Cons.prems d by simp
  show ?case
  proof (cases "maxRetry = 0 \<or> maxRetry \<le> n")
    case True
    then have "max 1 (unat maxRetry) \<le> unat n"
      using Cons.prems(3) by (auto simp: word_le_nat_alt)
    with True fails show ?thesis by (simp add: d deliver_from_failing_step)
  next
    case False
    then have less: "unat n < unat maxRetry" by (auto simp: word_le_nat_alt not_le)
    moreover have "unat maxRetry < 2 ^ 64"
      using unsigned_less [of maxRetry] by simp
    ultimately have "Suc (unat n) mod 2 ^ 64 = Suc (unat n)" by (intro mod_less) simp
    then have suc: "unat (n + 1) = Suc (unat n)" by (simp add: unat_word_ariths)
    have delay: "sint (n * 2 * (1000000000 :: 64 word)) = int (unat n) * (2 * second)"
      using less Cons.prems(2) by (intro retry_delay_exact) simp
    have "fst (deliver_from maxRetry (n + 1) ds (snd (cb s))) =
        map (\<lambda>k. Some (NakWithDelay (int k * (2 * second)))) [Suc (unat n) ..< max 1 (unat maxRetry)]
          @ [Some Term]"
      using Cons.IH [of "n + 1" "snd (cb s)"] Cons.prems less suc by simp
    moreover have "[unat n ..< max 1 (unat maxRetry)] =
        unat n # [Suc (unat n) ..< max 1 (unat maxRetry)]"
      using less by (simp add: upt_conv_Cons)
    ultimately show ?thesis
      unfolding d deliver_from_failing_step [OF fails] delay using False by simp
  qed
qed

end
