(* ===== verification/Json.thy ===== *)
theory Json
  imports GoNum "HOL-Library.Char_ord" "HOL-Library.List_Lexorder"
begin

text \<open>
  JSON texts, JSON values and how Go's \<open>encoding/json\<close> stores them into a struct: \<open>parse_json\<close>
  reads a text, and the field functions store a value the way \<open>json.Unmarshal\<close> does. Members are
  matched to the struct's tags (an exact match is preferred, otherwise the letter case is ignored),
  a later member overwrites an earlier one, \<open>null\<close> leaves a plain field as it is, a value of the
  wrong type is an error, and unknown members are skipped. A number keeps its literal text; the
  argument \<open>ft\<close> of \<open>sprint_json\<close> stands for \<open>fmt.Sprint\<close> of the \<open>float64\<close> a literal denotes.
\<close>

datatype json =
    JNull
  | JBool bool
  | JNum string
  | JStr string
  | JArr "json list"
  | JObj "(string \<times> json) list"

subsection \<open>Texts\<close>

definition json_ws :: "char \<Rightarrow> bool" where
  "json_ws c = (c \<in> {CHR 0x20, CHR 0x09, CHR 0x0A, CHR 0x0D})"

definition skip_ws :: "string \<Rightarrow> string" where
  "skip_ws s = dropWhile json_ws s"

definition hex_val :: "char \<Rightarrow> nat option" where
  "hex_val c =
     (let n = of_char c :: nat
      in if 48 \<le> n \<and> n \<le> 57 then Some (n - 48)
         else if 97 \<le> n \<and> n \<le> 102 then Some (n - 87)
         else if 65 \<le> n \<and> n \<le> 70 then Some (n - 55) else None)"

fun hex4 :: "string \<Rightarrow> (nat \<times> string) option" where
  "hex4 (a # b # c # d # r) =
     (case (hex_val a, hex_val b, hex_val c, hex_val d) of
        (Some w, Some x, Some y, Some z) \<Rightarrow> Some (((w * 16 + x) * 16 + y) * 16 + z, r)
      | _ \<Rightarrow> None)"
| "hex4 _ = None"

definition utf8 :: "nat \<Rightarrow> string" where
  "utf8 n =
     (if n < 128 then [char_of n]
      else if n < 2048 then [char_of (192 + n div 64), char_of (128 + n mod 64)]
      else if n < 65536 then
        [char_of (224 + n div 4096), char_of (128 + n div 64 mod 64), char_of (128 + n mod 64)]
      else [char_of (240 + n div 262144), char_of (128 + n div 4096 mod 64),
            char_of (128 + n div 64 mod 64), char_of (128 + n mod 64)])"

text \<open>The code point of an escape \<open>\\uXXXX\<close>; a lone surrogate becomes U+FFFD.\<close>

definition unicode_escape :: "string \<Rightarrow> (string \<times> string) option" where
  "unicode_escape s =
     (case hex4 s of None \<Rightarrow> None
      | Some (n, r) \<Rightarrow>
          if 55296 \<le> n \<and> n < 56320 then
            (case r of
               b # u # r' \<Rightarrow>
                 if b = CHR 0x5C \<and> u = CHR ''u'' then
                   (case hex4 r' of
                      Some (m, r'') \<Rightarrow>
                        if 56320 \<le> m \<and> m < 57344
                        then Some (utf8 (65536 + (n - 55296) * 1024 + (m - 56320)), r'')
                        else Some (utf8 65533, r)
                    | None \<Rightarrow> None)
                 else Some (utf8 65533, r)
             | _ \<Rightarrow> Some (utf8 65533, r))
          else if 56320 \<le> n \<and> n < 57344 then Some (utf8 65533, r)
          else Some (utf8 n, r))"

definition simple_escape :: "char \<Rightarrow> char option" where
  "simple_escape c =
     (if c = CHR 0x22 \<or> c = CHR 0x5C \<or> c = CHR ''/'' then Some c
      else if c = CHR ''b'' then Some (CHR 0x08) else if c = CHR ''f'' then Some (CHR 0x0C)
      else if c = CHR ''n'' then Some (CHR 0x0A) else if c = CHR ''r'' then Some (CHR 0x0D)
      else if c = CHR ''t'' then Some (CHR 0x09) else None)"

text \<open>The rest of a string literal after its opening quote.\<close>

fun p_str :: "nat \<Rightarrow> string \<Rightarrow> (string \<times> string) option" where
  "p_str 0 _ = None"
| "p_str (Suc f) [] = None"
| "p_str (Suc f) (c # cs) =
     (if c = CHR 0x22 then Some ([], cs)
      else if c = CHR 0x5C then
        (case cs of [] \<Rightarrow> None
         | e # ds \<Rightarrow>
             (case (if e = CHR ''u'' then unicode_escape ds
                    else map_option (\<lambda>x. ([x], ds)) (simple_escape e)) of
                None \<Rightarrow> None
              | Some (x, r) \<Rightarrow> map_option (\<lambda>(s, r'). (x @ s, r')) (p_str f r)))
      else if (of_char c :: nat) < 32 then None
      else map_option (\<lambda>(s, r'). (c # s, r')) (p_str f cs))"

definition is_digit :: "char \<Rightarrow> bool" where
  "is_digit c = (digit_val c \<noteq> None)"

definition valid_exp :: "string \<Rightarrow> bool" where
  "valid_exp s = (s = [] \<or> (hd s \<in> {CHR ''e'', CHR ''E''} \<and>
     (let d = (if tl s \<noteq> [] \<and> hd (tl s) \<in> {CHR ''+'', CHR ''-''} then tl (tl s) else tl s)
      in d \<noteq> [] \<and> list_all is_digit d)))"

definition valid_frac :: "string \<Rightarrow> bool" where
  "valid_frac s =
     (if s \<noteq> [] \<and> hd s = CHR ''.''
      then takeWhile is_digit (tl s) \<noteq> [] \<and> valid_exp (dropWhile is_digit (tl s))
      else valid_exp s)"

definition valid_number :: "string \<Rightarrow> bool" where
  "valid_number s =
     (let u = (if s \<noteq> [] \<and> hd s = CHR ''-'' then tl s else s)
      in u \<noteq> [] \<and> is_digit (hd u) \<and>
         (if hd u = CHR ''0'' then valid_frac (tl u) else valid_frac (dropWhile is_digit u)))"

definition number_char :: "char \<Rightarrow> bool" where
  "number_char c = (is_digit c \<or> c \<in> {CHR ''+'', CHR ''-'', CHR ''.'', CHR ''e'', CHR ''E''})"

definition p_num :: "string \<Rightarrow> (json \<times> string) option" where
  "p_num s =
     (let lit = takeWhile number_char s
      in if valid_number lit then Some (JNum lit, dropWhile number_char s) else None)"

definition keyword :: "string \<Rightarrow> json \<Rightarrow> string \<Rightarrow> (json \<times> string) option" where
  "keyword w j s = (if has_prefix s w then Some (j, drop (length w) s) else None)"

text \<open>Values, the elements of an array and the members of an object after the opening bracket.\<close>

fun p_val :: "nat \<Rightarrow> string \<Rightarrow> (json \<times> string) option"
  and p_arr :: "nat \<Rightarrow> string \<Rightarrow> (json list \<times> string) option"
  and p_obj :: "nat \<Rightarrow> string \<Rightarrow> ((string \<times> json) list \<times> string) option" where
  "p_val 0 _ = None"
| "p_val (Suc f) s =
     (case skip_ws s of [] \<Rightarrow> None
      | c # cs \<Rightarrow>
          if c = CHR 0x22 then map_option (\<lambda>(x, r). (JStr x, r)) (p_str (Suc (length cs)) cs)
          else if c = CHR ''['' then
            (if skip_ws cs \<noteq> [] \<and> hd (skip_ws cs) = CHR '']'' then Some (JArr [], tl (skip_ws cs))
             else map_option (\<lambda>(vs, r). (JArr vs, r)) (p_arr f cs))
          else if c = CHR 0x7B then
            (if skip_ws cs \<noteq> [] \<and> hd (skip_ws cs) = CHR 0x7D then Some (JObj [], tl (skip_ws cs))
             else map_option (\<lambda>(ms, r). (JObj ms, r)) (p_obj f cs))
          else if c = CHR ''t'' then keyword ''true'' (JBool True) (c # cs)
          else if c = CHR ''f'' then keyword ''false'' (JBool False) (c # cs)
          else if c = CHR ''n'' then keyword ''null'' JNull (c # cs)
          else p_num (c # cs))"
| "p_arr 0 _ = None"
| "p_arr (Suc f) s =
     (case p_val f s of None \<Rightarrow> None
      | Some (v, r) \<Rightarrow>
          (case skip_ws r of [] \<Rightarrow> None
           | c # cs \<Rightarrow>
               if c = CHR '']'' then Some ([v], cs)
               else if c = CHR '','' then map_option (\<lambda>(vs, r'). (v # vs, r')) (p_arr f cs)
               else None))"
| "p_obj 0 _ = None"
| "p_obj (Suc f) s =
     (case skip_ws s of [] \<Rightarrow> None
      | q # qs \<Rightarrow>
          if q \<noteq> CHR 0x22 then None else
          (case p_str (Suc (length qs)) qs of None \<Rightarrow> None
           | Some (k, r) \<Rightarrow>
               (case skip_ws r of [] \<Rightarrow> None
                | c # cs \<Rightarrow>
                    if c \<noteq> CHR '':'' then None else
                    (case p_val f cs of None \<Rightarrow> None
                     | Some (v, r') \<Rightarrow>
                         (case skip_ws r' of [] \<Rightarrow> None
                          | d # ds \<Rightarrow>
                              if d = CHR 0x7D then Some ([(k, v)], ds)
                              else if d = CHR '','' then
                                map_option (\<lambda>(ms, r''). ((k, v) # ms, r'')) (p_obj f ds)
                              else None)))))"

text \<open>Every nested call sees a shorter text, so twice the length bounds the depth of the recursion.\<close>

definition parse_json :: "string \<Rightarrow> json option" where
  "parse_json s =
     (case p_val (2 * length s + 2) s of
        Some (j, r) \<Rightarrow> if skip_ws r = [] then Some j else None
      | None \<Rightarrow> None)"

subsection \<open>Storing a value into a struct\<close>

definition match_tag :: "string list \<Rightarrow> string \<Rightarrow> string option" where
  "match_tag tags key = (if key \<in> set tags then Some key else find (\<lambda>t. equal_fold t key) tags)"

definition members :: "string list \<Rightarrow> string \<Rightarrow> (string \<times> json) list \<Rightarrow> json list" where
  "members tags t ms = map snd (filter (\<lambda>m. match_tag tags (fst m) = Some t) ms)"

fun store_all :: "(json \<Rightarrow> 'a option) \<Rightarrow> 'a \<Rightarrow> json list \<Rightarrow> 'a option" where
  "store_all f a [] = Some a"
| "store_all f a (v # vs) =
     (if v = JNull then store_all f a vs
      else (case f v of None \<Rightarrow> None | Some b \<Rightarrow> store_all f b vs))"

definition field :: "(json \<Rightarrow> 'a option) \<Rightarrow> 'a \<Rightarrow> string list \<Rightarrow> (string \<times> json) list \<Rightarrow> string \<Rightarrow> 'a option" where
  "field f zero tags ms t = store_all f zero (members tags t ms)"

fun as_string :: "json \<Rightarrow> string option" where
  "as_string (JStr s) = Some s"
| "as_string _ = None"

fun as_bool :: "json \<Rightarrow> bool option" where
  "as_bool (JBool b) = Some b"
| "as_bool _ = None"

fun as_int64 :: "json \<Rightarrow> int option" where
  "as_int64 (JNum s) = parse_int64 s"
| "as_int64 _ = None"

fun as_int32 :: "json \<Rightarrow> int option" where
  "as_int32 (JNum s) =
     (case parse_int64 s of None \<Rightarrow> None
      | Some i \<Rightarrow> if - (2 ^ 31) \<le> i \<and> i < 2 ^ 31 then Some i else None)"
| "as_int32 _ = None"

fun as_object :: "json \<Rightarrow> (string \<times> json) list option" where
  "as_object (JObj ms) = Some ms"
| "as_object _ = None"

abbreviation fstr :: "string list \<Rightarrow> (string \<times> json) list \<Rightarrow> string \<Rightarrow> string option" where
  "fstr \<equiv> field as_string []"

abbreviation fint :: "string list \<Rightarrow> (string \<times> json) list \<Rightarrow> string \<Rightarrow> int option" where
  "fint \<equiv> field as_int64 0"

abbreviation fint32 :: "string list \<Rightarrow> (string \<times> json) list \<Rightarrow> string \<Rightarrow> int option" where
  "fint32 \<equiv> field as_int32 0"

abbreviation fbool :: "string list \<Rightarrow> (string \<times> json) list \<Rightarrow> string \<Rightarrow> bool option" where
  "fbool \<equiv> field as_bool False"

text \<open>A pointer field: \<open>null\<close> resets it to \<open>nil\<close>.\<close>

fun store_ptr :: "(json \<Rightarrow> 'a option) \<Rightarrow> 'a option \<Rightarrow> json list \<Rightarrow> 'a option option" where
  "store_ptr f a [] = Some a"
| "store_ptr f a (v # vs) =
     (if v = JNull then store_ptr f None vs
      else (case f v of None \<Rightarrow> None | Some b \<Rightarrow> store_ptr f (Some b) vs))"

definition fptr :: "(json \<Rightarrow> 'a option) \<Rightarrow> string list \<Rightarrow> (string \<times> json) list \<Rightarrow> string \<Rightarrow> 'a option option" where
  "fptr f tags ms t = store_ptr f None (members tags t ms)"

text \<open>
  A nested struct: the members of every object stored into it, in order; \<open>null\<close> changes nothing
  and any other value is an error.
\<close>

definition fobj :: "string list \<Rightarrow> (string \<times> json) list \<Rightarrow> string \<Rightarrow> (string \<times> json) list option" where
  "fobj tags ms t =
     (let vs = filter (\<lambda>v. v \<noteq> JNull) (members tags t ms)
      in if list_all (\<lambda>v. as_object v \<noteq> None) vs then Some (concat (map (the \<circ> as_object) vs))
         else None)"

text \<open>A \<open>json.RawMessage\<close>: the last member, \<open>null\<close> included; \<open>None\<close> stands for no bytes.\<close>

definition fraw :: "string list \<Rightarrow> (string \<times> json) list \<Rightarrow> string \<Rightarrow> json option" where
  "fraw tags ms t = (case members tags t ms of [] \<Rightarrow> None | v # vs \<Rightarrow> Some (last (v # vs)))"

text \<open>A slice: each element is decoded on its own; \<open>null\<close> resets it.\<close>

fun as_list :: "(json \<Rightarrow> 'a option) \<Rightarrow> json \<Rightarrow> 'a list option" where
  "as_list f (JArr vs) = those (map f vs)"
| "as_list f _ = None"

definition fslice :: "(json \<Rightarrow> 'a option) \<Rightarrow> string list \<Rightarrow> (string \<times> json) list \<Rightarrow> string \<Rightarrow> 'a list option" where
  "fslice f tags ms t = map_option (case_option [] id) (store_ptr (as_list f) None (members tags t ms))"

text \<open>The value as a whole stored into a struct: an object, or \<open>null\<close>, which changes nothing.\<close>

definition into_struct :: "((string \<times> json) list \<Rightarrow> 'a option) \<Rightarrow> json \<Rightarrow> 'a option" where
  "into_struct f j = (case j of JNull \<Rightarrow> f [] | JObj ms \<Rightarrow> f ms | _ \<Rightarrow> None)"

text \<open>A member of a decoded \<open>map[string]any\<close>: the last one with the key.\<close>

definition map_lookup :: "(string \<times> json) list \<Rightarrow> string \<Rightarrow> json option" where
  "map_lookup ms k = map_of (rev ms) k"

text \<open>\<open>fmt.Sprint\<close> of a decoded \<open>any\<close>; maps print their keys in order.\<close>

fun sprint_json :: "(string \<Rightarrow> string) \<Rightarrow> json \<Rightarrow> string" where
  "sprint_json ft JNull = ''<nil>''"
| "sprint_json ft (JBool b) = (if b then ''true'' else ''false'')"
| "sprint_json ft (JNum s) = ft s"
| "sprint_json ft (JStr s) = s"
| "sprint_json ft (JArr vs) = ''['' @ join_with '' '' (map (sprint_json ft) vs) @ '']''"
| "sprint_json ft (JObj ms) =
     (let shown = map (\<lambda>m. (fst m, sprint_json ft (snd m))) ms;
          keys = sort (remdups (map fst ms))
      in ''map['' @ join_with '' '' (map (\<lambda>k. k @ '':'' @ the (map_of (rev shown) k)) keys) @ '']'')"

lemma match_tag_in: "match_tag tags key = Some t \<Longrightarrow> t \<in> set tags"
  by (auto simp: match_tag_def find_Some_iff split: if_splits)

lemma members_Nil [simp]: "members tags t [] = []"
  by (simp add: members_def)

lemma field_Nil [simp]: "field f z tags [] t = Some z"
  by (simp add: field_def)

lemma members_Cons [simp]:
  "members tags t (m # ms) = (if match_tag tags (fst m) = Some t then [snd m] else []) @ members tags t ms"
  by (simp add: members_def)

lemma map_lookup_Nil [simp]: "map_lookup [] k = None"
  by (simp add: map_lookup_def)

end
