(* ===== verification/OrderEngine.thy ===== *)
theory OrderEngine
  imports OrderStore Delivery Json
begin

text \<open>
  The order engine (\<open>internal/service/orderengine/order_engine.service.go\<close>): the queue handler,
  \<open>PlaceOrder\<close> and \<open>PlaceOrderAsync\<close> with their helpers. The service's state is the table of
  order histories, the log of the published events, and the state of the exchanges, which is
  abstract here. \<open>w_placed\<close> records, for the properties, which requests an exchange accepted.

  Parameters: \<open>D\<close> is the decimal package, \<open>ft\<close> prints a JSON number that was decoded into an
  \<open>any\<close> (\<open>fmt.Sprint\<close> of a \<open>float64\<close>), \<open>reg\<close> is the map of exchanges, and the record
  \<open>call_env\<close> holds what the environment decides during a call: whether the context is over on
  entry, the clock, and whether the database and the message broker answer.
\<close>

subsection \<open>State, environment and errors\<close>

datatype engine_error =
    ContextDone
  | InvalidOrderSide string string
  | ErrExchangeNotFound
  | ErrPlaceOrderFailed
  | ErrFailToGetOrderHistoryFailed
  | ErrCreateOrderHistoryFailed
  | ErrDuplicateOrder
  | ErrInvalidEntryOrderID
  | ErrPublishOrderEventFailed
  | ErrPublishOrderNotificationFailed
  | PublishFailed
  | DecodeFailed
  | OrderExpired string "string option"

record 'x exchange_api =
  xa_place :: "order_request \<Rightarrow> 'x \<Rightarrow> (exchange_error + order_history) \<times> 'x"
  xa_sync :: "order_history \<Rightarrow> 'x \<Rightarrow> (exchange_error + order_history option) \<times> 'x"

type_synonym 'x registry = "string \<Rightarrow> 'x exchange_api option"

record call_env =
  ce_ctx_done :: bool
  ce_now :: gotime
  ce_find_ok :: bool
  ce_create_ok :: bool
  ce_new_id :: string
  ce_close_ok :: bool
  ce_notify_ok :: bool

record 'x world =
  w_table :: order_table
  w_events :: "event list"
  w_exchange :: 'x
  w_placed :: "string list"

subsection \<open>Normalising a request\<close>

definition normalizeExitType :: "string \<Rightarrow> string \<Rightarrow> string" where
  "normalizeExitType rawExitType tradeCondition =
     (let normalized = NormalizeExitType rawExitType
      in if normalized \<noteq> [] then normalized
         else (let tc = NormalizeTradeCondition tradeCondition
               in if tc = TradeConditionTakeProfit then ExitTypeTakeProfit
                  else if tc = TradeConditionStopLoss then ExitTypeStopLoss
                  else if tc = TradeConditionTrailingStop then ExitTypeTrailingStop
                  else []))"

definition extractEntryOrderIDFromInternal :: "(string \<Rightarrow> string) \<Rightarrow> string \<Rightarrow> string" where
  "extractEntryOrderIDFromInternal ft raw =
     (let trimmed = trim_space raw
      in if trimmed = [] then []
         else (case parse_json trimmed of
                 Some (JObj ms) \<Rightarrow>
                   (case map_lookup ms ''entry_order_id'' of
                      None \<Rightarrow> []
                    | Some v \<Rightarrow> if v = JNull then [] else trim_space (sprint_json ft v))
               | _ \<Rightarrow> []))"

definition ensureEntryOrderID :: "(string \<Rightarrow> string) \<Rightarrow> order_request \<Rightarrow> engine_error + order_request" where
  "ensureEntryOrderID ft order =
     (let entryOrderID = trim_space (rq_entry_order_id order);
          entryOrderID' = (if entryOrderID = []
             then extractEntryOrderIDFromInternal ft (rq_internal order) else entryOrderID)
      in if entryOrderID' = [] then Inl ErrInvalidEntryOrderID
         else Inr (order\<lparr>rq_entry_order_id := entryOrderID'\<rparr>))"

text \<open>The position side of a futures order follows its side when the request leaves it open.\<close>

definition resolved_position_side :: "string \<Rightarrow> string \<Rightarrow> string \<Rightarrow> string" where
  "resolved_position_side marketType side raw =
     (if marketType = MarketTypeFutures then
        (let normalizedPosition = NormalizePositionSide raw
         in if normalizedPosition = PositionSideBoth then
              (if side = OrderSideShort then PositionSideShort else PositionSideLong)
            else normalizedPosition)
      else PositionSideBoth)"

text \<open>The normalisation both \<open>PlaceOrder\<close> and \<open>PlaceOrderAsync\<close> start with.\<close>

definition prepare_order :: "(string \<Rightarrow> string) \<Rightarrow> order_request \<Rightarrow> engine_error + order_request" where
  "prepare_order ft order =
     (let order = order\<lparr>rq_exchange := to_lower (trim_space (rq_exchange order))\<rparr>;
          marketType = NormalizeMarketType (rq_market_type order);
          order = order\<lparr>rq_market_type := marketType\<rparr>;
          normalizedSide = NormalizeOrderSideByMarket (rq_side order) marketType
      in if normalizedSide = [] then Inl (InvalidOrderSide marketType (rq_side order))
         else
           (let order = order\<lparr>rq_side := normalizedSide\<rparr>;
                order = order\<lparr>rq_position_side :=
                  resolved_position_side marketType normalizedSide (rq_position_side order)\<rparr>;
                order = order\<lparr>rq_trade_condition := NormalizeTradeCondition (rq_trade_condition order)\<rparr>;
                order = order\<lparr>rq_order_reason := trim_space (rq_order_reason order)\<rparr>;
                order = order\<lparr>rq_exit_type :=
                  normalizeExitType (rq_exit_type order) (rq_trade_condition order)\<rparr>
            in ensureEntryOrderID ft order))"

subsection \<open>Order histories\<close>

definition trimmed_null :: "string option \<Rightarrow> null_string" where
  "trimmed_null s =
     (case s of None \<Rightarrow> no_string
      | Some v \<Rightarrow> (let trimmed = trim_space v in if trimmed \<noteq> [] then some_string trimmed else no_string))"

definition buildPaperOrderHistory :: "gotime \<Rightarrow> order_request \<Rightarrow> order_history" where
  "buildPaperOrderHistory now order =
     \<lparr>oh_id = [], oh_request_id = rq_request_id order, oh_user_id = rq_user_id order,
      oh_exchange = rq_exchange order, oh_market_type = rq_market_type order,
      oh_position_side = rq_position_side order, oh_symbol = rq_symbol order,
      oh_order_id = ''paper-'' @ rq_request_id order,
      oh_entry_order_id = trim_space (rq_entry_order_id order),
      oh_client_order_id = trimmed_null (rq_order_id order),
      oh_side = rq_side order, oh_type = rq_type order, oh_price = Some (rq_price order),
      oh_quantity = rq_quantity order, oh_filled_quantity = rq_quantity order,
      oh_avg_fill_price = (if rq_price order > 0 then Some (rq_price order) else None),
      oh_status = ''FILLED'', oh_leverage = None, oh_fee = None, oh_realized_pnl = None,
      oh_created_at_exchange = no_time,
      oh_sent_at = (if rq_requested_at order > 0
                    then some_time (from_unix_milli (rq_requested_at order)) else some_time now),
      oh_acknowledged_at = some_time now, oh_filled_at = some_time now,
      oh_strategy_id = trimmed_null (rq_strategy_id order),
      oh_trade_condition = rq_trade_condition order, oh_order_reason = rq_order_reason order,
      oh_exit_type = rq_exit_type order, oh_error_message = no_string,
      oh_created_at = now, oh_updated_at = now, oh_is_paper_trading = True\<rparr>"

definition applyOrderMetadataToHistory :: "order_history \<Rightarrow> order_request \<Rightarrow> order_history" where
  "applyOrderMetadataToHistory h order =
     (let h = (if trim_space (oh_trade_condition h) = []
                  \<or> equal_fold (trim_space (oh_trade_condition h)) TradeConditionUnknown
               then h\<lparr>oh_trade_condition := rq_trade_condition order\<rparr> else h);
          h = (if trim_space (oh_order_reason h) = []
               then h\<lparr>oh_order_reason := rq_order_reason order\<rparr> else h);
          h = (if trim_space (oh_exit_type h) = []
               then h\<lparr>oh_exit_type := rq_exit_type order\<rparr> else h)
      in if trim_space (oh_entry_order_id h) = []
         then h\<lparr>oh_entry_order_id := trim_space (rq_entry_order_id order)\<rparr> else h)"

subsection \<open>Events\<close>

definition closes_position :: "order_history \<Rightarrow> bool" where
  "closes_position h = (oh_status h = ''FILLED'' \<and> oh_order_reason h = ''manual_close'')"

definition position_closed :: "order_history \<Rightarrow> strategy_position_closed" where
  "position_closed h =
     \<lparr>pc_entry_order_id = oh_entry_order_id h, pc_strategy_id = trim_space (str_val (oh_strategy_id h)),
      pc_exchange = oh_exchange h, pc_market_type = oh_market_type h, pc_symbol = oh_symbol h\<rparr>"

definition publishManualPositionClosed :: "bool \<Rightarrow> order_history \<Rightarrow> event list \<Rightarrow> bool \<times> event list" where
  "publishManualPositionClosed publish_ok h evlog =
     (if \<not> closes_position h then (True, evlog)
      else PublishEvent publish_ok (PositionClosedEvent (position_closed h)) evlog)"

fun firstPositiveDecimalString :: "decimal_ops \<Rightarrow> string list \<Rightarrow> string" where
  "firstPositiveDecimalString D [] = []"
| "firstPositiveDecimalString D (raw # values) =
     (let candidate = trim_space raw
      in if candidate = [] then firstPositiveDecimalString D values
         else (case d_parse D candidate of
                 None \<Rightarrow> firstPositiveDecimalString D values
               | Some v \<Rightarrow> if v > 0 then d_show D v else firstPositiveDecimalString D values))"

definition positive :: "rat option \<Rightarrow> rat option" where
  "positive p = (case p of None \<Rightarrow> None | Some x \<Rightarrow> if x > 0 then Some x else None)"

definition resolveNotificationPrice :: "decimal_ops \<Rightarrow> order_request \<Rightarrow> order_history \<Rightarrow> string" where
  "resolveNotificationPrice D order h =
     (case positive (oh_avg_fill_price h) of
        Some p \<Rightarrow> d_show D p
      | None \<Rightarrow>
          (case positive (oh_price h) of
             Some p \<Rightarrow> d_show D p
           | None \<Rightarrow>
               if rq_price order > 0 then d_show D (rq_price order)
               else firstPositiveDecimalString D [rq_exit_price order, rq_entry_price order]))"

definition order_notification_of :: "decimal_ops \<Rightarrow> order_request \<Rightarrow> order_history \<Rightarrow> order_notification" where
  "order_notification_of D order h =
     (let strategyID = (case rq_strategy_id order of None \<Rightarrow> [] | Some s \<Rightarrow> trim_space s);
          strategyName = trim_space (rq_strategy_name order);
          strategyName = (if strategyName = [] then strategyID else strategyName);
          price = resolveNotificationPrice D order h;
          exitPrice = trim_space (rq_exit_price order);
          tradeCondition = to_upper (trim_space (rq_trade_condition order));
          exitPrice = (if exitPrice = [] \<and> tradeCondition \<noteq> TradeConditionEntry then price else exitPrice)
      in \<lparr>on_request_id = rq_request_id order, on_entry_order_id = trim_space (rq_entry_order_id order),
          on_exchange = rq_exchange order, on_market_type = rq_market_type order,
          on_strategy_id = strategyID, on_strategy_name = strategyName, on_symbol = rq_symbol order,
          on_interval = trim_space (rq_interval order), on_side = to_upper (trim_space (rq_side order)),
          on_price = price, on_entry_price = trim_space (rq_entry_price order),
          on_exit_price = exitPrice, on_pnl_percentage = trim_space (rq_pnl_percentage order),
          on_trade_condition = tradeCondition, on_order_reason = trim_space (rq_order_reason order),
          on_exit_type = normalizeExitType (rq_exit_type order) (rq_trade_condition order)\<rparr>)"

definition publishOrderNotificationEvent ::
  "decimal_ops \<Rightarrow> bool \<Rightarrow> order_request \<Rightarrow> order_history \<Rightarrow> event list \<Rightarrow> bool \<times> event list" where
  "publishOrderNotificationEvent D publish_ok order h evlog =
     (if \<not> rq_need_notification order then (True, evlog)
      else PublishEvent publish_ok (NotificationEvent (order_notification_of D order h)) evlog)"

subsection \<open>Placing an order\<close>

text \<open>Storing the history of a placed order and announcing it: the common end of both branches.\<close>

definition record_order ::
  "decimal_ops \<Rightarrow> call_env \<Rightarrow> order_request \<Rightarrow> order_history \<Rightarrow> 'x world
     \<Rightarrow> (engine_error + order_history) \<times> 'x world" where
  "record_order D env order h w =
     (case Create (ce_create_ok env) (ce_new_id env) h (w_table w) of
        (Inl e, t) \<Rightarrow> (Inl ErrCreateOrderHistoryFailed, w\<lparr>w_table := t\<rparr>)
      | (Inr row, t) \<Rightarrow>
          (case publishManualPositionClosed (ce_close_ok env) row (w_events w) of
             (False, evs) \<Rightarrow> (Inl PublishFailed, w\<lparr>w_table := t, w_events := evs\<rparr>)
           | (True, evs) \<Rightarrow>
               (case publishOrderNotificationEvent D (ce_notify_ok env) order row evs of
                  (False, evs') \<Rightarrow>
                    (Inl ErrPublishOrderNotificationFailed, w\<lparr>w_table := t, w_events := evs'\<rparr>)
                | (True, evs') \<Rightarrow> (Inr row, w\<lparr>w_table := t, w_events := evs'\<rparr>))))"

definition PlaceOrder ::
  "decimal_ops \<Rightarrow> (string \<Rightarrow> string) \<Rightarrow> 'x registry \<Rightarrow> call_env \<Rightarrow> order_request \<Rightarrow> 'x world
     \<Rightarrow> (engine_error + order_history) \<times> 'x world" where
  "PlaceOrder D ft reg env req w =
     (if ce_ctx_done env then (Inl ContextDone, w)
      else case prepare_order ft req of
        Inl e \<Rightarrow> (Inl e, w)
      | Inr order \<Rightarrow>
          (case reg (rq_exchange order) of
             None \<Rightarrow> (Inl ErrExchangeNotFound, w)
           | Some exchange \<Rightarrow>
               (case GetByRequestID (ce_find_ok env) (rq_request_id order) (w_table w) of
                  Inr existing \<Rightarrow>
                    (case publishManualPositionClosed (ce_close_ok env) existing (w_events w) of
                       (False, evs) \<Rightarrow> (Inl PublishFailed, w\<lparr>w_events := evs\<rparr>)
                     | (True, evs) \<Rightarrow> (Inl ErrDuplicateOrder, w\<lparr>w_events := evs\<rparr>))
                | Inl e \<Rightarrow>
                    if e \<noteq> ErrNoRows then (Inl ErrFailToGetOrderHistoryFailed, w)
                    else if rq_is_paper_trading order then
                      record_order D env order (buildPaperOrderHistory (ce_now env) order) w
                    else
                      (case xa_place exchange order (w_exchange w) of
                         (Inl m, x) \<Rightarrow> (Inl ErrPlaceOrderFailed, w\<lparr>w_exchange := x\<rparr>)
                       | (Inr h, x) \<Rightarrow>
                           record_order D env order (applyOrderMetadataToHistory h order)
                             (w\<lparr>w_exchange := x,
                                w_placed := w_placed w @ [rq_request_id order]\<rparr>)))))"

definition PlaceOrderAsync ::
  "(string \<Rightarrow> string) \<Rightarrow> bool \<Rightarrow> bool \<Rightarrow> order_request \<Rightarrow> event list \<Rightarrow> engine_error option \<times> event list" where
  "PlaceOrderAsync ft ctx_done publish_ok req evlog =
     (if ctx_done then (Some ContextDone, evlog)
      else case prepare_order ft req of
        Inl e \<Rightarrow> (Some e, evlog)
      | Inr order \<Rightarrow>
          (case PublishEvent publish_ok (PlaceOrderEvent order) evlog of
             (False, evlog') \<Rightarrow> (Some ErrPublishOrderEventFailed, evlog')
           | (True, evlog') \<Rightarrow> (None, evlog')))"

subsection \<open>The queue handler\<close>

definition request_tags :: "string list" where
  "request_tags = [''request_id'', ''user_id'', ''order_id'', ''entry_order_id'', ''exchange'',
     ''market_type'', ''position_side'', ''symbol'', ''type'', ''side'', ''price'', ''quantity'',
     ''requested_at'', ''expired_at'', ''source'', ''strategy_id'', ''strategy_name'', ''interval'',
     ''internal'', ''entry_price'', ''exit_price'', ''pnl_percentage'', ''trade_condition'',
     ''order_reason'', ''exit_type'', ''need_notification'', ''is_paper_trading'']"

definition as_decimal :: "decimal_ops \<Rightarrow> json \<Rightarrow> rat option" where
  "as_decimal D j = (case j of JStr s \<Rightarrow> d_parse D s | JNum s \<Rightarrow> d_parse D s | _ \<Rightarrow> None)"

definition order_request_of :: "decimal_ops \<Rightarrow> (string \<times> json) list \<Rightarrow> order_request option" where
  "order_request_of D ms = do {
     let str = fstr request_tags ms;
     let ptr = fptr as_string request_tags ms;
     request_id \<leftarrow> str ''request_id''; user_id \<leftarrow> str ''user_id''; order_id \<leftarrow> ptr ''order_id'';
     entry_order_id \<leftarrow> str ''entry_order_id''; exchange \<leftarrow> str ''exchange'';
     market_type \<leftarrow> str ''market_type''; position_side \<leftarrow> str ''position_side'';
     symbol \<leftarrow> str ''symbol''; typ \<leftarrow> str ''type''; side \<leftarrow> str ''side'';
     price \<leftarrow> field (as_decimal D) 0 request_tags ms ''price'';
     quantity \<leftarrow> field (as_decimal D) 0 request_tags ms ''quantity'';
     requested_at \<leftarrow> fint request_tags ms ''requested_at'';
     expired_at \<leftarrow> fptr as_int64 request_tags ms ''expired_at'';
     source \<leftarrow> str ''source''; strategy_id \<leftarrow> ptr ''strategy_id'';
     strategy_name \<leftarrow> str ''strategy_name''; interval \<leftarrow> str ''interval''; internal \<leftarrow> str ''internal'';
     entry_price \<leftarrow> str ''entry_price''; exit_price \<leftarrow> str ''exit_price'';
     pnl_percentage \<leftarrow> str ''pnl_percentage''; trade_condition \<leftarrow> str ''trade_condition'';
     order_reason \<leftarrow> str ''order_reason''; exit_type \<leftarrow> str ''exit_type'';
     need_notification \<leftarrow> fbool request_tags ms ''need_notification'';
     is_paper_trading \<leftarrow> fbool request_tags ms ''is_paper_trading'';
     Some \<lparr>rq_request_id = request_id, rq_user_id = user_id, rq_order_id = order_id,
       rq_entry_order_id = entry_order_id, rq_exchange = exchange, rq_market_type = market_type,
       rq_position_side = position_side, rq_symbol = symbol, rq_type = typ, rq_side = side,
       rq_price = price, rq_quantity = quantity, rq_requested_at = requested_at,
       rq_expired_at = expired_at, rq_source = source, rq_strategy_id = strategy_id,
       rq_strategy_name = strategy_name, rq_interval = interval, rq_internal = internal,
       rq_entry_price = entry_price, rq_exit_price = exit_price,
       rq_pnl_percentage = pnl_percentage, rq_trade_condition = trade_condition,
       rq_order_reason = order_reason, rq_exit_type = exit_type,
       rq_need_notification = need_notification, rq_is_paper_trading = is_paper_trading\<rparr>
   }"

text \<open>
  The body of a message: \<open>None\<close> when it does not decode, \<open>Some None\<close> when it is \<open>null\<close> and the
  decoded pointer stays \<open>nil\<close>. Several \<open>data\<close> members are stored into the same struct.
\<close>

definition decode_place_order :: "decimal_ops \<Rightarrow> string \<Rightarrow> order_request option option" where
  "decode_place_order D body =
     (case parse_json body of
        Some JNull \<Rightarrow> Some None
      | Some (JObj ms) \<Rightarrow>
          (case fobj [''data''] ms ''data'' of
             None \<Rightarrow> None
           | Some data \<Rightarrow> map_option Some (order_request_of D data))
      | _ \<Rightarrow> None)"

text \<open>\<open>now_unix\<close> is the clock of the expiry check, in seconds.\<close>

definition handle_request ::
  "decimal_ops \<Rightarrow> (string \<Rightarrow> string) \<Rightarrow> 'x registry \<Rightarrow> int \<Rightarrow> call_env \<Rightarrow> order_request \<Rightarrow> 'x world
     \<Rightarrow> engine_error option \<times> 'x world" where
  "handle_request D ft reg now_unix env req w =
     (if (case rq_expired_at req of None \<Rightarrow> False | Some t \<Rightarrow> t < now_unix)
      then (Some (OrderExpired (rq_exchange req) (rq_order_id req)), w)
      else case PlaceOrder D ft reg env req w of
        (Inr h, w') \<Rightarrow> (None, w')
      | (Inl e, w') \<Rightarrow>
          if e = ErrExchangeNotFound \<or> e = ErrCreateOrderHistoryFailed \<or> e = ErrDuplicateOrder
          then (None, w') else (Some e, w'))"

definition handlePlaceOrderEvent ::
  "decimal_ops \<Rightarrow> (string \<Rightarrow> string) \<Rightarrow> 'x registry \<Rightarrow> string \<Rightarrow> int \<times> call_env \<Rightarrow> 'x world
     \<Rightarrow> engine_error outcome \<times> 'x world" where
  "handlePlaceOrderEvent D ft reg body env w =
     (case decode_place_order D body of
        None \<Rightarrow> (Returned (Some DecodeFailed), w)
      | Some None \<Rightarrow> (Panicked, w)
      | Some (Some req) \<Rightarrow>
          (let (r, w') = handle_request D ft reg (fst env) (snd env) req w in (Returned r, w')))"

subsection \<open>Normalised requests\<close>

text \<open>What the exchanges may rely on after the normalisation.\<close>

definition order_wf :: "order_request \<Rightarrow> bool" where
  "order_wf o' =
     (norm_lower (rq_exchange o') = rq_exchange o'
      \<and> ((rq_market_type o' = MarketTypeSpot \<and> rq_side o' \<in> {OrderSideBuy, OrderSideSell}
           \<and> rq_position_side o' = PositionSideBoth)
         \<or> (rq_market_type o' = MarketTypeFutures \<and> rq_side o' \<in> {OrderSideLong, OrderSideShort}
           \<and> rq_position_side o' \<in> {PositionSideLong, PositionSideShort}))
      \<and> NormalizeTradeCondition (rq_trade_condition o') = rq_trade_condition o'
      \<and> trim_space (rq_order_reason o') = rq_order_reason o'
      \<and> (rq_exit_type o' \<in> {ExitTypeTakeProfit, ExitTypeStopLoss, ExitTypeTrailingStop}
         \<or> rq_exit_type o' = [] \<and> rq_trade_condition o' \<notin>
             {TradeConditionTakeProfit, TradeConditionStopLoss, TradeConditionTrailingStop})
      \<and> trim_space (rq_entry_order_id o') = rq_entry_order_id o' \<and> rq_entry_order_id o' \<noteq> [])"

text \<open>The fields the normalisation leaves alone.\<close>

definition same_order :: "order_request \<Rightarrow> order_request \<Rightarrow> bool" where
  "same_order r o' =
     (o' = r\<lparr>rq_exchange := rq_exchange o', rq_market_type := rq_market_type o',
        rq_position_side := rq_position_side o', rq_side := rq_side o',
        rq_trade_condition := rq_trade_condition o', rq_order_reason := rq_order_reason o',
        rq_exit_type := rq_exit_type o', rq_entry_order_id := rq_entry_order_id o'\<rparr>)"

lemma normalizeExitType_cases:
  "normalizeExitType raw tc \<in> {ExitTypeTakeProfit, ExitTypeStopLoss, ExitTypeTrailingStop}
   \<or> normalizeExitType raw tc = [] \<and> NormalizeTradeCondition tc \<notin>
        {TradeConditionTakeProfit, TradeConditionStopLoss, TradeConditionTrailingStop}"
  using NormalizeExitType_cases [of raw] by (auto simp: normalizeExitType_def Let_def)

lemma extract_trimmed: "trim_space (extractEntryOrderIDFromInternal ft raw) = extractEntryOrderIDFromInternal ft raw"
  by (auto simp: extractEntryOrderIDFromInternal_def Let_def split: option.splits json.splits)

lemma ensureEntryOrderID_Inr:
  assumes "ensureEntryOrderID ft r = Inr o'"
  shows "o' = r\<lparr>rq_entry_order_id := rq_entry_order_id o'\<rparr>
    \<and> trim_space (rq_entry_order_id o') = rq_entry_order_id o' \<and> rq_entry_order_id o' \<noteq> []"
  using assms by (auto simp: ensureEntryOrderID_def Let_def extract_trimmed split: if_splits)

lemma ensureEntryOrderID_fix:
  "trim_space (rq_entry_order_id r) = rq_entry_order_id r \<Longrightarrow> rq_entry_order_id r \<noteq> [] \<Longrightarrow>
     ensureEntryOrderID ft r = Inr r"
  by (simp add: ensureEntryOrderID_def Let_def)

lemma prepare_order_Inr:
  assumes "prepare_order ft r = Inr o'"
  shows "NormalizeOrderSideByMarket (rq_side r) (NormalizeMarketType (rq_market_type r)) \<noteq> []"
    "rq_exchange o' = norm_lower (rq_exchange r)"
    "rq_market_type o' = NormalizeMarketType (rq_market_type r)"
    "rq_side o' = NormalizeOrderSideByMarket (rq_side r) (NormalizeMarketType (rq_market_type r))"
    "rq_position_side o' = resolved_position_side (rq_market_type o') (rq_side o') (rq_position_side r)"
    "rq_trade_condition o' = NormalizeTradeCondition (rq_trade_condition r)"
    "rq_order_reason o' = trim_space (rq_order_reason r)"
    "rq_exit_type o' = normalizeExitType (rq_exit_type r) (rq_trade_condition o')"
    "trim_space (rq_entry_order_id o') = rq_entry_order_id o'" "rq_entry_order_id o' \<noteq> []"
    "same_order r o'"
proof -
  let ?mt = "NormalizeMarketType (rq_market_type r)"
  let ?s = "NormalizeOrderSideByMarket (rq_side r) ?mt"
  show side: "?s \<noteq> []" using assms by (auto simp: prepare_order_def Let_def)
  define r' where "r' = r\<lparr>rq_exchange := norm_lower (rq_exchange r), rq_market_type := ?mt,
      rq_side := ?s, rq_position_side := resolved_position_side ?mt ?s (rq_position_side r),
      rq_trade_condition := NormalizeTradeCondition (rq_trade_condition r),
      rq_order_reason := trim_space (rq_order_reason r),
      rq_exit_type := normalizeExitType (rq_exit_type r) (NormalizeTradeCondition (rq_trade_condition r))\<rparr>"
  have "ensureEntryOrderID ft r' = Inr o'"
    using assms side by (simp add: prepare_order_def Let_def r'_def norm_lower_def)
  then have o': "o' = r'\<lparr>rq_entry_order_id := rq_entry_order_id o'\<rparr>"
    and trimmed: "trim_space (rq_entry_order_id o') = rq_entry_order_id o'" "rq_entry_order_id o' \<noteq> []"
    by (auto dest: ensureEntryOrderID_Inr)
  obtain e where e: "o' = r'\<lparr>rq_entry_order_id := e\<rparr>" using o' by blast
  show "trim_space (rq_entry_order_id o') = rq_entry_order_id o'" "rq_entry_order_id o' \<noteq> []"
    by (fact trimmed)+
  show "rq_exchange o' = norm_lower (rq_exchange r)" "rq_market_type o' = ?mt" "rq_side o' = ?s"
    "rq_position_side o' = resolved_position_side (rq_market_type o') (rq_side o') (rq_position_side r)"
    "rq_trade_condition o' = NormalizeTradeCondition (rq_trade_condition r)"
    "rq_order_reason o' = trim_space (rq_order_reason r)"
    "rq_exit_type o' = normalizeExitType (rq_exit_type r) (rq_trade_condition o')" "same_order r o'"
    by (simp_all add: e r'_def same_order_def)
qed

lemma resolved_position_side_cases:
  "resolved_position_side MarketTypeSpot side raw = PositionSideBoth"
  "resolved_position_side MarketTypeFutures side raw \<in> {PositionSideLong, PositionSideShort}"
  using NormalizePositionSide_cases [of raw] by (auto simp: resolved_position_side_def Let_def)

lemma prepare_order_wf_aux:
  assumes "prepare_order ft r = Inr o'"
  shows "order_wf o'"
proof -
  note P = prepare_order_Inr [OF assms]
  have "rq_market_type o' = MarketTypeSpot \<and> rq_side o' \<in> {OrderSideBuy, OrderSideSell}
       \<and> rq_position_side o' = PositionSideBoth
     \<or> rq_market_type o' = MarketTypeFutures \<and> rq_side o' \<in> {OrderSideLong, OrderSideShort}
       \<and> rq_position_side o' \<in> {PositionSideLong, PositionSideShort}"
  proof (cases "NormalizeMarketType (rq_market_type r) = MarketTypeFutures")
    case True
    then show ?thesis
      using P(1) NormalizeOrderSideByMarket_futures [of MarketTypeFutures "rq_side r"]
        resolved_position_side_cases(2) [of "rq_side o'" "rq_position_side r"]
      unfolding P(3-5) True by auto
  next
    case False
    then have spot: "NormalizeMarketType (rq_market_type r) = MarketTypeSpot"
      using NormalizeMarketType_cases [of "rq_market_type r"] by simp
    then show ?thesis
      using P(1) NormalizeOrderSideByMarket_spot [of MarketTypeSpot "rq_side r"]
        resolved_position_side_cases(1) [of "rq_side o'" "rq_position_side r"]
      unfolding P(3-5) spot by auto
  qed
  moreover have "norm_lower (rq_exchange o') = rq_exchange o'" by (simp add: P(2))
  moreover have "NormalizeTradeCondition (rq_trade_condition o') = rq_trade_condition o'"
    by (simp add: P(6))
  moreover have "trim_space (rq_order_reason o') = rq_order_reason o'" by (simp add: P(7))
  moreover note normalizeExitType_cases [of "rq_exit_type r" "rq_trade_condition o'"]
  ultimately show ?thesis
    unfolding order_wf_def P(8) [symmetric] using P(9, 10) by (metis (no_types))
qed

lemma order_wf_market:
  "order_wf o' \<Longrightarrow>
     rq_market_type o' = MarketTypeSpot \<and> rq_side o' \<in> {OrderSideBuy, OrderSideSell}
       \<and> rq_position_side o' = PositionSideBoth
     \<or> rq_market_type o' = MarketTypeFutures \<and> rq_side o' \<in> {OrderSideLong, OrderSideShort}
       \<and> rq_position_side o' \<in> {PositionSideLong, PositionSideShort}"
  unfolding order_wf_def by (elim conjE)

lemma order_wf_exit:
  "order_wf o' \<Longrightarrow> rq_exit_type o' \<in> {ExitTypeTakeProfit, ExitTypeStopLoss, ExitTypeTrailingStop}
     \<or> rq_exit_type o' = [] \<and> rq_trade_condition o' \<notin>
         {TradeConditionTakeProfit, TradeConditionStopLoss, TradeConditionTrailingStop}"
  unfolding order_wf_def by (elim conjE)

lemma order_wf_side:
  assumes "order_wf o'"
  shows "NormalizeOrderSideByMarket (rq_side o') (rq_market_type o') = rq_side o' \<and> rq_side o' \<noteq> []"
  using order_wf_market [OF assms] by (auto simp: NormalizeOrderSideByMarket_def Let_def)

lemma prepare_order_fix:
  assumes wf: "order_wf o'"
  shows "prepare_order ft o' = Inr o'"
proof -
  have mt: "NormalizeMarketType (rq_market_type o') = rq_market_type o'"
    using order_wf_market [OF wf] by auto
  have pos: "resolved_position_side (rq_market_type o') (rq_side o') (rq_position_side o') = rq_position_side o'"
    using order_wf_market [OF wf] by (auto simp: resolved_position_side_def Let_def)
  have ex: "normalizeExitType (rq_exit_type o') (rq_trade_condition o') = rq_exit_type o'"
    using order_wf_exit [OF wf] wf by (auto simp: order_wf_def normalizeExitType_def Let_def)
  have rest: "to_lower (trim_space (rq_exchange o')) = rq_exchange o'"
    "NormalizeTradeCondition (rq_trade_condition o') = rq_trade_condition o'"
    "trim_space (rq_order_reason o') = rq_order_reason o'"
    "trim_space (rq_entry_order_id o') = rq_entry_order_id o'" "rq_entry_order_id o' \<noteq> []"
    using wf unfolding order_wf_def norm_lower_def by simp_all
  show ?thesis
    using order_wf_side [OF wf] rest
    by (simp add: prepare_order_def Let_def mt pos ex ensureEntryOrderID_fix)
qed

subsection \<open>What placing an order changes\<close>

lemma same_order_request: "same_order r o' \<Longrightarrow> rq_request_id o' = rq_request_id r"
  by (metis order_request.surjective order_request.update_convs order_request.select_convs(1) same_order_def)

lemma publishManualPositionClosed_prefix:
  "\<exists>l. snd (publishManualPositionClosed ok h evs) = evs @ l"
  by (auto simp: publishManualPositionClosed_def intro: PublishEvent_prefix)

lemma publishOrderNotificationEvent_prefix:
  "\<exists>l. snd (publishOrderNotificationEvent D ok order h evs) = evs @ l"
  by (auto simp: publishOrderNotificationEvent_def intro: PublishEvent_prefix)

lemma publishManualPositionClosed_done:
  "publishManualPositionClosed ok h evs = (True, evs') \<Longrightarrow> closes_position h \<Longrightarrow>
     evs' = evs @ [PositionClosedEvent (position_closed h)]"
  by (cases ok) (auto simp: publishManualPositionClosed_def)

lemma record_order_frame [frame_simps]:
  "w_exchange (snd (record_order D env order h w)) = w_exchange w"
  "w_placed (snd (record_order D env order h w)) = w_placed w"
  "w_table (snd (record_order D env order h w)) =
     snd (Create (ce_create_ok env) (ce_new_id env) h (w_table w))"
  by (auto simp: record_order_def split: prod.splits sum.splits bool.splits)

lemma record_order_created:
  "fst (record_order D env order h w) \<noteq> Inl ErrCreateOrderHistoryFailed \<Longrightarrow>
     is_ok (fst (Create (ce_create_ok env) (ce_new_id env) h (w_table w)))"
  by (auto simp: record_order_def is_ok_iff split: prod.splits sum.splits bool.splits)

lemma record_order_Inr:
  assumes "record_order D env order h w = (Inr row, w')"
  shows "row = h\<lparr>oh_id := ce_new_id env\<rparr>" "w_table w' = w_table w @ [row]"
    "closes_position row \<Longrightarrow> PositionClosedEvent (position_closed row) \<in> set (w_events w')"
    "rq_need_notification order \<Longrightarrow>
       NotificationEvent (order_notification_of D order row) \<in> set (w_events w')"
proof -
  obtain t where create: "Create (ce_create_ok env) (ce_new_id env) h (w_table w) = (Inr row, t)"
    using assms by (auto simp: record_order_def split: prod.splits sum.splits bool.splits)
  obtain evs where close: "publishManualPositionClosed (ce_close_ok env) row (w_events w) = (True, evs)"
    using assms create by (auto simp: record_order_def split: prod.splits bool.splits)
  obtain evs' where notify: "publishOrderNotificationEvent D (ce_notify_ok env) order row evs = (True, evs')"
    and w': "w' = w\<lparr>w_table := t, w_events := evs'\<rparr>"
    using assms create close by (auto simp: record_order_def split: prod.splits bool.splits)
  show "row = h\<lparr>oh_id := ce_new_id env\<rparr>" "w_table w' = w_table w @ [row]"
    using Create_success [of "ce_create_ok env" "ce_new_id env" h "w_table w" row] create w'
    by simp_all
  obtain l where l: "evs' = evs @ l"
    using publishOrderNotificationEvent_prefix [of D "ce_notify_ok env" order row evs] notify by auto
  show "PositionClosedEvent (position_closed row) \<in> set (w_events w')" if "closes_position row"
    using publishManualPositionClosed_done [OF close that] l w' by simp
  show "NotificationEvent (order_notification_of D order row) \<in> set (w_events w')"
    if "rq_need_notification order"
    using notify that w'
    by (cases "ce_notify_ok env") (auto simp: publishOrderNotificationEvent_def)
qed

lemma applyOrderMetadata_request [simp]:
  "oh_request_id (applyOrderMetadataToHistory h order) = oh_request_id h"
  by (simp add: applyOrderMetadataToHistory_def Let_def)

lemma buildPaperOrderHistory_request [simp]:
  "oh_request_id (buildPaperOrderHistory now order) = rq_request_id order"
  by (simp add: buildPaperOrderHistory_def)

text \<open>A request whose history is stored is answered from the table: no exchange is called.\<close>

lemma PlaceOrder_known:
  assumes "lookup_request_id (rq_request_id req) (w_table w) \<noteq> None"
  shows "\<exists>e evs. PlaceOrder D ft reg env req w = (Inl e, w\<lparr>w_events := evs\<rparr>)"
proof -
  obtain h where h: "find (\<lambda>h. oh_request_id h = rq_request_id req) (w_table w) = Some h"
    using assms by (auto simp: lookup_request_id_def)
  have self: "\<exists>evs. w = w\<lparr>w_events := evs\<rparr>" by (rule exI [of _ "w_events w"]) simp
  show ?thesis
  proof (cases "prepare_order ft req")
    case (Inl e)
    then show ?thesis using self by (auto simp: PlaceOrder_def)
  next
    case (Inr order)
    then have "rq_request_id order = rq_request_id req"
      by (intro same_order_request prepare_order_Inr(11))
    with Inr h self show ?thesis
      by (auto simp: PlaceOrder_def GetByRequestID_def split: option.splits prod.splits bool.splits)
  qed
qed

text \<open>The exchanges' side of the contract: the history of a placed order carries its request.\<close>

locale exchange_registry =
  fixes reg :: "'x registry"
  assumes place_request:
    "reg n = Some ex \<Longrightarrow> xa_place ex order x = (Inr h, x') \<Longrightarrow> oh_request_id h = rq_request_id order"
begin

text \<open>A call either places nothing, or places its own request, which was not stored before.\<close>

lemma PlaceOrder_effect:
  fixes r and w' :: "'x world"
  assumes call: "PlaceOrder D ft reg env req w = (r, w')"
  shows "(w_placed w' = w_placed w \<and>
            (w_table w' = w_table w \<or> (\<exists>h. w_table w' = snd (Create (ce_create_ok env) (ce_new_id env) h (w_table w)))))
       \<or> (w_placed w' = w_placed w @ [rq_request_id req] \<and>
          lookup_request_id (rq_request_id req) (w_table w) = None \<and>
          (\<exists>h. oh_request_id h = rq_request_id req
               \<and> w_table w' = snd (Create (ce_create_ok env) (ce_new_id env) h (w_table w))
               \<and> (is_ok (fst (Create (ce_create_ok env) (ce_new_id env) h (w_table w)))
                  \<or> r = Inl ErrCreateOrderHistoryFailed)))"
proof (cases "\<not> ce_ctx_done env \<and> (\<exists>order. prepare_order ft req = Inr order)")
  case False
  then have "w' = w" using call by (auto simp: PlaceOrder_def split: if_splits sum.splits)
  then show ?thesis by simp
next
  case True
  then obtain order where pre: "\<not> ce_ctx_done env" "prepare_order ft req = Inr order" by blast
  have rid: "rq_request_id order = rq_request_id req"
    by (rule same_order_request [OF prepare_order_Inr(11) [OF pre(2)]])
  show ?thesis
  proof (cases "\<exists>ex. reg (rq_exchange order) = Some ex \<and> ce_find_ok env
      \<and> lookup_request_id (rq_request_id req) (w_table w) = None")
    case False
    then have "\<exists>evs. w' = w\<lparr>w_events := evs\<rparr>"
      using call pre rid
      by (auto simp: PlaceOrder_def GetByRequestID_def lookup_request_id_def
          split: option.splits prod.splits bool.splits if_splits intro: exI [of _ "w_events w"])
    then show ?thesis by auto
  next
    case True
    then obtain ex where ex: "reg (rq_exchange order) = Some ex" and fresh: "ce_find_ok env"
      "lookup_request_id (rq_request_id req) (w_table w) = None" by blast
    have get: "GetByRequestID (ce_find_ok env) (rq_request_id order) (w_table w) = Inl ErrNoRows"
      using fresh rid by (simp add: GetByRequestID_lookup)
    show ?thesis
    proof (cases "rq_is_paper_trading order")
      case True
      then have "(r, w') = record_order D env order (buildPaperOrderHistory (ce_now env) order) w"
        using call pre ex get by (simp add: PlaceOrder_def)
      then have "w_placed w' = w_placed w \<and> w_table w' = snd (Create (ce_create_ok env) (ce_new_id env)
          (buildPaperOrderHistory (ce_now env) order) (w_table w))"
        by (metis record_order_frame(2,3) snd_conv)
      then show ?thesis by blast
    next
      case False
      obtain p x where place: "xa_place ex order (w_exchange w) = (p, x)" by (cases "xa_place ex order (w_exchange w)")
      show ?thesis
      proof (cases p)
        case (Inl m)
        then show ?thesis using call pre ex get False place by (simp add: PlaceOrder_def) auto
      next
        case (Inr h)
        let ?h = "applyOrderMetadataToHistory h order"
        let ?w = "w\<lparr>w_exchange := x, w_placed := w_placed w @ [rq_request_id order]\<rparr>"
        have rec: "(r, w') = record_order D env order ?h ?w"
          using call pre ex get False place Inr by (simp add: PlaceOrder_def)
        then have "w_placed w' = w_placed w @ [rq_request_id req]"
          "w_table w' = snd (Create (ce_create_ok env) (ce_new_id env) ?h (w_table w))"
          using record_order_frame(2,3) [of D env order ?h ?w] rid by (metis snd_conv world.select_convs
              world.update_convs world.surjective)+
        moreover have "is_ok (fst (Create (ce_create_ok env) (ce_new_id env) ?h (w_table w)))
            \<or> r = Inl ErrCreateOrderHistoryFailed"
          using record_order_created [of D env order ?h ?w] rec by (metis fst_conv world.select_convs(1)
              world.update_convs(3,4) world.surjective)
        moreover have "oh_request_id ?h = rq_request_id req"
          using place_request [OF ex, of order "w_exchange w"] place Inr rid by simp
        ultimately show ?thesis using fresh by blast
      qed
    qed
  qed
qed

end

text \<open>What the queue handler does is \<open>PlaceOrder\<close> or nothing.\<close>

lemma handle_request_cases:
  "handle_request D ft reg now_unix env req w = (Some (OrderExpired (rq_exchange req) (rq_order_id req)), w)
   \<or> (\<exists>r w'. PlaceOrder D ft reg env req w = (r, w')
        \<and> snd (handle_request D ft reg now_unix env req w) = w'
        \<and> (r = Inl ErrCreateOrderHistoryFailed \<longrightarrow> fst (handle_request D ft reg now_unix env req w) = None)
        \<and> (is_ok r \<longrightarrow> fst (handle_request D ft reg now_unix env req w) = None))"
  by (cases "PlaceOrder D ft reg env req w")
     (auto simp: handle_request_def is_ok_iff split: sum.splits option.splits)

lemma handlePlaceOrderEvent_cases:
  "snd (handlePlaceOrderEvent D ft reg body env w) = w
   \<or> (\<exists>req r. decode_place_order D body = Some (Some req)
        \<and> PlaceOrder D ft reg (snd env) req w = (r, snd (handlePlaceOrderEvent D ft reg body env w))
        \<and> (r = Inl ErrCreateOrderHistoryFailed \<longrightarrow>
             fst (handlePlaceOrderEvent D ft reg body env w) = Returned None))"
proof (cases "decode_place_order D body")
  case None
  then show ?thesis by (simp add: handlePlaceOrderEvent_def)
next
  case (Some d)
  show ?thesis
  proof (cases d)
    case None
    with Some show ?thesis by (simp add: handlePlaceOrderEvent_def)
  next
    case (Some req)
    with \<open>decode_place_order D body = Some d\<close>
      handle_request_cases [of D ft reg "fst env" "snd env" req w]
    show ?thesis
      by (auto simp: handlePlaceOrderEvent_def split: prod.splits)
  qed
qed

lemma lookup_Create:
  "lookup_request_id r t \<noteq> None \<Longrightarrow> lookup_request_id r (snd (Create ok i h t)) \<noteq> None"
  using order_store.known_add [of r t "(ok, i)" h] by (simp add: order_store.known_def)

lemma lookup_Created:
  "is_ok (fst (Create ok i h t)) \<Longrightarrow> lookup_request_id (oh_request_id h) (snd (Create ok i h t)) \<noteq> None"
  using order_store.known_added [of "(ok, i)" h t] by (simp add: order_store.known_def)

context exchange_registry
begin

lemma handler_effect:
  fixes D ft body env and w :: "'x world"
  defines "after \<equiv> snd (handlePlaceOrderEvent D ft reg body env w)"
  shows "(lookup_request_id rid (w_table w) \<noteq> None \<longrightarrow>
            lookup_request_id rid (w_table after) \<noteq> None
            \<and> count_list (w_placed after) rid = count_list (w_placed w) rid)
     \<and> count_list (w_placed w) rid \<le> count_list (w_placed after) rid
     \<and> count_list (w_placed after) rid \<le> Suc (count_list (w_placed w) rid)
     \<and> (count_list (w_placed w) rid < count_list (w_placed after) rid \<longrightarrow>
          lookup_request_id rid (w_table after) \<noteq> None
          \<or> fst (handlePlaceOrderEvent D ft reg body env w) = Returned None)"
proof (cases "after = w")
  case True
  then show ?thesis by simp
next
  case False
  then obtain req r where call: "PlaceOrder D ft reg (snd env) req w = (r, after)"
    and ack: "r = Inl ErrCreateOrderHistoryFailed \<longrightarrow>
      fst (handlePlaceOrderEvent D ft reg body env w) = Returned None"
    using handlePlaceOrderEvent_cases [of D ft reg body env w] by (auto simp: after_def)
  from PlaceOrder_effect [OF call] show ?thesis
  proof
    assume "w_placed after = w_placed w \<and> (w_table after = w_table w \<or>
      (\<exists>h. w_table after = snd (Create (ce_create_ok (snd env)) (ce_new_id (snd env)) h (w_table w))))"
    then show ?thesis using lookup_Create by fastforce
  next
    assume "w_placed after = w_placed w @ [rq_request_id req] \<and>
      lookup_request_id (rq_request_id req) (w_table w) = None \<and>
      (\<exists>h. oh_request_id h = rq_request_id req
         \<and> w_table after = snd (Create (ce_create_ok (snd env)) (ce_new_id (snd env)) h (w_table w))
         \<and> (is_ok (fst (Create (ce_create_ok (snd env)) (ce_new_id (snd env)) h (w_table w)))
            \<or> r = Inl ErrCreateOrderHistoryFailed))"
    then obtain h where placed: "w_placed after = w_placed w @ [rq_request_id req]"
      and fresh: "lookup_request_id (rq_request_id req) (w_table w) = None"
      and h: "oh_request_id h = rq_request_id req"
        "w_table after = snd (Create (ce_create_ok (snd env)) (ce_new_id (snd env)) h (w_table w))"
        "is_ok (fst (Create (ce_create_ok (snd env)) (ce_new_id (snd env)) h (w_table w)))
          \<or> r = Inl ErrCreateOrderHistoryFailed" by blast
    have stays: "lookup_request_id rid (w_table w) \<noteq> None \<Longrightarrow>
        lookup_request_id rid (w_table after) \<noteq> None"
      unfolding h(2) by (rule lookup_Create)
    show ?thesis
    proof (cases "rid = rq_request_id req")
      case True
      then show ?thesis
        using fresh placed h(3) ack lookup_Created [of "ce_create_ok (snd env)" "ce_new_id (snd env)" h "w_table w"]
        unfolding h(2) h(1) by auto
    next
      case False
      then show ?thesis using stays placed by simp
    qed
  qed
qed

end

sublocale exchange_registry \<subseteq> handler: once_handler
    "handlePlaceOrderEvent D ft reg body" "\<lambda>w. count_list (w_placed w) rid"
    "\<lambda>w. lookup_request_id rid (w_table w) \<noteq> None"
    for D ft body rid
  by unfold_locales (use handler_effect [where D = D and ft = ft and body = body and rid = rid] in metis)+

end
