(* ===== verification/OrderSync.thy ===== *)
theory OrderSync
  imports OrderEngine
begin

text \<open>
  The periodic synchronisation of pending orders
  (\<open>internal/service/orderengine/order_history_sync.service.go\<close>): one pass of
  \<open>SyncPendingOrderHistories\<close> over the rows whose status is \<open>NEW\<close> or \<open>PARTIAL\<close>, and \<open>Run\<close> as a
  sequence of passes. The environment of a pass gives, for every row it visits, whether the
  context is over, the clock, and whether the broker and the database answer.
\<close>

definition pendingOrderHistoryStatuses :: "string list" where
  "pendingOrderHistoryStatuses = [''NEW'', ''PARTIAL'']"

definition defaultOrderHistorySyncInterval :: duration where
  "defaultOrderHistorySyncInterval = 30 * second"

definition sync_interval :: "duration \<Rightarrow> duration" where
  "sync_interval d = (if d \<le> 0 then defaultOrderHistorySyncInterval else d)"

record sync_env =
  se_ctx_done :: bool
  se_now :: gotime
  se_close_ok :: bool
  se_update_ok :: bool

definition completed_history :: "gotime \<Rightarrow> order_history \<Rightarrow> order_history \<Rightarrow> order_history" where
  "completed_history now history updated =
     (let u = (if oh_id updated = [] then updated\<lparr>oh_id := oh_id history\<rparr> else updated);
          u = (if oh_request_id u = [] then u\<lparr>oh_request_id := oh_request_id history\<rparr> else u)
      in if oh_updated_at u = zero_time then u\<lparr>oh_updated_at := now\<rparr> else u)"

text \<open>The body of the loop for one row.\<close>

definition sync_history :: "'x registry \<Rightarrow> sync_env \<Rightarrow> order_history \<Rightarrow> 'x world \<Rightarrow> 'x world" where
  "sync_history reg env history w =
     (case reg (oh_exchange history) of
        None \<Rightarrow> w
      | Some exchange \<Rightarrow>
          (case xa_sync exchange history (w_exchange w) of
             (Inl e, x) \<Rightarrow> w\<lparr>w_exchange := x\<rparr>
           | (Inr None, x) \<Rightarrow> w\<lparr>w_exchange := x\<rparr>
           | (Inr (Some updated), x) \<Rightarrow>
               (let u = completed_history (se_now env) history updated
                in case publishManualPositionClosed (se_close_ok env) u (w_events w) of
                     (False, evs) \<Rightarrow> w\<lparr>w_exchange := x, w_events := evs\<rparr>
                   | (True, evs) \<Rightarrow>
                       w\<lparr>w_exchange := x, w_events := evs,
                         w_table := snd (Update (se_update_ok env) u (w_table w))\<rparr>)))"

fun sync_loop :: "'x registry \<Rightarrow> (nat \<Rightarrow> sync_env) \<Rightarrow> nat \<Rightarrow> order_history list \<Rightarrow> 'x world \<Rightarrow> 'x world" where
  "sync_loop reg env i [] w = w"
| "sync_loop reg env i (history # rest) w =
     (if se_ctx_done (env i) then w
      else sync_loop reg env (Suc i) rest (sync_history reg (env i) history w))"

definition SyncPendingOrderHistories ::
  "'x registry \<Rightarrow> bool \<Rightarrow> bool \<Rightarrow> (nat \<Rightarrow> sync_env) \<Rightarrow> 'x world \<Rightarrow> 'x world" where
  "SyncPendingOrderHistories reg ctx_done find_ok env w =
     (if ctx_done then w
      else case GetByStatus find_ok pendingOrderHistoryStatuses (w_table w) of
        Inl e \<Rightarrow> w
      | Inr histories \<Rightarrow> sync_loop reg env 0 histories w)"

text \<open>\<open>Run\<close> makes a pass at once and one at every tick until its context is over.\<close>

definition Run_passes ::
  "'x registry \<Rightarrow> (bool \<times> bool \<times> (nat \<Rightarrow> sync_env)) list \<Rightarrow> 'x world \<Rightarrow> 'x world" where
  "Run_passes reg passes w =
     foldl (\<lambda>w (ctx_done, find_ok, env). SyncPendingOrderHistories reg ctx_done find_ok env w) w passes"

subsection \<open>What a pass changes\<close>

definition pending :: "order_history \<Rightarrow> bool" where
  "pending h = (oh_status h \<in> set pendingOrderHistoryStatuses)"

lemma completed_history_sel [simp]:
  "oh_id updated = oh_id h \<Longrightarrow> oh_id (completed_history now h updated) = oh_id h"
  "oh_request_id updated = oh_request_id h \<Longrightarrow>
     oh_request_id (completed_history now h updated) = oh_request_id h"
  "oh_status (completed_history now h updated) = oh_status updated"
  "oh_order_reason (completed_history now h updated) = oh_order_reason updated"
  by (simp_all add: completed_history_def Let_def)

lemma sync_history_placed [frame_simps]: "w_placed (sync_history reg env h w) = w_placed w"
  by (auto simp: sync_history_def Let_def split: option.splits prod.splits sum.splits bool.splits)

lemma sync_loop_placed [frame_simps]: "w_placed (sync_loop reg env i hs w) = w_placed w"
  by (induction reg env i hs w rule: sync_loop.induct) (simp_all add: sync_history_placed)

lemma SyncPending_placed [frame_simps]:
  "w_placed (SyncPendingOrderHistories reg c f env w) = w_placed w"
  by (simp add: SyncPendingOrderHistories_def sync_loop_placed split: sum.splits)

lemma sync_history_table:
  "w_table (sync_history reg env h w) = w_table w
   \<or> (\<exists>ex u x. reg (oh_exchange h) = Some ex \<and> xa_sync ex h (w_exchange w) = (Inr (Some u), x)
        \<and> (closes_position (completed_history (se_now env) h u) \<longrightarrow>
             PositionClosedEvent (position_closed (completed_history (se_now env) h u))
               \<in> set (w_events (sync_history reg env h w)))
        \<and> w_table (sync_history reg env h w) =
             snd (Update (se_update_ok env) (completed_history (se_now env) h u) (w_table w)))"
  by (auto simp: sync_history_def Let_def dest: publishManualPositionClosed_done
      split: option.splits prod.splits sum.splits bool.splits)

lemma sync_history_cases:
  obtains (same) "w_table (sync_history reg env h w) = w_table w"
  | (updated) ex u x where "reg (oh_exchange h) = Some ex"
      "xa_sync ex h (w_exchange w) = (Inr (Some u), x)"
      "closes_position (completed_history (se_now env) h u) \<longrightarrow>
         PositionClosedEvent (position_closed (completed_history (se_now env) h u))
           \<in> set (w_events (sync_history reg env h w))"
      "w_table (sync_history reg env h w) =
         snd (Update (se_update_ok env) (completed_history (se_now env) h u) (w_table w))"
  using sync_history_table [of reg env h w] by blast

lemma sync_history_table_ok:
  "table_ok (w_table w) \<Longrightarrow> table_ok (w_table (sync_history reg env h w))"
  using sync_history_table [of reg env h w] by (auto simp: table_ok_Update)

lemma sync_history_ids:
  "map oh_id (w_table (sync_history reg env h w)) = map oh_id (w_table w)"
  "map oh_created_at (w_table (sync_history reg env h w)) = map oh_created_at (w_table w)"
  using sync_history_table [of reg env h w] by auto

lemma sync_loop_ids:
  "map oh_id (w_table (sync_loop reg env i hs w)) = map oh_id (w_table w)
   \<and> map oh_created_at (w_table (sync_loop reg env i hs w)) = map oh_created_at (w_table w)"
  by (induction reg env i hs w rule: sync_loop.induct) (simp_all add: sync_history_ids)

lemma same_request_map:
  "same_request h t \<longleftrightarrow> (\<forall>p\<in>set (map (\<lambda>r. (oh_id r, oh_request_id r)) t).
      fst p = oh_id h \<longrightarrow> snd p = oh_request_id h)"
  by (auto simp: same_request_def)

lemma lookup_request_map:
  "lookup_request_id r t \<noteq> None \<longleftrightarrow> r \<in> snd ` set (map (\<lambda>r. (oh_id r, oh_request_id r)) t)"
  by (auto simp: lookup_request_id_def find_None_iff image_image)

text \<open>
  The laws of an exchange's \<open>SyncOrderHistory\<close>: it returns the row it was given, with the same
  identity.
\<close>

locale sync_registry = exchange_registry reg for reg :: "'x registry" +
  assumes sync_same:
    "reg n = Some ex \<Longrightarrow> xa_sync ex h x = (Inr (Some u), x') \<Longrightarrow>
       oh_id u = oh_id h \<and> oh_request_id u = oh_request_id h"
begin

text \<open>Only the row with the id of the synchronised history can change.\<close>

lemma sync_history_others:
  assumes "row \<in> set (w_table w)" "oh_id row \<noteq> oh_id h"
  shows "row \<in> set (w_table (sync_history reg env h w))"
proof (cases rule: sync_history_cases [of reg env h w])
  case same
  then show ?thesis using assms by simp
next
  case (updated ex u x)
  then have "oh_id (completed_history (se_now env) h u) = oh_id h" using sync_same by simp
  then show ?thesis
    unfolding updated(4) using assms
      Update_rows [of "se_update_ok env" "completed_history (se_now env) h u" "w_table w"] by force
qed

lemma sync_loop_others:
  "row \<in> set (w_table w) \<Longrightarrow> oh_id row \<notin> oh_id ` set hs \<Longrightarrow>
     row \<in> set (w_table (sync_loop reg env i hs w))"
  by (induction hs arbitrary: i w) (auto intro: sync_history_others)

text \<open>A row that is not pending is never touched: filled, cancelled and rejected orders are final.\<close>

lemma SyncPending_final:
  assumes "table_ok (w_table w)" "row \<in> set (w_table w)" "\<not> pending row"
  shows "row \<in> set (w_table (SyncPendingOrderHistories reg c f env w))"
proof (cases "c \<or> \<not> f")
  case True
  then show ?thesis
    using assms by (auto simp: SyncPendingOrderHistories_def GetByStatus_def pendingOrderHistoryStatuses_def)
next
  case False
  let ?hs = "sort_key (\<lambda>h. - oh_created_at h) (filter pending (w_table w))"
  have run: "SyncPendingOrderHistories reg c f env w = sync_loop reg env 0 ?hs w"
    using False by (simp add: SyncPendingOrderHistories_def GetByStatus_def pendingOrderHistoryStatuses_def
        pending_def [abs_def])
  have "oh_id row \<notin> oh_id ` set ?hs"
  proof
    assume "oh_id row \<in> oh_id ` set ?hs"
    then obtain h where "h \<in> set (w_table w)" "pending h" "oh_id h = oh_id row" by auto
    then have "h = row"
      using assms(1,2) by (auto simp: table_ok_def distinct_map dest: inj_onD)
    with \<open>pending h\<close> assms(3) show False by simp
  qed
  with assms(2) show ?thesis unfolding run by (rule sync_loop_others)
qed

text \<open>No pass changes which request a row belongs to, so no request is ever forgotten.\<close>

lemma sync_history_requests:
  assumes orig: "same_request h (w_table w)"
  shows "map (\<lambda>r. (oh_id r, oh_request_id r)) (w_table (sync_history reg env h w)) =
     map (\<lambda>r. (oh_id r, oh_request_id r)) (w_table w)"
proof (cases rule: sync_history_cases [of reg env h w])
  case same
  then show ?thesis by simp
next
  case (updated ex u x)
  then have "oh_id (completed_history (se_now env) h u) = oh_id h"
    "oh_request_id (completed_history (se_now env) h u) = oh_request_id h" using sync_same by simp_all
  then show ?thesis
    unfolding updated(4) using orig
      Update_rows [of "se_update_ok env" "completed_history (se_now env) h u" "w_table w"]
    by (auto simp: same_request_def)
qed

lemma sync_loop_requests:
  "\<forall>h\<in>set hs. same_request h (w_table w) \<Longrightarrow>
     map (\<lambda>r. (oh_id r, oh_request_id r)) (w_table (sync_loop reg env i hs w)) =
     map (\<lambda>r. (oh_id r, oh_request_id r)) (w_table w)"
proof (induction hs arbitrary: i w)
  case Nil
  then show ?case by simp
next
  case (Cons h hs)
  let ?w = "sync_history reg (env i) h w"
  have eq: "map (\<lambda>r. (oh_id r, oh_request_id r)) (w_table ?w) = map (\<lambda>r. (oh_id r, oh_request_id r)) (w_table w)"
    using Cons.prems by (intro sync_history_requests) simp
  have "same_request g (w_table ?w) = same_request g (w_table w)" for g
    unfolding same_request_map using arg_cong [OF eq, of set] by simp
  then show ?case using Cons eq by simp
qed

lemma SyncPending_requests:
  assumes "table_ok (w_table w)"
  shows "map (\<lambda>r. (oh_id r, oh_request_id r)) (w_table (SyncPendingOrderHistories reg c f env w)) =
     map (\<lambda>r. (oh_id r, oh_request_id r)) (w_table w)"
proof -
  have "same_request h (w_table w)" if "h \<in> set (w_table w)" for h
    using assms that by (auto simp: same_request_def table_ok_def distinct_map dest: inj_onD)
  then show ?thesis
    by (auto simp: SyncPendingOrderHistories_def GetByStatus_def split: sum.splits if_splits
        intro: sync_loop_requests)
qed

end

end
