(* ===== verification/EngineRun.thy ===== *)
theory EngineRun
  imports OrderSync
begin

text \<open>
  The order engine as a state machine: the world changes by calls of \<open>PlaceOrder\<close>, by deliveries
  of the queue, by \<open>PlaceOrderAsync\<close>, by passes of the synchronisation, and by whatever happens on
  the exchanges themselves. Calls are steps of their own, so what is shown holds for calls that do
  not overlap. The abstract specification of the engine is a ledger of request ids.
\<close>

subsection \<open>The outcomes of a placement\<close>

lemma PlaceOrder_cases:
  fixes w w' :: "'x world"
  assumes call: "PlaceOrder D ft reg env req w = (r, w')"
  obtains (refused) e x evs where "r = Inl e" "w' = w\<lparr>w_exchange := x, w_events := evs\<rparr>"
      "rq_is_paper_trading req \<Longrightarrow> x = w_exchange w"
  | (paper) order where "prepare_order ft req = Inr order" "rq_is_paper_trading order"
      "lookup_request_id (rq_request_id req) (w_table w) = None"
      "(r, w') = record_order D env order (buildPaperOrderHistory (ce_now env) order) w"
  | (live) order ex h x where "prepare_order ft req = Inr order" "\<not> rq_is_paper_trading order"
      "reg (rq_exchange order) = Some ex" "xa_place ex order (w_exchange w) = (Inr h, x)"
      "lookup_request_id (rq_request_id req) (w_table w) = None"
      "(r, w') = record_order D env order (applyOrderMetadataToHistory h order)
         (w\<lparr>w_exchange := x, w_placed := w_placed w @ [rq_request_id req]\<rparr>)"
proof (cases "\<not> ce_ctx_done env \<and> (\<exists>order. prepare_order ft req = Inr order)")
  case False
  then have "w' = w\<lparr>w_exchange := w_exchange w, w_events := w_events w\<rparr> \<and> (\<exists>e. r = Inl e)"
    using call by (auto simp: PlaceOrder_def split: if_splits sum.splits)
  then show ?thesis using refused by blast
next
  case True
  then obtain order where pre: "\<not> ce_ctx_done env" "prepare_order ft req = Inr order" by blast
  have same: "same_order req order" by (rule prepare_order_Inr(11) [OF pre(2)])
  then have rid: "rq_request_id order = rq_request_id req" by (rule same_order_request)
  have paper_flag: "rq_is_paper_trading order = rq_is_paper_trading req"
    using same unfolding same_order_def by (cases order; cases req) simp
  show ?thesis
  proof (cases "\<exists>ex. reg (rq_exchange order) = Some ex \<and> ce_find_ok env
      \<and> lookup_request_id (rq_request_id req) (w_table w) = None")
    case False
    then have "\<exists>e evs. r = Inl e \<and> w' = w\<lparr>w_exchange := w_exchange w, w_events := evs\<rparr>"
      using call pre rid
      by (auto simp: PlaceOrder_def GetByRequestID_def lookup_request_id_def
          split: option.splits prod.splits bool.splits if_splits intro: exI [of _ "w_events w"])
    then show ?thesis using refused by blast
  next
    case True
    then obtain ex where ex: "reg (rq_exchange order) = Some ex" and fresh: "ce_find_ok env"
      "lookup_request_id (rq_request_id req) (w_table w) = None" by blast
    have get: "GetByRequestID (ce_find_ok env) (rq_request_id order) (w_table w) = Inl ErrNoRows"
      using fresh rid by (simp add: GetByRequestID_lookup)
    show ?thesis
    proof (cases "rq_is_paper_trading order")
      case True
      then have "(r, w') = record_order D env order (buildPaperOrderHistory (ce_now env) order) w"
        using call pre ex get by (simp add: PlaceOrder_def)
      then show ?thesis by (rule paper [OF pre(2) True fresh(2)])
    next
      case False
      obtain p x where place: "xa_place ex order (w_exchange w) = (p, x)"
        by (cases "xa_place ex order (w_exchange w)")
      show ?thesis
      proof (cases p)
        case (Inl m)
        then have "r = Inl ErrPlaceOrderFailed" "w' = w\<lparr>w_exchange := x, w_events := w_events w\<rparr>"
          using call pre ex get False place by (cases w; simp add: PlaceOrder_def; fastforce)+
        then show ?thesis using refused False paper_flag by blast
      next
        case (Inr h)
        have "(r, w') = record_order D env order (applyOrderMetadataToHistory h order)
            (w\<lparr>w_exchange := x, w_placed := w_placed w @ [rq_request_id req]\<rparr>)"
          using call pre ex get False place Inr rid by (simp add: PlaceOrder_def)
        then show ?thesis
          using place Inr by (intro live [OF pre(2) False ex _ fresh(2)]) simp_all
      qed
    qed
  qed
qed

lemma record_order_step:
  assumes "(r, w') = record_order D env order h w"
  shows "w_exchange w' = w_exchange w" "w_placed w' = w_placed w"
    "w_table w' = snd (Create (ce_create_ok env) (ce_new_id env) h (w_table w))"
  using record_order_frame [of D env order h w] assms by (metis snd_conv)+

subsection \<open>The laws of a live exchange\<close>

locale live_registry = sync_registry reg for reg :: "'x registry" +
  assumes place_live:
    "reg n = Some ex \<Longrightarrow> xa_place ex order x = (Inr h, x') \<Longrightarrow> \<not> oh_is_paper_trading h"
    and sync_live:
    "reg n = Some ex \<Longrightarrow> xa_sync ex h x = (Inr (Some u), x') \<Longrightarrow>
       oh_is_paper_trading u = oh_is_paper_trading h"

lemma applyOrderMetadata_paper [simp]:
  "oh_is_paper_trading (applyOrderMetadataToHistory h order) = oh_is_paper_trading h"
  by (simp add: applyOrderMetadataToHistory_def Let_def)

lemma completed_history_paper [simp]:
  "oh_is_paper_trading (completed_history now h u) = oh_is_paper_trading u"
  by (simp add: completed_history_def Let_def)

text \<open>What identifies a row and its kind; a pass of the synchronisation keeps it.\<close>

definition row_tag :: "order_history \<Rightarrow> string \<times> string \<times> bool" where
  "row_tag h = (oh_id h, oh_request_id h, oh_is_paper_trading h)"

subsection \<open>Runs\<close>

inductive engine_step :: "'x registry \<Rightarrow> 'x world \<Rightarrow> 'x world \<Rightarrow> bool" for reg where
  call: "PlaceOrder D ft reg env req w = (r, w') \<Longrightarrow> engine_step reg w w'"
| deliver: "handlePlaceOrderEvent D ft reg body env w = (r, w') \<Longrightarrow> engine_step reg w w'"
| async: "PlaceOrderAsync ft ctx_done publish_ok req (w_events w) = (r, evs) \<Longrightarrow>
    engine_step reg w (w\<lparr>w_events := evs\<rparr>)"
| sync: "engine_step reg w (SyncPendingOrderHistories reg ctx_done find_ok senv w)"
| market: "engine_step reg w (w\<lparr>w_exchange := x\<rparr>)"

inductive_cases engine_stepE [elim]: "engine_step reg w w'"

inductive engine_reachable :: "'x registry \<Rightarrow> 'x world \<Rightarrow> bool" for reg where
  start: "w_table w = [] \<Longrightarrow> engine_reachable reg w"
| step: "engine_reachable reg w \<Longrightarrow> engine_step reg w w' \<Longrightarrow> engine_reachable reg w'"

text \<open>
  The invariant: the table's constraints, one row per request, and no live row without a placement
  of its request on an exchange.
\<close>

definition engine_inv :: "'x world \<Rightarrow> bool" where
  "engine_inv w \<longleftrightarrow> table_ok (w_table w) \<and> distinct (map oh_request_id (w_table w))
     \<and> (\<forall>row\<in>set (w_table w). \<not> oh_is_paper_trading row \<longrightarrow> oh_request_id row \<in> set (w_placed w))"

lemma engine_inv_tags:
  assumes "engine_inv w" "table_ok (w_table w')" "map row_tag (w_table w') = map row_tag (w_table w)"
    "w_placed w' = w_placed w"
  shows "engine_inv w'"
proof -
  have "map (fst \<circ> snd) (map row_tag (w_table w')) = map (fst \<circ> snd) (map row_tag (w_table w))"
    using assms(3) by (rule arg_cong)
  then have requests: "map oh_request_id (w_table w') = map oh_request_id (w_table w)"
    by (simp add: row_tag_def comp_def)
  have "row_tag ` set (w_table w') = row_tag ` set (w_table w)"
    using assms(3) by (metis set_map)
  then have "\<exists>row0\<in>set (w_table w). row_tag row0 = row_tag row" if "row \<in> set (w_table w')" for row
    using that by (metis imageE imageI)
  then show ?thesis
    using assms requests unfolding engine_inv_def by (fastforce simp: row_tag_def)
qed

lemma engine_inv_Create:
  assumes "engine_inv w" "lookup_request_id (oh_request_id h) (w_table w) = None"
    and "w_table w' = snd (Create ok i h (w_table w))"
    and "set (w_placed w) \<subseteq> set (w_placed w')"
    and "\<not> oh_is_paper_trading h \<Longrightarrow> oh_request_id h \<in> set (w_placed w')"
  shows "engine_inv w'"
proof -
  have fresh: "oh_request_id h \<notin> oh_request_id ` set (w_table w)"
    using assms(2) by (auto simp: lookup_request_id_def find_None_iff)
  show ?thesis
  proof (cases "fst (Create ok i h (w_table w))")
    case (Inl e)
    then have "w_table w' = w_table w" using assms(3) by (simp add: store_simps)
    then show ?thesis using assms(1,4) by (auto simp: engine_inv_def)
  next
    case (Inr row)
    then have row: "row = h\<lparr>oh_id := i\<rparr>" "w_table w' = w_table w @ [row]"
      using Create_success assms(3) by auto
    moreover have "table_ok (w_table w')"
      using assms(1,3) by (simp add: engine_inv_def table_ok_Create)
    ultimately show ?thesis using assms(1,4,5) fresh by (auto simp: engine_inv_def)
  qed
qed

context live_registry
begin

lemma sync_history_tags:
  assumes orig: "\<forall>row\<in>set (w_table w). oh_id row = oh_id h \<longrightarrow> row_tag row = row_tag h"
  shows "map row_tag (w_table (sync_history reg env h w)) = map row_tag (w_table w)"
proof (cases rule: sync_history_cases [of reg env h w])
  case same
  then show ?thesis by simp
next
  case (updated ex u x)
  let ?u = "completed_history (se_now env) h u"
  have u: "row_tag ?u = row_tag h"
    using sync_same [OF updated(1,2)] sync_live [OF updated(1,2)] by (simp add: row_tag_def)
  then have "row_tag (updated_row ?u row) = row_tag row" if "row \<in> set (w_table w)" "oh_id row = oh_id ?u" for row
    using that orig by (auto simp: row_tag_def updated_row_def)
  then show ?thesis
    unfolding updated(4) using Update_rows [of "se_update_ok env" ?u "w_table w"] by auto
qed

lemma sync_loop_tags:
  "\<forall>h\<in>set hs. \<forall>row\<in>set (w_table w). oh_id row = oh_id h \<longrightarrow> row_tag row = row_tag h \<Longrightarrow>
     map row_tag (w_table (sync_loop reg env i hs w)) = map row_tag (w_table w)"
proof (induction hs arbitrary: i w)
  case Nil
  then show ?case by simp
next
  case (Cons h hs)
  let ?w = "sync_history reg (env i) h w"
  have eq: "map row_tag (w_table ?w) = map row_tag (w_table w)"
    using Cons.prems by (intro sync_history_tags) simp
  have "row_tag row = row_tag g" if "g \<in> set hs" "row \<in> set (w_table ?w)" "oh_id row = oh_id g" for g row
  proof -
    have "row_tag row \<in> set (map row_tag (w_table w))" using that(2) by (simp flip: eq)
    then obtain row0 where "row0 \<in> set (w_table w)" "row_tag row0 = row_tag row" by auto
    with Cons.prems that show ?thesis by (auto simp: row_tag_def)
  qed
  then show ?case using Cons eq by simp
qed

lemma SyncPending_tags:
  assumes "table_ok (w_table w)"
  shows "map row_tag (w_table (SyncPendingOrderHistories reg c f env w)) = map row_tag (w_table w)"
proof (cases "c \<or> \<not> f")
  case True
  then show ?thesis
    by (auto simp: SyncPendingOrderHistories_def GetByStatus_def pendingOrderHistoryStatuses_def)
next
  case False
  let ?hs = "sort_key (\<lambda>h. - oh_created_at h) (filter pending (w_table w))"
  have run: "SyncPendingOrderHistories reg c f env w = sync_loop reg env 0 ?hs w"
    using False by (simp add: SyncPendingOrderHistories_def GetByStatus_def pendingOrderHistoryStatuses_def
        pending_def [abs_def])
  have one: "row = h" if "h \<in> set (w_table w)" "row \<in> set (w_table w)" "oh_id row = oh_id h" for h row
    using assms that by (auto simp: table_ok_def distinct_map dest: inj_onD)
  show ?thesis
    unfolding run
  proof (rule sync_loop_tags, intro ballI impI)
    fix h row
    assume "h \<in> set ?hs" and row: "row \<in> set (w_table w)" "oh_id row = oh_id h"
    then have "h \<in> set (w_table w)" by simp
    then show "row_tag row = row_tag h" by (rule arg_cong [OF one [OF _ row]])
  qed
qed

lemma SyncPending_table_ok:
  "table_ok (w_table w) \<Longrightarrow> table_ok (w_table (SyncPendingOrderHistories reg c f env w))"
proof -
  have loop: "table_ok (w_table w) \<Longrightarrow> table_ok (w_table (sync_loop reg env i hs w))" for i hs w
    by (induction hs arbitrary: i w) (auto intro: sync_history_table_ok)
  show "table_ok (w_table w) \<Longrightarrow> ?thesis"
    by (auto simp: SyncPendingOrderHistories_def split: sum.splits intro: loop)
qed

lemma PlaceOrder_inv:
  assumes "engine_inv w" "PlaceOrder D ft reg env req w = (r, w')"
  shows "engine_inv w'"
  using assms(2)
proof (cases rule: PlaceOrder_cases)
  case (refused e x evs)
  then show ?thesis using assms(1) by (simp add: engine_inv_def)
next
  case (paper order)
  have rid: "rq_request_id order = rq_request_id req"
    by (rule same_order_request [OF prepare_order_Inr(11) [OF paper(1)]])
  let ?h = "buildPaperOrderHistory (ce_now env) order"
  have h: "oh_request_id ?h = rq_request_id req" "oh_is_paper_trading ?h"
    by (simp_all add: rid buildPaperOrderHistory_def)
  have fresh: "lookup_request_id (oh_request_id ?h) (w_table w) = None" using paper(3) h(1) by simp
  note step = record_order_step [OF paper(4)]
  show ?thesis by (rule engine_inv_Create [OF assms(1) fresh step(3)]) (use step(2) h(2) in simp_all)
next
  case (live order ex h x)
  have rid: "rq_request_id order = rq_request_id req"
    by (rule same_order_request [OF prepare_order_Inr(11) [OF live(1)]])
  let ?h = "applyOrderMetadataToHistory h order"
  have h: "oh_request_id ?h = rq_request_id req"
    using place_request [OF live(3,4)] rid by simp
  then have fresh: "lookup_request_id (oh_request_id ?h) (w_table w) = None" using live(5) by simp
  note step = record_order_step [OF live(6)]
  have table: "w_table w' = snd (Create (ce_create_ok env) (ce_new_id env) ?h (w_table w))"
    using step(3) by simp
  show ?thesis by (rule engine_inv_Create [OF assms(1) fresh table]) (use step(2) h in auto)
qed

lemma engine_step_inv: "engine_step reg w w' \<Longrightarrow> engine_inv w \<Longrightarrow> engine_inv w'"
proof (induction rule: engine_step.induct)
  case (call D ft env req w r w')
  then show ?case by (blast intro: PlaceOrder_inv)
next
  case (deliver D ft body env w r w')
  then show ?case
    using handlePlaceOrderEvent_cases [of D ft reg body env w] by (auto intro: PlaceOrder_inv)
next
  case (sync w c f senv)
  then have ok: "table_ok (w_table w)" by (simp add: engine_inv_def)
  from sync show ?case
    by (rule engine_inv_tags) (simp_all add: SyncPending_table_ok SyncPending_tags ok SyncPending_placed)
qed (simp_all add: engine_inv_def)

lemma engine_reachable_inv: "engine_reachable reg w \<Longrightarrow> engine_inv w"
proof (induction rule: engine_reachable.induct)
  case (start w)
  then show ?case by (simp add: engine_inv_def table_ok_def)
next
  case (step w w')
  then show ?case by (blast intro: engine_step_inv)
qed

end

subsection \<open>The ledger\<close>

text \<open>
  The abstract engine knows a set of request ids. A submission that succeeds adds an unknown id; one
  that fails leaves the ledger alone or, when only the announcement failed, has added the id.
\<close>

definition ledger_step :: "string set \<Rightarrow> string \<Rightarrow> bool \<Rightarrow> string set \<Rightarrow> bool" where
  "ledger_step K r ok K' =
     (if ok then r \<notin> K \<and> K' = insert r K else K' = K \<or> (r \<notin> K \<and> K' = insert r K))"

definition ledger_of :: "'x world \<Rightarrow> string set" where
  "ledger_of w = oh_request_id ` set (w_table w)"

lemma ledger_of_lookup: "lookup_request_id r (w_table w) = None \<longleftrightarrow> r \<notin> ledger_of w"
  by (auto simp: lookup_request_id_def find_None_iff ledger_of_def)

lemma Create_requests:
  "oh_request_id ` set (snd (Create ok i h t)) =
     (if is_ok (fst (Create ok i h t)) then insert (oh_request_id h) (oh_request_id ` set t)
      else oh_request_id ` set t)"
  by (auto simp: Create_def Let_def)

lemma record_order_ledger:
  assumes "(r, w') = record_order D env order h w" "oh_request_id h \<notin> ledger_of w"
  shows "ledger_step (ledger_of w) (oh_request_id h) (is_ok r) (ledger_of w')"
proof -
  have "is_ok r \<Longrightarrow> is_ok (fst (Create (ce_create_ok env) (ce_new_id env) h (w_table w)))"
    using record_order_created [of D env order h w] assms(1) by (metis fst_conv is_ok_simps(1))
  then show ?thesis
    using assms(2) record_order_step(3) [OF assms(1)]
    by (auto simp: ledger_step_def ledger_of_def Create_requests)
qed

context exchange_registry
begin

lemma PlaceOrder_ledger:
  assumes "PlaceOrder D ft reg env req w = (r, w')"
  shows "ledger_step (ledger_of w) (rq_request_id req) (is_ok r) (ledger_of w')"
  using assms
proof (cases rule: PlaceOrder_cases)
  case (refused e x evs)
  then show ?thesis by (simp add: ledger_step_def ledger_of_def)
next
  case (paper order)
  have rid: "rq_request_id order = rq_request_id req"
    by (rule same_order_request [OF prepare_order_Inr(11) [OF paper(1)]])
  show ?thesis using record_order_ledger [OF paper(4)] paper(3) rid ledger_of_lookup by auto
next
  case (live order ex h x)
  have rid: "rq_request_id order = rq_request_id req"
    by (rule same_order_request [OF prepare_order_Inr(11) [OF live(1)]])
  have "ledger_of (w\<lparr>w_exchange := x, w_placed := w_placed w @ [rq_request_id req]\<rparr>) = ledger_of w"
    by (simp add: ledger_of_def)
  then show ?thesis
    using record_order_ledger [OF live(6)] live(5) rid ledger_of_lookup place_request [OF live(3,4)] by auto
qed

end

end
