(* ===== verification/SymbolMap.thy ===== *)
theory SymbolMap
  imports Entity
begin

text \<open>
  Symbol mappings: the rows of \<open>symbol_mappings\<close> become four indexes per exchange and market type
  (\<open>internal/repository/symbol_mapping.repository.go\<close>), and the exchange adapters translate
  between the platform's symbols and the exchange's through them
  (\<open>internal/service/exchange/kline_resync.go\<close>). Go's maps are partial functions; the atomic
  value that holds the current mapping is an option, \<open>None\<close> before the first store.
\<close>

record exchange_symbols =
  es_internal_to_kline :: "string \<Rightarrow> string option"
  es_internal_to_order :: "string \<Rightarrow> string option"
  es_kline_to_internal :: "string \<Rightarrow> string option"
  es_order_to_internal :: "string \<Rightarrow> string option"

type_synonym exchange_symbol_mapping = "string \<Rightarrow> (string \<Rightarrow> exchange_symbols option) option"

subsection \<open>Building the indexes\<close>

definition empty_symbols :: exchange_symbols where
  "empty_symbols = \<lparr>es_internal_to_kline = Map.empty, es_internal_to_order = Map.empty,
     es_kline_to_internal = Map.empty, es_order_to_internal = Map.empty\<rparr>"

definition index_mapping :: "symbol_mapping \<Rightarrow> exchange_symbols \<Rightarrow> exchange_symbols" where
  "index_mapping mapping indexes =
     (let internalSymbol = to_upper (trim_space (sm_symbol mapping));
          klineSymbol = trim_space (sm_kline_symbol mapping);
          orderSymbol = trim_space (sm_order_symbol mapping)
      in if internalSymbol = [] then indexes
         else
           (let indexes = (if klineSymbol \<noteq> [] then
                  indexes\<lparr>es_internal_to_kline := (es_internal_to_kline indexes)(internalSymbol \<mapsto> klineSymbol),
                    es_kline_to_internal := (es_kline_to_internal indexes)(to_upper klineSymbol \<mapsto> internalSymbol)\<rparr>
                else indexes)
            in if orderSymbol \<noteq> [] then
                 indexes\<lparr>es_internal_to_order := (es_internal_to_order indexes)(internalSymbol \<mapsto> orderSymbol),
                   es_order_to_internal := (es_order_to_internal indexes)(to_upper orderSymbol \<mapsto> internalSymbol)\<rparr>
               else indexes))"

definition add_mapping :: "exchange_symbol_mapping \<Rightarrow> symbol_mapping \<Rightarrow> exchange_symbol_mapping" where
  "add_mapping m mapping =
     (let exchange = trim_space (sm_exchange mapping)
      in if exchange = [] then m
         else
           (let marketType = NormalizeMarketType (sm_market_type mapping);
                marketTypeMapping = (case m exchange of None \<Rightarrow> Map.empty | Some mm \<Rightarrow> mm);
                indexes = (case marketTypeMapping marketType of None \<Rightarrow> empty_symbols | Some ix \<Rightarrow> ix)
            in m(exchange \<mapsto> marketTypeMapping(marketType \<mapsto> index_mapping mapping indexes))))"

definition buildExchangeSymbolMapping :: "symbol_mapping list \<Rightarrow> exchange_symbol_mapping" where
  "buildExchangeSymbolMapping mappings = foldl add_mapping Map.empty mappings"

text \<open>\<open>SELECT \<dots> WHERE exchange = $1 ORDER BY created_at DESC\<close> and the indexes of its rows.\<close>

definition GetByExchange :: "bool \<Rightarrow> string \<Rightarrow> symbol_mapping list \<Rightarrow> exchange_symbol_mapping option" where
  "GetByExchange db_ok exchange rows =
     (if db_ok then Some (buildExchangeSymbolMapping
        (sort_key (\<lambda>r. - sm_created_at r) (filter (\<lambda>r. sm_exchange r = exchange) rows)))
      else None)"

definition latest_updated :: "gotime list \<Rightarrow> gotime" where
  "latest_updated ts = (case ts of [] \<Rightarrow> zero_time | t # ts' \<Rightarrow> foldl max t ts')"

definition GetLatestUpdatedAtByExchangeAndMarketType ::
  "string \<Rightarrow> string \<Rightarrow> symbol_mapping list \<Rightarrow> gotime" where
  "GetLatestUpdatedAtByExchangeAndMarketType exchange marketType rows =
     latest_updated (map sm_updated_at
       (filter (\<lambda>r. sm_exchange r = exchange \<and> sm_market_type r = marketType) rows))"

subsection \<open>Resolving symbols\<close>

record resync_deps =
  rd_exchange :: string
  rd_market :: string
  rd_mapping :: "exchange_symbol_mapping option"

definition effectiveMarketType :: "string \<Rightarrow> string" where
  "effectiveMarketType raw = NormalizeMarketType raw"

definition snapshotSymbolMapping :: "exchange_symbol_mapping option \<Rightarrow> exchange_symbol_mapping" where
  "snapshotSymbolMapping stored = (case stored of None \<Rightarrow> Map.empty | Some m \<Rightarrow> m)"

definition deps_indexes :: "resync_deps \<Rightarrow> exchange_symbols option" where
  "deps_indexes deps =
     (case snapshotSymbolMapping (rd_mapping deps) (rd_exchange deps) of
        None \<Rightarrow> None
      | Some marketTypeMapping \<Rightarrow> marketTypeMapping (effectiveMarketType (rd_market deps)))"

definition resolveInternalSymbolFromKlineMapping :: "resync_deps \<Rightarrow> string \<Rightarrow> string" where
  "resolveInternalSymbolFromKlineMapping deps exchangeSymbol =
     (let normalized = to_upper (trim_space exchangeSymbol)
      in if normalized = [] then []
         else (case deps_indexes deps of
                 None \<Rightarrow> normalized
               | Some indexes \<Rightarrow>
                   (case es_kline_to_internal indexes normalized of
                      Some internalSymbol \<Rightarrow> internalSymbol
                    | None \<Rightarrow> normalized)))"

definition resolveInternalSymbolFromMapping :: "resync_deps \<Rightarrow> string \<Rightarrow> string" where
  "resolveInternalSymbolFromMapping deps s = resolveInternalSymbolFromKlineMapping deps s"

definition resolveInternalSymbolFromOrderMapping :: "resync_deps \<Rightarrow> string \<Rightarrow> string" where
  "resolveInternalSymbolFromOrderMapping deps exchangeSymbol =
     (let normalized = to_upper (trim_space exchangeSymbol)
      in if normalized = [] then []
         else (case deps_indexes deps of
                 None \<Rightarrow> normalized
               | Some indexes \<Rightarrow>
                   (case es_order_to_internal indexes normalized of
                      Some internalSymbol \<Rightarrow> internalSymbol
                    | None \<Rightarrow> normalized)))"

definition resolveExchangeKlineSymbolFromMapping :: "resync_deps \<Rightarrow> string \<Rightarrow> string" where
  "resolveExchangeKlineSymbolFromMapping deps internalSymbol =
     (let normalizedInternal = to_upper (trim_space internalSymbol)
      in if normalizedInternal = [] then []
         else (case deps_indexes deps of
                 None \<Rightarrow> normalizedInternal
               | Some indexes \<Rightarrow>
                   (case es_internal_to_kline indexes normalizedInternal of
                      Some exchangeSymbol \<Rightarrow>
                        (let trimmed = trim_space exchangeSymbol
                         in if trimmed \<noteq> [] then trimmed else normalizedInternal)
                    | None \<Rightarrow> normalizedInternal)))"

definition resolveExchangeOrderSymbolFromMapping :: "resync_deps \<Rightarrow> string \<Rightarrow> string" where
  "resolveExchangeOrderSymbolFromMapping deps internalSymbol =
     (let normalizedInternal = to_upper (trim_space internalSymbol)
      in if normalizedInternal = [] then []
         else (case deps_indexes deps of
                 None \<Rightarrow> normalizedInternal
               | Some indexes \<Rightarrow>
                   (case es_internal_to_order indexes normalizedInternal of
                      Some exchangeSymbol \<Rightarrow>
                        (let trimmed = trim_space exchangeSymbol
                         in if trimmed \<noteq> [] then trimmed else normalizedInternal)
                    | None \<Rightarrow> normalizedInternal)))"

subsection \<open>What the built indexes hold\<close>

text \<open>
  An index read through the two maps. \<open>sel\<close> is one of the four maps of \<open>exchange_symbols\<close>. For
  each of them a row contributes at most one entry: \<open>entry\<close> gives its key and value.
\<close>

definition index_at :: "(exchange_symbols \<Rightarrow> string \<Rightarrow> string option) \<Rightarrow> exchange_symbol_mapping
    \<Rightarrow> string \<Rightarrow> string \<Rightarrow> string \<Rightarrow> string option" where
  "index_at sel m exchange marketType s =
     (case m exchange of None \<Rightarrow> None
      | Some mm \<Rightarrow> (case mm marketType of None \<Rightarrow> None | Some ix \<Rightarrow> sel ix s))"

definition row_of :: "string \<Rightarrow> string \<Rightarrow> symbol_mapping \<Rightarrow> bool" where
  "row_of exchange marketType r =
     (trim_space (sm_exchange r) = exchange \<and> exchange \<noteq> [] \<and> NormalizeMarketType (sm_market_type r) = marketType)"

definition kline_entry :: "symbol_mapping \<Rightarrow> (string \<times> string) option" where
  "kline_entry r = (if norm_upper (sm_symbol r) = [] \<or> trim_space (sm_kline_symbol r) = [] then None
     else Some (norm_upper (sm_symbol r), trim_space (sm_kline_symbol r)))"

definition order_entry :: "symbol_mapping \<Rightarrow> (string \<times> string) option" where
  "order_entry r = (if norm_upper (sm_symbol r) = [] \<or> trim_space (sm_order_symbol r) = [] then None
     else Some (norm_upper (sm_symbol r), trim_space (sm_order_symbol r)))"

definition back_entry :: "(string \<times> string) option \<Rightarrow> (string \<times> string) option" where
  "back_entry e = map_option (\<lambda>(i, x). (to_upper x, i)) e"

definition put_entry :: "(string \<times> string) option \<Rightarrow> (string \<Rightarrow> string option) \<Rightarrow> string \<Rightarrow> string option" where
  "put_entry e m = (case e of None \<Rightarrow> m | Some (k, v) \<Rightarrow> m(k \<mapsto> v))"

lemma index_mapping_sel:
  "es_internal_to_kline (index_mapping r ix) = put_entry (kline_entry r) (es_internal_to_kline ix)"
  "es_internal_to_order (index_mapping r ix) = put_entry (order_entry r) (es_internal_to_order ix)"
  "es_kline_to_internal (index_mapping r ix) = put_entry (back_entry (kline_entry r)) (es_kline_to_internal ix)"
  "es_order_to_internal (index_mapping r ix) = put_entry (back_entry (order_entry r)) (es_order_to_internal ix)"
  by (simp_all add: index_mapping_def Let_def kline_entry_def order_entry_def back_entry_def
      put_entry_def norm_upper_def)

lemma empty_symbols_sel [simp]:
  "es_internal_to_kline empty_symbols = Map.empty" "es_internal_to_order empty_symbols = Map.empty"
  "es_kline_to_internal empty_symbols = Map.empty" "es_order_to_internal empty_symbols = Map.empty"
  by (simp_all add: empty_symbols_def)

lemma index_at_add:
  assumes sel: "\<And>ix. sel (index_mapping r ix) = put_entry (entry r) (sel ix)"
    and emp: "sel empty_symbols = Map.empty"
  shows "index_at sel (add_mapping m r) exchange mt s =
     (case entry r of
        Some (k, v) \<Rightarrow> if row_of exchange mt r \<and> k = s then Some v else index_at sel m exchange mt s
      | None \<Rightarrow> index_at sel m exchange mt s)"
  by (auto simp: add_mapping_def index_at_def row_of_def Let_def sel emp put_entry_def
      split: option.splits)

text \<open>The last row with a key wins.\<close>

definition last_entry :: "(symbol_mapping \<Rightarrow> (string \<times> string) option) \<Rightarrow> symbol_mapping list
    \<Rightarrow> string \<Rightarrow> string \<Rightarrow> string \<Rightarrow> string option" where
  "last_entry entry rows exchange mt s =
     map_option (\<lambda>r. snd (the (entry r)))
       (find (\<lambda>r. row_of exchange mt r \<and> (\<exists>v. entry r = Some (s, v))) (rev rows))"

lemma index_at_build:
  assumes sel: "\<And>r ix. sel (index_mapping r ix) = put_entry (entry r) (sel ix)"
    and emp: "sel empty_symbols = Map.empty"
  shows "index_at sel (buildExchangeSymbolMapping rows) exchange mt s = last_entry entry rows exchange mt s"
proof (induction rows rule: rev_induct)
  case Nil
  then show ?case by (simp add: buildExchangeSymbolMapping_def index_at_def last_entry_def)
next
  case (snoc r rows)
  then show ?case
    by (auto simp: buildExchangeSymbolMapping_def last_entry_def
        index_at_add [where sel = sel and entry = entry and r = r, OF sel emp]
        split: option.splits)
qed

lemmas built_index =
  index_at_build [where sel = es_internal_to_kline and entry = kline_entry, OF index_mapping_sel(1) empty_symbols_sel(1)]
  index_at_build [where sel = es_internal_to_order and entry = order_entry, OF index_mapping_sel(2) empty_symbols_sel(2)]
  index_at_build [where sel = es_kline_to_internal and entry = "\<lambda>r. back_entry (kline_entry r)",
    OF index_mapping_sel(3) empty_symbols_sel(3)]
  index_at_build [where sel = es_order_to_internal and entry = "\<lambda>r. back_entry (order_entry r)",
    OF index_mapping_sel(4) empty_symbols_sel(4)]

text \<open>When no two rows of a market disagree on a key, a row's entry is what the index holds.\<close>

definition agree :: "(symbol_mapping \<Rightarrow> (string \<times> string) option) \<Rightarrow> symbol_mapping list
    \<Rightarrow> string \<Rightarrow> string \<Rightarrow> bool" where
  "agree entry rows exchange mt =
     (\<forall>r\<in>set rows. \<forall>r'\<in>set rows. row_of exchange mt r \<longrightarrow> row_of exchange mt r' \<longrightarrow>
        entry r \<noteq> None \<longrightarrow> entry r' \<noteq> None \<longrightarrow> fst (the (entry r)) = fst (the (entry r')) \<longrightarrow> entry r = entry r')"

lemma last_entry_agree:
  assumes "agree entry rows exchange mt" "r \<in> set rows" "row_of exchange mt r" "entry r = Some (s, v)"
  shows "last_entry entry rows exchange mt s = Some v"
proof -
  let ?P = "\<lambda>r. row_of exchange mt r \<and> (\<exists>v. entry r = Some (s, v))"
  have "find ?P (rev rows) \<noteq> None"
    using assms by (auto simp: find_None_iff)
  then obtain r' where r': "find ?P (rev rows) = Some r'" by blast
  then have "r' \<in> set rows" "?P r'" by (auto dest: find_Some_prop)
  then have "entry r' = entry r"
    using assms unfolding agree_def by (metis fst_conv option.distinct(1) option.sel)
  then show ?thesis using r' assms(4) by (simp add: last_entry_def)
qed

subsection \<open>The interface of a symbol resolver\<close>

text \<open>
  What the adapters rely on when they translate a symbol to the exchange's and back: the two
  directions agree on the symbols of a set, and a symbol is resolved up to case and blanks.
\<close>

locale symbol_resolver =
  fixes out :: "string \<Rightarrow> string" and inward :: "string \<Rightarrow> string" and covered :: "string \<Rightarrow> bool"
  assumes out_norm: "out s = out (norm_upper s)"
    and inward_norm: "inward s = inward (norm_upper s)"
    and covered_norm: "covered s \<Longrightarrow> norm_upper s = s"
    and there_and_back: "covered s \<Longrightarrow> inward (out s) = s"
begin

lemma round_trip: "covered (norm_upper s) \<Longrightarrow> inward (out s) = norm_upper s"
  using there_and_back [of "norm_upper s"] out_norm [of s] by simp

lemma out_inj: "covered (norm_upper s) \<Longrightarrow> covered (norm_upper t) \<Longrightarrow> out s = out t \<Longrightarrow>
    norm_upper s = norm_upper t"
  by (metis round_trip)

lemma case_insensitive: "norm_upper (out s) = norm_upper (out t) \<Longrightarrow> covered (norm_upper s) \<Longrightarrow>
    covered (norm_upper t) \<Longrightarrow> norm_upper s = norm_upper t"
  by (metis inward_norm round_trip)

end

definition mapped_deps :: "string \<Rightarrow> string \<Rightarrow> symbol_mapping list \<Rightarrow> resync_deps" where
  "mapped_deps exchange mt rows =
     \<lparr>rd_exchange = exchange, rd_market = mt, rd_mapping = Some (buildExchangeSymbolMapping rows)\<rparr>"

definition covered_by :: "(symbol_mapping \<Rightarrow> (string \<times> string) option) \<Rightarrow> string \<Rightarrow> string
    \<Rightarrow> symbol_mapping list \<Rightarrow> string \<Rightarrow> bool" where
  "covered_by entry exchange mt rows s =
     (agree entry rows exchange (effectiveMarketType mt)
      \<and> agree (\<lambda>r. back_entry (entry r)) rows exchange (effectiveMarketType mt)
      \<and> (\<exists>r\<in>set rows. row_of exchange (effectiveMarketType mt) r \<and> norm_upper (sm_symbol r) = s \<and> entry r \<noteq> None))"

lemma deps_index:
  "(case deps_indexes (mapped_deps exchange mt rows) of None \<Rightarrow> None | Some ix \<Rightarrow> sel ix s) =
     index_at sel (buildExchangeSymbolMapping rows) exchange (effectiveMarketType mt) s"
  by (simp add: deps_indexes_def mapped_deps_def snapshotSymbolMapping_def index_at_def split: option.splits)

lemma deps_index_Some:
  assumes "index_at sel (buildExchangeSymbolMapping rows) exchange (effectiveMarketType mt) s = Some v"
  obtains ix where "deps_indexes (mapped_deps exchange mt rows) = Some ix" "sel ix s = Some v"
  using assms deps_index [where sel = sel and exchange = exchange and mt = mt and rows = rows and s = s]
  by (auto split: option.splits)

lemma resolve_kline_covered:
  assumes "covered_by kline_entry exchange mt rows s"
  shows "resolveInternalSymbolFromKlineMapping (mapped_deps exchange mt rows)
     (resolveExchangeKlineSymbolFromMapping (mapped_deps exchange mt rows) s) = s"
proof -
  let ?mt = "effectiveMarketType mt"
  obtain r k where r: "r \<in> set rows" "row_of exchange ?mt r" "kline_entry r = Some (s, k)"
    and s: "norm_upper s = s" "s \<noteq> []" and k: "trim_space k = k" "k \<noteq> []"
    using assms by (auto simp: covered_by_def kline_entry_def split: if_splits)
  have ag: "agree kline_entry rows exchange ?mt" "agree (\<lambda>r. back_entry (kline_entry r)) rows exchange ?mt"
    using assms by (simp_all add: covered_by_def)
  obtain ix where ix: "deps_indexes (mapped_deps exchange mt rows) = Some ix" "es_internal_to_kline ix s = Some k"
    using deps_index_Some [OF trans [OF built_index(1) last_entry_agree [OF ag(1) r]]] .
  then have out: "resolveExchangeKlineSymbolFromMapping (mapped_deps exchange mt rows) s = k"
    using s k by (simp add: resolveExchangeKlineSymbolFromMapping_def norm_upper_def [symmetric] Let_def)
  have b: "back_entry (kline_entry r) = Some (to_upper k, s)" by (simp add: r(3) back_entry_def)
  obtain ix' where "deps_indexes (mapped_deps exchange mt rows) = Some ix'"
    "es_kline_to_internal ix' (to_upper k) = Some s"
    using deps_index_Some [OF trans [OF built_index(3) last_entry_agree [OF ag(2) r(1,2) b]]] .
  then show ?thesis
    using k by (simp add: out resolveInternalSymbolFromKlineMapping_def Let_def)
qed

lemma resolve_order_covered:
  assumes "covered_by order_entry exchange mt rows s"
  shows "resolveInternalSymbolFromOrderMapping (mapped_deps exchange mt rows)
     (resolveExchangeOrderSymbolFromMapping (mapped_deps exchange mt rows) s) = s"
proof -
  let ?mt = "effectiveMarketType mt"
  obtain r k where r: "r \<in> set rows" "row_of exchange ?mt r" "order_entry r = Some (s, k)"
    and s: "norm_upper s = s" "s \<noteq> []" and k: "trim_space k = k" "k \<noteq> []"
    using assms by (auto simp: covered_by_def order_entry_def split: if_splits)
  have ag: "agree order_entry rows exchange ?mt" "agree (\<lambda>r. back_entry (order_entry r)) rows exchange ?mt"
    using assms by (simp_all add: covered_by_def)
  obtain ix where ix: "deps_indexes (mapped_deps exchange mt rows) = Some ix" "es_internal_to_order ix s = Some k"
    using deps_index_Some [OF trans [OF built_index(2) last_entry_agree [OF ag(1) r]]] .
  then have out: "resolveExchangeOrderSymbolFromMapping (mapped_deps exchange mt rows) s = k"
    using s k by (simp add: resolveExchangeOrderSymbolFromMapping_def norm_upper_def [symmetric] Let_def)
  have b: "back_entry (order_entry r) = Some (to_upper k, s)" by (simp add: r(3) back_entry_def)
  obtain ix' where "deps_indexes (mapped_deps exchange mt rows) = Some ix'"
    "es_order_to_internal ix' (to_upper k) = Some s"
    using deps_index_Some [OF trans [OF built_index(4) last_entry_agree [OF ag(2) r(1,2) b]]] .
  then show ?thesis
    using k by (simp add: out resolveInternalSymbolFromOrderMapping_def Let_def)
qed

interpretation kline_symbols: symbol_resolver
  "resolveExchangeKlineSymbolFromMapping (mapped_deps exchange mt rows)"
  "resolveInternalSymbolFromKlineMapping (mapped_deps exchange mt rows)"
  "covered_by kline_entry exchange mt rows"
  for exchange mt rows
proof
  fix s
  show "resolveExchangeKlineSymbolFromMapping (mapped_deps exchange mt rows) s =
      resolveExchangeKlineSymbolFromMapping (mapped_deps exchange mt rows) (norm_upper s)"
    by (simp add: resolveExchangeKlineSymbolFromMapping_def norm_upper_def [symmetric])
  show "resolveInternalSymbolFromKlineMapping (mapped_deps exchange mt rows) s =
      resolveInternalSymbolFromKlineMapping (mapped_deps exchange mt rows) (norm_upper s)"
    by (simp add: resolveInternalSymbolFromKlineMapping_def norm_upper_def [symmetric])
  show "norm_upper s = s" if "covered_by kline_entry exchange mt rows s"
    using that by (auto simp: covered_by_def)
qed (rule resolve_kline_covered)

interpretation order_symbols: symbol_resolver
  "resolveExchangeOrderSymbolFromMapping (mapped_deps exchange mt rows)"
  "resolveInternalSymbolFromOrderMapping (mapped_deps exchange mt rows)"
  "covered_by order_entry exchange mt rows"
  for exchange mt rows
proof
  fix s
  show "resolveExchangeOrderSymbolFromMapping (mapped_deps exchange mt rows) s =
      resolveExchangeOrderSymbolFromMapping (mapped_deps exchange mt rows) (norm_upper s)"
    by (simp add: resolveExchangeOrderSymbolFromMapping_def norm_upper_def [symmetric])
  show "resolveInternalSymbolFromOrderMapping (mapped_deps exchange mt rows) s =
      resolveInternalSymbolFromOrderMapping (mapped_deps exchange mt rows) (norm_upper s)"
    by (simp add: resolveInternalSymbolFromOrderMapping_def norm_upper_def [symmetric])
  show "norm_upper s = s" if "covered_by order_entry exchange mt rows s"
    using that by (auto simp: covered_by_def)
qed (rule resolve_order_covered)

end
