(* ===== verification/JsonText.thy ===== *)
theory JsonText
  imports Json
begin

text \<open>
  Writing JSON: \<open>json.Marshal\<close> of a string, with its escapes of quotes, control characters and
  the HTML characters, and the proof that \<open>parse_json\<close> reads it back. Bytes above 127 are copied.
\<close>

definition hex_digit :: "nat \<Rightarrow> char" where
  "hex_digit d = (if d < 10 then char_of (48 + d) else char_of (87 + d))"

definition u_escape :: "char \<Rightarrow> string" where
  "u_escape c = [CHR 0x5C, CHR ''u'', CHR ''0'', CHR ''0'',
     hex_digit (of_char c div 16), hex_digit (of_char c mod 16)]"

definition short_escapes :: "(char \<times> char) list" where
  "short_escapes = [(CHR 0x22, CHR 0x22), (CHR 0x5C, CHR 0x5C), (CHR 0x08, CHR ''b''),
     (CHR 0x0C, CHR ''f''), (CHR 0x0A, CHR ''n''), (CHR 0x0D, CHR ''r''), (CHR 0x09, CHR ''t'')]"

definition escape_char :: "char \<Rightarrow> string" where
  "escape_char c =
     (case map_of short_escapes c of
        Some e \<Rightarrow> [CHR 0x5C, e]
      | None \<Rightarrow>
          if (of_char c :: nat) < 32 \<or> c \<in> {CHR ''<'', CHR ''>'', CHR 0x26} then u_escape c
          else [c])"

definition json_quote :: "string \<Rightarrow> string" where
  "json_quote s = CHR 0x22 # concat (map escape_char s) @ [CHR 0x22]"

subsection \<open>Reading a quoted string back\<close>

lemma hex_val_digit: "d < 16 \<Longrightarrow> hex_val (hex_digit d) = Some d"
  by (auto simp: hex_val_def hex_digit_def Let_def)

lemma unicode_escape_digits:
  assumes "(of_char c :: nat) < 128"
  shows "unicode_escape (CHR ''0'' # CHR ''0'' # hex_digit (of_char c div 16)
      # hex_digit (of_char c mod 16) # r) = Some ([c], r)"
proof -
  have zero: "hex_val (CHR ''0'') = Some 0" by (simp add: hex_val_def)
  have "hex4 (CHR ''0'' # CHR ''0'' # hex_digit (of_char c div 16) # hex_digit (of_char c mod 16) # r)
      = Some (of_char c, r)"
    using assms by (simp add: zero hex_val_digit less_mult_imp_div_less)
  then show ?thesis using assms by (simp add: unicode_escape_def utf8_def)
qed

lemma p_str_plain:
  "(of_char c :: nat) \<ge> 32 \<Longrightarrow> c \<noteq> CHR 0x22 \<Longrightarrow> c \<noteq> CHR 0x5C \<Longrightarrow>
     p_str (Suc f) (c # r) = map_option (\<lambda>(s, r'). (c # s, r')) (p_str f r)"
  by simp

lemma p_str_escape:
  "e \<noteq> CHR ''u'' \<Longrightarrow> simple_escape e = Some x \<Longrightarrow>
     p_str (Suc f) (CHR 0x5C # e # r) = map_option (\<lambda>(s, r'). (x # s, r')) (p_str f r)"
  by simp

lemma p_str_unicode:
  "unicode_escape ds = Some (x, r) \<Longrightarrow>
     p_str (Suc f) (CHR 0x5C # CHR ''u'' # ds) = map_option (\<lambda>(s, r'). (x @ s, r')) (p_str f r)"
  by simp

lemma short_escapes_read:
  assumes "map_of short_escapes c = Some e"
  shows "e \<noteq> CHR ''u'' \<and> simple_escape e = Some c"
proof -
  have "\<forall>(c, e)\<in>set short_escapes. e \<noteq> CHR ''u'' \<and> simple_escape e = Some c"
    by (simp add: short_escapes_def simple_escape_def)
  then show ?thesis using map_of_SomeD [OF assms] by auto
qed

lemma short_escapes_None: "map_of short_escapes c = None \<Longrightarrow> c \<noteq> CHR 0x22 \<and> c \<noteq> CHR 0x5C"
  by (auto simp: short_escapes_def)

lemma html_char_bound: "c \<in> {CHR ''<'', CHR ''>'', CHR 0x26} \<Longrightarrow> (of_char c :: nat) < 128"
  by auto

lemma p_str_escape_char:
  "p_str (Suc f) (escape_char c @ r) = map_option (\<lambda>(s, r'). (c # s, r')) (p_str f r)"
proof (cases "map_of short_escapes c")
  case (Some e)
  then show ?thesis
    using short_escapes_read [OF Some] by (simp add: escape_char_def p_str_escape del: p_str.simps)
next
  case None
  show ?thesis
  proof (cases "(of_char c :: nat) < 32 \<or> c \<in> {CHR ''<'', CHR ''>'', CHR 0x26}")
    case True
    then have small: "(of_char c :: nat) < 128" using html_char_bound by fastforce
    have "p_str (Suc f) (escape_char c @ r) =
        p_str (Suc f) (CHR 0x5C # CHR ''u'' # (CHR ''0'' # CHR ''0'' # hex_digit (of_char c div 16)
          # hex_digit (of_char c mod 16) # r))"
      unfolding escape_char_def None option.case if_P [OF True] by (simp add: u_escape_def del: p_str.simps)
    also have "\<dots> = map_option (\<lambda>(s, r'). ([c] @ s, r')) (p_str f r)"
      by (rule p_str_unicode) (rule unicode_escape_digits [OF small])
    finally show ?thesis by simp
  next
    case False
    have "p_str (Suc f) (escape_char c @ r) = p_str (Suc f) (c # r)"
      unfolding escape_char_def None option.case if_not_P [OF False] by simp
    then show ?thesis
      using False short_escapes_None [OF None] by (simp add: p_str_plain del: p_str.simps)
  qed
qed

lemma p_str_quoted:
  "length s < f \<Longrightarrow> p_str f (concat (map escape_char s) @ CHR 0x22 # r) = Some (s, r)"
proof (induction s arbitrary: f)
  case Nil
  then show ?case by (cases f) auto
next
  case (Cons c s)
  then obtain g where f: "f = Suc g" "length s < g" by (cases f) auto
  then show ?case
    using Cons.IH [of g] by (simp add: p_str_escape_char del: p_str.simps)
qed

lemma escape_char_not_Nil [simp]: "escape_char c \<noteq> []"
  by (simp add: escape_char_def u_escape_def split: option.splits)

lemma length_escaped: "length s \<le> length (concat (map escape_char s))"
proof (induction s)
  case Nil
  then show ?case by simp
next
  case (Cons c s)
  have "1 \<le> length (escape_char c)" by (cases "escape_char c") auto
  with Cons show ?case by simp
qed

lemma p_val_quoted: "p_val (Suc f) (json_quote s @ r) = Some (JStr s, r)"
proof -
  have ws: "skip_ws (CHR 0x22 # t) = CHR 0x22 # t" for t
    by (simp add: skip_ws_def json_ws_def)
  have "p_str (Suc (length (concat (map escape_char s) @ CHR 0x22 # r)))
      (concat (map escape_char s) @ CHR 0x22 # r) = Some (s, r)"
    using length_escaped [of s] by (intro p_str_quoted) simp
  then show ?thesis by (simp add: json_quote_def ws del: p_str.simps)
qed

lemma parse_json_quote: "parse_json (json_quote s) = Some (JStr s)"
  using p_val_quoted [of "2 * length (json_quote s) + 1" s "[]"]
  by (simp add: parse_json_def skip_ws_def)

subsection \<open>Writing and reading whole values\<close>

text \<open>\<open>json.Marshal\<close> writes compact texts; the members of an object are written in the given order.\<close>

fun write_json :: "json \<Rightarrow> string" where
  "write_json JNull = ''null''"
| "write_json (JBool b) = (if b then ''true'' else ''false'')"
| "write_json (JNum s) = s"
| "write_json (JStr s) = json_quote s"
| "write_json (JArr vs) = CHR ''['' # join_with '','' (map write_json vs) @ [CHR '']'']"
| "write_json (JObj ms) =
     CHR 0x7B # join_with '','' (map (\<lambda>m. json_quote (fst m) @ CHR '':'' # write_json (snd m)) ms) @ [CHR 0x7D]"

definition json_number :: "string \<Rightarrow> bool" where
  "json_number s = (valid_number s \<and> list_all number_char s)"

fun json_valid :: "json \<Rightarrow> bool" where
  "json_valid (JNum s) = json_number s"
| "json_valid (JArr vs) = list_all json_valid vs"
| "json_valid (JObj ms) = list_all (\<lambda>m. json_valid (snd m)) ms"
| "json_valid _ = True"

text \<open>The fuel a value needs.\<close>

fun json_need :: "json \<Rightarrow> nat" where
  "json_need (JArr vs) = Suc (length vs + sum_list (map json_need vs))"
| "json_need (JObj ms) = Suc (length ms + sum_list (map (\<lambda>m. json_need (snd m)) ms))"
| "json_need _ = 1"

definition ends_value :: "string \<Rightarrow> bool" where
  "ends_value r = (r = [] \<or> \<not> number_char (hd r))"

lemma ends_value_punct [simp]:
  "ends_value []" "ends_value (CHR '','' # r)" "ends_value (CHR '']'' # r)" "ends_value (CHR 0x7D # r)"
  by (simp_all add: ends_value_def number_char_def is_digit_def digit_val_def)

lemma skip_ws_simps [simp]:
  "skip_ws [] = []" "skip_ws (CHR '','' # r) = CHR '','' # r" "skip_ws (CHR '']'' # r) = CHR '']'' # r"
  "skip_ws (CHR 0x7D # r) = CHR 0x7D # r" "skip_ws (CHR '':'' # r) = CHR '':'' # r"
  "skip_ws (CHR 0x22 # r) = CHR 0x22 # r" "skip_ws (CHR 0x7B # r) = CHR 0x7B # r"
  "skip_ws (CHR ''['' # r) = CHR ''['' # r" "skip_ws (CHR ''t'' # r) = CHR ''t'' # r"
  "skip_ws (CHR ''f'' # r) = CHR ''f'' # r" "skip_ws (CHR ''n'' # r) = CHR ''n'' # r"
  by (simp_all add: skip_ws_def json_ws_def)

lemma number_char_start:
  assumes "number_char c"
  shows "skip_ws (c # r) = c # r" "c \<noteq> CHR 0x22" "c \<noteq> CHR ''[''" "c \<noteq> CHR 0x7B" "c \<noteq> CHR ''t''"
    "c \<noteq> CHR ''f''" "c \<noteq> CHR ''n''" "c \<noteq> CHR '']''" "c \<noteq> CHR 0x7D"
  using assms by (auto simp: number_char_def is_digit_def digit_val_def skip_ws_def json_ws_def)

lemma p_val_number:
  assumes "json_number s" "ends_value r"
  shows "p_val (Suc f) (s @ r) = Some (JNum s, r)"
proof -
  obtain c cs where s: "s = c # cs"
    using assms(1) by (cases s) (auto simp: json_number_def valid_number_def)
  have nc: "number_char c" using assms(1) s by (simp add: json_number_def)
  have all: "\<forall>x\<in>set s. number_char x" using assms(1) by (simp add: json_number_def list_all_iff)
  have "takeWhile number_char (s @ r) = s" "dropWhile number_char (s @ r) = r"
    using all assms(2) by (cases r; simp add: ends_value_def takeWhile_append2 dropWhile_append2)+
  then have "p_num (c # cs @ r) = Some (JNum s, r)"
    using assms(1) s by (simp add: p_num_def json_number_def)
  then show ?thesis
    using number_char_start [OF nc] s by simp
qed

lemma keyword_self: "keyword w j (w @ r) = Some (j, r)"
  by (simp add: keyword_def has_prefix_def)

lemma p_val_keyword:
  "p_val (Suc f) (''null'' @ r) = Some (JNull, r)"
  "p_val (Suc f) (''true'' @ r) = Some (JBool True, r)"
  "p_val (Suc f) (''false'' @ r) = Some (JBool False, r)"
  using keyword_self [of "''null''" JNull r] keyword_self [of "''true''" "JBool True" r]
    keyword_self [of "''false''" "JBool False" r] by simp_all

text \<open>What a written value starts with is not a closing bracket or white space.\<close>

lemma write_json_start:
  assumes "json_valid j"
  obtains c cs where "write_json j = c # cs" "skip_ws (c # cs @ r) = c # cs @ r" "c \<noteq> CHR '']''" "c \<noteq> CHR 0x7D"
proof (cases j)
  case (JNum s)
  then obtain c cs where s: "s = c # cs"
    using assms by (cases s) (auto simp: json_number_def valid_number_def)
  then have "number_char c" using assms JNum by (simp add: json_number_def)
  then show ?thesis using that [of c cs] number_char_start(1) [of c "cs @ r"] number_char_start(8,9) [of c] JNum s by simp
next
  case (JBool b)
  then show ?thesis using that by (cases b) simp_all
qed (use that in \<open>simp_all add: json_quote_def\<close>)

lemma p_arr_written:
  assumes "vs \<noteq> []" "list_all json_valid vs"
    and IH: "\<And>v f r. v \<in> set vs \<Longrightarrow> json_need v \<le> f \<Longrightarrow> ends_value r \<Longrightarrow> p_val f (write_json v @ r) = Some (v, r)"
    and "length vs + sum_list (map json_need vs) \<le> f"
  shows "p_arr f (join_with '','' (map write_json vs) @ CHR '']'' # r) = Some (vs, r)"
  using assms
proof (induction vs arbitrary: f)
  case Nil
  then show ?case by simp
next
  case (Cons v vs)
  then obtain g where f: "f = Suc g" by (cases f) auto
  have need: "json_need v \<le> g" "length vs + sum_list (map json_need vs) \<le> g"
    using Cons.prems(4) f by auto
  show ?case
  proof (cases vs)
    case Nil
    then show ?thesis using Cons.prems(3) [of v g "CHR '']'' # r"] need f by simp
  next
    case (Cons v' vs')
    have "p_arr g (join_with '','' (map write_json vs) @ CHR '']'' # r) = Some (vs, r)"
      using Cons.IH [of g] Cons.prems need Cons by simp
    then show ?thesis
      using Cons.prems(3) [of v g "CHR '','' # join_with '','' (map write_json vs) @ CHR '']'' # r"]
        need f Cons by simp
  qed
qed

lemma p_obj_member:
  assumes "p_val f v = Some (j, r')"
  shows "p_obj (Suc f) (json_quote k @ CHR '':'' # v) =
     (case skip_ws r' of [] \<Rightarrow> None
      | d # ds \<Rightarrow> if d = CHR 0x7D then Some ([(k, j)], ds)
                else if d = CHR '','' then map_option (\<lambda>(ms, r''). ((k, j) # ms, r'')) (p_obj f ds)
                else None)"
proof -
  have "p_str (Suc (length (concat (map escape_char k) @ CHR 0x22 # CHR '':'' # v)))
      (concat (map escape_char k) @ CHR 0x22 # CHR '':'' # v) = Some (k, CHR '':'' # v)"
    using length_escaped [of k] by (intro p_str_quoted) simp
  then show ?thesis
    using assms by (simp add: json_quote_def del: p_str.simps)
qed

lemma p_obj_written:
  assumes "ms \<noteq> []" "list_all (\<lambda>m. json_valid (snd m)) ms"
    and IH: "\<And>m f r. m \<in> set ms \<Longrightarrow> json_need (snd m) \<le> f \<Longrightarrow> ends_value r \<Longrightarrow>
      p_val f (write_json (snd m) @ r) = Some (snd m, r)"
    and "length ms + sum_list (map (\<lambda>m. json_need (snd m)) ms) \<le> f"
  shows "p_obj f (join_with '','' (map (\<lambda>m. json_quote (fst m) @ CHR '':'' # write_json (snd m)) ms)
      @ CHR 0x7D # r) = Some (ms, r)"
  using assms
proof (induction ms arbitrary: f)
  case Nil
  then show ?case by simp
next
  case (Cons m ms)
  then obtain g where f: "f = Suc g" by (cases f) auto
  have need: "json_need (snd m) \<le> g" "length ms + sum_list (map (\<lambda>m. json_need (snd m)) ms) \<le> g"
    using Cons.prems(4) f by auto
  let ?txt = "\<lambda>ms. join_with '','' (map (\<lambda>m. json_quote (fst m) @ CHR '':'' # write_json (snd m)) ms)"
  show ?case
  proof (cases ms)
    case Nil
    have "p_val g (write_json (snd m) @ CHR 0x7D # r) = Some (snd m, CHR 0x7D # r)"
      using Cons.prems(3) [of m g "CHR 0x7D # r"] need by simp
    from p_obj_member [OF this, of "fst m"] show ?thesis using Nil f by (simp del: p_obj.simps)
  next
    case (Cons m' ms')
    have rest: "p_obj g (?txt ms @ CHR 0x7D # r) = Some (ms, r)"
      using Cons.IH [of g] Cons.prems need Cons by (simp del: p_obj.simps)
    have "p_val g (write_json (snd m) @ CHR '','' # ?txt ms @ CHR 0x7D # r) =
        Some (snd m, CHR '','' # ?txt ms @ CHR 0x7D # r)"
      using Cons.prems(3) [of m g "CHR '','' # ?txt ms @ CHR 0x7D # r"] need by simp
    from p_obj_member [OF this, of "fst m"] rest show ?thesis
      using Cons f by (simp del: p_obj.simps)
  qed
qed

lemma p_val_open_arr:
  assumes "vs \<noteq> []" "list_all json_valid vs"
    and "p_arr f (join_with '','' (map write_json vs) @ CHR '']'' # r) = Some (vs, r)"
  shows "p_val (Suc f) (write_json (JArr vs) @ r) = Some (JArr vs, r)"
proof -
  obtain v ws where vs: "vs = v # ws" using assms(1) by (cases vs) auto
  let ?txt = "join_with '','' (map write_json vs) @ CHR '']'' # r"
  obtain t where t: "?txt = write_json v @ t" by (cases ws) (auto simp: vs)
  obtain c cs where c: "write_json v = c # cs" "skip_ws (c # cs @ t) = c # cs @ t" "c \<noteq> CHR '']''"
    using assms(2) vs by (auto intro: write_json_start [of v t])
  have "skip_ws ?txt \<noteq> [] \<and> hd (skip_ws ?txt) \<noteq> CHR '']''" unfolding t c(1) using c(2,3) by simp
  then show ?thesis using assms(3) by simp
qed

lemma p_val_open_obj:
  assumes "ms \<noteq> []"
    and "p_obj f (join_with '','' (map (\<lambda>m. json_quote (fst m) @ CHR '':'' # write_json (snd m)) ms)
      @ CHR 0x7D # r) = Some (ms, r)"
  shows "p_val (Suc f) (write_json (JObj ms) @ r) = Some (JObj ms, r)"
proof -
  let ?txt = "join_with '','' (map (\<lambda>m. json_quote (fst m) @ CHR '':'' # write_json (snd m)) ms) @ CHR 0x7D # r"
  obtain m ns where ms: "ms = m # ns" using assms(1) by (cases ms) auto
  have "\<exists>t. ?txt = CHR 0x22 # t" by (cases ns) (auto simp: ms json_quote_def)
  then have "skip_ws ?txt \<noteq> [] \<and> hd (skip_ws ?txt) \<noteq> CHR 0x7D" by auto
  then show ?thesis using assms(2) by (simp del: p_obj.simps)
qed

lemma p_val_written:
  "json_valid j \<Longrightarrow> json_need j \<le> f \<Longrightarrow> ends_value r \<Longrightarrow> p_val f (write_json j @ r) = Some (j, r)"
proof (induction j arbitrary: f r)
  case JNull
  then show ?case using p_val_keyword(1) [of "f - 1" r] by (simp del: p_val.simps)
next
  case (JBool b)
  then show ?case using p_val_keyword(2,3) [of "f - 1" r] by (simp del: p_val.simps)
next
  case (JNum s)
  then show ?case using p_val_number [of s r "f - 1"] by (simp del: p_val.simps)
next
  case (JStr s)
  then show ?case using p_val_quoted [of "f - 1" s r] by (simp del: p_val.simps)
next
  case (JArr vs)
  then obtain g where f: "f = Suc g" by (cases f) auto
  show ?case
  proof (cases "vs = []")
    case True
    then show ?thesis using f by simp
  next
    case False
    have valid: "list_all json_valid vs" using JArr.prems(1) by simp
    have "p_arr g (join_with '','' (map write_json vs) @ CHR '']'' # r) = Some (vs, r)"
      using JArr f False valid by (intro p_arr_written) (auto simp: list_all_iff simp del: p_val.simps)
    then show ?thesis unfolding f by (rule p_val_open_arr [OF False valid])
  qed
next
  case (JObj ms)
  then obtain g where f: "f = Suc g" by (cases f) auto
  show ?case
  proof (cases "ms = []")
    case True
    then show ?thesis using f by simp
  next
    case False
    have IH: "p_val f (write_json (snd m) @ r) = Some (snd m, r)"
      if "m \<in> set ms" "json_need (snd m) \<le> f" "ends_value r" for m f r
      using JObj.IH [of m "snd m" f r] JObj.prems(1) that
      by (cases m) (auto simp: list_all_iff simp del: p_val.simps)
    have "p_obj g (join_with '','' (map (\<lambda>m. json_quote (fst m) @ CHR '':'' # write_json (snd m)) ms)
        @ CHR 0x7D # r) = Some (ms, r)"
      using JObj.prems f False by (intro p_obj_written IH) auto
    then show ?thesis unfolding f by (rule p_val_open_obj [OF False])
  qed
qed

lemma length_join_with:
  "length (join_with [c] xs) = sum_list (map length xs) + (length xs - 1)"
  by (induction "[c]" xs rule: join_with.induct) auto

lemma sum_list_le: "(\<And>x. x \<in> set xs \<Longrightarrow> f x \<le> (g x :: nat)) \<Longrightarrow> sum_list (map f xs) \<le> sum_list (map g xs)"
  by (rule sum_list_mono)

lemma json_need_bound: "json_valid j \<Longrightarrow> json_need j \<le> 2 * length (write_json j)"
proof (induction j)
  case (JNum s)
  then have "s \<noteq> []" by (auto simp: json_number_def valid_number_def)
  then show ?case by (cases s) auto
next
  case (JArr vs)
  have "sum_list (map json_need vs) \<le> sum_list (map (\<lambda>v. 2 * length (write_json v)) vs)"
    using JArr by (intro sum_list_mono) (auto simp: list_all_iff)
  also have "\<dots> = 2 * sum_list (map (length \<circ> write_json) vs)"
    unfolding comp_def by (rule sum_list_const_mult)
  finally show ?case by (simp add: length_join_with)
next
  case (JObj ms)
  have "json_need (snd m) \<le> 2 * length (write_json (snd m))" if "m \<in> set ms" for m
    using JObj that by (cases m) (auto simp: list_all_iff)
  then have "sum_list (map (\<lambda>m. json_need (snd m)) ms) \<le>
      sum_list (map (\<lambda>m. 2 * length (json_quote (fst m) @ CHR '':'' # write_json (snd m))) ms)"
    by (intro sum_list_mono) fastforce
  also have "\<dots> = 2 * sum_list (map (length \<circ> (\<lambda>m. json_quote (fst m) @ CHR '':'' # write_json (snd m))) ms)"
    unfolding comp_def by (rule sum_list_const_mult)
  finally show ?case
    unfolding write_json.simps json_need.simps length_Cons length_append length_join_with map_map
    by (cases ms) simp_all
qed (auto simp: json_quote_def)

lemma parse_json_write: "json_valid j \<Longrightarrow> parse_json (write_json j) = Some j"
  using p_val_written [of j "2 * length (write_json j) + 2" "[]"] json_need_bound [of j]
  by (simp add: parse_json_def del: p_val.simps)

text \<open>Integers in decimal notation are numbers.\<close>

lemma nat_digits_digits: "list_all is_digit (nat_digits n)"
proof (induction n rule: nat_digits.induct)
  case (1 n)
  have digit: "is_digit (digit_char d)" if "d < 10" for d using that by (simp add: is_digit_def)
  show ?case using 1 by (subst nat_digits.simps) (simp add: digit)
qed

lemma hd_nat_digits_zero: "0 < n \<Longrightarrow> hd (nat_digits n) \<noteq> CHR ''0''"
proof (induction n rule: nat_digits.induct)
  case (1 n)
  show ?case
  proof (cases "n < 10")
    case True
    have "digit_char n \<noteq> CHR ''0''"
    proof
      assume "digit_char n = CHR ''0''"
      then have "(of_char (digit_char n) :: nat) = 48" by simp
      then show False using True 1(2) by (simp add: of_char_digit_char)
    qed
    then show ?thesis using True by (subst nat_digits.simps) simp
  next
    case False
    with 1 show ?thesis by (subst nat_digits.simps) simp
  qed
qed

lemma valid_number_digits: "valid_number (nat_digits n)"
proof -
  obtain c cs where c: "nat_digits n = c # cs" by (meson list.exhaust nat_digits_not_Nil)
  have digits: "is_digit c" "list_all is_digit cs" using nat_digits_digits [of n] by (simp_all add: c)
  have sign: "c \<noteq> CHR ''-''" using digits(1) by (auto simp: is_digit_def digit_val_def)
  have nil: "valid_frac []" by (simp add: valid_frac_def valid_exp_def)
  show ?thesis
  proof (cases "n = 0")
    case True
    have "digit_char 0 = CHR ''0''" by code_simp
    then have "c # cs = ''0''" using c True by (simp add: nat_digits.simps)
    then show ?thesis using c nil by (simp add: valid_number_def is_digit_def digit_val_def)
  next
    case False
    then have "c \<noteq> CHR ''0''" using hd_nat_digits_zero [of n] c by simp
    moreover have "dropWhile is_digit cs = []"
      using digits(2) by (simp add: list_all_iff dropWhile_eq_Nil_conv)
    then have "valid_frac (dropWhile is_digit cs)" using nil by (simp only:)
    ultimately show ?thesis using c digits(1) sign by (simp add: valid_number_def)
  qed
qed

lemma json_number_format_int: "json_number (format_int i)"
proof -
  have chars: "list_all number_char (nat_digits n)" for n
    using nat_digits_digits [of n] by (auto simp: list_all_iff number_char_def)
  have minus: "c \<noteq> CHR ''-'' \<Longrightarrow> valid_number (c # cs) \<Longrightarrow> valid_number (CHR ''-'' # c # cs)" for c cs
    by (simp add: valid_number_def)
  have "valid_number (CHR ''-'' # nat_digits n)" for n
  proof -
    obtain c cs where c: "nat_digits n = c # cs" by (meson list.exhaust nat_digits_not_Nil)
    then have "is_digit c" using nat_digits_digits [of n] by simp
    then have "c \<noteq> CHR ''-''" by (auto simp: is_digit_def digit_val_def)
    then show ?thesis using minus valid_number_digits [of n] c by simp
  qed
  then show ?thesis
    using chars valid_number_digits
    by (auto simp: json_number_def format_int_def number_char_def)
qed

end
