(* ===== verification/KlineSubs.thy ===== *)
theory KlineSubs
  imports SymbolMap JsonText
begin

text \<open>
  The subscriptions to market data streams (\<open>internal/service/exchange/kline_resync.go\<close> and the
  queries of \<open>internal/repository/kline_subscription.repository.go\<close> it uses): which subscriptions a
  market's stream takes, the \<open>SUBSCRIBE\<close> payload, and the resynchronisation with the database.
\<close>

subsection \<open>Normalising subscriptions\<close>

definition normalizeSubscriptionMarketType :: "string \<Rightarrow> kline_subscription \<Rightarrow> string" where
  "normalizeSubscriptionMarketType exchange sub =
     (let normalized = NormalizeMarketType (ks_market_type sub)
      in if exchange \<noteq> ExchangeBinance then normalized
         else if has_suffix (to_upper (trim_space (ks_symbol sub))) ''.P'' then MarketTypeFutures
         else normalized)"

definition buildKlineSubscriptionPayload :: "string \<Rightarrow> string \<Rightarrow> string" where
  "buildKlineSubscriptionPayload exchangeKlineSymbol interval =
     (let param = to_lower (trim_space exchangeKlineSymbol) @ ''@kline_'' @ trim_space interval
      in write_json (JObj [(''id'', JNum ''1''), (''method'', JStr ''SUBSCRIBE''),
           (''params'', JArr [JStr param])]))"

definition normalize_subscription :: "resync_deps \<Rightarrow> kline_subscription \<Rightarrow> kline_subscription option" where
  "normalize_subscription deps sub =
     (if ks_exchange sub \<noteq> rd_exchange deps then Some sub
      else
        (let subMarketType = normalizeSubscriptionMarketType (rd_exchange deps) sub
         in if subMarketType \<noteq> effectiveMarketType (rd_market deps) then None
            else
              (let internalSymbol = resolveInternalSymbolFromKlineMapping deps (ks_symbol sub);
                   exchangeSymbol = resolveExchangeKlineSymbolFromMapping deps internalSymbol;
                   interval = trim_space (ks_interval sub);
                   sub = sub\<lparr>ks_symbol := internalSymbol, ks_market_type := subMarketType\<rparr>
               in Some (if ks_payload sub = []
                        then sub\<lparr>ks_payload := buildKlineSubscriptionPayload exchangeSymbol interval\<rparr>
                        else sub))))"

definition normalizeExchangeSubscriptions :: "resync_deps \<Rightarrow> kline_subscription list \<Rightarrow> kline_subscription list" where
  "normalizeExchangeSubscriptions deps subs = List.map_filter (normalize_subscription deps) subs"

definition clearSubscriptionPayloads :: "kline_subscription list \<Rightarrow> kline_subscription list" where
  "clearSubscriptionPayloads subs = map (ks_payload_update (\<lambda>_. [])) subs"

subsection \<open>Resynchronisation\<close>

record kline_resync_state =
  rs_mapping_at :: gotime
  rs_subs_at :: gotime

definition initial_resync_state :: kline_resync_state where
  "initial_resync_state = \<lparr>rs_mapping_at = zero_time, rs_subs_at = zero_time\<rparr>"

definition Equal :: "kline_resync_state \<Rightarrow> kline_resync_state \<Rightarrow> bool" where
  "Equal s other = (rs_mapping_at s = rs_mapping_at other \<and> rs_subs_at s = rs_subs_at other)"

text \<open>
  The database of market data: the two tables, each absent when its repository is \<open>nil\<close>, with a
  flag that says whether its queries are answered.
\<close>

record market_db =
  md_mappings :: "(bool \<times> symbol_mapping list) option"
  md_subs :: "(bool \<times> kline_subscription list) option"

definition refreshExchangeSymbolMapping :: "market_db \<Rightarrow> resync_deps \<Rightarrow> bool \<times> resync_deps" where
  "refreshExchangeSymbolMapping db deps =
     (case md_mappings db of
        None \<Rightarrow> (True, deps)
      | Some (ok, rows) \<Rightarrow>
          (case GetByExchange ok (rd_exchange deps) rows of
             None \<Rightarrow> (False, deps)
           | Some m \<Rightarrow> (True, deps\<lparr>rd_mapping := Some m\<rparr>)))"

definition loadExchangeLatestSubscriptions ::
  "market_db \<Rightarrow> resync_deps \<Rightarrow> kline_subscription list \<Rightarrow> kline_subscription list option" where
  "loadExchangeLatestSubscriptions db deps fallback =
     (case md_subs db of
        None \<Rightarrow> Some (normalizeExchangeSubscriptions deps fallback)
      | Some (ok, rows) \<Rightarrow>
          if \<not> ok then None
          else
            (let wanted = (if rd_exchange deps = ExchangeBinance
                   then filter (\<lambda>s. ks_exchange s = rd_exchange deps) rows
                   else filter (\<lambda>s. ks_exchange s = rd_exchange deps
                          \<and> ks_market_type s = effectiveMarketType (rd_market deps)) rows)
             in Some (normalizeExchangeSubscriptions deps (sort_key (\<lambda>s. - ks_created_at s) wanted))))"

definition loadExchangeResyncState :: "market_db \<Rightarrow> resync_deps \<Rightarrow> kline_resync_state option" where
  "loadExchangeResyncState db deps =
     (let mt = effectiveMarketType (rd_market deps)
      in case md_mappings db of
           Some (False, _) \<Rightarrow> None
         | mappings \<Rightarrow>
             (let state = (case mappings of
                    None \<Rightarrow> initial_resync_state
                  | Some (_, rows) \<Rightarrow> initial_resync_state\<lparr>rs_mapping_at :=
                      GetLatestUpdatedAtByExchangeAndMarketType (rd_exchange deps) mt rows\<rparr>)
              in case md_subs db of
                   None \<Rightarrow> Some state
                 | Some (False, _) \<Rightarrow> None
                 | Some (True, rows) \<Rightarrow> Some (state\<lparr>rs_subs_at := latest_updated (map ks_updated_at
                     (filter (\<lambda>s. ks_exchange s = rd_exchange deps \<and> ks_market_type s = mt) rows))\<rparr>)))"

text \<open>
  \<open>resyncSymbolMappingAndSubscriptions\<close> over the three callbacks, each of which may be absent. The
  result also says whether the connection was closed.
\<close>

definition resyncSymbolMappingAndSubscriptions ::
  "bool \<Rightarrow> kline_subscription list \<Rightarrow> ('s \<Rightarrow> bool \<times> 's) option
     \<Rightarrow> ('s \<Rightarrow> kline_subscription list \<Rightarrow> kline_subscription list option) option
     \<Rightarrow> ('s \<Rightarrow> kline_resync_state option) option \<Rightarrow> 's
     \<Rightarrow> (kline_subscription list \<times> kline_resync_state) option \<times> bool \<times> 's" where
  "resyncSymbolMappingAndSubscriptions conn fallback refresh loadSubs loadState s =
     (let (ok, s) = (case refresh of None \<Rightarrow> (True, s) | Some f \<Rightarrow> f s)
      in if \<not> ok then (None, False, s)
         else
           (let subs = (case loadSubs of None \<Rightarrow> Some fallback | Some load \<Rightarrow> load s fallback)
            in case subs of
                 None \<Rightarrow> (None, conn, s)
               | Some subs \<Rightarrow>
                   (case loadState of
                      None \<Rightarrow> (Some (subs, initial_resync_state), conn, s)
                    | Some load \<Rightarrow>
                        (case load s of
                           None \<Rightarrow> (None, conn, s)
                         | Some state \<Rightarrow> (Some (subs, state), conn, s)))))"

definition resyncExchangeKlineSubscriptions ::
  "market_db \<Rightarrow> bool \<Rightarrow> kline_subscription list \<Rightarrow> resync_deps
     \<Rightarrow> (kline_subscription list \<times> kline_resync_state) option \<times> bool \<times> resync_deps" where
  "resyncExchangeKlineSubscriptions db conn fallback deps =
     resyncSymbolMappingAndSubscriptions conn fallback
       (Some (refreshExchangeSymbolMapping db)) (Some (loadExchangeLatestSubscriptions db))
       (Some (loadExchangeResyncState db)) deps"

subsection \<open>Facts\<close>

lemma resolve_kline_nonempty:
  assumes "\<And>m k i. rd_mapping deps = Some m \<Longrightarrow> index_at es_kline_to_internal m (rd_exchange deps)
      (effectiveMarketType (rd_market deps)) k = Some i \<Longrightarrow> i \<noteq> []"
    and "trim_space s \<noteq> []"
  shows "resolveInternalSymbolFromKlineMapping deps s \<noteq> []"
  using assms
  by (auto simp: resolveInternalSymbolFromKlineMapping_def Let_def deps_indexes_def index_at_def
      snapshotSymbolMapping_def split: option.splits)

lemma buildKlineSubscriptionPayload_parse:
  "parse_json (buildKlineSubscriptionPayload s i) =
     Some (JObj [(''id'', JNum ''1''), (''method'', JStr ''SUBSCRIBE''),
       (''params'', JArr [JStr (norm_lower s @ ''@kline_'' @ trim_space i)])])"
proof -
  have "json_number (format_int 1)" by (rule json_number_format_int)
  moreover have "format_int 1 = ''1''" by code_simp
  ultimately have "json_number ''1''" by simp
  then show ?thesis
    unfolding buildKlineSubscriptionPayload_def Let_def norm_lower_def
    by (intro parse_json_write) simp
qed

lemma payload_not_Nil [simp]: "buildKlineSubscriptionPayload s i \<noteq> []"
  by (simp add: buildKlineSubscriptionPayload_def Let_def)

lemma normalize_subscription_foreign [simp]:
  "ks_exchange sub \<noteq> rd_exchange deps \<Longrightarrow> normalize_subscription deps sub = Some sub"
  by (simp add: normalize_subscription_def)

lemma normalize_subscription_own:
  assumes "ks_exchange sub = rd_exchange deps"
  shows "normalize_subscription deps sub \<noteq> None \<longleftrightarrow>
     normalizeSubscriptionMarketType (rd_exchange deps) sub = effectiveMarketType (rd_market deps)"
  using assms by (simp add: normalize_subscription_def Let_def)

lemma normalize_subscription_Some:
  assumes "normalize_subscription deps sub = Some sub'" "ks_exchange sub = rd_exchange deps"
  shows "ks_exchange sub' = rd_exchange deps \<and> ks_market_type sub' = effectiveMarketType (rd_market deps)
    \<and> ks_symbol sub' = resolveInternalSymbolFromKlineMapping deps (ks_symbol sub)
    \<and> ks_interval sub' = ks_interval sub \<and> ks_payload sub' \<noteq> []
    \<and> (ks_payload sub \<noteq> [] \<longrightarrow> ks_payload sub' = ks_payload sub)"
  using assms by (auto simp: normalize_subscription_def Let_def split: if_splits)

lemma normalizeSubscriptionMarketType_cases:
  "normalizeSubscriptionMarketType e sub = MarketTypeSpot \<or> normalizeSubscriptionMarketType e sub = MarketTypeFutures"
  using NormalizeMarketType_cases [of "ks_market_type sub"]
  by (auto simp: normalizeSubscriptionMarketType_def Let_def)

text \<open>The spot and the futures stream of an exchange split its subscriptions between them.\<close>

lemma normalize_split:
  assumes "ks_exchange sub = rd_exchange deps"
  shows "(normalize_subscription (deps\<lparr>rd_market := MarketTypeSpot\<rparr>) sub = None) =
     (normalize_subscription (deps\<lparr>rd_market := MarketTypeFutures\<rparr>) sub \<noteq> None)"
  using assms normalizeSubscriptionMarketType_cases [of "rd_exchange deps" sub]
  by (auto simp: normalize_subscription_def effectiveMarketType_def Let_def)

lemma map_filter_length: "length (List.map_filter f xs) = length (filter (\<lambda>x. f x \<noteq> None) xs)"
  by (induction xs) (auto split: option.splits)

lemma normalize_split_length:
  assumes "\<forall>sub\<in>set subs. ks_exchange sub = rd_exchange deps"
  shows "length (normalizeExchangeSubscriptions (deps\<lparr>rd_market := MarketTypeSpot\<rparr>) subs)
    + length (normalizeExchangeSubscriptions (deps\<lparr>rd_market := MarketTypeFutures\<rparr>) subs) = length subs"
proof -
  let ?s = "\<lambda>sub. normalize_subscription (deps\<lparr>rd_market := MarketTypeSpot\<rparr>) sub"
  let ?f = "\<lambda>sub. normalize_subscription (deps\<lparr>rd_market := MarketTypeFutures\<rparr>) sub"
  have "filter (\<lambda>x. ?f x \<noteq> None) subs = filter (\<lambda>x. \<not> (?s x \<noteq> None)) subs"
    using assms normalize_split by (intro filter_cong) auto
  then show ?thesis
    unfolding normalizeExchangeSubscriptions_def map_filter_length
    by (simp only: sum_length_filter_compl)
qed

lemma foldl_max_ge: "(a :: 'a :: linorder) \<le> b \<Longrightarrow> a \<le> foldl max b ts"
  by (induction ts arbitrary: b) (simp_all add: max.coboundedI1)

lemma foldl_max_mem: "t \<in> set ts \<Longrightarrow> (t :: 'a :: linorder) \<le> foldl max b ts"
  by (induction ts arbitrary: b) (auto intro: foldl_max_ge)

lemma latest_updated_ge: "t \<in> set ts \<Longrightarrow> t \<le> latest_updated ts"
  by (cases ts) (auto simp: latest_updated_def intro: foldl_max_ge foldl_max_mem)

lemma Equal_iff: "Equal s t \<longleftrightarrow> s = t"
  by (cases s; cases t) (simp add: Equal_def)

lemma initial_resync_state_sel [simp]:
  "rs_mapping_at initial_resync_state = zero_time" "rs_subs_at initial_resync_state = zero_time"
  by (simp_all add: initial_resync_state_def)

end
