(* ===== verification/ExchangeCommon.thy ===== *)
theory ExchangeCommon
  imports Delivery KlineSubs
begin

text \<open>
  What the exchange adapters share (\<open>internal/service/exchange/exchange_common.go\<close>,
  \<open>ws_reconnect.go\<close>, \<open>exchange.go\<close>): credentials, the receive window, signed requests, and the
  HTTP transport. The transport is a script: \<open>vn_replies\<close> holds what the network answers to the
  next calls (\<open>None\<close>, or the end of the script, is a failed call), \<open>vn_requests\<close> logs what was
  sent. HMAC-SHA256 in hexadecimal and \<open>os.Getenv\<close> are parameters.
\<close>

record exchange_lib =
  xl_decimal :: decimal_ops
  xl_hmac :: "string \<Rightarrow> string \<Rightarrow> string"    \<comment> \<open>key, message\<close>
  xl_getenv :: "string \<Rightarrow> string"

subsection \<open>Transport\<close>

record http_reply =
  hr_status :: int
  hr_body :: string

record http_request =
  hq_method :: string
  hq_url :: string
  hq_api_key :: string
  hq_body :: string

record binance_precision =
  bp_base :: int
  bp_quote :: int
  bp_tick :: rat
  bp_step :: rat

record toko_precision =
  tp_base :: int
  tp_quote :: int

record venue =
  vn_ctx_done :: bool
  vn_now :: gotime
  vn_replies :: "http_reply option list"
  vn_requests :: "http_request list"
  vn_binance_precision :: "string \<Rightarrow> binance_precision option"
  vn_toko_precision :: "string \<Rightarrow> toko_precision option"
  vn_binance_mapping :: "exchange_symbol_mapping option"
  vn_toko_mapping :: "exchange_symbol_mapping option"

definition http_do :: "http_request \<Rightarrow> venue \<Rightarrow> http_reply option \<times> venue" where
  "http_do req v =
     (let v' = v\<lparr>vn_requests := vn_requests v @ [req]\<rparr>
      in case vn_replies v of
           [] \<Rightarrow> (None, v')
         | r # rs \<Rightarrow> (r, v'\<lparr>vn_replies := rs\<rparr>))"

text \<open>\<open>url.QueryEscape\<close>: letters, digits and \<open>- _ . ~\<close> are kept, a blank becomes \<open>+\<close>.\<close>

definition upper_hex :: "nat \<Rightarrow> char" where
  "upper_hex d = (if d < 10 then char_of (48 + d) else char_of (55 + d))"

definition unreserved :: "char \<Rightarrow> bool" where
  "unreserved c =
     (let n = of_char c :: nat
      in 48 \<le> n \<and> n \<le> 57 \<or> 65 \<le> n \<and> n \<le> 90 \<or> 97 \<le> n \<and> n \<le> 122
         \<or> c \<in> {CHR ''-'', CHR 0x5F, CHR ''.'', CHR 0x7E})"

definition query_escape :: "string \<Rightarrow> string" where
  "query_escape s = concat (map (\<lambda>c. if unreserved c then [c] else if c = CHR 0x20 then ''+''
     else [CHR 0x25, upper_hex (of_char c div 16), upper_hex (of_char c mod 16)]) s)"

subsection \<open>Accounts, windows and small conversions\<close>

record exchange_credentials =
  ec_key :: string
  ec_secret :: string

text \<open>The configured accounts in the order the map is iterated; a later user id overwrites.\<close>

definition loadExchangeAccounts ::
  "(string \<times> exchange_credentials) list \<Rightarrow> string \<Rightarrow> exchange_credentials option" where
  "loadExchangeAccounts accounts =
     foldl (\<lambda>credentials (rawUserID, account).
        (let userID = trim_space rawUserID
         in if userID = [] then credentials
            else credentials(userID \<mapsto> \<lparr>ec_key = trim_space (ec_key account),
                                         ec_secret = trim_space (ec_secret account)\<rparr>))) Map.empty accounts"

definition credentialsForUser ::
  "exchange_credentials \<Rightarrow> (string \<Rightarrow> exchange_credentials option) \<Rightarrow> string
     \<Rightarrow> exchange_error + exchange_credentials" where
  "credentialsForUser defaultCredentials userCredentials userID =
     (let trimmedUserID = trim_space userID;
          account = (if trimmedUserID = [] then None else userCredentials trimmedUserID)
      in case account of
           Some a \<Rightarrow> if ec_key a \<noteq> [] \<and> ec_secret a \<noteq> [] then Inr a else Inl (CredentialsMissing trimmedUserID)
         | None \<Rightarrow>
             if ec_key defaultCredentials = [] \<or> ec_secret defaultCredentials = []
             then Inl (CredentialsMissing trimmedUserID) else Inr defaultCredentials)"

definition envString :: "exchange_lib \<Rightarrow> string \<Rightarrow> string" where
  "envString L key = trim_space (xl_getenv L key)"

abbreviation defaultExchangeRecvWindow :: int where "defaultExchangeRecvWindow \<equiv> 5000"
abbreviation maxExchangeRecvWindow :: int where "maxExchangeRecvWindow \<equiv> 60000"

definition recvWindowFromEnv :: "exchange_lib \<Rightarrow> string \<Rightarrow> int" where
  "recvWindowFromEnv L envKey =
     (let raw = envString L envKey
      in if raw = [] then defaultExchangeRecvWindow
         else (case parse_int64 raw of
                 None \<Rightarrow> defaultExchangeRecvWindow
               | Some parsed \<Rightarrow> if parsed \<le> 0 \<or> parsed > maxExchangeRecvWindow
                                then defaultExchangeRecvWindow else parsed))"

definition signPayload :: "exchange_lib \<Rightarrow> string \<Rightarrow> string \<Rightarrow> string" where
  "signPayload L secret payload = xl_hmac L secret payload"

definition decimalOrZero :: "decimal_ops \<Rightarrow> string \<Rightarrow> rat option" where
  "decimalOrZero D raw =
     (let trimmed = trim_space raw in if trimmed = [] then Some 0 else d_parse D trimmed)"

definition orderStrategyID :: "string option \<Rightarrow> null_string" where
  "orderStrategyID raw =
     (case raw of None \<Rightarrow> no_string
      | Some s \<Rightarrow> \<lparr>str_val = trim_space s, str_valid = trim_space s \<noteq> []\<rparr>)"

definition orderSentAt :: "gotime \<Rightarrow> int \<Rightarrow> null_time" where
  "orderSentAt now requestedAt =
     (if requestedAt > 0 then some_time (from_unix_milli requestedAt) else some_time now)"

text \<open>
  \<open>wsReconnectDelay\<close>: the powers of two are exact as \<open>float64\<close> up to the largest finite one and
  infinite after it, and both are above the maximum from attempt 4 on. \<open>jitter\<close> is what
  \<open>rng.Int63n\<close> returns, between 0 and the jitter window.
\<close>

abbreviation wsReconnectMinDelay :: duration where "wsReconnectMinDelay \<equiv> second"
abbreviation wsReconnectMaxDelay :: duration where "wsReconnectMaxDelay \<equiv> 15 * second"

definition wsReconnectDelay :: "nat \<Rightarrow> duration \<Rightarrow> duration" where
  "wsReconnectDelay attempt jitter =
     (let base = min (wsReconnectMinDelay * 2 ^ attempt) wsReconnectMaxDelay;
          result = base + jitter
      in if result > wsReconnectMaxDelay then wsReconnectMaxDelay else result)"

subsection \<open>Requests and responses\<close>

definition decode_with :: "((string \<times> json) list \<Rightarrow> 'a option) \<Rightarrow> string \<Rightarrow> 'a option" where
  "decode_with f body = (case parse_json body of None \<Rightarrow> None | Some j \<Rightarrow> into_struct f j)"

definition number :: "decimal_ops \<Rightarrow> string \<Rightarrow> exchange_error + rat" where
  "number D raw = of_option (InvalidNumber raw) (d_parse D raw)"

definition trimmed_valid :: "string \<Rightarrow> null_string" where
  "trimmed_valid s = \<lparr>str_val = trim_space s, str_valid = trim_space s \<noteq> []\<rparr>"

definition client_id_char :: "char \<Rightarrow> bool" where
  "client_id_char c =
     (let n = of_char c :: nat
      in 48 \<le> n \<and> n \<le> 57 \<or> 65 \<le> n \<and> n \<le> 90 \<or> 97 \<le> n \<and> n \<le> 122 \<or> c = CHR 0x5F)"

definition signed_payload :: "exchange_lib \<Rightarrow> string \<Rightarrow> string list \<Rightarrow> string" where
  "signed_payload L secret pairs =
     (let payload = join_with [CHR 0x26] pairs
      in payload @ [CHR 0x26] @ ''signature='' @ signPayload L secret payload)"

definition window_pairs :: "venue \<Rightarrow> int \<Rightarrow> string list" where
  "window_pairs v recvWindow =
     [''timestamp='' @ format_int (unix_milli (vn_now v)), ''recvWindow='' @ format_int recvWindow]"

text \<open>
  What a synchronisation writes into the row, common to both exchanges: the status, the fills, the
  first fill time, and the identifiers the row did not have yet.
\<close>

definition fill_price :: "rat \<Rightarrow> order_history \<Rightarrow> order_history" where
  "fill_price executedPrice h =
     (if executedPrice > 0 then
        (if (case oh_price h of None \<Rightarrow> True | Some p \<Rightarrow> p \<le> 0)
         then h\<lparr>oh_avg_fill_price := Some executedPrice, oh_price := Some executedPrice\<rparr>
         else h\<lparr>oh_avg_fill_price := Some executedPrice\<rparr>)
      else h)"

definition fill_time :: "gotime \<Rightarrow> string \<Rightarrow> order_history \<Rightarrow> order_history" where
  "fill_time now status h =
     (if status = ''FILLED'' \<and> \<not> time_valid (oh_filled_at h) then h\<lparr>oh_filled_at := some_time now\<rparr> else h)"

definition adopt_order_id :: "string \<Rightarrow> order_history \<Rightarrow> order_history" where
  "adopt_order_id orderID h =
     (if orderID \<noteq> [] \<and> trim_space (oh_order_id h) = [] then h\<lparr>oh_order_id := orderID\<rparr> else h)"

definition adopt_client_id :: "string \<Rightarrow> order_history \<Rightarrow> order_history" where
  "adopt_client_id clientID h =
     (if clientID \<noteq> [] \<and> \<not> str_valid (oh_client_order_id h)
      then h\<lparr>oh_client_order_id := some_string clientID\<rparr> else h)"

definition adopt_event_time :: "int \<Rightarrow> order_history \<Rightarrow> order_history" where
  "adopt_event_time eventTime h =
     (if eventTime > 0 \<and> \<not> time_valid (oh_created_at_exchange h)
      then h\<lparr>oh_created_at_exchange := some_time (from_unix_milli eventTime)\<rparr> else h)"

definition adopt_symbol :: "string \<Rightarrow> order_history \<Rightarrow> order_history" where
  "adopt_symbol symbol h = (if symbol \<noteq> [] then h\<lparr>oh_symbol := symbol\<rparr> else h)"

definition synced_history ::
  "gotime \<Rightarrow> string \<Rightarrow> rat \<Rightarrow> rat \<Rightarrow> string \<Rightarrow> string \<Rightarrow> int \<Rightarrow> string \<Rightarrow> order_history \<Rightarrow> order_history" where
  "synced_history now status filledQuantity executedPrice orderID clientID eventTime symbol h =
     adopt_symbol symbol (adopt_event_time eventTime (adopt_client_id clientID (adopt_order_id orderID
       (fill_time now status
         ((fill_price executedPrice (h\<lparr>oh_status := status, oh_filled_quantity := filledQuantity\<rparr>))
            \<lparr>oh_updated_at := now\<rparr>)))))"

subsection \<open>Candles of a market data stream\<close>

record kline_payload =
  kp_event :: string
  kp_event_time :: int
  kp_symbol :: string
  kp_open_time :: int
  kp_close_time :: int
  kp_kline_symbol :: string
  kp_interval :: string
  kp_open :: string
  kp_close :: string
  kp_high :: string
  kp_low :: string
  kp_base_volume :: string
  kp_trade_count :: int
  kp_is_closed :: bool
  kp_quote_volume :: string
  kp_taker_base_volume :: string
  kp_taker_quote_volume :: string

definition kline_tags :: "string list" where
  "kline_tags = [''t'', ''T'', ''s'', ''i'', ''f'', ''L'', ''o'', ''c'', ''h'', ''l'', ''v'', ''n'', ''x'',
     ''q'', ''V'', ''Q'']"

definition payload_tags :: "string list" where
  "payload_tags = [''e'', ''E'', ''s'', ''k'']"

definition kline_payload_of :: "(string \<times> json) list \<Rightarrow> kline_payload option" where
  "kline_payload_of ms = do {
     event \<leftarrow> fstr payload_tags ms ''e''; eventTime \<leftarrow> fint payload_tags ms ''E'';
     symbol \<leftarrow> fstr payload_tags ms ''s''; ks \<leftarrow> fobj payload_tags ms ''k'';
     let str = fstr kline_tags ks; let num = fint kline_tags ks;
     openTime \<leftarrow> num ''t''; closeTime \<leftarrow> num ''T''; ksymbol \<leftarrow> str ''s''; interval \<leftarrow> str ''i'';
     first \<leftarrow> num ''f''; last \<leftarrow> num ''L'';
     open \<leftarrow> str ''o''; close \<leftarrow> str ''c''; high \<leftarrow> str ''h''; low \<leftarrow> str ''l'';
     base \<leftarrow> str ''v''; count \<leftarrow> fint32 kline_tags ks ''n''; closed \<leftarrow> fbool kline_tags ks ''x'';
     quote \<leftarrow> str ''q''; takerBase \<leftarrow> str ''V''; takerQuote \<leftarrow> str ''Q'';
     Some \<lparr>kp_event = event, kp_event_time = eventTime, kp_symbol = symbol, kp_open_time = openTime,
       kp_close_time = closeTime, kp_kline_symbol = ksymbol, kp_interval = interval, kp_open = open,
       kp_close = close, kp_high = high, kp_low = low, kp_base_volume = base, kp_trade_count = count,
       kp_is_closed = closed, kp_quote_volume = quote, kp_taker_base_volume = takerBase,
       kp_taker_quote_volume = takerQuote\<rparr>
   }"

definition wrapped_payload_of :: "(string \<times> json) list \<Rightarrow> kline_payload option" where
  "wrapped_payload_of ms = do {
     stream \<leftarrow> fstr [''stream'', ''data''] ms ''stream'';
     data \<leftarrow> fobj [''stream'', ''data''] ms ''data'';
     kline_payload_of data
   }"

text \<open>The subject of a candle's event (\<open>internal/constant/kline.go\<close>).\<close>

definition GetKlineStreamSubject :: "string \<Rightarrow> string \<Rightarrow> string \<Rightarrow> string" where
  "GetKlineStreamSubject exchange symbol interval =
     to_upper (''KLINE.'' @ exchange @ ''.'' @ symbol @ ''.'' @ interval)"

datatype kline_error = KlineDecodeFailed | KlineInvalidNumber string | KlinePublishFailed

definition kline_of_payload ::
  "decimal_ops \<Rightarrow> string \<Rightarrow> string \<Rightarrow> resync_deps \<Rightarrow> gotime \<Rightarrow> kline_payload \<Rightarrow> kline_error + market_kline" where
  "kline_of_payload D exchange market deps now p =
     (let num = (\<lambda>raw. of_option (KlineInvalidNumber raw) (d_parse D raw))
      in bind_res (num (kp_open p)) (\<lambda>openPrice.
         bind_res (num (kp_close p)) (\<lambda>closePrice.
         bind_res (num (kp_high p)) (\<lambda>highPrice.
         bind_res (num (kp_low p)) (\<lambda>lowPrice.
         bind_res (num (kp_base_volume p)) (\<lambda>baseVolume.
         bind_res (num (kp_quote_volume p)) (\<lambda>quoteVolume.
         bind_res (num (kp_taker_base_volume p)) (\<lambda>takerBaseVolume.
         bind_res (num (kp_taker_quote_volume p)) (\<lambda>takerQuoteVolume.
           (let symbol = trim_space (kp_kline_symbol p);
                symbol = (if symbol = [] then trim_space (kp_symbol p) else symbol)
            in Inr \<lparr>mk_id = [], mk_exchange = exchange, mk_market_type = market,
                 mk_event_type = kp_event p, mk_event_time = from_unix_milli (kp_event_time p),
                 mk_symbol = resolveInternalSymbolFromMapping deps symbol, mk_interval = kp_interval p,
                 mk_open_time = from_unix_milli (kp_open_time p),
                 mk_close_time = from_unix_milli (kp_close_time p),
                 mk_open_price = openPrice, mk_high_price = highPrice, mk_low_price = lowPrice,
                 mk_close_price = closePrice, mk_base_volume = baseVolume, mk_quote_volume = quoteVolume,
                 mk_taker_base_volume = takerBaseVolume, mk_taker_quote_volume = takerQuoteVolume,
                 mk_trade_count = kp_trade_count p, mk_is_closed = kp_is_closed p,
                 mk_created_at = now, mk_updated_at = now\<rparr>))))))))))"

definition publish_payload ::
  "decimal_ops \<Rightarrow> string \<Rightarrow> string \<Rightarrow> resync_deps \<Rightarrow> gotime \<Rightarrow> bool \<Rightarrow> kline_payload \<Rightarrow> event list
     \<Rightarrow> kline_error option \<times> event list" where
  "publish_payload D exchange market deps now publish_ok p evs =
     (if kp_event p \<noteq> ''kline'' \<or> kp_close p = [] then (None, evs)
      else case kline_of_payload D exchange market deps now p of
        Inl e \<Rightarrow> (Some e, evs)
      | Inr data \<Rightarrow>
          (case PublishEvent publish_ok
                  (KlineEvent (GetKlineStreamSubject exchange (mk_symbol data) (mk_interval data)) data) evs of
             (True, evs) \<Rightarrow> (None, evs)
           | (False, evs) \<Rightarrow> (Some KlinePublishFailed, evs)))"

subsection \<open>Facts\<close>

lemma http_do_requests [frame_simps]: "vn_requests (snd (http_do req v)) = vn_requests v @ [req]"
  by (simp add: http_do_def Let_def split: list.splits)

lemma http_do_frame [frame_simps]:
  "vn_now (snd (http_do req v)) = vn_now v" "vn_ctx_done (snd (http_do req v)) = vn_ctx_done v"
  "vn_binance_precision (snd (http_do req v)) = vn_binance_precision v"
  "vn_toko_precision (snd (http_do req v)) = vn_toko_precision v"
  "vn_binance_mapping (snd (http_do req v)) = vn_binance_mapping v"
  "vn_toko_mapping (snd (http_do req v)) = vn_toko_mapping v"
  by (simp_all add: http_do_def Let_def split: list.splits)

text \<open>The orders among the requests that were sent.\<close>

definition posts :: "venue \<Rightarrow> http_request list" where
  "posts v = filter (\<lambda>r. hq_method r = ''POST'') (vn_requests v)"

lemma posts_http_do [frame_simps]:
  "posts (snd (http_do req v)) = posts v @ (if hq_method req = ''POST'' then [req] else [])"
  by (simp add: posts_def http_do_requests)

lemma posts_precision [frame_simps]:
  "posts (v\<lparr>vn_binance_precision := x\<rparr>) = posts v" "posts (v\<lparr>vn_toko_precision := y\<rparr>) = posts v"
  by (simp_all add: posts_def)

lemma recvWindow_bounds: "1 \<le> recvWindowFromEnv L k" "recvWindowFromEnv L k \<le> maxExchangeRecvWindow"
  by (simp_all add: recvWindowFromEnv_def Let_def split: option.splits)

lemma wsReconnectDelay_bounds:
  assumes "0 \<le> jitter"
  shows "wsReconnectMinDelay \<le> wsReconnectDelay attempt jitter"
    "wsReconnectDelay attempt jitter \<le> wsReconnectMaxDelay"
proof -
  have "(1 :: int) \<le> 2 ^ attempt" by simp
  then have "second * 1 \<le> second * 2 ^ attempt" by (intro mult_left_mono) (simp_all add: second_def)
  moreover have "second \<le> 15 * second" by (simp add: second_def)
  ultimately show "wsReconnectMinDelay \<le> wsReconnectDelay attempt jitter"
    using assms unfolding wsReconnectDelay_def Let_def by auto
  show "wsReconnectDelay attempt jitter \<le> wsReconnectMaxDelay"
    by (simp add: wsReconnectDelay_def Let_def)
qed

lemma credentialsForUser_complete:
  "credentialsForUser d us u = Inr c \<Longrightarrow> ec_key c \<noteq> [] \<and> ec_secret c \<noteq> []"
  by (auto simp: credentialsForUser_def Let_def split: option.splits if_splits)

text \<open>The credentials of a configured user are never replaced by the default ones.\<close>

lemma credentialsForUser_own:
  "us (trim_space u) = Some a \<Longrightarrow> trim_space u \<noteq> [] \<Longrightarrow> credentialsForUser d us u = Inr c \<Longrightarrow> c = a"
  by (auto simp: credentialsForUser_def Let_def split: if_splits)

lemma loadExchangeAccounts_trimmed:
  "loadExchangeAccounts accounts u = Some a \<Longrightarrow> trim_space u = u \<and> u \<noteq> []
     \<and> trim_space (ec_key a) = ec_key a \<and> trim_space (ec_secret a) = ec_secret a"
proof (induction accounts rule: rev_induct)
  case Nil
  then show ?case by (simp add: loadExchangeAccounts_def)
next
  case (snoc x accounts)
  then show ?case
    by (auto simp: loadExchangeAccounts_def Let_def split: prod.splits if_splits)
qed

text \<open>What each step of a synchronisation leaves alone.\<close>

lemma sync_step_keeps [frame_simps]:
  "oh_id (fill_price e h) = oh_id h" "oh_request_id (fill_price e h) = oh_request_id h" "oh_user_id (fill_price e h) = oh_user_id h" "oh_exchange (fill_price e h) = oh_exchange h" "oh_created_at (fill_price e h) = oh_created_at h"
  "oh_quantity (fill_price e h) = oh_quantity h" "oh_side (fill_price e h) = oh_side h" "oh_order_reason (fill_price e h) = oh_order_reason h" "oh_entry_order_id (fill_price e h) = oh_entry_order_id h" "oh_market_type (fill_price e h) = oh_market_type h"
  "oh_id (fill_time t s h) = oh_id h" "oh_request_id (fill_time t s h) = oh_request_id h" "oh_user_id (fill_time t s h) = oh_user_id h" "oh_exchange (fill_time t s h) = oh_exchange h" "oh_created_at (fill_time t s h) = oh_created_at h"
  "oh_quantity (fill_time t s h) = oh_quantity h" "oh_side (fill_time t s h) = oh_side h" "oh_order_reason (fill_time t s h) = oh_order_reason h" "oh_entry_order_id (fill_time t s h) = oh_entry_order_id h" "oh_market_type (fill_time t s h) = oh_market_type h"
  "oh_id (adopt_order_id s h) = oh_id h" "oh_request_id (adopt_order_id s h) = oh_request_id h" "oh_user_id (adopt_order_id s h) = oh_user_id h" "oh_exchange (adopt_order_id s h) = oh_exchange h" "oh_created_at (adopt_order_id s h) = oh_created_at h"
  "oh_quantity (adopt_order_id s h) = oh_quantity h" "oh_side (adopt_order_id s h) = oh_side h" "oh_order_reason (adopt_order_id s h) = oh_order_reason h" "oh_entry_order_id (adopt_order_id s h) = oh_entry_order_id h" "oh_market_type (adopt_order_id s h) = oh_market_type h"
  "oh_id (adopt_client_id s h) = oh_id h" "oh_request_id (adopt_client_id s h) = oh_request_id h" "oh_user_id (adopt_client_id s h) = oh_user_id h" "oh_exchange (adopt_client_id s h) = oh_exchange h" "oh_created_at (adopt_client_id s h) = oh_created_at h"
  "oh_quantity (adopt_client_id s h) = oh_quantity h" "oh_side (adopt_client_id s h) = oh_side h" "oh_order_reason (adopt_client_id s h) = oh_order_reason h" "oh_entry_order_id (adopt_client_id s h) = oh_entry_order_id h" "oh_market_type (adopt_client_id s h) = oh_market_type h"
  "oh_id (adopt_event_time i h) = oh_id h" "oh_request_id (adopt_event_time i h) = oh_request_id h" "oh_user_id (adopt_event_time i h) = oh_user_id h" "oh_exchange (adopt_event_time i h) = oh_exchange h" "oh_created_at (adopt_event_time i h) = oh_created_at h"
  "oh_quantity (adopt_event_time i h) = oh_quantity h" "oh_side (adopt_event_time i h) = oh_side h" "oh_order_reason (adopt_event_time i h) = oh_order_reason h" "oh_entry_order_id (adopt_event_time i h) = oh_entry_order_id h" "oh_market_type (adopt_event_time i h) = oh_market_type h"
  "oh_id (adopt_symbol s h) = oh_id h" "oh_request_id (adopt_symbol s h) = oh_request_id h" "oh_user_id (adopt_symbol s h) = oh_user_id h" "oh_exchange (adopt_symbol s h) = oh_exchange h" "oh_created_at (adopt_symbol s h) = oh_created_at h"
  "oh_quantity (adopt_symbol s h) = oh_quantity h" "oh_side (adopt_symbol s h) = oh_side h" "oh_order_reason (adopt_symbol s h) = oh_order_reason h" "oh_entry_order_id (adopt_symbol s h) = oh_entry_order_id h" "oh_market_type (adopt_symbol s h) = oh_market_type h"
  by (simp_all add: fill_price_def fill_time_def adopt_order_id_def adopt_client_id_def
      adopt_event_time_def adopt_symbol_def)

lemma sync_step_fields [frame_simps]:
  "oh_status (fill_price e h) = oh_status h" "oh_status (fill_time t s h) = oh_status h" "oh_status (adopt_order_id s h) = oh_status h" "oh_status (adopt_client_id s h) = oh_status h" "oh_status (adopt_event_time i h) = oh_status h" "oh_status (adopt_symbol s h) = oh_status h"
  "oh_filled_quantity (fill_price e h) = oh_filled_quantity h" "oh_filled_quantity (fill_time t s h) = oh_filled_quantity h" "oh_filled_quantity (adopt_order_id s h) = oh_filled_quantity h" "oh_filled_quantity (adopt_client_id s h) = oh_filled_quantity h" "oh_filled_quantity (adopt_event_time i h) = oh_filled_quantity h" "oh_filled_quantity (adopt_symbol s h) = oh_filled_quantity h"
  "oh_updated_at (fill_price e h) = oh_updated_at h" "oh_updated_at (fill_time t s h) = oh_updated_at h" "oh_updated_at (adopt_order_id s h) = oh_updated_at h" "oh_updated_at (adopt_client_id s h) = oh_updated_at h" "oh_updated_at (adopt_event_time i h) = oh_updated_at h" "oh_updated_at (adopt_symbol s h) = oh_updated_at h"
  "oh_filled_at (fill_price e h) = oh_filled_at h" "oh_filled_at (adopt_order_id s h) = oh_filled_at h" "oh_filled_at (adopt_client_id s h) = oh_filled_at h" "oh_filled_at (adopt_event_time i h) = oh_filled_at h" "oh_filled_at (adopt_symbol s h) = oh_filled_at h"
  "oh_price (fill_time t s h) = oh_price h" "oh_price (adopt_order_id s h) = oh_price h" "oh_price (adopt_client_id s h) = oh_price h" "oh_price (adopt_event_time i h) = oh_price h" "oh_price (adopt_symbol s h) = oh_price h"
  "oh_avg_fill_price (fill_time t s h) = oh_avg_fill_price h" "oh_avg_fill_price (adopt_order_id s h) = oh_avg_fill_price h" "oh_avg_fill_price (adopt_client_id s h) = oh_avg_fill_price h" "oh_avg_fill_price (adopt_event_time i h) = oh_avg_fill_price h" "oh_avg_fill_price (adopt_symbol s h) = oh_avg_fill_price h"
  "oh_order_id (fill_price e h) = oh_order_id h" "oh_order_id (fill_time t s h) = oh_order_id h" "oh_order_id (adopt_client_id s h) = oh_order_id h" "oh_order_id (adopt_event_time i h) = oh_order_id h" "oh_order_id (adopt_symbol s h) = oh_order_id h"
  by (simp_all add: fill_price_def fill_time_def adopt_order_id_def adopt_client_id_def
      adopt_event_time_def adopt_symbol_def)

lemma synced_history_keeps:
  "oh_id (synced_history now st fq ep oid cid et sy h) = oh_id h"
  "oh_request_id (synced_history now st fq ep oid cid et sy h) = oh_request_id h"
  "oh_user_id (synced_history now st fq ep oid cid et sy h) = oh_user_id h"
  "oh_exchange (synced_history now st fq ep oid cid et sy h) = oh_exchange h"
  "oh_created_at (synced_history now st fq ep oid cid et sy h) = oh_created_at h"
  "oh_quantity (synced_history now st fq ep oid cid et sy h) = oh_quantity h"
  "oh_side (synced_history now st fq ep oid cid et sy h) = oh_side h"
  "oh_order_reason (synced_history now st fq ep oid cid et sy h) = oh_order_reason h"
  "oh_entry_order_id (synced_history now st fq ep oid cid et sy h) = oh_entry_order_id h"
  "oh_market_type (synced_history now st fq ep oid cid et sy h) = oh_market_type h"
  by (simp_all add: synced_history_def frame_simps)

lemma synced_history_order_id:
  "trim_space (oh_order_id h) \<noteq> [] \<Longrightarrow> oh_order_id (synced_history now st fq ep oid cid et sy h) = oh_order_id h"
  by (simp add: synced_history_def frame_simps adopt_order_id_def)

lemma synced_history_status:
  "oh_status (synced_history now st fq ep oid cid et sy h) = st"
  "oh_filled_quantity (synced_history now st fq ep oid cid et sy h) = fq"
  "oh_updated_at (synced_history now st fq ep oid cid et sy h) = now"
  by (simp_all add: synced_history_def frame_simps)

text \<open>The time of the fill is set when the order is first seen filled, and never changed.\<close>

lemma synced_history_filled_at:
  "oh_filled_at (synced_history now st fq ep oid cid et sy h) =
     (if time_valid (oh_filled_at h) \<or> st \<noteq> ''FILLED'' then oh_filled_at h else some_time now)"
  by (auto simp: synced_history_def frame_simps fill_time_def)

lemma synced_history_price:
  "oh_price (synced_history now st fq ep oid cid et sy h) =
     (if ep > 0 \<and> (case oh_price h of None \<Rightarrow> True | Some p \<Rightarrow> p \<le> 0) then Some ep else oh_price h)"
  by (simp add: synced_history_def frame_simps fill_price_def split: option.splits)

subsection \<open>The interface of a code table\<close>

text \<open>
  An exchange's codes for sides and types: every valid value has a code, and decoding the code of
  a valid value gives the value back.
\<close>

locale code_table =
  fixes encode :: "'v \<Rightarrow> exchange_error + 'c" and decode :: "'c \<Rightarrow> exchange_error + 'v"
    and valid :: "'v \<Rightarrow> bool"
  assumes encode_valid: "valid x \<Longrightarrow> is_ok (encode x)"
    and decode_encode: "valid x \<Longrightarrow> encode x = Inr c \<Longrightarrow> decode c = Inr x"
begin

lemma encode_inj: "valid x \<Longrightarrow> valid y \<Longrightarrow> encode x = encode y \<Longrightarrow> x = y"
  by (metis decode_encode encode_valid is_ok_iff sum.inject(2))

lemma round_trip: "valid x \<Longrightarrow> bind_res (encode x) decode = Inr x"
  using encode_valid [of x] decode_encode by (auto simp: is_ok_iff)

end

subsection \<open>Publishing candles\<close>

lemma publish_payload_cases:
  "(\<exists>e. publish_payload D exchange market deps now ok p evs = (Some e, evs))
   \<or> (publish_payload D exchange market deps now ok p evs = (None, evs) \<and> (kp_event p \<noteq> ''kline'' \<or> kp_close p = []))
   \<or> (\<exists>data. kline_of_payload D exchange market deps now p = Inr data
        \<and> publish_payload D exchange market deps now ok p evs =
            (None, evs @ [KlineEvent (GetKlineStreamSubject exchange (mk_symbol data) (mk_interval data)) data]))"
  by (cases ok) (auto simp: publish_payload_def split: sum.splits)

lemma kline_of_payload_fields:
  "kline_of_payload D exchange market deps now p = Inr data \<Longrightarrow>
     mk_exchange data = exchange \<and> mk_market_type data = market
     \<and> mk_open_time data = from_unix_milli (kp_open_time p) \<and> mk_interval data = kp_interval p
     \<and> d_parse D (kp_close p) = Some (mk_close_price data) \<and> d_parse D (kp_open p) = Some (mk_open_price data)
     \<and> d_parse D (kp_high p) = Some (mk_high_price data) \<and> d_parse D (kp_low p) = Some (mk_low_price data)"
  unfolding kline_of_payload_def Let_def by (elim bind_resE) (auto simp: resolveInternalSymbolFromMapping_def)

end
