(* ===== verification/Binance.thy ===== *)
theory Binance
  imports ExchangeCommon
begin

text \<open>
  The Binance adapter (\<open>internal/service/exchange/binance.exchange.go\<close>): placing an order on the
  spot or the futures market, reading an order's state back, the tables of codes, the precision
  cache and the incoming market data. Log statements are left out, and with them the decoding of
  the acknowledgement frames, which only feeds logs.
\<close>

subsection \<open>Configuration\<close>

record binance_config =
  bc_default :: exchange_credentials
  bc_accounts :: "string \<Rightarrow> exchange_credentials option"
  bc_spot_url :: string
  bc_futures_url :: string
  bc_default_market :: string
  bc_recv_window :: int

definition InitBinanceExchange ::
  "exchange_lib \<Rightarrow> exchange_credentials \<Rightarrow> (string \<times> exchange_credentials) list \<Rightarrow> binance_config" where
  "InitBinanceExchange L keys accounts =
     (let spotBaseURL = trim_space (xl_getenv L ''BINANCE_BASE_URL'');
          spotBaseURL = (if spotBaseURL = [] then trim_space (xl_getenv L ''BINANCE_SPOT_BASE_URL'')
                         else spotBaseURL);
          spotBaseURL = (if spotBaseURL = [] then ''https://api.binance.com'' else spotBaseURL);
          futuresBaseURL = trim_space (xl_getenv L ''BINANCE_FUTURES_BASE_URL'');
          futuresBaseURL = (if futuresBaseURL = [] then ''https://fapi.binance.com'' else futuresBaseURL)
      in \<lparr>bc_default = \<lparr>ec_key = trim_space (ec_key keys), ec_secret = trim_space (ec_secret keys)\<rparr>,
          bc_accounts = loadExchangeAccounts accounts,
          bc_spot_url = trim_right_char spotBaseURL CHR ''/'',
          bc_futures_url = trim_right_char futuresBaseURL CHR ''/'',
          bc_default_market = NormalizeMarketType (xl_getenv L ''BINANCE_TRADE_MODE''),
          bc_recv_window = recvWindowFromEnv L ''BINANCE_RECV_WINDOW''\<rparr>)"

definition binance_credentials :: "binance_config \<Rightarrow> string \<Rightarrow> exchange_error + exchange_credentials" where
  "binance_credentials C userID = credentialsForUser (bc_default C) (bc_accounts C) userID"

definition binance_deps :: "venue \<Rightarrow> string \<Rightarrow> resync_deps" where
  "binance_deps v marketType =
     \<lparr>rd_exchange = ExchangeBinance, rd_market = marketType, rd_mapping = vn_binance_mapping v\<rparr>"

definition resolveMarketType :: "binance_config \<Rightarrow> string \<Rightarrow> string" where
  "resolveMarketType C raw = (if trim_space raw = [] then bc_default_market C else NormalizeMarketType raw)"

definition is_futures :: "string \<Rightarrow> bool" where
  "is_futures marketType = (NormalizeMarketType marketType = MarketTypeFutures)"

definition orderPathByMarketType :: "string \<Rightarrow> string" where
  "orderPathByMarketType mt = (if is_futures mt then ''/fapi/v1/order'' else ''/api/v3/order'')"

definition exchangeInfoPathByMarketType :: "string \<Rightarrow> string" where
  "exchangeInfoPathByMarketType mt =
     (if is_futures mt then ''/fapi/v1/exchangeInfo'' else ''/api/v3/exchangeInfo'')"

definition klinePathByMarketType :: "string \<Rightarrow> string" where
  "klinePathByMarketType mt = (if is_futures mt then ''/fapi/v1/klines'' else ''/api/v3/klines'')"

definition baseURLByMarketType :: "binance_config \<Rightarrow> string \<Rightarrow> string" where
  "baseURLByMarketType C mt = (if is_futures mt then bc_futures_url C else bc_spot_url C)"

definition wsURLEnvKeyByMarketType :: "string \<Rightarrow> string" where
  "wsURLEnvKeyByMarketType mt = (if is_futures mt then ''BINANCE_FUTURES_WS_URL'' else ''BINANCE_WS_URL'')"

definition defaultWSURLByMarketType :: "string \<Rightarrow> string" where
  "defaultWSURLByMarketType mt = (if is_futures mt then ''wss://fstream.binance.com/market/stream''
     else ''wss://stream.binance.com:9443/stream'')"

subsection \<open>Codes\<close>

definition binanceOrderSideFromCode :: "string \<Rightarrow> exchange_error + string" where
  "binanceOrderSideFromCode code =
     (let c = to_upper (trim_space code)
      in if c = ''BUY'' then Inr OrderSideBuy else if c = ''SELL'' then Inr OrderSideSell
         else Inl (UnsupportedCode code))"

definition binanceOrderTypeFromCode :: "string \<Rightarrow> exchange_error + string" where
  "binanceOrderTypeFromCode code =
     (let c = to_upper (trim_space code)
      in if c = ''LIMIT'' then Inr OrderTypeLimit else if c = ''MARKET'' then Inr OrderTypeMarket
         else Inl (UnsupportedCode code))"

definition binanceOrderStatusFromCode :: "string \<Rightarrow> string" where
  "binanceOrderStatusFromCode code =
     (let c = to_upper (trim_space code)
      in if c = ''NEW'' then ''NEW''
         else if c = ''PARTIALLY_FILLED'' then ''PARTIAL''
         else if c = ''FILLED'' then ''FILLED''
         else if c = ''CANCELED'' \<or> c = ''EXPIRED'' \<or> c = ''PENDING_CANCEL'' then ''CANCELED''
         else if c = ''REJECTED'' then ''REJECTED''
         else if code = [] then ''UNKNOWN'' else code)"

definition binanceOrderTypeCode :: "string \<Rightarrow> exchange_error + string" where
  "binanceOrderTypeCode orderType =
     (if orderType = OrderTypeLimit then Inr ''LIMIT''
      else if orderType = OrderTypeMarket then Inr ''MARKET''
      else Inl (UnsupportedOrderType orderType))"

definition binanceOrderSideCode :: "string \<Rightarrow> string \<Rightarrow> exchange_error + string" where
  "binanceOrderSideCode orderSide marketType =
     (let normalized = NormalizeOrderSideByMarket orderSide marketType
      in if normalized = [] then Inl (UnsupportedOrderSide orderSide)
         else if NormalizeMarketType marketType = MarketTypeFutures then
           (if normalized = OrderSideLong then Inr ''BUY''
            else if normalized = OrderSideShort then Inr ''SELL''
            else Inl (UnsupportedOrderSide orderSide))
         else if normalized = OrderSideBuy then Inr ''BUY''
         else if normalized = OrderSideSell then Inr ''SELL''
         else Inl (UnsupportedOrderSide orderSide))"

text \<open>\<open>^[A-Za-z0-9_-]+$\<close>; the text is not empty when it is matched.\<close>

definition normalizeBinanceClientID :: "string \<Rightarrow> exchange_error + string" where
  "normalizeBinanceClientID raw =
     (let normalized = trim_space raw;
          normalized = remove_char normalized CHR ''-''
      in if normalized = [] then Inl EmptyClientID
         else
           (let normalized = (if length normalized > 36 then take 36 normalized else normalized)
            in if list_all (\<lambda>c. client_id_char c \<or> c = CHR ''-'') normalized then Inr normalized
               else Inl BadClientID))"

definition quantizeDownByStep :: "decimal_ops \<Rightarrow> rat \<Rightarrow> rat \<Rightarrow> rat" where
  "quantizeDownByStep D value step =
     (if \<not> step > 0 then value else d_mul D (d_floor D (d_div D value step)) step)"

subsection \<open>Position sides\<close>

definition normalizeBinanceFuturesPositionMode :: "string \<Rightarrow> string" where
  "normalizeBinanceFuturesPositionMode raw =
     (let mode = to_upper (trim_space raw)
      in if mode \<in> {''HEDGE'', ''HEDGE_MODE'', ''DUAL'', ''DUAL_SIDE'', ''DUALSIDE''} then ''HEDGE''
         else if mode \<in> {''ONE_WAY'', ''ONEWAY'', ''SINGLE''} then ''ONE_WAY''
         else ''AUTO'')"

definition futuresPositionSide :: "exchange_lib \<Rightarrow> order_request \<Rightarrow> string" where
  "futuresPositionSide L order =
     (let mode = normalizeBinanceFuturesPositionMode (xl_getenv L ''BINANCE_FUTURES_POSITION_MODE'')
      in if mode = ''ONE_WAY'' then ''BOTH''
         else
           (let explicit = NormalizePositionSide (rq_position_side order)
            in if explicit = PositionSideLong \<or> explicit = PositionSideShort then explicit
               else
                 (let override = to_upper (trim_space (xl_getenv L ''BINANCE_FUTURES_POSITION_SIDE''))
                  in if override \<in> {''BOTH'', ''LONG'', ''SHORT''}
                        \<and> \<not> (mode = ''HEDGE'' \<and> override = ''BOTH'')
                        \<and> \<not> (mode = ''ONE_WAY'' \<and> (override = ''LONG'' \<or> override = ''SHORT''))
                     then override
                     else if mode = ''HEDGE'' then
                       (if rq_side order = OrderSideShort then ''SHORT'' else ''LONG'')
                     else ''BOTH'')))"

definition alternateFuturesPositionSide :: "string \<Rightarrow> string \<Rightarrow> string \<times> bool" where
  "alternateFuturesPositionSide current sideCode =
     (let c = to_upper (trim_space current)
      in if c = ''LONG'' \<or> c = ''SHORT'' then (''BOTH'', True)
         else if equal_fold (trim_space sideCode) ''SELL'' then (''SHORT'', True)
         else (''LONG'', True))"

subsection \<open>Responses\<close>

record binance_order_snapshot =
  bo_symbol :: string
  bo_order_id :: int
  bo_client_order_id :: string
  bo_event_time :: int
  bo_price :: string
  bo_orig_qty :: string
  bo_executed_qty :: string
  bo_quote_qty :: string
  bo_status :: string
  bo_type :: string
  bo_side :: string

text \<open>
  The three response structs differ in the tags of the quote quantity and of the time; \<open>stamps\<close>
  lists the time tags, the first positive one counting.
\<close>

definition order_response_tags :: "string \<Rightarrow> string list \<Rightarrow> string list" where
  "order_response_tags quoteTag stamps =
     [''symbol'', ''orderId'', ''clientOrderId'', ''price'', ''origQty'', ''executedQty'', quoteTag,
      ''status'', ''type'', ''side''] @ stamps"

definition first_positive :: "int list \<Rightarrow> int" where
  "first_positive ts = (case ts of [t, u] \<Rightarrow> if t \<le> 0 then u else t | t # _ \<Rightarrow> t | [] \<Rightarrow> 0)"

definition order_snapshot_of :: "string \<Rightarrow> string list \<Rightarrow> (string \<times> json) list \<Rightarrow> binance_order_snapshot option" where
  "order_snapshot_of quoteTag stamps ms = do {
     let tags = order_response_tags quoteTag stamps;
     let str = fstr tags ms;
     symbol \<leftarrow> str ''symbol''; orderId \<leftarrow> fint tags ms ''orderId''; client \<leftarrow> str ''clientOrderId'';
     price \<leftarrow> str ''price''; origQty \<leftarrow> str ''origQty''; executedQty \<leftarrow> str ''executedQty'';
     quote \<leftarrow> str quoteTag; status \<leftarrow> str ''status''; typ \<leftarrow> str ''type''; side \<leftarrow> str ''side'';
     ts \<leftarrow> those (map (fint tags ms) stamps);
     Some \<lparr>bo_symbol = symbol, bo_order_id = orderId, bo_client_order_id = client,
       bo_event_time = first_positive ts, bo_price = price, bo_orig_qty = origQty,
       bo_executed_qty = executedQty, bo_quote_qty = quote, bo_status = status, bo_type = typ,
       bo_side = side\<rparr>
   }"

definition parseBinancePlaceOrderResponse :: "string \<Rightarrow> bool \<Rightarrow> binance_order_snapshot option" where
  "parseBinancePlaceOrderResponse body futures =
     (if futures then decode_with (order_snapshot_of ''cumQuote'' [''updateTime'', ''time'']) body
      else decode_with (order_snapshot_of ''cummulativeQuoteQty'' [''transactTime'']) body)"

definition parseBinanceOrderDetailResponse :: "string \<Rightarrow> bool \<Rightarrow> binance_order_snapshot option" where
  "parseBinanceOrderDetailResponse body futures =
     (if futures then decode_with (order_snapshot_of ''cumQuote'' [''updateTime'', ''time'']) body
      else decode_with (order_snapshot_of ''cummulativeQuoteQty'' [''time'']) body)"

text \<open>The error body, decoded into a struct that already holds \<open>code0\<close> and \<open>msg0\<close>.\<close>

definition decode_api_error :: "int \<Rightarrow> string \<Rightarrow> string \<Rightarrow> (int \<times> string) option" where
  "decode_api_error code0 msg0 body = decode_with (\<lambda>ms. do {
     code \<leftarrow> field as_int64 code0 [''code'', ''msg''] ms ''code'';
     msg \<leftarrow> field as_string msg0 [''code'', ''msg''] ms ''msg'';
     Some (code, msg)
   }) body"

subsection \<open>The precision cache\<close>

definition symbolPrecisionCacheKey :: "string \<Rightarrow> string \<Rightarrow> string" where
  "symbolPrecisionCacheKey marketType symbol =
     NormalizeMarketType marketType @ '':'' @ to_upper (trim_space symbol)"

record exchange_info_filter =
  xf_type :: string
  xf_tick :: string
  xf_step :: string

record exchange_info_symbol =
  xs_symbol :: string
  xs_base :: int
  xs_quote :: int
  xs_price :: int
  xs_quantity :: int
  xs_filters :: "exchange_info_filter list"

definition exchange_info_filter_of :: "json \<Rightarrow> exchange_info_filter option" where
  "exchange_info_filter_of = into_struct (\<lambda>ms. do {
     let str = fstr [''filterType'', ''tickSize'', ''stepSize''] ms;
     t \<leftarrow> str ''filterType''; tick \<leftarrow> str ''tickSize''; step \<leftarrow> str ''stepSize'';
     Some \<lparr>xf_type = t, xf_tick = tick, xf_step = step\<rparr>
   })"

definition exchange_info_symbol_of :: "json \<Rightarrow> exchange_info_symbol option" where
  "exchange_info_symbol_of = into_struct (\<lambda>ms. do {
     let tags = [''symbol'', ''basePrecision'', ''quotePrecision'', ''pricePrecision'',
                 ''quantityPrecision'', ''filters''];
     symbol \<leftarrow> fstr tags ms ''symbol'';
     base \<leftarrow> fint32 tags ms ''basePrecision''; quote \<leftarrow> fint32 tags ms ''quotePrecision'';
     price \<leftarrow> fint32 tags ms ''pricePrecision''; quantity \<leftarrow> fint32 tags ms ''quantityPrecision'';
     filters \<leftarrow> fslice exchange_info_filter_of tags ms ''filters'';
     Some \<lparr>xs_symbol = symbol, xs_base = base, xs_quote = quote, xs_price = price,
       xs_quantity = quantity, xs_filters = filters\<rparr>
   })"

definition decode_exchange_info :: "string \<Rightarrow> exchange_info_symbol list option" where
  "decode_exchange_info body =
     decode_with (\<lambda>ms. fslice exchange_info_symbol_of [''symbols''] ms ''symbols'') body"

definition positive_decimal :: "decimal_ops \<Rightarrow> string \<Rightarrow> rat option" where
  "positive_decimal D raw =
     (case d_parse D (trim_space raw) of None \<Rightarrow> None | Some x \<Rightarrow> if x > 0 then Some x else None)"

text \<open>One filter: the last tick size counts, and the largest of the lot sizes.\<close>

definition apply_filter :: "decimal_ops \<Rightarrow> rat \<times> rat \<Rightarrow> exchange_info_filter \<Rightarrow> rat \<times> rat" where
  "apply_filter D acc f =
     (let (tick, step) = acc; kind = to_upper (trim_space (xf_type f))
      in if kind = ''PRICE_FILTER'' then
           (case positive_decimal D (xf_tick f) of Some t \<Rightarrow> (t, step) | None \<Rightarrow> (tick, step))
         else if kind = ''LOT_SIZE'' \<or> kind = ''MARKET_LOT_SIZE'' then
           (case positive_decimal D (xf_step f) of
              Some s \<Rightarrow> if step = 0 \<or> s > step then (tick, s) else (tick, step)
            | None \<Rightarrow> (tick, step))
         else (tick, step))"

definition symbol_precision :: "decimal_ops \<Rightarrow> string \<Rightarrow> exchange_info_symbol \<Rightarrow> binance_precision" where
  "symbol_precision D marketType item =
     (let futures = (marketType = MarketTypeFutures);
          (tick, step) = foldl (apply_filter D) (0, 0) (xs_filters item)
      in \<lparr>bp_base = (if futures then xs_quantity item else xs_base item),
          bp_quote = (if futures then xs_price item else xs_quote item),
          bp_tick = tick, bp_step = step\<rparr>)"

definition cache_symbol ::
  "decimal_ops \<Rightarrow> string \<Rightarrow> (string \<Rightarrow> binance_precision option) \<Rightarrow> exchange_info_symbol
     \<Rightarrow> (string \<Rightarrow> binance_precision option)" where
  "cache_symbol D marketType cache item =
     (let itemSymbol = to_upper (trim_space (xs_symbol item))
      in if itemSymbol = [] then cache
         else cache(symbolPrecisionCacheKey marketType itemSymbol \<mapsto> symbol_precision D marketType item))"

definition refreshSymbolPrecision ::
  "exchange_lib \<Rightarrow> binance_config \<Rightarrow> string \<Rightarrow> string \<Rightarrow> venue \<Rightarrow> exchange_error option \<times> venue" where
  "refreshSymbolPrecision L C marketType symbol v =
     (let normalizedSymbol = to_upper (trim_space symbol)
      in if normalizedSymbol = [] then (None, v)
         else
           (let marketType = NormalizeMarketType marketType;
                endpoint = baseURLByMarketType C marketType @ exchangeInfoPathByMarketType marketType
                  @ ''?symbol='' @ query_escape normalizedSymbol;
                (reply, v) = http_do \<lparr>hq_method = ''GET'', hq_url = endpoint, hq_api_key = [], hq_body = []\<rparr> v
            in case reply of
                 None \<Rightarrow> (Some HttpFailed, v)
               | Some r \<Rightarrow>
                   (case decode_exchange_info (hr_body r) of
                      None \<Rightarrow> (Some (ResponseParseFailed (hr_status r) (hr_body r)), v)
                    | Some items \<Rightarrow>
                        if hr_status r \<ge> 400
                        then (Some (RequestRejectedUnparsed (hr_status r) (hr_body r)), v)
                        else (None, v\<lparr>vn_binance_precision :=
                          foldl (cache_symbol (xl_decimal L) marketType) (vn_binance_precision v) items\<rparr>))))"

definition getSymbolPrecision ::
  "exchange_lib \<Rightarrow> binance_config \<Rightarrow> string \<Rightarrow> string \<Rightarrow> venue
     \<Rightarrow> (exchange_error + binance_precision option) \<times> venue" where
  "getSymbolPrecision L C marketType symbol v =
     (let normalizedSymbol = to_upper (trim_space symbol)
      in if normalizedSymbol = [] then (Inr None, v)
         else
           (let cacheKey = symbolPrecisionCacheKey marketType normalizedSymbol
            in case vn_binance_precision v cacheKey of
                 Some precision \<Rightarrow> (Inr (Some precision), v)
               | None \<Rightarrow>
                   (case refreshSymbolPrecision L C marketType normalizedSymbol v of
                      (Some e, v) \<Rightarrow> (Inl e, v)
                    | (None, v) \<Rightarrow> (Inr (vn_binance_precision v cacheKey), v))))"

subsection \<open>From responses to order histories\<close>

text \<open>The average price of what was executed, and 0 when nothing was.\<close>

definition executed_price :: "decimal_ops \<Rightarrow> rat \<Rightarrow> string \<Rightarrow> exchange_error + rat" where
  "executed_price D filledQuantity quote =
     (if filledQuantity > 0 then
        res_map (\<lambda>quoteQty. d_div D quoteQty filledQuantity)
          (of_option (InvalidNumber quote) (decimalOrZero D quote))
      else Inr 0)"

definition futures_history_side :: "string \<Rightarrow> string \<Rightarrow> string \<Rightarrow> exchange_error + string" where
  "futures_history_side orderSide marketType respSide =
     (let historySide = NormalizeOrderSideByMarket orderSide marketType
      in if historySide \<noteq> [] then Inr historySide
         else if to_upper (trim_space respSide) = ''BUY'' then Inr OrderSideLong
         else if to_upper (trim_space respSide) = ''SELL'' then Inr OrderSideShort
         else Inl (UnsupportedCode respSide))"

definition mapPlaceOrderResponseToOrderHistory ::
  "exchange_lib \<Rightarrow> binance_config \<Rightarrow> venue \<Rightarrow> order_request \<Rightarrow> binance_order_snapshot
     \<Rightarrow> exchange_error + order_history" where
  "mapPlaceOrderResponseToOrderHistory L C v order resp =
     (let D = xl_decimal L; marketType = resolveMarketType C (rq_market_type order)
      in bind_res (number D (bo_price resp)) (\<lambda>price.
         bind_res (number D (bo_orig_qty resp)) (\<lambda>quantity.
         bind_res (number D (bo_executed_qty resp)) (\<lambda>filledQuantity.
         bind_res (executed_price D filledQuantity (bo_quote_qty resp)) (\<lambda>executedPrice.
         bind_res (binanceOrderSideFromCode (bo_side resp)) (\<lambda>codeSide.
         bind_res (if marketType = MarketTypeFutures
                   then futures_history_side (rq_side order) marketType (bo_side resp)
                   else Inr codeSide) (\<lambda>historySide.
         bind_res (binanceOrderTypeFromCode (bo_type resp)) (\<lambda>historyType.
           (let price = (if executedPrice > 0 \<and> price \<le> 0 then executedPrice else price);
                now = vn_now v;
                resolvedSymbol =
                  resolveInternalSymbolFromOrderMapping (binance_deps v marketType) (bo_symbol resp)
            in Inr \<lparr>oh_id = [], oh_request_id = rq_request_id order, oh_user_id = rq_user_id order,
                 oh_exchange = rq_exchange order, oh_market_type = marketType,
                 oh_position_side = NormalizePositionSide (rq_position_side order),
                 oh_symbol = (if resolvedSymbol = [] then rq_symbol order else resolvedSymbol),
                 oh_order_id = format_int (bo_order_id resp), oh_entry_order_id = [],
                 oh_client_order_id = trimmed_valid (bo_client_order_id resp),
                 oh_side = historySide, oh_type = historyType, oh_price = Some price,
                 oh_quantity = quantity, oh_filled_quantity = filledQuantity,
                 oh_avg_fill_price = (if executedPrice > 0 then Some executedPrice else None),
                 oh_status = binanceOrderStatusFromCode (bo_status resp),
                 oh_leverage = None, oh_fee = None, oh_realized_pnl = None,
                 oh_created_at_exchange = (if bo_event_time resp > 0
                   then some_time (from_unix_milli (bo_event_time resp)) else no_time),
                 oh_sent_at = orderSentAt now (rq_requested_at order),
                 oh_acknowledged_at = some_time now, oh_filled_at = no_time,
                 oh_strategy_id = orderStrategyID (rq_strategy_id order),
                 oh_trade_condition = rq_trade_condition order, oh_order_reason = [],
                 oh_exit_type = [], oh_error_message = no_string,
                 oh_created_at = now, oh_updated_at = now, oh_is_paper_trading = False\<rparr>)))))))))"

definition mapOrderHistorySyncResponse ::
  "exchange_lib \<Rightarrow> binance_config \<Rightarrow> venue \<Rightarrow> order_history \<Rightarrow> binance_order_snapshot
     \<Rightarrow> exchange_error + order_history" where
  "mapOrderHistorySyncResponse L C v h resp =
     (let D = xl_decimal L
      in bind_res (of_option (InvalidNumber (bo_executed_qty resp)) (decimalOrZero D (bo_executed_qty resp)))
         (\<lambda>filledQuantity.
         bind_res (executed_price D filledQuantity (bo_quote_qty resp)) (\<lambda>executedPrice.
           Inr (synced_history (vn_now v) (binanceOrderStatusFromCode (bo_status resp)) filledQuantity
             executedPrice (if bo_order_id resp > 0 then format_int (bo_order_id resp) else [])
             (trim_space (bo_client_order_id resp)) (bo_event_time resp)
             (resolveInternalSymbolFromOrderMapping
                (binance_deps v (resolveMarketType C (oh_market_type h))) (bo_symbol resp)) h))))"

subsection \<open>Placing an order\<close>

text \<open>Quantity and price cut down to the symbol's steps.\<close>

definition binance_amounts ::
  "decimal_ops \<Rightarrow> binance_precision \<Rightarrow> order_request \<Rightarrow> exchange_error + rat \<times> rat" where
  "binance_amounts D precision order =
     (let quantity = (if bp_step precision > 0 then quantizeDownByStep D (rq_quantity order) (bp_step precision)
                      else d_trunc D (rq_quantity order) (bp_base precision))
      in if \<not> quantity > 0 then Inl (QuantityBecomesZero (rq_quantity order) (bp_base precision))
         else if rq_type order = OrderTypeLimit then
           (let price = (if bp_tick precision > 0 then quantizeDownByStep D (rq_price order) (bp_tick precision)
                         else d_trunc D (rq_price order) (bp_quote precision))
            in if \<not> price > 0 then Inl (PriceBecomesZero (rq_price order) (bp_quote precision))
               else Inr (quantity, price))
         else Inr (quantity, rq_price order))"

definition binance_base_pairs ::
  "decimal_ops \<Rightarrow> string \<Rightarrow> string \<Rightarrow> string \<Rightarrow> rat \<Rightarrow> rat \<Rightarrow> order_request \<Rightarrow> exchange_error + string list" where
  "binance_base_pairs D orderSymbol sideCode typeCode quantity price order =
     (let basePairs = [''symbol='' @ orderSymbol, ''side='' @ sideCode, ''type='' @ typeCode,
                       ''quantity='' @ d_show D quantity];
          limitPairs = (if rq_type order = OrderTypeLimit
                        then [''price='' @ d_show D price, ''timeInForce=GTC''] else [])
      in case rq_order_id order of
           None \<Rightarrow> Inr (basePairs @ limitPairs)
         | Some orderID \<Rightarrow>
             if trim_space orderID = [] then Inr (basePairs @ limitPairs)
             else bind_res (normalizeBinanceClientID (trim_space orderID)) (\<lambda>clientID.
               Inr (basePairs @ [''newClientOrderId='' @ query_escape clientID] @ limitPairs)))"

definition submitOrder ::
  "exchange_lib \<Rightarrow> binance_config \<Rightarrow> exchange_credentials \<Rightarrow> string \<Rightarrow> string list \<Rightarrow> string \<Rightarrow> venue
     \<Rightarrow> http_reply option \<times> venue" where
  "submitOrder L C keys marketType basePairs positionSide v =
     (let pairs = basePairs @ (if marketType = MarketTypeFutures \<and> trim_space positionSide \<noteq> []
                               then [''positionSide='' @ positionSide] else [])
                  @ window_pairs v (bc_recv_window C)
      in http_do \<lparr>hq_method = ''POST'',
           hq_url = baseURLByMarketType C marketType @ orderPathByMarketType marketType,
           hq_api_key = ec_key keys, hq_body = signed_payload L (ec_secret keys) pairs\<rparr> v)"

text \<open>\<open>parseSuccess\<close>: the reply of an accepted order becomes its history.\<close>

definition binance_accepted ::
  "exchange_lib \<Rightarrow> binance_config \<Rightarrow> venue \<Rightarrow> order_request \<Rightarrow> string \<Rightarrow> http_reply \<Rightarrow> exchange_error + order_history" where
  "binance_accepted L C v order marketType r =
     bind_res (of_option (ResponseParseFailed (hr_status r) (hr_body r))
       (parseBinancePlaceOrderResponse (hr_body r) (marketType = MarketTypeFutures)))
       (mapPlaceOrderResponseToOrderHistory L C v order)"

text \<open>
  Submitting: a rejected futures order with code -4061 (position mode mismatch) is submitted once
  more with the other position side.
\<close>

definition binance_submit ::
  "exchange_lib \<Rightarrow> binance_config \<Rightarrow> exchange_credentials \<Rightarrow> string \<Rightarrow> string \<Rightarrow> string list \<Rightarrow> order_request
     \<Rightarrow> venue \<Rightarrow> (exchange_error + order_history) \<times> venue" where
  "binance_submit L C keys marketType sideCode basePairs order v =
     (let positionSide = (if marketType = MarketTypeFutures then futuresPositionSide L order else []);
          order = (if marketType = MarketTypeFutures then order\<lparr>rq_position_side := positionSide\<rparr> else order)
      in case submitOrder L C keys marketType basePairs positionSide v of
           (None, v) \<Rightarrow> (Inl HttpFailed, v)
         | (Some r, v) \<Rightarrow>
             if hr_status r < 400 then (binance_accepted L C v order marketType r, v)
             else
               (case decode_api_error 0 [] (hr_body r) of
                  None \<Rightarrow> (Inl (RequestRejectedUnparsed (hr_status r) (hr_body r)), v)
                | Some (code, msg) \<Rightarrow>
                    (let (alternate, ok) = alternateFuturesPositionSide positionSide sideCode
                     in if marketType = MarketTypeFutures \<and> code = - 4061 \<and> ok \<and> alternate \<noteq> positionSide
                        then
                          (case submitOrder L C keys marketType basePairs alternate v of
                             (None, v) \<Rightarrow> (Inl HttpFailed, v)
                           | (Some r, v) \<Rightarrow>
                               if hr_status r < 400
                               then (binance_accepted L C v (order\<lparr>rq_position_side := alternate\<rparr>) marketType r, v)
                               else (case decode_api_error code msg (hr_body r) of
                                       None \<Rightarrow> (Inl (RequestRejectedUnparsed (hr_status r) (hr_body r)), v)
                                     | Some (code, msg) \<Rightarrow> (Inl (RequestRejected (hr_status r) code msg), v)))
                        else (Inl (RequestRejected (hr_status r) code msg), v))))"

text \<open>
  From the precision to the submission. A precision that cannot be fetched is not an error: the
  amounts are then sent as they are.
\<close>

definition binance_send ::
  "exchange_lib \<Rightarrow> binance_config \<Rightarrow> exchange_credentials \<Rightarrow> string \<Rightarrow> string \<Rightarrow> string \<Rightarrow> string
     \<Rightarrow> order_request \<Rightarrow> venue \<Rightarrow> (exchange_error + order_history) \<times> venue" where
  "binance_send L C keys marketType orderSymbol typeCode sideCode order v =
     (let (precision, v) = getSymbolPrecision L C marketType orderSymbol v;
          amounts = (case precision of
             Inr (Some p) \<Rightarrow> binance_amounts (xl_decimal L) p order
           | _ \<Rightarrow> Inr (rq_quantity order, rq_price order))
      in case amounts of
           Inl e \<Rightarrow> (Inl e, v)
         | Inr (quantity, price) \<Rightarrow>
             (case binance_base_pairs (xl_decimal L) orderSymbol sideCode typeCode quantity price order of
                Inl e \<Rightarrow> (Inl e, v)
              | Inr basePairs \<Rightarrow> binance_submit L C keys marketType sideCode basePairs order v))"

definition BinancePlaceOrder ::
  "exchange_lib \<Rightarrow> binance_config \<Rightarrow> order_request \<Rightarrow> venue \<Rightarrow> (exchange_error + order_history) \<times> venue" where
  "BinancePlaceOrder L C order v =
     (if vn_ctx_done v then (Inl ExchangeContextDone, v)
      else case binance_credentials C (rq_user_id order) of
        Inl e \<Rightarrow> (Inl e, v)
      | Inr keys \<Rightarrow>
          (let marketType = resolveMarketType C (rq_market_type order);
               order = order\<lparr>rq_market_type := marketType\<rparr>;
               order = order\<lparr>rq_side := NormalizeOrderSideByMarket (rq_side order) marketType\<rparr>
           in if rq_side order = [] then (Inl (UnsupportedOrderSide marketType), v)
              else
                (let mapped = resolveExchangeOrderSymbolFromMapping (binance_deps v marketType) (rq_symbol order);
                     orderSymbol = (if trim_space mapped = [] then rq_symbol order else mapped)
                 in case (binanceOrderTypeCode (rq_type order), binanceOrderSideCode (rq_side order) marketType) of
                      (Inl e, _) \<Rightarrow> (Inl e, v)
                    | (Inr _, Inl e) \<Rightarrow> (Inl e, v)
                    | (Inr typeCode, Inr sideCode) \<Rightarrow>
                        binance_send L C keys marketType orderSymbol typeCode sideCode order v)))"

subsection \<open>Reading an order back\<close>

definition BinanceSyncOrderHistory ::
  "exchange_lib \<Rightarrow> binance_config \<Rightarrow> order_history \<Rightarrow> venue
     \<Rightarrow> (exchange_error + order_history option) \<times> venue" where
  "BinanceSyncOrderHistory L C h v =
     (if vn_ctx_done v then (Inl ExchangeContextDone, v)
      else case binance_credentials C (oh_user_id h) of
        Inl e \<Rightarrow> (Inl e, v)
      | Inr keys \<Rightarrow>
          (let marketType = resolveMarketType C (oh_market_type h);
               h = h\<lparr>oh_market_type := marketType\<rparr>;
               orderSymbol = trim_space (resolveExchangeOrderSymbolFromMapping (binance_deps v marketType) (oh_symbol h))
           in if orderSymbol = [] then (Inl OrderSymbolEmpty, v)
              else if trim_space (oh_order_id h) = [] \<and> \<not> str_valid (oh_client_order_id h)
              then (Inl MissingOrderID, v)
              else
                (let idPair = (if trim_space (oh_order_id h) \<noteq> []
                       then ''orderId='' @ trim_space (oh_order_id h)
                       else ''origClientOrderId='' @ query_escape (trim_space (str_val (oh_client_order_id h))));
                     pairs = [''symbol='' @ orderSymbol, idPair] @ window_pairs v (bc_recv_window C);
                     endpoint = baseURLByMarketType C marketType @ orderPathByMarketType marketType
                       @ ''?'' @ signed_payload L (ec_secret keys) pairs
                 in case http_do \<lparr>hq_method = ''GET'', hq_url = endpoint, hq_api_key = ec_key keys, hq_body = []\<rparr> v of
                      (None, v) \<Rightarrow> (Inl HttpFailed, v)
                    | (Some r, v) \<Rightarrow>
                        if hr_status r \<ge> 400 then
                          (case decode_api_error 0 [] (hr_body r) of
                             None \<Rightarrow> (Inl (RequestRejectedUnparsed (hr_status r) (hr_body r)), v)
                           | Some (code, msg) \<Rightarrow> (Inl (RequestRejected (hr_status r) code msg), v))
                        else
                          (case parseBinanceOrderDetailResponse (hr_body r) (marketType = MarketTypeFutures) of
                             None \<Rightarrow> (Inl (ResponseParseFailed (hr_status r) (hr_body r)), v)
                           | Some resp \<Rightarrow> (res_map Some (mapOrderHistorySyncResponse L C v h resp), v)))))"

subsection \<open>Market data\<close>

definition handleKlineDataByMarketType ::
  "decimal_ops \<Rightarrow> venue \<Rightarrow> bool \<Rightarrow> string \<Rightarrow> string \<Rightarrow> event list \<Rightarrow> kline_error option \<times> event list" where
  "handleKlineDataByMarketType D v publish_ok message marketType evs =
     (let market = NormalizeMarketType marketType
      in case decode_with wrapped_payload_of message of
           None \<Rightarrow> (Some KlineDecodeFailed, evs)
         | Some payload \<Rightarrow>
             (let payload = (if trim_space (kp_event payload) = []
                             then decode_with kline_payload_of message else Some payload)
              in case payload of
                   None \<Rightarrow> (Some KlineDecodeFailed, evs)
                 | Some p \<Rightarrow> publish_payload D ExchangeBinance market (binance_deps v marketType)
                              (vn_now v) publish_ok p evs))"

definition normalizeBinanceKlineStreamSymbol :: "string \<Rightarrow> string \<Rightarrow> string" where
  "normalizeBinanceKlineStreamSymbol symbol marketType =
     (let normalized = to_upper (trim_space symbol)
      in if normalized = [] then []
         else
           (let normalized = (if is_futures marketType \<and> has_suffix normalized ''.P''
                              then trim_suffix normalized ''.P'' else normalized)
            in remove_char (remove_char (remove_char normalized CHR 0x5F) CHR ''-'') CHR ''.''))"

text \<open>The streams a market's subscriptions ask for.\<close>

definition kline_stream :: "string \<Rightarrow> resync_deps \<Rightarrow> kline_subscription \<Rightarrow> string option" where
  "kline_stream marketType deps sub =
     (if ks_exchange sub \<noteq> ExchangeBinance then None
      else if NormalizeMarketType (ks_market_type sub) \<noteq> NormalizeMarketType marketType then None
      else
        (let exchangeSymbol = resolveExchangeKlineSymbolFromMapping deps (ks_symbol sub);
             exchangeSymbol = normalizeBinanceKlineStreamSymbol exchangeSymbol marketType;
             exchangeSymbol = to_lower (trim_space exchangeSymbol);
             interval = trim_space (ks_interval sub)
         in if exchangeSymbol = [] \<or> interval = [] then None
            else Some (exchangeSymbol @ ''@kline_'' @ interval)))"

definition kline_streams :: "string \<Rightarrow> resync_deps \<Rightarrow> kline_subscription list \<Rightarrow> string list" where
  "kline_streams marketType deps subs = List.map_filter (kline_stream marketType deps) subs"

subsection \<open>Code tables\<close>

lemma binance_code_lits [simp]:
  "binanceOrderTypeFromCode ''LIMIT'' = Inr ''LIMIT''" "binanceOrderTypeFromCode ''MARKET'' = Inr ''MARKET''"
  "binanceOrderSideFromCode ''BUY'' = Inr ''BUY''" "binanceOrderSideFromCode ''SELL'' = Inr ''SELL''"
  "binanceOrderTypeCode ''LIMIT'' = Inr ''LIMIT''" "binanceOrderTypeCode ''MARKET'' = Inr ''MARKET''"
  "binanceOrderSideCode ''BUY'' ''spot'' = Inr ''BUY''" "binanceOrderSideCode ''SELL'' ''spot'' = Inr ''SELL''"
  "binanceOrderSideCode ''LONG'' ''futures'' = Inr ''BUY''" "binanceOrderSideCode ''SHORT'' ''futures'' = Inr ''SELL''"
  by code_simp+

text \<open>On the futures market the side of a reply is read back through the market's normalisation.\<close>

definition futuresSideFromCode :: "string \<Rightarrow> exchange_error + string" where
  "futuresSideFromCode code =
     bind_res (binanceOrderSideFromCode code) (\<lambda>side. Inr (NormalizeOrderSideByMarket side MarketTypeFutures))"

lemma futuresSideFromCode_lits [simp]:
  "futuresSideFromCode ''BUY'' = Inr ''LONG''" "futuresSideFromCode ''SELL'' = Inr ''SHORT''"
  by code_simp+

interpretation binance_types: code_table binanceOrderTypeCode binanceOrderTypeFromCode
  "\<lambda>t. t = OrderTypeLimit \<or> t = OrderTypeMarket"
  by unfold_locales auto

interpretation binance_sides: code_table "\<lambda>s. binanceOrderSideCode s MarketTypeSpot" binanceOrderSideFromCode
  "\<lambda>s. s = OrderSideBuy \<or> s = OrderSideSell"
  by unfold_locales auto

interpretation binance_futures_sides: code_table "\<lambda>s. binanceOrderSideCode s MarketTypeFutures"
  futuresSideFromCode "\<lambda>s. s = OrderSideLong \<or> s = OrderSideShort"
  by unfold_locales auto

lemma binanceOrderStatus_filled:
  "binanceOrderStatusFromCode code = ''FILLED'' \<longleftrightarrow> norm_upper code = ''FILLED''"
proof -
  have "norm_upper ''FILLED'' = ''FILLED''" by code_simp
  then show ?thesis by (auto simp: binanceOrderStatusFromCode_def norm_upper_def Let_def)
qed

subsection \<open>What the adapter returns\<close>

lemma mapPlaceOrderResponse_fields:
  assumes "mapPlaceOrderResponseToOrderHistory L C v order resp = Inr h"
  shows "oh_request_id h = rq_request_id order" "oh_user_id h = rq_user_id order"
    "oh_exchange h = rq_exchange order" "oh_order_id h = format_int (bo_order_id resp)"
    "oh_status h = binanceOrderStatusFromCode (bo_status resp)" "\<not> oh_is_paper_trading h"
    "oh_market_type h = resolveMarketType C (rq_market_type order)"
    "oh_trade_condition h = rq_trade_condition order" "oh_entry_order_id h = []"
    "d_parse (xl_decimal L) (bo_executed_qty resp) = Some (oh_filled_quantity h)"
    "d_parse (xl_decimal L) (bo_orig_qty resp) = Some (oh_quantity h)"
  using assms unfolding mapPlaceOrderResponseToOrderHistory_def Let_def number_def
  by (elim bind_resE; auto)+

lemma binance_accepted_fields:
  assumes "binance_accepted L C v order mt r = Inr h"
  shows "oh_request_id h = rq_request_id order" "oh_user_id h = rq_user_id order"
    "oh_exchange h = rq_exchange order" "oh_trade_condition h = rq_trade_condition order"
    "\<not> oh_is_paper_trading h"
  using assms mapPlaceOrderResponse_fields unfolding binance_accepted_def by (elim bind_resE; fastforce)+

lemma binance_submit_Inr:
  assumes "binance_submit L C keys mt side pairs order v = (Inr h, v')"
  obtains ps v1 r where
    "binance_accepted L C v1 (if mt = MarketTypeFutures then order\<lparr>rq_position_side := ps\<rparr> else order) mt r = Inr h"
    "hr_status r < 400"
  using assms unfolding binance_submit_def Let_def
  by (auto split: prod.splits option.splits if_splits)

lemma binance_submit_fields:
  assumes "binance_submit L C keys mt side pairs order v = (Inr h, v')"
  shows "oh_request_id h = rq_request_id order" "oh_user_id h = rq_user_id order"
    "oh_exchange h = rq_exchange order" "oh_trade_condition h = rq_trade_condition order"
    "\<not> oh_is_paper_trading h"
proof -
  obtain ps v1 r where acc: "binance_accepted L C v1
      (if mt = MarketTypeFutures then order\<lparr>rq_position_side := ps\<rparr> else order) mt r = Inr h"
    using binance_submit_Inr [OF assms] .
  show "oh_request_id h = rq_request_id order" "oh_user_id h = rq_user_id order"
    "oh_exchange h = rq_exchange order" "oh_trade_condition h = rq_trade_condition order"
    "\<not> oh_is_paper_trading h"
    using binance_accepted_fields [OF acc] by (simp_all split: if_splits)
qed

lemma binance_send_Inr:
  assumes "binance_send L C keys mt osym typeCode side order v = (Inr h, v')"
  obtains pairs v1 where "binance_submit L C keys mt side pairs order v1 = (Inr h, v')"
  using assms unfolding binance_send_def Let_def by (auto split: prod.splits sum.splits option.splits)

lemma BinancePlaceOrder_sent:
  assumes "fst (BinancePlaceOrder L C order v) = Inr h \<or> snd (BinancePlaceOrder L C order v) \<noteq> v"
  obtains keys mt osym typeCode side order' where
    "BinancePlaceOrder L C order v = binance_send L C keys mt osym typeCode side order' v"
    "binance_credentials C (rq_user_id order) = Inr keys"
    "mt = resolveMarketType C (rq_market_type order)"
    "order' = order\<lparr>rq_market_type := mt, rq_side := NormalizeOrderSideByMarket (rq_side order) mt\<rparr>"
    "binanceOrderTypeCode (rq_type order) = Inr typeCode"
    "binanceOrderSideCode (rq_side order') mt = Inr side"
  using assms unfolding BinancePlaceOrder_def Let_def by (auto split: sum.splits if_splits)

lemma BinancePlaceOrder_fields:
  assumes "BinancePlaceOrder L C order v = (Inr h, v')"
  shows "oh_request_id h = rq_request_id order" "oh_user_id h = rq_user_id order"
    "oh_exchange h = rq_exchange order" "oh_trade_condition h = rq_trade_condition order"
    "\<not> oh_is_paper_trading h"
proof -
  obtain keys mt osym typeCode side order' where send: "binance_send L C keys mt osym typeCode side order' v = (Inr h, v')"
    and o': "order' = order\<lparr>rq_market_type := mt, rq_side := NormalizeOrderSideByMarket (rq_side order) mt\<rparr>"
    using assms BinancePlaceOrder_sent [of L C order v h] by (metis fst_conv)
  obtain pairs v1 where sub: "binance_submit L C keys mt side pairs order' v1 = (Inr h, v')"
    using binance_send_Inr [OF send] .
  show "oh_request_id h = rq_request_id order" "oh_user_id h = rq_user_id order"
    "oh_exchange h = rq_exchange order" "oh_trade_condition h = rq_trade_condition order"
    "\<not> oh_is_paper_trading h"
    using binance_submit_fields [OF sub] by (simp_all add: o')
qed

lemma mapOrderHistorySyncResponse_Inr:
  assumes "mapOrderHistorySyncResponse L C v h resp = Inr u"
  obtains fq ep oid cid et sy where
    "u = synced_history (vn_now v) (binanceOrderStatusFromCode (bo_status resp)) fq ep oid cid et sy h"
  using assms unfolding mapOrderHistorySyncResponse_def Let_def by (elim bind_resE) auto

lemma BinanceSync_Inr:
  assumes "BinanceSyncOrderHistory L C h v = (Inr u, v')"
  obtains u' st fq ep oid cid et sy now where "u = Some u'"
    "u' = synced_history now st fq ep oid cid et sy (h\<lparr>oh_market_type := resolveMarketType C (oh_market_type h)\<rparr>)"
  using assms unfolding BinanceSyncOrderHistory_def Let_def
  by (auto split: sum.splits if_splits prod.splits option.splits simp: res_map_Inr_iff
      elim!: mapOrderHistorySyncResponse_Inr)

lemma BinanceSync_fields:
  assumes "BinanceSyncOrderHistory L C h v = (Inr u, v')"
  obtains u' where "u = Some u'" "oh_id u' = oh_id h" "oh_request_id u' = oh_request_id h"
    "oh_user_id u' = oh_user_id h" "oh_exchange u' = oh_exchange h" "oh_order_reason u' = oh_order_reason h"
    "oh_entry_order_id u' = oh_entry_order_id h"
proof -
  obtain u' st fq ep oid cid et sy now where u: "u = Some u'"
    "u' = synced_history now st fq ep oid cid et sy (h\<lparr>oh_market_type := resolveMarketType C (oh_market_type h)\<rparr>)"
    using BinanceSync_Inr [OF assms] .
  show thesis by (rule that [OF u(1)]) (simp_all add: u(2) synced_history_keeps)
qed

subsection \<open>What is sent to the exchange\<close>

lemma refreshSymbolPrecision_posts [frame_simps]:
  "posts (snd (refreshSymbolPrecision L C mt s v)) = posts v"
  using posts_http_do [of "\<lparr>hq_method = ''GET'', hq_url = baseURLByMarketType C (NormalizeMarketType mt)
      @ exchangeInfoPathByMarketType (NormalizeMarketType mt) @ ''?symbol=''
      @ query_escape (to_upper (trim_space s)), hq_api_key = [], hq_body = []\<rparr>" v]
  by (auto simp: refreshSymbolPrecision_def Let_def posts_precision split: prod.splits option.splits)

lemma getSymbolPrecision_posts [frame_simps]:
  "posts (snd (getSymbolPrecision L C mt s v)) = posts v"
  using refreshSymbolPrecision_posts [of L C mt "to_upper (trim_space s)" v]
  by (auto simp: getSymbolPrecision_def Let_def split: prod.splits option.splits)

lemma submitOrder_posts [frame_simps]:
  "\<exists>req. posts (snd (submitOrder L C keys mt pairs ps v)) = posts v @ [req]
     \<and> hq_url req = baseURLByMarketType C mt @ orderPathByMarketType mt \<and> hq_api_key req = ec_key keys"
  by (simp add: submitOrder_def Let_def posts_http_do)

lemma binance_submit_posts:
  "\<exists>l. posts (snd (binance_submit L C keys mt side pairs order v)) = posts v @ l
     \<and> l \<noteq> [] \<and> length l \<le> 2 \<and> (\<forall>req\<in>set l. hq_api_key req = ec_key keys)
     \<and> (length l = 2 \<longrightarrow> mt = MarketTypeFutures)"
proof -
  define ps where "ps = (if mt = MarketTypeFutures then futuresPositionSide L order else [])"
  define alt where "alt = fst (alternateFuturesPositionSide ps side)"
  obtain r v1 where s1: "submitOrder L C keys mt pairs ps v = (r, v1)"
    by (cases "submitOrder L C keys mt pairs ps v")
  obtain r2 v2 where s2: "submitOrder L C keys mt pairs alt v1 = (r2, v2)"
    by (cases "submitOrder L C keys mt pairs alt v1")
  obtain q1 where q1: "posts v1 = posts v @ [q1]" "hq_api_key q1 = ec_key keys"
    using submitOrder_posts [of L C keys mt pairs ps v] s1 by auto
  obtain q2 where q2: "posts v2 = posts v1 @ [q2]" "hq_api_key q2 = ec_key keys"
    using submitOrder_posts [of L C keys mt pairs alt v1] s2 by auto
  have "snd (binance_submit L C keys mt side pairs order v) = v1 \<or>
      (mt = MarketTypeFutures \<and> snd (binance_submit L C keys mt side pairs order v) = v2)"
    using s1 s2
    by (auto simp: binance_submit_def Let_def ps_def [symmetric] alt_def
        split: prod.splits option.splits)
  then show ?thesis
  proof
    assume "snd (binance_submit L C keys mt side pairs order v) = v1"
    then show ?thesis using q1 by (intro exI [of _ "[q1]"]) simp
  next
    assume "mt = MarketTypeFutures \<and> snd (binance_submit L C keys mt side pairs order v) = v2"
    then show ?thesis using q1 q2 by (intro exI [of _ "[q1, q2]"]) auto
  qed
qed

lemma binance_send_posts:
  "\<exists>l. posts (snd (binance_send L C keys mt osym typeCode side order v)) = posts v @ l
     \<and> length l \<le> 2 \<and> (\<forall>req\<in>set l. hq_api_key req = ec_key keys)
     \<and> (length l = 2 \<longrightarrow> mt = MarketTypeFutures)"
proof -
  obtain pr v1 where p: "getSymbolPrecision L C mt osym v = (pr, v1)"
    by (cases "getSymbolPrecision L C mt osym v")
  have v1: "posts v1 = posts v" using getSymbolPrecision_posts [of L C mt osym v] p by simp
  have "snd (binance_send L C keys mt osym typeCode side order v) = v1 \<or>
      (\<exists>pairs. snd (binance_send L C keys mt osym typeCode side order v) =
         snd (binance_submit L C keys mt side pairs order v1))"
    using p by (auto simp: binance_send_def Let_def split: sum.splits option.splits prod.splits)
  then show ?thesis
    using binance_submit_posts [of L C keys mt side _ order v1] v1 by fastforce
qed

text \<open>The orders one call submits, all with the credentials of the request's user.\<close>

lemma BinancePlaceOrder_posts:
  "\<exists>l. posts (snd (BinancePlaceOrder L C order v)) = posts v @ l \<and> length l \<le> 2
     \<and> (l \<noteq> [] \<longrightarrow> (\<exists>keys. binance_credentials C (rq_user_id order) = Inr keys
          \<and> (\<forall>req\<in>set l. hq_api_key req = ec_key keys)))
     \<and> (length l = 2 \<longrightarrow> resolveMarketType C (rq_market_type order) = MarketTypeFutures)"
proof (cases "snd (BinancePlaceOrder L C order v) = v")
  case True
  then show ?thesis by simp
next
  case False
  then obtain keys mt osym typeCode side order' where
    "BinancePlaceOrder L C order v = binance_send L C keys mt osym typeCode side order' v"
    "binance_credentials C (rq_user_id order) = Inr keys"
    "mt = resolveMarketType C (rq_market_type order)"
    using BinancePlaceOrder_sent [of L C order v] by metis
  then show ?thesis using binance_send_posts [of L C keys mt osym typeCode side order' v] by auto
qed

subsection \<open>Quantities and prices\<close>

lemma quantizeDownByStep_lib:
  assumes "decimal_lib D" "0 < step"
  shows "quantizeDownByStep D value step = of_int \<lfloor>d_div D value step\<rfloor> * step"
  using assms
  by (simp add: quantizeDownByStep_def decimal_lib.floor_exact decimal_lib.mul_exact)

text \<open>A whole number of steps, at most half a unit of the 16th digit of a step above the value.\<close>

lemma quantizeDownByStep_bounds:
  assumes D: "decimal_lib D" and step: "0 < step"
  shows "quantizeDownByStep D value step \<le> value + step / (2 * 10 ^ 16)"
    "value < quantizeDownByStep D value step + step + step / (2 * 10 ^ 16)"
proof -
  define q where "q = d_div D value step"
  define e :: rat where "e = 1 / (2 * 10 ^ 16)"
  have near: "\<bar>q - value / step\<bar> \<le> e"
    using decimal_lib.div_close [OF D, of step "value"] step by (simp add: q_def e_def)
  have fl: "of_int \<lfloor>q\<rfloor> \<le> q" "q < of_int \<lfloor>q\<rfloor> + 1" by linarith+
  have eq: "quantizeDownByStep D value step = of_int \<lfloor>q\<rfloor> * step"
    by (simp add: quantizeDownByStep_lib [OF D step] q_def)
  have "of_int \<lfloor>q\<rfloor> \<le> value / step + e" using near fl by linarith
  then have "of_int \<lfloor>q\<rfloor> * step \<le> (value / step + e) * step" using step by (intro mult_right_mono) auto
  moreover have "(value / step + e) * step = value + step * e"
    using step by (simp add: distrib_right)
  moreover have es: "step * e = step / (2 * 10 ^ 16)" by (simp add: e_def)
  ultimately show "quantizeDownByStep D value step \<le> value + step / (2 * 10 ^ 16)"
    unfolding eq by (simp only:)
  have "value / step < of_int \<lfloor>q\<rfloor> + 1 + e" using near fl by linarith
  then have "value / step * step < (of_int \<lfloor>q\<rfloor> + 1 + e) * step" using step by (intro mult_strict_right_mono) auto
  moreover have "(of_int \<lfloor>q\<rfloor> + 1 + e) * step = of_int \<lfloor>q\<rfloor> * step + step + step * e"
    by (simp add: distrib_right)
  ultimately show "value < quantizeDownByStep D value step + step + step / (2 * 10 ^ 16)"
    unfolding eq using step es by simp
qed

text \<open>When the quotient has at most 16 digits the result is the largest multiple below the value.\<close>

lemma quantizeDownByStep_exact:
  assumes D: "decimal_lib D" and step: "0 < step" and fine: "value / step * 10 ^ 16 \<in> \<int>"
  shows "quantizeDownByStep D value step \<le> value" "value < quantizeDownByStep D value step + step"
proof -
  have "d_div D value step = value / step"
    by (rule decimal_lib.div_exact [OF D]) (use step fine in simp_all)
  then have eq: "quantizeDownByStep D value step = of_int \<lfloor>value / step\<rfloor> * step"
    by (simp add: quantizeDownByStep_lib [OF D step])
  have "of_int \<lfloor>value / step\<rfloor> * step \<le> value / step * step"
    "value / step * step < (of_int \<lfloor>value / step\<rfloor> + 1) * step"
    using step by (intro mult_right_mono mult_strict_right_mono; linarith)+
  then show "quantizeDownByStep D value step \<le> value" "value < quantizeDownByStep D value step + step"
    unfolding eq using step by (simp_all add: distrib_right)
qed

text \<open>The step of a symbol is the largest positive lot size its filters give.\<close>

definition lot_step :: "decimal_ops \<Rightarrow> exchange_info_filter \<Rightarrow> rat option" where
  "lot_step D f = (if to_upper (trim_space (xf_type f)) \<in> {''LOT_SIZE'', ''MARKET_LOT_SIZE''}
     then positive_decimal D (xf_step f) else None)"

lemma positive_decimal_pos: "positive_decimal D s = Some x \<Longrightarrow> 0 < x"
  by (auto simp: positive_decimal_def split: option.splits if_splits)

lemma apply_filter_step:
  assumes "0 \<le> snd acc"
  shows "snd (apply_filter D acc f) = (case lot_step D f of None \<Rightarrow> snd acc | Some s \<Rightarrow> max (snd acc) s)"
  using assms positive_decimal_pos [of D "xf_step f"]
  by (auto simp: apply_filter_def lot_step_def Let_def max_def split: prod.splits option.splits)

lemma foldl_apply_filter_step:
  "0 \<le> snd acc \<Longrightarrow> snd (foldl (apply_filter D) acc fs) = foldl max (snd acc) (List.map_filter (lot_step D) fs)"
proof (induction fs arbitrary: acc)
  case Nil
  then show ?case by (simp add: map_filter_simps)
next
  case (Cons f fs)
  have "0 \<le> snd (apply_filter D acc f)"
    using Cons.prems by (auto simp: apply_filter_step split: option.splits)
  from Cons.IH [OF this] Cons.prems show ?case
    by (auto simp: apply_filter_step map_filter_simps split: option.splits)
qed

lemma symbol_precision_step:
  "bp_step (symbol_precision D mt item) = foldl max 0 (List.map_filter (lot_step D) (xs_filters item))"
  using foldl_apply_filter_step [of "(0, 0)" D "xs_filters item"]
  by (cases "foldl (apply_filter D) (0, 0) (xs_filters item)") (simp add: symbol_precision_def Let_def)

lemma binance_amounts_positive:
  assumes "binance_amounts D p order = Inr (q, pr)"
  shows "0 < q" "rq_type order = OrderTypeLimit \<Longrightarrow> 0 < pr"
    "rq_type order \<noteq> OrderTypeLimit \<Longrightarrow> pr = rq_price order"
    "0 < bp_step p \<Longrightarrow> q = quantizeDownByStep D (rq_quantity order) (bp_step p)"
    "rq_type order = OrderTypeLimit \<Longrightarrow> 0 < bp_tick p \<Longrightarrow> pr = quantizeDownByStep D (rq_price order) (bp_tick p)"
  using assms by (auto simp: binance_amounts_def Let_def split: if_splits)

subsection \<open>Client ids\<close>

lemma normalizeBinanceClientID_Inr:
  assumes "normalizeBinanceClientID raw = Inr c"
  shows "c = take 36 (remove_char (trim_space raw) CHR ''-'')" "c \<noteq> []" "length c \<le> 36"
    "list_all client_id_char c"
proof -
  show c: "c = take 36 (remove_char (trim_space raw) CHR ''-'')" and "c \<noteq> []" and "length c \<le> 36"
    using assms by (auto simp: normalizeBinanceClientID_def Let_def split: if_splits)
  have "list_all (\<lambda>c. client_id_char c \<or> c = CHR ''-'') c"
    using assms by (auto simp: normalizeBinanceClientID_def Let_def split: if_splits)
  moreover have "CHR ''-'' \<notin> set c"
    unfolding c by (meson in_set_takeD remove_char_absent)
  ultimately show "list_all client_id_char c" by (auto simp: list_all_iff)
qed

lemma client_id_not_space: "client_id_char c \<Longrightarrow> \<not> is_space c"
  by (auto simp: client_id_char_def is_space_iff Let_def)

lemma trim_space_no_space: "\<forall>c\<in>set s. \<not> is_space c \<Longrightarrow> trim_space s = s"
proof -
  assume no: "\<forall>c\<in>set s. \<not> is_space c"
  have "trim_left t = t" if "\<forall>c\<in>set t. \<not> is_space c" for t
    using that by (intro trim_left_id) (cases t; simp)
  then have "trim_left s = s" "trim_left (rev s) = rev s" using no by simp_all
  then show ?thesis by (simp add: trim_space_def)
qed

lemma remove_char_id: "c \<notin> set s \<Longrightarrow> remove_char s c = s"
  by (auto simp: remove_char_def filter_id_conv)

lemma normalizeBinanceClientID_idem:
  assumes "normalizeBinanceClientID raw = Inr c"
  shows "normalizeBinanceClientID c = Inr c"
proof -
  note N = normalizeBinanceClientID_Inr [OF assms]
  have "\<forall>x\<in>set c. \<not> is_space x" using N(4) client_id_not_space by (auto simp: list_all_iff)
  then have t: "trim_space c = c" by (rule trim_space_no_space)
  have "CHR ''-'' \<notin> set c"
    unfolding N(1) by (meson in_set_takeD remove_char_absent)
  then have r: "remove_char c CHR ''-'' = c" by (rule remove_char_id)
  show ?thesis
    using N(2,3,4) unfolding normalizeBinanceClientID_def Let_def t r by (simp add: list_all_iff)
qed

end
