(* ===== verification/Tokocrypto.thy ===== *)
theory Tokocrypto
  imports ExchangeCommon
begin

text \<open>
  The Tokocrypto adapter (\<open>internal/service/exchange/tokocrypto.exchange.go\<close> and
  \<open>internal/entity/tokocrypto.go\<close>): spot orders only, integer codes, and replies wrapped in an
  envelope with a code and a success flag.
\<close>

record toko_config =
  tc_default :: exchange_credentials
  tc_accounts :: "string \<Rightarrow> exchange_credentials option"
  tc_base_url :: string
  tc_recv_window :: int

definition InitTokocryptoExchange ::
  "exchange_lib \<Rightarrow> exchange_credentials \<Rightarrow> (string \<times> exchange_credentials) list \<Rightarrow> toko_config" where
  "InitTokocryptoExchange L keys accounts =
     (let baseURL = trim_space (xl_getenv L ''TOKOCRYPTO_BASE_URL'');
          baseURL = (if baseURL = [] then ''https://www.tokocrypto.com'' else baseURL)
      in \<lparr>tc_default = \<lparr>ec_key = trim_space (ec_key keys), ec_secret = trim_space (ec_secret keys)\<rparr>,
          tc_accounts = loadExchangeAccounts accounts,
          tc_base_url = trim_right_char baseURL CHR ''/'',
          tc_recv_window = recvWindowFromEnv L ''TOKOCRYPTO_RECV_WINDOW''\<rparr>)"

definition toko_credentials :: "toko_config \<Rightarrow> string \<Rightarrow> exchange_error + exchange_credentials" where
  "toko_credentials C userID = credentialsForUser (tc_default C) (tc_accounts C) userID"

definition toko_deps :: "venue \<Rightarrow> resync_deps" where
  "toko_deps v = \<lparr>rd_exchange = ExchangeTokoCrypto, rd_market = MarketTypeSpot, rd_mapping = vn_toko_mapping v\<rparr>"

subsection \<open>Codes\<close>

definition tokocryptoOrderSideFromCode :: "int \<Rightarrow> exchange_error + string" where
  "tokocryptoOrderSideFromCode code =
     (if code = 0 then Inr OrderSideBuy else if code = 1 then Inr OrderSideSell
      else Inl (UnsupportedCode (format_int code)))"

definition tokocryptoOrderTypeFromCode :: "int \<Rightarrow> exchange_error + string" where
  "tokocryptoOrderTypeFromCode code =
     (if code = 1 then Inr OrderTypeLimit else if code = 2 then Inr OrderTypeMarket
      else Inl (UnsupportedCode (format_int code)))"

definition tokocryptoOrderStatusFromCode :: "int \<Rightarrow> string" where
  "tokocryptoOrderStatusFromCode code =
     (if code = 0 then ''NEW'' else if code = 1 then ''PARTIAL'' else if code = 2 then ''FILLED''
      else if code = 3 then ''CANCELED'' else if code = 4 then ''REJECTED''
      else ''UNKNOWN_'' @ format_int code)"

definition tokocryptoOrderTypeCode :: "string \<Rightarrow> exchange_error + int" where
  "tokocryptoOrderTypeCode orderType =
     (if orderType = OrderTypeLimit then Inr 1 else if orderType = OrderTypeMarket then Inr 2
      else Inl (UnsupportedOrderType orderType))"

definition tokocryptoOrderSideCode :: "string \<Rightarrow> exchange_error + int" where
  "tokocryptoOrderSideCode orderSide =
     (if orderSide = OrderSideBuy then Inr 0 else if orderSide = OrderSideSell then Inr 1
      else Inl (UnsupportedOrderSide orderSide))"

definition normalizeTokocryptoClientID :: "string \<Rightarrow> exchange_error + string" where
  "normalizeTokocryptoClientID raw =
     (let normalized = trim_space raw;
          normalized = remove_char normalized CHR ''-''
      in if normalized = [] then Inl EmptyClientID
         else
           (let normalized = (if length normalized > 32 then take 32 normalized else normalized)
            in if list_all client_id_char normalized then Inr normalized else Inl BadClientID))"

subsection \<open>Replies\<close>

record toko_envelope =
  te_code :: int
  te_msg :: string
  te_message :: string
  te_success :: "bool option"
  te_data :: "json option"

definition toko_envelope_of :: "(string \<times> json) list \<Rightarrow> toko_envelope option" where
  "toko_envelope_of ms = do {
     let tags = [''code'', ''msg'', ''message'', ''success'', ''timestamp'', ''data''];
     code \<leftarrow> fint tags ms ''code''; msg \<leftarrow> fstr tags ms ''msg''; message \<leftarrow> fstr tags ms ''message'';
     success \<leftarrow> fptr as_bool tags ms ''success''; timestamp \<leftarrow> fint tags ms ''timestamp'';
     Some \<lparr>te_code = code, te_msg = msg, te_message = message, te_success = success,
       te_data = fraw tags ms ''data''\<rparr>
   }"

definition toko_rejected :: "int \<Rightarrow> toko_envelope \<Rightarrow> bool" where
  "toko_rejected status env = (status \<ge> 400 \<or> te_code env \<noteq> 0 \<or> te_success env = Some False)"

definition toko_error_message :: "toko_envelope \<Rightarrow> string" where
  "toko_error_message env =
     (let errMsg = te_message env;
          errMsg = (if errMsg = [] then te_msg env else errMsg)
      in if errMsg = [] then ''unknown error'' else errMsg)"

text \<open>A reply's data: \<open>Unmarshal\<close> of no bytes is an error, of \<open>null\<close> it changes nothing.\<close>

definition toko_data :: "((string \<times> json) list \<Rightarrow> 'a option) \<Rightarrow> toko_envelope \<Rightarrow> 'a option" where
  "toko_data f env = (case te_data env of None \<Rightarrow> None | Some j \<Rightarrow> into_struct f j)"

record toko_order =
  to_order_id :: int
  to_order_id_text :: string
  to_client_id :: string
  to_symbol :: string
  to_side :: int
  to_type :: int
  to_price :: string
  to_orig_qty :: string
  to_executed_qty :: string
  to_executed_price :: string
  to_status :: int
  to_create_time :: int

definition toko_tags :: "string list" where
  "toko_tags = [''orderId'', ''clientId'', ''symbol'', ''symbolType'', ''side'', ''type'', ''price'',
     ''origQty'', ''origQuoteQty'', ''executedQty'', ''executedPrice'', ''executedQuoteQty'',
     ''timeInForce'', ''stopPrice'', ''icebergQty'', ''status'', ''isWorking'', ''createTime'',
     ''engineHeaders'', ''borderListId'', ''borderId'']"

text \<open>\<open>map[string][]string\<close>; only whether it decodes matters.\<close>

definition as_headers :: "json \<Rightarrow> unit option" where
  "as_headers j = (case j of
     JObj ms \<Rightarrow> if list_all (\<lambda>m. case snd m of
         JNull \<Rightarrow> True | JArr vs \<Rightarrow> list_all (\<lambda>x. x = JNull \<or> as_string x \<noteq> None) vs | _ \<Rightarrow> False) ms
       then Some () else None
   | _ \<Rightarrow> None)"

text \<open>
  The two structs have the same members; \<open>orderId\<close> and \<open>borderListId\<close> are numbers in the reply to a
  placed order (\<open>placed\<close>) and strings in the detail.
\<close>

definition toko_order_of :: "bool \<Rightarrow> (string \<times> json) list \<Rightarrow> toko_order option" where
  "toko_order_of placed ms = do {
     let str = fstr toko_tags ms; let i32 = fint32 toko_tags ms;
     orderNum \<leftarrow> (if placed then fint toko_tags ms ''orderId'' else Some 0);
     orderText \<leftarrow> (if placed then Some [] else str ''orderId'');
     clientId \<leftarrow> str ''clientId''; symbol \<leftarrow> str ''symbol''; symbolType \<leftarrow> i32 ''symbolType'';
     side \<leftarrow> i32 ''side''; typ \<leftarrow> i32 ''type''; price \<leftarrow> str ''price''; origQty \<leftarrow> str ''origQty'';
     origQuoteQty \<leftarrow> str ''origQuoteQty''; executedQty \<leftarrow> str ''executedQty'';
     executedPrice \<leftarrow> str ''executedPrice''; executedQuoteQty \<leftarrow> str ''executedQuoteQty'';
     timeInForce \<leftarrow> i32 ''timeInForce''; stopPrice \<leftarrow> str ''stopPrice''; icebergQty \<leftarrow> str ''icebergQty'';
     status \<leftarrow> i32 ''status''; isWorking \<leftarrow> i32 ''isWorking''; createTime \<leftarrow> fint toko_tags ms ''createTime'';
     headers \<leftarrow> field as_headers () toko_tags ms ''engineHeaders'';
     listNum \<leftarrow> (if placed then fint toko_tags ms ''borderListId'' else Some 0);
     listText \<leftarrow> (if placed then Some [] else str ''borderListId''); borderId \<leftarrow> str ''borderId'';
     Some \<lparr>to_order_id = orderNum, to_order_id_text = orderText, to_client_id = clientId,
       to_symbol = symbol, to_side = side, to_type = typ, to_price = price, to_orig_qty = origQty,
       to_executed_qty = executedQty, to_executed_price = executedPrice, to_status = status,
       to_create_time = createTime\<rparr>
   }"

subsection \<open>The precision cache\<close>

record toko_info_item =
  ti_symbol :: string
  ti_base :: int
  ti_quote :: int

definition toko_info_item_of :: "json \<Rightarrow> toko_info_item option" where
  "toko_info_item_of = into_struct (\<lambda>ms. do {
     let tags = [''symbol'', ''basePrecision'', ''quotePrecision''];
     symbol \<leftarrow> fstr tags ms ''symbol''; base \<leftarrow> fint32 tags ms ''basePrecision'';
     quote \<leftarrow> fint32 tags ms ''quotePrecision'';
     Some \<lparr>ti_symbol = symbol, ti_base = base, ti_quote = quote\<rparr>
   })"

record toko_info =
  tn_code :: int
  tn_message :: string
  tn_success :: "bool option"
  tn_items :: "toko_info_item list"

definition toko_info_of :: "(string \<times> json) list \<Rightarrow> toko_info option" where
  "toko_info_of ms = do {
     let tags = [''code'', ''message'', ''success'', ''data''];
     code \<leftarrow> fint tags ms ''code''; message \<leftarrow> fstr tags ms ''message'';
     success \<leftarrow> fptr as_bool tags ms ''success''; items \<leftarrow> fslice toko_info_item_of tags ms ''data'';
     Some \<lparr>tn_code = code, tn_message = message, tn_success = success, tn_items = items\<rparr>
   }"

definition cache_toko_symbol ::
  "(string \<Rightarrow> toko_precision option) \<Rightarrow> toko_info_item \<Rightarrow> (string \<Rightarrow> toko_precision option)" where
  "cache_toko_symbol cache item =
     (let itemSymbol = to_upper (trim_space (ti_symbol item))
      in if itemSymbol = [] then cache
         else cache(itemSymbol \<mapsto> \<lparr>tp_base = ti_base item, tp_quote = ti_quote item\<rparr>))"

definition toko_refreshSymbolPrecision ::
  "toko_config \<Rightarrow> string \<Rightarrow> venue \<Rightarrow> exchange_error option \<times> venue" where
  "toko_refreshSymbolPrecision C symbol v =
     (let normalizedSymbol = to_upper (trim_space symbol)
      in if normalizedSymbol = [] then (None, v)
         else
           (let endpoint = tc_base_url C
                  @ ''/bapi/asset/v1/public/asset-service/product/get-exchange-info?symbol=''
                  @ query_escape normalizedSymbol;
                (reply, v) = http_do \<lparr>hq_method = ''GET'', hq_url = endpoint, hq_api_key = [], hq_body = []\<rparr> v
            in case reply of
                 None \<Rightarrow> (Some HttpFailed, v)
               | Some r \<Rightarrow>
                   (case decode_with toko_info_of (hr_body r) of
                      None \<Rightarrow> (Some (ResponseParseFailed (hr_status r) (hr_body r)), v)
                    | Some info \<Rightarrow>
                        if hr_status r \<ge> 400 \<or> tn_code info \<noteq> 0 \<or> tn_success info = Some False
                        then (Some (RequestRejected (hr_status r) (tn_code info) (tn_message info)), v)
                        else (None, v\<lparr>vn_toko_precision :=
                          foldl cache_toko_symbol (vn_toko_precision v) (tn_items info)\<rparr>))))"

definition toko_getSymbolPrecision ::
  "toko_config \<Rightarrow> string \<Rightarrow> venue \<Rightarrow> (exchange_error + toko_precision option) \<times> venue" where
  "toko_getSymbolPrecision C symbol v =
     (let normalizedSymbol = to_upper (trim_space symbol)
      in if normalizedSymbol = [] then (Inr None, v)
         else (case vn_toko_precision v normalizedSymbol of
                 Some precision \<Rightarrow> (Inr (Some precision), v)
               | None \<Rightarrow>
                   (case toko_refreshSymbolPrecision C normalizedSymbol v of
                      (Some e, v) \<Rightarrow> (Inl e, v)
                    | (None, v) \<Rightarrow> (Inr (vn_toko_precision v normalizedSymbol), v))))"

subsection \<open>From replies to order histories\<close>

definition toko_mapPlaceOrderResponse ::
  "exchange_lib \<Rightarrow> venue \<Rightarrow> order_request \<Rightarrow> toko_order \<Rightarrow> exchange_error + order_history" where
  "toko_mapPlaceOrderResponse L v order resp =
     (let D = xl_decimal L
      in bind_res (number D (to_price resp)) (\<lambda>price.
         bind_res (number D (to_orig_qty resp)) (\<lambda>quantity.
         bind_res (number D (to_executed_qty resp)) (\<lambda>filledQuantity.
         bind_res (number D (to_executed_price resp)) (\<lambda>executedPrice.
         bind_res (tokocryptoOrderSideFromCode (to_side resp)) (\<lambda>historySide.
         bind_res (tokocryptoOrderTypeFromCode (to_type resp)) (\<lambda>historyType.
           (let price = (if executedPrice > 0 \<and> price \<le> 0 then executedPrice else price);
                now = vn_now v;
                resolvedSymbol = resolveInternalSymbolFromOrderMapping (toko_deps v) (to_symbol resp)
            in Inr \<lparr>oh_id = [], oh_request_id = rq_request_id order, oh_user_id = rq_user_id order,
                 oh_exchange = rq_exchange order, oh_market_type = MarketTypeSpot,
                 oh_position_side = PositionSideBoth,
                 oh_symbol = (if resolvedSymbol = [] then rq_symbol order else resolvedSymbol),
                 oh_order_id = format_int (to_order_id resp), oh_entry_order_id = [],
                 oh_client_order_id = trimmed_valid (to_client_id resp),
                 oh_side = historySide, oh_type = historyType, oh_price = Some price,
                 oh_quantity = quantity, oh_filled_quantity = filledQuantity,
                 oh_avg_fill_price = (if executedPrice > 0 then Some executedPrice else None),
                 oh_status = tokocryptoOrderStatusFromCode (to_status resp),
                 oh_leverage = None, oh_fee = None, oh_realized_pnl = None,
                 oh_created_at_exchange = (if to_create_time resp > 0
                   then some_time (from_unix_milli (to_create_time resp)) else no_time),
                 oh_sent_at = orderSentAt now (rq_requested_at order),
                 oh_acknowledged_at = some_time now, oh_filled_at = no_time,
                 oh_strategy_id = orderStrategyID (rq_strategy_id order),
                 oh_trade_condition = rq_trade_condition order, oh_order_reason = [],
                 oh_exit_type = [], oh_error_message = no_string,
                 oh_created_at = now, oh_updated_at = now, oh_is_paper_trading = False\<rparr>))))))))"

text \<open>Here the order id of the reply is stored as it came, blanks included.\<close>

definition toko_mapOrderHistorySyncResponse ::
  "exchange_lib \<Rightarrow> venue \<Rightarrow> order_history \<Rightarrow> toko_order \<Rightarrow> exchange_error + order_history" where
  "toko_mapOrderHistorySyncResponse L v h resp =
     (let D = xl_decimal L
      in bind_res (of_option (InvalidNumber (to_executed_qty resp)) (decimalOrZero D (to_executed_qty resp)))
         (\<lambda>filledQuantity.
         bind_res (of_option (InvalidNumber (to_executed_price resp)) (decimalOrZero D (to_executed_price resp)))
         (\<lambda>executedPrice.
           Inr (synced_history (vn_now v) (tokocryptoOrderStatusFromCode (to_status resp)) filledQuantity
             executedPrice (if trim_space (to_order_id_text resp) \<noteq> [] then to_order_id_text resp else [])
             (trim_space (to_client_id resp)) (to_create_time resp)
             (resolveInternalSymbolFromOrderMapping (toko_deps v) (to_symbol resp)) h))))"

subsection \<open>Orders\<close>

definition toko_amounts ::
  "decimal_ops \<Rightarrow> toko_precision \<Rightarrow> order_request \<Rightarrow> exchange_error + rat \<times> rat" where
  "toko_amounts D precision order =
     (let quantity = d_trunc D (rq_quantity order) (tp_base precision)
      in if \<not> quantity > 0 then Inl (QuantityBecomesZero (rq_quantity order) (tp_base precision))
         else if rq_type order = OrderTypeLimit then
           (let price = d_trunc D (rq_price order) (tp_quote precision)
            in if \<not> price > 0 then Inl (PriceBecomesZero (rq_price order) (tp_quote precision))
               else Inr (quantity, price))
         else Inr (quantity, rq_price order))"

definition toko_base_pairs ::
  "decimal_ops \<Rightarrow> string \<Rightarrow> int \<Rightarrow> int \<Rightarrow> rat \<Rightarrow> rat \<Rightarrow> order_request \<Rightarrow> exchange_error + string list" where
  "toko_base_pairs D orderSymbol sideCode typeCode quantity price order =
     (let pairs = [''symbol='' @ orderSymbol, ''side='' @ format_int sideCode,
                   ''type='' @ format_int typeCode, ''quantity='' @ d_show D quantity];
          limitPairs = (if rq_type order = OrderTypeLimit
                        then [''price='' @ d_show D price, ''timeInForce=1''] else [])
      in case rq_order_id order of
           None \<Rightarrow> Inr (pairs @ limitPairs)
         | Some orderID \<Rightarrow>
             if trim_space orderID = [] then Inr (pairs @ limitPairs)
             else bind_res (normalizeTokocryptoClientID (trim_space orderID)) (\<lambda>clientID.
               Inr (pairs @ [''clientId='' @ query_escape clientID] @ limitPairs)))"

text \<open>The reply to a request, or why it is not one; \<open>placed\<close> chooses the struct.\<close>

definition toko_reply :: "bool \<Rightarrow> http_reply option \<Rightarrow> exchange_error + toko_order" where
  "toko_reply placed reply =
     (case reply of
        None \<Rightarrow> Inl HttpFailed
      | Some r \<Rightarrow>
          (case decode_with toko_envelope_of (hr_body r) of
             None \<Rightarrow> Inl (ResponseParseFailed (hr_status r) (hr_body r))
           | Some env \<Rightarrow>
               if toko_rejected (hr_status r) env
               then Inl (RequestRejected (hr_status r) (te_code env) (toko_error_message env))
               else of_option (ResponseParseFailed (hr_status r) (hr_body r)) (toko_data (toko_order_of placed) env)))"

definition toko_submit ::
  "exchange_lib \<Rightarrow> toko_config \<Rightarrow> exchange_credentials \<Rightarrow> string list \<Rightarrow> venue
     \<Rightarrow> http_reply option \<times> venue" where
  "toko_submit L C keys pairs v =
     http_do \<lparr>hq_method = ''POST'', hq_url = tc_base_url C @ ''/open/v1/orders'', hq_api_key = ec_key keys,
       hq_body = signed_payload L (ec_secret keys) (pairs @ window_pairs v (tc_recv_window C))\<rparr> v"

definition toko_send ::
  "exchange_lib \<Rightarrow> toko_config \<Rightarrow> exchange_credentials \<Rightarrow> string \<Rightarrow> int \<Rightarrow> int \<Rightarrow> order_request \<Rightarrow> venue
     \<Rightarrow> (exchange_error + order_history) \<times> venue" where
  "toko_send L C keys orderSymbol typeCode sideCode order v =
     (let (precision, v) = toko_getSymbolPrecision C orderSymbol v;
          amounts = (case precision of
             Inr (Some p) \<Rightarrow> toko_amounts (xl_decimal L) p order
           | _ \<Rightarrow> Inr (rq_quantity order, rq_price order))
      in case amounts of
           Inl e \<Rightarrow> (Inl e, v)
         | Inr (quantity, price) \<Rightarrow>
             (case toko_base_pairs (xl_decimal L) orderSymbol sideCode typeCode quantity price order of
                Inl e \<Rightarrow> (Inl e, v)
              | Inr pairs \<Rightarrow>
                  (let (reply, v) = toko_submit L C keys pairs v
                   in (bind_res (toko_reply True reply) (toko_mapPlaceOrderResponse L v order), v))))"

definition TokocryptoPlaceOrder ::
  "exchange_lib \<Rightarrow> toko_config \<Rightarrow> order_request \<Rightarrow> venue \<Rightarrow> (exchange_error + order_history) \<times> venue" where
  "TokocryptoPlaceOrder L C order v =
     (if vn_ctx_done v then (Inl ExchangeContextDone, v)
      else case toko_credentials C (rq_user_id order) of
        Inl e \<Rightarrow> (Inl e, v)
      | Inr keys \<Rightarrow>
          (let mapped = resolveExchangeOrderSymbolFromMapping (toko_deps v) (rq_symbol order);
               orderSymbol = (if trim_space mapped = [] then rq_symbol order else mapped)
           in case (tokocryptoOrderTypeCode (rq_type order), tokocryptoOrderSideCode (rq_side order)) of
                (Inl e, _) \<Rightarrow> (Inl e, v)
              | (Inr _, Inl e) \<Rightarrow> (Inl e, v)
              | (Inr typeCode, Inr sideCode) \<Rightarrow>
                  toko_send L C keys orderSymbol typeCode sideCode order v))"

definition TokocryptoSyncOrderHistory ::
  "exchange_lib \<Rightarrow> toko_config \<Rightarrow> order_history \<Rightarrow> venue
     \<Rightarrow> (exchange_error + order_history option) \<times> venue" where
  "TokocryptoSyncOrderHistory L C h v =
     (if vn_ctx_done v then (Inl ExchangeContextDone, v)
      else case toko_credentials C (oh_user_id h) of
        Inl e \<Rightarrow> (Inl e, v)
      | Inr keys \<Rightarrow>
          (let orderSymbol = trim_space (resolveExchangeOrderSymbolFromMapping (toko_deps v) (oh_symbol h))
           in if orderSymbol = [] then (Inl OrderSymbolEmpty, v)
              else if trim_space (oh_order_id h) = [] \<and> \<not> str_valid (oh_client_order_id h)
              then (Inl MissingOrderID, v)
              else
                (let idPair = (if trim_space (oh_order_id h) \<noteq> []
                       then ''orderId='' @ trim_space (oh_order_id h)
                       else ''clientId='' @ query_escape (trim_space (str_val (oh_client_order_id h))));
                     pairs = [''symbol='' @ orderSymbol, idPair] @ window_pairs v (tc_recv_window C);
                     (reply, v) = http_do
                       \<lparr>hq_method = ''GET'', hq_url = tc_base_url C @ ''/open/v1/orders/detail?''
                          @ signed_payload L (ec_secret keys) pairs,
                        hq_api_key = ec_key keys, hq_body = []\<rparr> v
                 in (bind_res (toko_reply False reply)
                       (\<lambda>resp. res_map Some (toko_mapOrderHistorySyncResponse L v h resp)), v))))"

subsection \<open>Market data\<close>

definition HandleKlineData ::
  "decimal_ops \<Rightarrow> venue \<Rightarrow> bool \<Rightarrow> string \<Rightarrow> event list \<Rightarrow> kline_error option \<times> event list" where
  "HandleKlineData D v publish_ok message evs =
     (case decode_with wrapped_payload_of message of
        None \<Rightarrow> (Some KlineDecodeFailed, evs)
      | Some p \<Rightarrow> publish_payload D ExchangeTokoCrypto MarketTypeSpot (toko_deps v) (vn_now v) publish_ok p evs)"

subsection \<open>Code tables\<close>

interpretation toko_types: code_table tokocryptoOrderTypeCode tokocryptoOrderTypeFromCode
  "\<lambda>t. t = OrderTypeLimit \<or> t = OrderTypeMarket"
  by unfold_locales (auto simp: tokocryptoOrderTypeCode_def tokocryptoOrderTypeFromCode_def)

interpretation toko_sides: code_table tokocryptoOrderSideCode tokocryptoOrderSideFromCode
  "\<lambda>s. s = OrderSideBuy \<or> s = OrderSideSell"
  by unfold_locales (auto simp: tokocryptoOrderSideCode_def tokocryptoOrderSideFromCode_def)

lemma toko_futures_rejected:
  "s = OrderSideLong \<or> s = OrderSideShort \<Longrightarrow> tokocryptoOrderSideCode s = Inl (UnsupportedOrderSide s)"
  by (auto simp: tokocryptoOrderSideCode_def)

subsection \<open>What the adapter returns\<close>

lemma toko_mapPlaceOrderResponse_fields:
  assumes "toko_mapPlaceOrderResponse L v order resp = Inr h"
  shows "oh_request_id h = rq_request_id order" "oh_user_id h = rq_user_id order"
    "oh_exchange h = rq_exchange order" "oh_trade_condition h = rq_trade_condition order"
    "\<not> oh_is_paper_trading h" "oh_market_type h = MarketTypeSpot"
    "oh_status h = tokocryptoOrderStatusFromCode (to_status resp)"
  using assms unfolding toko_mapPlaceOrderResponse_def Let_def number_def by (elim bind_resE; auto)+

lemma TokocryptoPlaceOrder_sent:
  assumes "fst (TokocryptoPlaceOrder L C order v) = Inr h \<or> snd (TokocryptoPlaceOrder L C order v) \<noteq> v"
  obtains keys osym typeCode side where
    "TokocryptoPlaceOrder L C order v = toko_send L C keys osym typeCode side order v"
    "toko_credentials C (rq_user_id order) = Inr keys"
    "rq_side order = OrderSideBuy \<or> rq_side order = OrderSideSell"
  using assms unfolding TokocryptoPlaceOrder_def Let_def
  by (auto split: sum.splits if_splits simp: tokocryptoOrderSideCode_def)

lemma toko_send_Inr:
  assumes "toko_send L C keys osym typeCode side order v = (Inr h, v')"
  obtains v1 resp where "toko_mapPlaceOrderResponse L v1 order resp = Inr h"
  using assms unfolding toko_send_def Let_def
  by (auto split: prod.splits sum.splits option.splits simp: bind_res_Inr_iff)

lemma TokocryptoPlaceOrder_fields:
  assumes "TokocryptoPlaceOrder L C order v = (Inr h, v')"
  shows "oh_request_id h = rq_request_id order" "oh_user_id h = rq_user_id order"
    "oh_exchange h = rq_exchange order" "oh_trade_condition h = rq_trade_condition order"
    "\<not> oh_is_paper_trading h"
proof -
  obtain keys osym typeCode side where "toko_send L C keys osym typeCode side order v = (Inr h, v')"
    using assms TokocryptoPlaceOrder_sent [of L C order v h] by (metis fst_conv)
  then obtain v1 resp where "toko_mapPlaceOrderResponse L v1 order resp = Inr h" by (rule toko_send_Inr)
  then show "oh_request_id h = rq_request_id order" "oh_user_id h = rq_user_id order"
    "oh_exchange h = rq_exchange order" "oh_trade_condition h = rq_trade_condition order"
    "\<not> oh_is_paper_trading h"
    by (rule toko_mapPlaceOrderResponse_fields)+
qed

lemma toko_refresh_posts [frame_simps]: "posts (snd (toko_refreshSymbolPrecision C s v)) = posts v"
  using posts_http_do [of "\<lparr>hq_method = ''GET'', hq_url = tc_base_url C
      @ ''/bapi/asset/v1/public/asset-service/product/get-exchange-info?symbol=''
      @ query_escape (to_upper (trim_space s)), hq_api_key = [], hq_body = []\<rparr>" v]
  by (auto simp: toko_refreshSymbolPrecision_def Let_def posts_precision split: prod.splits option.splits)

lemma toko_submit_posts:
  "\<exists>req. posts (snd (toko_submit L C keys pairs v)) = posts v @ [req] \<and> hq_api_key req = ec_key keys"
  by (simp add: toko_submit_def posts_http_do)

lemma toko_precision_posts [frame_simps]: "posts (snd (toko_getSymbolPrecision C s v)) = posts v"
  using toko_refresh_posts [of C "to_upper (trim_space s)" v]
  by (auto simp: toko_getSymbolPrecision_def Let_def split: prod.splits option.splits)

lemma toko_send_posts:
  "\<exists>l. posts (snd (toko_send L C keys osym typeCode side order v)) = posts v @ l \<and> length l \<le> 1
     \<and> (\<forall>req\<in>set l. hq_api_key req = ec_key keys)"
proof -
  obtain pr v1 where p: "toko_getSymbolPrecision C osym v = (pr, v1)"
    by (cases "toko_getSymbolPrecision C osym v")
  have v1: "posts v1 = posts v" using toko_precision_posts [of C osym v] p by simp
  have "snd (toko_send L C keys osym typeCode side order v) = v1 \<or>
      (\<exists>pairs. snd (toko_send L C keys osym typeCode side order v) = snd (toko_submit L C keys pairs v1))"
    using p by (auto simp: toko_send_def Let_def split: sum.splits option.splits prod.splits) (metis snd_conv)+
  then show ?thesis using toko_submit_posts [of L C keys _ v1] v1 by fastforce
qed

lemma TokocryptoPlaceOrder_posts:
  "\<exists>l. posts (snd (TokocryptoPlaceOrder L C order v)) = posts v @ l \<and> length l \<le> 1
     \<and> (l \<noteq> [] \<longrightarrow> (\<exists>keys. toko_credentials C (rq_user_id order) = Inr keys
          \<and> (\<forall>req\<in>set l. hq_api_key req = ec_key keys)))"
proof (cases "snd (TokocryptoPlaceOrder L C order v) = v")
  case True
  then show ?thesis by simp
next
  case False
  then obtain keys osym typeCode side where
    "TokocryptoPlaceOrder L C order v = toko_send L C keys osym typeCode side order v"
    "toko_credentials C (rq_user_id order) = Inr keys"
    using TokocryptoPlaceOrder_sent [of L C order v] by metis
  then show ?thesis using toko_send_posts [of L C keys osym typeCode side order v] by auto
qed

lemma toko_mapSync_Inr:
  assumes "toko_mapOrderHistorySyncResponse L v h resp = Inr u"
  obtains fq ep oid cid et sy where
    "u = synced_history (vn_now v) (tokocryptoOrderStatusFromCode (to_status resp)) fq ep oid cid et sy h"
  using assms unfolding toko_mapOrderHistorySyncResponse_def Let_def by (elim bind_resE) auto

lemma TokocryptoSync_fields:
  assumes "TokocryptoSyncOrderHistory L C h v = (Inr u, v')"
  obtains u' where "u = Some u'" "oh_id u' = oh_id h" "oh_request_id u' = oh_request_id h"
    "oh_user_id u' = oh_user_id h" "oh_exchange u' = oh_exchange h" "oh_order_reason u' = oh_order_reason h"
    "oh_entry_order_id u' = oh_entry_order_id h"
proof -
  obtain v1 resp where "bind_res (Inr resp) (\<lambda>resp. res_map Some (toko_mapOrderHistorySyncResponse L v1 h resp)) = Inr u"
    using assms unfolding TokocryptoSyncOrderHistory_def Let_def
    by (auto split: sum.splits if_splits prod.splits simp: bind_res_Inr_iff)
  then obtain u' where u: "u = Some u'" "toko_mapOrderHistorySyncResponse L v1 h resp = Inr u'"
    by (auto simp: res_map_Inr_iff)
  obtain st fq ep oid cid et sy where "u' = synced_history (vn_now v1) st fq ep oid cid et sy h"
    using toko_mapSync_Inr [OF u(2)] by metis
  then show thesis by (intro that [OF u(1)]) (simp_all add: synced_history_keeps)
qed

end
