(* ===== verification/Registry.thy ===== *)
theory Registry
  imports EngineRun Binance Tokocrypto
begin

text \<open>
  The configured exchanges (\<open>internal/bootstrap/exchange_init.go\<close>,
  \<open>internal/service/exchange/exchange.go\<close>): the map of adapters the order engine is given. It is
  shown to satisfy the contract the order engine relies on.
\<close>

record app_config =
  ap_lib :: exchange_lib
  ap_tokocrypto :: "(exchange_credentials \<times> (string \<times> exchange_credentials) list) option"
  ap_binance :: "(exchange_credentials \<times> (string \<times> exchange_credentials) list) option"

definition RegisterExchange :: "string \<Rightarrow> 'x exchange_api \<Rightarrow> 'x registry \<Rightarrow> 'x registry" where
  "RegisterExchange name exchange reg = reg(name \<mapsto> exchange)"

definition binance_api :: "exchange_lib \<Rightarrow> binance_config \<Rightarrow> venue exchange_api" where
  "binance_api L C = \<lparr>xa_place = BinancePlaceOrder L C, xa_sync = BinanceSyncOrderHistory L C\<rparr>"

definition tokocrypto_api :: "exchange_lib \<Rightarrow> toko_config \<Rightarrow> venue exchange_api" where
  "tokocrypto_api L C = \<lparr>xa_place = TokocryptoPlaceOrder L C, xa_sync = TokocryptoSyncOrderHistory L C\<rparr>"

definition initConfiguredExchanges :: "app_config \<Rightarrow> venue registry" where
  "initConfiguredExchanges A =
     (let reg = Map.empty;
          reg = (case ap_tokocrypto A of None \<Rightarrow> reg
            | Some (keys, accounts) \<Rightarrow> RegisterExchange ExchangeTokoCrypto
                (tokocrypto_api (ap_lib A) (InitTokocryptoExchange (ap_lib A) keys accounts)) reg)
      in case ap_binance A of None \<Rightarrow> reg
         | Some (keys, accounts) \<Rightarrow> RegisterExchange ExchangeBinance
             (binance_api (ap_lib A) (InitBinanceExchange (ap_lib A) keys accounts)) reg)"

lemma initConfiguredExchanges_Some:
  assumes "initConfiguredExchanges A n = Some ex"
  obtains (binance) C where "n = ExchangeBinance" "ex = binance_api (ap_lib A) C"
    | (tokocrypto) C where "n = ExchangeTokoCrypto" "ex = tokocrypto_api (ap_lib A) C"
  using assms
  by (auto simp: initConfiguredExchanges_def RegisterExchange_def Let_def split: option.splits if_splits)

interpretation configured: sync_registry "initConfiguredExchanges A" for A
proof
  fix n ex order x h x'
  assume reg: "initConfiguredExchanges A n = Some ex" and place: "xa_place ex order x = (Inr h, x')"
  show "oh_request_id h = rq_request_id order"
    using reg place
    by (cases rule: initConfiguredExchanges_Some)
       (auto simp: binance_api_def tokocrypto_api_def dest: BinancePlaceOrder_fields(1) TokocryptoPlaceOrder_fields(1))
next
  fix n ex h x u x'
  assume reg: "initConfiguredExchanges A n = Some ex" and sync: "xa_sync ex h x = (Inr (Some u), x')"
  show "oh_id u = oh_id h \<and> oh_request_id u = oh_request_id h"
    using reg sync
    by (cases rule: initConfiguredExchanges_Some)
       (auto simp: binance_api_def tokocrypto_api_def elim!: BinanceSync_fields TokocryptoSync_fields)
qed

text \<open>The orders a placement submits over all the exchanges: at most two, and one for spot.\<close>

lemma configured_posts:
  assumes "initConfiguredExchanges A n = Some ex"
  shows "\<exists>l. posts (snd (xa_place ex order v)) = posts v @ l \<and> length l \<le> 2"
  using assms
proof (cases rule: initConfiguredExchanges_Some)
  case (binance C)
  then show ?thesis
    using BinancePlaceOrder_posts [of "ap_lib A" C order v] by (auto simp: binance_api_def)
next
  case (tokocrypto C)
  then show ?thesis
    using TokocryptoPlaceOrder_posts [of "ap_lib A" C order v] by (fastforce simp: tokocrypto_api_def)
qed

end
