(* ===== verification/KlineStore.thy ===== *)
theory KlineStore
  imports OrderStore "HOL-Library.Char_ord" "HOL-Library.List_Lexorder"
begin

text \<open>
  The tables \<open>market_klines\<close> and \<open>price_references\<close> with their repositories
  (\<open>market_kline.repository.go\<close>, \<open>price_reference.repository.go\<close>). As for the orders a table is
  the list of its rows and each call takes a flag that says whether the database answers. Both
  tables are filled by an upsert on a unique key; the locale \<open>upsert_table\<close> states what an upsert
  promises and both repositories are interpreted in it. \<open>nullDefaultString\<close> is the choice between
  the given id and the one the database draws. Column widths are not checked.
\<close>

subsection \<open>Candles\<close>

type_synonym kline_table = "market_kline list"

definition kline_key :: "market_kline \<Rightarrow> string \<times> string \<times> string \<times> string \<times> gotime" where
  "kline_key r = (mk_exchange r, mk_market_type r, mk_symbol r, mk_interval r, mk_open_time r)"

text \<open>\<open>DO UPDATE SET\<close> names every column but the id, the key and \<open>created_at\<close>.\<close>

definition merged_kline :: "market_kline \<Rightarrow> market_kline \<Rightarrow> market_kline" where
  "merged_kline data row = data\<lparr>mk_id := mk_id row, mk_created_at := mk_created_at row\<rparr>"

definition Create_kline :: "bool \<Rightarrow> string \<Rightarrow> market_kline \<Rightarrow> kline_table
    \<Rightarrow> (db_error + string) \<times> kline_table" where
  "Create_kline db_ok new_id data t =
     (if \<not> db_ok then (Inl DbFault, t)
      else (case find (\<lambda>r. kline_key r = kline_key data) t of
          Some row \<Rightarrow>
            (Inr (mk_id row), map (\<lambda>r. if kline_key r = kline_key data then merged_kline data r else r) t)
        | None \<Rightarrow>
            (let i = (if mk_id data = [] then new_id else mk_id data)
             in if i \<in> mk_id ` set t then (Inl UniqueViolation, t)
                else (Inr i, t @ [data\<lparr>mk_id := i\<rparr>]))))"

definition in_series :: "string \<Rightarrow> string \<Rightarrow> string \<Rightarrow> string \<Rightarrow> market_kline \<Rightarrow> bool" where
  "in_series exchange market symbol interval r =
     (mk_exchange r = exchange \<and> mk_market_type r = market \<and> mk_symbol r = symbol \<and> mk_interval r = interval)"

text \<open>The sub-query: the open times in descending order, the one at \<open>OFFSET maxCount\<close> if any.\<close>

definition open_times_desc :: "(market_kline \<Rightarrow> bool) \<Rightarrow> kline_table \<Rightarrow> gotime list" where
  "open_times_desc P t = rev (sort (map mk_open_time (filter P t)))"

definition DeleteOldKlines :: "bool \<Rightarrow> string \<Rightarrow> string \<Rightarrow> string \<Rightarrow> string \<Rightarrow> int \<Rightarrow> kline_table
    \<Rightarrow> db_error option \<times> kline_table" where
  "DeleteOldKlines db_ok exchange market symbol interval maxCount t =
     (if maxCount \<le> 0 then (None, t)
      else if \<not> db_ok then (Some DbFault, t)
      else (let P = in_series exchange market symbol interval;
                opens = open_times_desc P t
            in if nat maxCount < length opens
               then (None, filter (\<lambda>r. \<not> (P r \<and> mk_open_time r < opens ! nat maxCount)) t)
               else (None, t)))"

definition FindByID_kline :: "bool \<Rightarrow> string \<Rightarrow> kline_table \<Rightarrow> db_error + market_kline option" where
  "FindByID_kline db_ok i t = (if \<not> db_ok then Inl DbFault else Inr (find (\<lambda>r. mk_id r = i) t))"

text \<open>\<open>time_text\<close> is the database's text of a \<open>TIMESTAMPTZ\<close>, which depends on its settings.\<close>

definition FindByOpenTime :: "(gotime \<Rightarrow> string) \<Rightarrow> bool \<Rightarrow> string \<Rightarrow> kline_table
    \<Rightarrow> db_error + market_kline option" where
  "FindByOpenTime time_text db_ok openTime t =
     (if \<not> db_ok then Inl DbFault else Inr (find (\<lambda>r. time_text (mk_open_time r) = openTime) t))"

definition ListExchanges :: "bool \<Rightarrow> kline_table \<Rightarrow> db_error + string list" where
  "ListExchanges db_ok t =
     (if \<not> db_ok then Inl DbFault
      else Inr (sort (remdups (filter (\<lambda>e. e \<noteq> []) (map mk_exchange t)))))"

definition Update_kline :: "bool \<Rightarrow> market_kline \<Rightarrow> kline_table \<Rightarrow> db_error option \<times> kline_table" where
  "Update_kline db_ok data t =
     (if \<not> db_ok then (Some DbFault, t)
      else if (\<exists>r\<in>set t. mk_id r = mk_id data)
           \<and> (\<exists>r\<in>set t. mk_id r \<noteq> mk_id data \<and> kline_key r = kline_key data)
      then (Some UniqueViolation, t)
      else if (\<exists>r\<in>set t. mk_id r = mk_id data)
      then (None, map (\<lambda>r. if mk_id r = mk_id data then data\<lparr>mk_created_at := mk_created_at r\<rparr> else r) t)
      else (Some ErrNoRows, t))"

definition Delete_kline :: "bool \<Rightarrow> string \<Rightarrow> kline_table \<Rightarrow> db_error option \<times> kline_table" where
  "Delete_kline db_ok i t =
     (if \<not> db_ok then (Some DbFault, t)
      else if (\<exists>r\<in>set t. mk_id r = i) then (None, filter (\<lambda>r. mk_id r \<noteq> i) t)
      else (Some ErrNoRows, t))"

subsection \<open>Price references\<close>

record price_reference =
  pr_id :: string
  pr_exchange :: string
  pr_market_type :: string
  pr_symbol :: string
  pr_price :: rat
  pr_event_time :: gotime
  pr_updated_at :: gotime

type_synonym price_table = "price_reference list"

definition price_key :: "price_reference \<Rightarrow> string \<times> string \<times> string" where
  "price_key p = (pr_exchange p, pr_market_type p, pr_symbol p)"

definition market_key :: "market_kline \<Rightarrow> string \<times> string \<times> string" where
  "market_key k = (mk_exchange k, mk_market_type k, mk_symbol k)"

definition UpsertKline :: "bool \<Rightarrow> string \<Rightarrow> gotime \<Rightarrow> market_kline \<Rightarrow> price_table
    \<Rightarrow> db_error option \<times> price_table" where
  "UpsertKline db_ok new_id now k t =
     (if \<not> db_ok then (Some DbFault, t)
      else if market_key k \<in> price_key ` set t
      then (None, map (\<lambda>p. if price_key p = market_key k \<and> pr_event_time p \<le> mk_event_time k
                           then p\<lparr>pr_price := mk_close_price k, pr_event_time := mk_event_time k,
                                  pr_updated_at := now\<rparr> else p) t)
      else if new_id \<in> pr_id ` set t then (Some UniqueViolation, t)
      else (None, t @ [\<lparr>pr_id = new_id, pr_exchange = mk_exchange k, pr_market_type = mk_market_type k,
                        pr_symbol = mk_symbol k, pr_price = mk_close_price k,
                        pr_event_time = mk_event_time k, pr_updated_at = now\<rparr>]))"

definition FindByMarket :: "bool \<Rightarrow> string \<Rightarrow> string \<Rightarrow> string \<Rightarrow> price_table
    \<Rightarrow> db_error + price_reference option" where
  "FindByMarket db_ok exchange market symbol t =
     (if \<not> db_ok then Inl DbFault
      else Inr (find (\<lambda>p. price_key p = (exchange, market, symbol)) t))"

definition FindByID_price :: "bool \<Rightarrow> string \<Rightarrow> price_table \<Rightarrow> db_error + price_reference option" where
  "FindByID_price db_ok i t = (if \<not> db_ok then Inl DbFault else Inr (find (\<lambda>p. pr_id p = i) t))"

subsection \<open>The contract of an upsert\<close>

locale upsert_table =
  fixes key :: "'r \<Rightarrow> 'k"
    and data_key :: "'d \<Rightarrow> 'k"
    and put :: "'a \<Rightarrow> 'd \<Rightarrow> 'r list \<Rightarrow> 'r list"
    and done_ok :: "'a \<Rightarrow> 'd \<Rightarrow> 'r list \<Rightarrow> bool"
  assumes put_failed: "\<not> done_ok a d t \<Longrightarrow> put a d t = t"
    and put_known: "done_ok a d t \<Longrightarrow> data_key d \<in> key ` set t \<Longrightarrow> map key (put a d t) = map key t"
    and put_fresh: "done_ok a d t \<Longrightarrow> data_key d \<notin> key ` set t \<Longrightarrow> map key (put a d t) = map key t @ [data_key d]"
begin

lemma put_keys: "done_ok a d t \<Longrightarrow> key ` set (put a d t) = insert (data_key d) (key ` set t)"
  using put_known [of a d t] put_fresh [of a d t]
  by (cases "data_key d \<in> key ` set t") (auto simp flip: set_map)

lemma put_grows: "key ` set t \<subseteq> key ` set (put a d t)"
  using put_keys [of a d t] put_failed [of a d t] by (cases "done_ok a d t") auto

lemma put_bound: "key ` set (put a d t) \<subseteq> insert (data_key d) (key ` set t)"
  using put_keys [of a d t] put_failed [of a d t] by (cases "done_ok a d t") auto

lemma put_distinct: "distinct (map key t) \<Longrightarrow> distinct (map key (put a d t))"
  using put_failed [of a d t] put_known [of a d t] put_fresh [of a d t]
  by (cases "done_ok a d t"; cases "data_key d \<in> key ` set t") auto

text \<open>A sequence of upserts never loses a key and never duplicates one.\<close>

lemma puts_distinct:
  "distinct (map key t) \<Longrightarrow> distinct (map key (foldl (\<lambda>t (a, d). put a d t) t xs))"
  by (induction xs arbitrary: t) (auto intro: put_distinct)

lemma puts_grow: "key ` set t \<subseteq> key ` set (foldl (\<lambda>t (a, d). put a d t) t xs)"
proof (induction xs arbitrary: t)
  case (Cons x xs)
  then show ?case using put_grows [of t "fst x" "snd x"] by (cases x) fastforce
qed simp

lemma puts_bound:
  "key ` set (foldl (\<lambda>t (a, d). put a d t) t xs) \<subseteq> data_key ` snd ` set xs \<union> key ` set t"
proof (induction xs arbitrary: t)
  case (Cons x xs)
  obtain a d where x: "x = (a, d)" by (cases x)
  from Cons [of "put a d t"] put_bound [of a d t] show ?case
    by (simp add: x) blast
qed simp

end

lemma kline_key_upd [simp]:
  "kline_key (r\<lparr>mk_id := i\<rparr>) = kline_key r"
  "kline_key (r\<lparr>mk_created_at := c\<rparr>) = kline_key r"
  "kline_key (merged_kline d r) = kline_key d"
  by (simp_all add: kline_key_def merged_kline_def)

lemma Create_kline_old:
  assumes "find (\<lambda>r. kline_key r = kline_key d) t = Some row"
  shows "Create_kline True i d t = (Inr (mk_id row),
    map (\<lambda>r. if kline_key r = kline_key d then merged_kline d r else r) t)"
  using assms by (simp add: Create_kline_def)

lemma Create_kline_new:
  assumes "find (\<lambda>r. kline_key r = kline_key d) t = None" "is_ok (fst (Create_kline ok i d t))"
  shows "\<exists>j. Create_kline ok i d t = (Inr j, t @ [d\<lparr>mk_id := j\<rparr>])"
  using assms by (auto simp: Create_kline_def Let_def split: if_splits)

lemma Create_kline_Inl: "fst (Create_kline ok i d t) = Inl e \<Longrightarrow> snd (Create_kline ok i d t) = t"
  by (auto simp: Create_kline_def Let_def split: option.splits if_splits)

lemma Create_kline_db: "is_ok (fst (Create_kline ok i d t)) \<Longrightarrow> ok"
  by (simp add: Create_kline_def split: if_splits)

lemma merged_keys:
  "map kline_key (map (\<lambda>r. if kline_key r = kline_key d then merged_kline d r else r) t) = map kline_key t"
  by auto

lemma find_key: "find (\<lambda>r. f r = k) t = None \<longleftrightarrow> k \<notin> f ` set t"
  by (auto simp: find_None_iff image_iff)

interpretation kline_rows: upsert_table kline_key kline_key
  "\<lambda>a d t. snd (Create_kline (fst a) (snd a) d t)"
  "\<lambda>a d t. is_ok (fst (Create_kline (fst a) (snd a) d t))"
proof
  fix a d and t :: kline_table
  show "snd (Create_kline (fst a) (snd a) d t) = t" if "\<not> is_ok (fst (Create_kline (fst a) (snd a) d t))"
    using that Create_kline_Inl by (cases "fst (Create_kline (fst a) (snd a) d t)") auto
  assume ok: "is_ok (fst (Create_kline (fst a) (snd a) d t))"
  then have db: "fst a" by (rule Create_kline_db)
  show "map kline_key (snd (Create_kline (fst a) (snd a) d t)) = map kline_key t"
    if known: "kline_key d \<in> kline_key ` set t"
  proof -
    from known find_key [of kline_key "kline_key d" t]
    obtain row where "find (\<lambda>r. kline_key r = kline_key d) t = Some row" by blast
    from Create_kline_old [OF this] db show ?thesis by (simp only: snd_conv merged_keys)
  qed
  show "map kline_key (snd (Create_kline (fst a) (snd a) d t)) = map kline_key t @ [kline_key d]"
    if fresh: "kline_key d \<notin> kline_key ` set t"
  proof -
    from fresh find_key [of kline_key "kline_key d" t]
    have "find (\<lambda>r. kline_key r = kline_key d) t = None" by simp
    from Create_kline_new [OF this ok] obtain j
      where "Create_kline (fst a) (snd a) d t = (Inr j, t @ [d\<lparr>mk_id := j\<rparr>])" by blast
    then show ?thesis by simp
  qed
qed

lemma price_key_upd [simp]:
  "price_key (p\<lparr>pr_price := x, pr_event_time := y, pr_updated_at := z\<rparr>) = price_key p"
  by (simp add: price_key_def)

lemma UpsertKline_old:
  assumes "fst (UpsertKline ok i now d t) = None" "market_key d \<in> price_key ` set t"
  shows "snd (UpsertKline ok i now d t) =
    map (\<lambda>p. if price_key p = market_key d \<and> pr_event_time p \<le> mk_event_time d
             then p\<lparr>pr_price := mk_close_price d, pr_event_time := mk_event_time d,
                    pr_updated_at := now\<rparr> else p) t"
  using assms by (simp add: UpsertKline_def split: if_splits)

lemma UpsertKline_new:
  assumes "fst (UpsertKline ok i now d t) = None" "market_key d \<notin> price_key ` set t"
  shows "\<exists>r. snd (UpsertKline ok i now d t) = t @ [r] \<and> price_key r = market_key d
    \<and> pr_price r = mk_close_price d \<and> pr_event_time r = mk_event_time d"
  using assms by (simp add: UpsertKline_def price_key_def market_key_def split: if_splits)

lemma UpsertKline_fail: "fst (UpsertKline ok i now d t) = Some e \<Longrightarrow> snd (UpsertKline ok i now d t) = t"
  by (simp add: UpsertKline_def split: if_splits)

interpretation price_rows: upsert_table price_key market_key
  "\<lambda>a k t. snd (UpsertKline (fst a) (fst (snd a)) (snd (snd a)) k t)"
  "\<lambda>a k t. fst (UpsertKline (fst a) (fst (snd a)) (snd (snd a)) k t) = None"
proof
  fix a :: "bool \<times> string \<times> gotime" and d and t :: price_table
  let ?r = "UpsertKline (fst a) (fst (snd a)) (snd (snd a)) d t"
  show "snd ?r = t" if "fst ?r \<noteq> None" using that UpsertKline_fail by fastforce
  assume ok: "fst ?r = None"
  show "map price_key (snd ?r) = map price_key t" if "market_key d \<in> price_key ` set t"
    unfolding UpsertKline_old [OF ok that] by auto
  show "map price_key (snd ?r) = map price_key t @ [market_key d]" if "market_key d \<notin> price_key ` set t"
    using UpsertKline_new [OF ok that] by auto
qed

subsection \<open>Facts\<close>

text \<open>The candle's columns after the call are the event's, whichever row it met.\<close>

lemma Create_kline_stored:
  assumes "fst (Create_kline ok i d t) = Inr j"
  shows "\<exists>r\<in>set (snd (Create_kline ok i d t)). r = d\<lparr>mk_id := mk_id r, mk_created_at := mk_created_at r\<rparr>"
proof (cases "find (\<lambda>r. kline_key r = kline_key d) t")
  case None
  with assms show ?thesis by (auto simp: Create_kline_def Let_def split: if_splits)
next
  case (Some row)
  then have row: "row \<in> set t" "kline_key row = kline_key d" by (auto dest: find_Some_prop)
  have "ok" using assms Create_kline_db [of ok i d t] by simp
  with Create_kline_old [OF Some]
  have "snd (Create_kline ok i d t) =
      map (\<lambda>r. if kline_key r = kline_key d then merged_kline d r else r) t" by simp
  with row have "merged_kline d row \<in> set (snd (Create_kline ok i d t))"
    by (auto simp: image_iff intro!: bexI [of _ row])
  then show ?thesis by (rule bexI [rotated]) (simp add: merged_kline_def)
qed

lemma Create_kline_others:
  "filter (\<lambda>r. kline_key r \<noteq> kline_key d) (snd (Create_kline ok i d t)) =
   filter (\<lambda>r. kline_key r \<noteq> kline_key d) t"
proof -
  have "filter (\<lambda>r. kline_key r \<noteq> k) (map (\<lambda>r. if kline_key r = k then merged_kline d r else r) t)
      = filter (\<lambda>r. kline_key r \<noteq> k) t" if "k = kline_key d" for k and t :: kline_table
    using that by (induction t) auto
  then show ?thesis by (auto simp: Create_kline_def Let_def split: option.splits)
qed

definition kline_table_ok :: "kline_table \<Rightarrow> bool" where
  "kline_table_ok t = (distinct (map mk_id t) \<and> distinct (map kline_key t))"

lemma merged_kline_id [simp]: "mk_id (merged_kline d r) = mk_id r"
  by (simp add: merged_kline_def)

lemma merged_ids:
  "map mk_id (map (\<lambda>r. if kline_key r = kline_key d then merged_kline d r else r) t) = map mk_id t"
  by auto

lemma Create_kline_ids:
  assumes "distinct (map mk_id t)"
  shows "distinct (map mk_id (snd (Create_kline ok i d t)))"
proof (cases "ok \<and> find (\<lambda>r. kline_key r = kline_key d) t \<noteq> None")
  case True
  then obtain row where ok "find (\<lambda>r. kline_key r = kline_key d) t = Some row" by blast
  with Create_kline_old [of d t row i] assms show ?thesis by (simp only: snd_conv merged_ids)
next
  case False
  with assms show ?thesis by (auto simp: Create_kline_def Let_def)
qed

lemma kline_table_ok_Create: "kline_table_ok t \<Longrightarrow> kline_table_ok (snd (Create_kline ok i d t))"
  using kline_rows.put_distinct [of t "(ok, i)" d] Create_kline_ids [of t ok i d]
  by (simp add: kline_table_ok_def)

lemma kline_table_ok_filter: "kline_table_ok t \<Longrightarrow> kline_table_ok (filter P t)"
  by (simp add: kline_table_ok_def distinct_map_filter)

lemma kline_table_ok_Update:
  assumes ok: "kline_table_ok t"
  shows "kline_table_ok (snd (Update_kline db_ok d t))"
proof (cases "db_ok \<and> (\<exists>r\<in>set t. mk_id r = mk_id d) \<and>
    \<not> (\<exists>r\<in>set t. mk_id r \<noteq> mk_id d \<and> kline_key r = kline_key d)")
  case True
  then have upd: "snd (Update_kline db_ok d t) =
      map (\<lambda>r. if mk_id r = mk_id d then d\<lparr>mk_created_at := mk_created_at r\<rparr> else r) t"
    unfolding Update_kline_def by auto
  have ids: "map mk_id (snd (Update_kline db_ok d t)) = map mk_id t" by (auto simp: upd)
  have "map kline_key (snd (Update_kline db_ok d t)) =
      map (\<lambda>r. if mk_id r = mk_id d then kline_key d else kline_key r) t"
    by (auto simp: upd)
  moreover have "distinct \<dots>"
    using ok True by (intro distinct_map_upd_one) (auto simp: kline_table_ok_def)
  ultimately show ?thesis using ok ids by (simp add: kline_table_ok_def)
next
  case False
  then have "snd (Update_kline db_ok d t) = t" unfolding Update_kline_def by auto
  then show ?thesis using ok by simp
qed

lemma kline_table_ok_Delete: "kline_table_ok t \<Longrightarrow> kline_table_ok (snd (Delete_kline db_ok i t))"
  by (simp add: Delete_kline_def kline_table_ok_filter)

lemma kline_table_ok_DeleteOld:
  "kline_table_ok t \<Longrightarrow> kline_table_ok (snd (DeleteOldKlines db_ok e m s i n t))"
  by (simp add: DeleteOldKlines_def Let_def kline_table_ok_filter)

lemmas kline_table_ok_ops =
  kline_table_ok_Create kline_table_ok_Update kline_table_ok_Delete kline_table_ok_DeleteOld

subsection \<open>Retention\<close>

lemma open_times_desc_filter:
  "open_times_desc P (filter (\<lambda>r. \<not> (P r \<and> mk_open_time r < b)) t) =
   filter (\<lambda>x. b \<le> x) (open_times_desc P t)"
proof -
  have "filter P (filter (\<lambda>r. \<not> (P r \<and> mk_open_time r < b)) t) =
      filter (\<lambda>r. b \<le> mk_open_time r) (filter P t)"
    by (auto intro!: filter_cong)
  then show ?thesis
    by (simp add: open_times_desc_def filter_sort filter_map comp_def flip: rev_filter)
qed

lemma series_open_times_distinct:
  "distinct (map kline_key t) \<Longrightarrow> distinct (map mk_open_time (filter (in_series e m s i) t))"
proof (induction t)
  case (Cons r t)
  have "mk_open_time r \<notin> mk_open_time ` {x \<in> set t. in_series e m s i x}" if "in_series e m s i r"
    using Cons.prems that by (auto simp: kline_key_def in_series_def image_iff)
  with Cons show ?case by auto
qed simp

lemma open_times_desc_sorted:
  assumes "distinct (map kline_key t)"
  shows "sorted_wrt (\<lambda>a b. b < a) (open_times_desc (in_series e m s i) t)"
proof -
  have "sorted_wrt (<) (sort (map mk_open_time (filter (in_series e m s i) t)))"
    using series_open_times_distinct [OF assms] by (simp add: strict_sorted_iff)
  then show ?thesis by (simp add: open_times_desc_def sorted_wrt_rev)
qed

text \<open>The newest \<open>maxCount + 1\<close> candles of the series survive, one more than the argument asks for.\<close>

lemma DeleteOldKlines_cases:
  assumes "0 < n"
  shows "snd (DeleteOldKlines True e m s i n t) =
    (if nat n < length (open_times_desc (in_series e m s i) t)
     then filter (\<lambda>r. \<not> (in_series e m s i r
            \<and> mk_open_time r < open_times_desc (in_series e m s i) t ! nat n)) t
     else t)"
  using assms by (simp add: DeleteOldKlines_def Let_def)

lemma DeleteOldKlines_kept:
  assumes "distinct (map kline_key t)" and "0 < n"
  shows "open_times_desc (in_series e m s i) (snd (DeleteOldKlines True e m s i n t)) =
         take (nat n + 1) (open_times_desc (in_series e m s i) t)"
proof (cases "nat n < length (open_times_desc (in_series e m s i) t)")
  case True
  with length_filter_sorted_desc [OF open_times_desc_sorted [OF assms(1)] True] show ?thesis
    unfolding DeleteOldKlines_cases [OF assms(2)] by (simp only: if_True open_times_desc_filter Suc_eq_plus1)
next
  case False
  then show ?thesis unfolding DeleteOldKlines_cases [OF assms(2)] by simp
qed

lemma DeleteOldKlines_others:
  "filter (\<lambda>r. \<not> in_series e m s i r) (snd (DeleteOldKlines ok e m s i n t)) =
   filter (\<lambda>r. \<not> in_series e m s i r) t"
  by (auto simp: DeleteOldKlines_def Let_def intro!: filter_cong)

text \<open>A reference price only moves forward in event time.\<close>

definition price_at :: "price_table \<Rightarrow> string \<times> string \<times> string \<Rightarrow> (rat \<times> gotime) option" where
  "price_at t k = map_option (\<lambda>p. (pr_price p, pr_event_time p)) (find (\<lambda>p. price_key p = k) t)"

lemma UpsertKline_price_at:
  assumes ok: "fst (UpsertKline ok i now d t) = None"
  shows "price_at (snd (UpsertKline ok i now d t)) k =
    (if k = market_key d
     then (case price_at t k of
             Some (p, et) \<Rightarrow> if mk_event_time d < et then Some (p, et)
                             else Some (mk_close_price d, mk_event_time d)
           | None \<Rightarrow> Some (mk_close_price d, mk_event_time d))
     else price_at t k)"
proof (cases "market_key d \<in> price_key ` set t")
  case True
  let ?f = "\<lambda>p. if price_key p = market_key d \<and> pr_event_time p \<le> mk_event_time d
                then p\<lparr>pr_price := mk_close_price d, pr_event_time := mk_event_time d, pr_updated_at := now\<rparr>
                else p"
  have upd: "find (\<lambda>p. price_key p = k) (map ?f t) = map_option ?f (find (\<lambda>p. price_key p = k) t)" for k
    by (rule find_map_same) auto
  show ?thesis
  proof (cases "find (\<lambda>p. price_key p = k) t")
    case None
    with True have "k \<noteq> market_key d" by (auto simp: find_key)
    with None show ?thesis by (simp add: price_at_def UpsertKline_old [OF ok True] upd)
  next
    case (Some p)
    then have "price_key p = k" by (auto dest: find_Some_prop)
    with Some show ?thesis
      by (cases "k = market_key d") (auto simp: price_at_def UpsertKline_old [OF ok True] upd)
  qed
next
  case False
  then have "find (\<lambda>p. price_key p = market_key d) t = None" by (simp add: find_key)
  with UpsertKline_new [OF ok False] show ?thesis
    by (auto simp: price_at_def find_append split: option.splits)
qed

end
