(* ===== verification/GoTime.thy ===== *)
theory GoTime
  imports Json
begin

text \<open>
  Instants in JSON: \<open>time.Time\<close> is written and read in the RFC 3339 form
  \<open>2006-01-02T15:04:05.999999999Z07:00\<close>. The reader is the strict one that
  \<open>(*time.Time).UnmarshalJSON\<close> uses; digits of the fraction after the ninth are dropped.
\<close>

definition days_from_civil :: "int \<Rightarrow> int \<Rightarrow> int \<Rightarrow> int" where
  "days_from_civil y m d =
     (let y' = (if m \<le> 2 then y - 1 else y);
          yoe = y' mod 400;
          doy = (153 * (if m > 2 then m - 3 else m + 9) + 2) div 5 + d - 1
      in y' div 400 * 146097 + (yoe * 365 + yoe div 4 - yoe div 100 + doy) - 719468)"

definition leap_year :: "int \<Rightarrow> bool" where
  "leap_year y = (y mod 4 = 0 \<and> (y mod 100 \<noteq> 0 \<or> y mod 400 = 0))"

definition days_in_month :: "int \<Rightarrow> int \<Rightarrow> int" where
  "days_in_month y m =
     (if m = 2 then (if leap_year y then 29 else 28) else if m \<in> {4, 6, 9, 11} then 30 else 31)"

text \<open>Exactly \<open>n\<close> digits with a value from \<open>lo\<close> to \<open>hi\<close>, and an expected character.\<close>

definition take_num :: "nat \<Rightarrow> int \<Rightarrow> int \<Rightarrow> string \<Rightarrow> (int \<times> string) option" where
  "take_num n lo hi s =
     (if length s < n then None
      else (case parse_nat (take n s) of None \<Rightarrow> None
            | Some v \<Rightarrow> if lo \<le> int v \<and> int v \<le> hi then Some (int v, drop n s) else None))"

definition expect :: "char \<Rightarrow> string \<Rightarrow> string option" where
  "expect c s = (case s of [] \<Rightarrow> None | d # r \<Rightarrow> if d = c then Some r else None)"

definition take_fraction :: "string \<Rightarrow> int \<times> string" where
  "take_fraction s =
     (let ds = takeWhile is_digit (tl s)
      in if s \<noteq> [] \<and> hd s = CHR ''.'' \<and> ds \<noteq> []
         then (case parse_nat (take 9 (ds @ ''00000000'')) of
                 Some v \<Rightarrow> (int v, dropWhile is_digit (tl s)) | None \<Rightarrow> (0, s))
         else (0, s))"

definition take_zone :: "string \<Rightarrow> int option" where
  "take_zone s =
     (if s = ''Z'' then Some 0
      else (case s of [] \<Rightarrow> None
        | sign # r \<Rightarrow>
            if sign \<notin> {CHR ''+'', CHR ''-''} then None
            else do {
              (hh, r) \<leftarrow> take_num 2 0 23 r; r \<leftarrow> expect CHR '':'' r; (mm, r) \<leftarrow> take_num 2 0 59 r;
              (if r \<noteq> [] then None
               else Some ((if sign = CHR ''-'' then - 1 else 1) * (hh * 3600 + mm * 60)))
            }))"

definition parse_time :: "string \<Rightarrow> gotime option" where
  "parse_time s = do {
     (y, s) \<leftarrow> take_num 4 0 9999 s; s \<leftarrow> expect CHR ''-'' s;
     (mo, s) \<leftarrow> take_num 2 1 12 s; s \<leftarrow> expect CHR ''-'' s;
     (d, s) \<leftarrow> take_num 2 1 (days_in_month y mo) s; s \<leftarrow> expect CHR ''T'' s;
     (hh, s) \<leftarrow> take_num 2 0 23 s; s \<leftarrow> expect CHR '':'' s;
     (mm, s) \<leftarrow> take_num 2 0 59 s; s \<leftarrow> expect CHR '':'' s;
     (ss, s) \<leftarrow> take_num 2 0 59 s;
     (let (ns, s) = take_fraction s
      in map_option (\<lambda>offset.
           (days_from_civil y mo d * 86400 + hh * 3600 + mm * 60 + ss - offset) * second + ns)
         (take_zone s))
   }"

fun as_time :: "json \<Rightarrow> gotime option" where
  "as_time (JStr s) = parse_time s"
| "as_time _ = None"

abbreviation ftime :: "string list \<Rightarrow> (string \<times> json) list \<Rightarrow> string \<Rightarrow> gotime option" where
  "ftime \<equiv> field as_time zero_time"

lemma parse_time_epoch: "parse_time ''1970-01-01T00:00:00Z'' = Some 0"
  by code_simp

lemma parse_time_zone:
  "parse_time ''2024-02-29T23:59:59+07:00'' = Some (1709225999 * 1000000000)"
  by code_simp

lemma parse_time_no_leap: "parse_time ''2023-02-29T00:00:00Z'' = None"
  by code_simp

end
