(* ===== verification/Klines.thy ===== *)
theory Klines
  imports Registry KlineStore GoTime
begin

text \<open>
  The flow of candles into the tables: the two consumers of the candle stream
  (\<open>insertKlineEvent\<close> of \<open>exchange_common.go\<close>, \<open>handleKline\<close> of \<open>price_reference.service.go\<close>) and
  the backfill over the exchange's REST interface (\<open>kline_backfill.go\<close>). The backfill may run
  forever when an exchange ignores the start time it is asked for, so its loop has fuel, and
  running out of it is the value \<open>None\<close>. Its network is a function of the number of the request.
\<close>

subsection \<open>Candle events\<close>

datatype ingest_error = IngestDecodeFailed | IngestStoreFailed db_error

definition market_kline_tags :: "string list" where
  "market_kline_tags = [''id'', ''exchange'', ''market_type'', ''event_type'', ''event_time'', ''symbol'',
     ''interval'', ''open_time'', ''close_time'', ''open_price'', ''high_price'', ''low_price'',
     ''close_price'', ''base_volume'', ''quote_volume'', ''taker_base_volume'', ''taker_quote_volume'',
     ''trade_count'', ''is_closed'', ''created_at'', ''updated_at'']"

definition market_kline_of :: "decimal_ops \<Rightarrow> (string \<times> json) list \<Rightarrow> market_kline option" where
  "market_kline_of D ms = do {
     let str = fstr market_kline_tags ms; let tm = ftime market_kline_tags ms;
     let dec = field (as_decimal D) 0 market_kline_tags ms;
     i \<leftarrow> str ''id''; exchange \<leftarrow> str ''exchange''; market \<leftarrow> str ''market_type'';
     eventType \<leftarrow> str ''event_type''; eventTime \<leftarrow> tm ''event_time''; symbol \<leftarrow> str ''symbol'';
     interval \<leftarrow> str ''interval''; openTime \<leftarrow> tm ''open_time''; closeTime \<leftarrow> tm ''close_time'';
     openPrice \<leftarrow> dec ''open_price''; highPrice \<leftarrow> dec ''high_price''; lowPrice \<leftarrow> dec ''low_price'';
     closePrice \<leftarrow> dec ''close_price''; baseVolume \<leftarrow> dec ''base_volume'';
     quoteVolume \<leftarrow> dec ''quote_volume''; takerBase \<leftarrow> dec ''taker_base_volume'';
     takerQuote \<leftarrow> dec ''taker_quote_volume'';
     tradeCount \<leftarrow> fint32 market_kline_tags ms ''trade_count'';
     closed \<leftarrow> fbool market_kline_tags ms ''is_closed'';
     createdAt \<leftarrow> tm ''created_at''; updatedAt \<leftarrow> tm ''updated_at'';
     Some \<lparr>mk_id = i, mk_exchange = exchange, mk_market_type = market, mk_event_type = eventType,
       mk_event_time = eventTime, mk_symbol = symbol, mk_interval = interval, mk_open_time = openTime,
       mk_close_time = closeTime, mk_open_price = openPrice, mk_high_price = highPrice,
       mk_low_price = lowPrice, mk_close_price = closePrice, mk_base_volume = baseVolume,
       mk_quote_volume = quoteVolume, mk_taker_base_volume = takerBase,
       mk_taker_quote_volume = takerQuote, mk_trade_count = tradeCount, mk_is_closed = closed,
       mk_created_at = createdAt, mk_updated_at = updatedAt\<rparr>
   }"

definition market_kline_event_of :: "decimal_ops \<Rightarrow> (string \<times> json) list \<Rightarrow> market_kline option" where
  "market_kline_event_of D ms =
     (case fobj [''data''] ms ''data'' of None \<Rightarrow> None | Some data \<Rightarrow> market_kline_of D data)"

text \<open>Into a pointer: the body \<open>null\<close> leaves it \<open>nil\<close>, here the inner \<open>None\<close>.\<close>

definition decode_kline_event :: "decimal_ops \<Rightarrow> string \<Rightarrow> market_kline option option" where
  "decode_kline_event D body =
     (case parse_json body of
        Some JNull \<Rightarrow> Some None
      | Some (JObj ms) \<Rightarrow> map_option Some (market_kline_event_of D ms)
      | _ \<Rightarrow> None)"

definition insertKlineEvent :: "decimal_ops \<Rightarrow> gotime \<Rightarrow> bool \<Rightarrow> string \<Rightarrow> string \<Rightarrow> kline_table
    \<Rightarrow> ingest_error outcome \<times> kline_table" where
  "insertKlineEvent D now db_ok new_id body t =
     (case decode_kline_event D body of
        None \<Rightarrow> (Returned (Some IngestDecodeFailed), t)
      | Some None \<Rightarrow> (Panicked, t)
      | Some (Some data) \<Rightarrow>
          if mk_event_time data + minute < now then (Returned None, t)
          else (case Create_kline db_ok new_id data t of
                  (Inl e, t') \<Rightarrow> (Returned (Some (IngestStoreFailed e)), t')
                | (Inr _, t') \<Rightarrow> (Returned None, t')))"

definition handleKline :: "decimal_ops \<Rightarrow> gotime \<Rightarrow> bool \<Rightarrow> string \<Rightarrow> string \<Rightarrow> price_table
    \<Rightarrow> ingest_error outcome \<times> price_table" where
  "handleKline D now db_ok new_id body t =
     (case decode_with (market_kline_event_of D) body of
        None \<Rightarrow> (Returned (Some IngestDecodeFailed), t)
      | Some data \<Rightarrow>
          (let (err, t') = UpsertKline db_ok new_id now data t
           in (Returned (map_option IngestStoreFailed err), t')))"

subsection \<open>Values of a candle row\<close>

text \<open>
  The elements are decoded into \<open>any\<close>, so a number is a \<open>float64\<close>. An integer literal up to
  \<open>2 ^ 53\<close> is represented exactly; what the conversions do with any other literal is a parameter:
  \<open>fl_int\<close> for \<open>int64(v)\<close>, \<open>fl_show\<close> for \<open>FormatFloat(v, 'f', -1, 64)\<close>, \<open>fl_print\<close> for \<open>%v\<close>.
\<close>

record float_lib =
  fl_int :: "string \<Rightarrow> int"
  fl_show :: "string \<Rightarrow> string"
  fl_print :: "string \<Rightarrow> string"

definition exact_int :: "string \<Rightarrow> int option" where
  "exact_int lit =
     (case parse_int64 lit of None \<Rightarrow> None
      | Some i \<Rightarrow> if \<bar>i\<bar> \<le> 2 ^ 53 \<and> lit \<noteq> ''-0'' then Some i else None)"

definition asString :: "float_lib \<Rightarrow> json \<Rightarrow> string" where
  "asString F v =
     (case v of
        JStr s \<Rightarrow> s
      | JNum lit \<Rightarrow> (case exact_int lit of Some i \<Rightarrow> format_int i | None \<Rightarrow> fl_show F lit)
      | _ \<Rightarrow> sprint_json (fl_print F) v)"

definition asInt64 :: "float_lib \<Rightarrow> json \<Rightarrow> int option" where
  "asInt64 F v =
     (case v of
        JStr s \<Rightarrow> parse_int64 (trim_space s)
      | JNum lit \<Rightarrow> (case exact_int lit of Some i \<Rightarrow> Some i | None \<Rightarrow> Some (fl_int F lit))
      | _ \<Rightarrow> None)"

definition asInt32 :: "float_lib \<Rightarrow> json \<Rightarrow> int option" where
  "asInt32 F v =
     (case asInt64 F v of None \<Rightarrow> None
      | Some parsed \<Rightarrow> Some (sint (word_of_int parsed :: 32 word)))"

datatype backfill_error =
    RepositoryMissing | ClientMissing | SymbolRequired | IntervalRequired | InvalidTimestamps
  | EndNotAfterStart | FetchFailed | FetchRejected int string | FetchUnparsable
  | RowTooShort nat | RowInvalid string | RowNotStored db_error

definition buildMarketKlineFromRow ::
  "decimal_ops \<Rightarrow> float_lib \<Rightarrow> string \<Rightarrow> string \<Rightarrow> string \<Rightarrow> string \<Rightarrow> json list \<Rightarrow> gotime
     \<Rightarrow> backfill_error + market_kline" where
  "buildMarketKlineFromRow D F exchange marketType symbol interval row now =
     (let dec = (\<lambda>name i. of_option (RowInvalid name) (d_parse D (asString F (row ! i))))
      in if length row < 11 then Inl (RowTooShort (length row))
         else bind_res (of_option (RowInvalid ''open_time'') (asInt64 F (row ! 0))) (\<lambda>openTimeMs.
           bind_res (dec ''open_price'' 1) (\<lambda>openPrice.
           bind_res (dec ''high_price'' 2) (\<lambda>highPrice.
           bind_res (dec ''low_price'' 3) (\<lambda>lowPrice.
           bind_res (dec ''close_price'' 4) (\<lambda>closePrice.
           bind_res (dec ''base_volume'' 5) (\<lambda>baseVolume.
           bind_res (of_option (RowInvalid ''close_time'') (asInt64 F (row ! 6))) (\<lambda>closeTimeMs.
           bind_res (dec ''quote_volume'' 7) (\<lambda>quoteVolume.
           bind_res (of_option (RowInvalid ''trade_count'') (asInt32 F (row ! 8))) (\<lambda>tradeCount.
           bind_res (dec ''taker_base_volume'' 9) (\<lambda>takerBaseVolume.
           bind_res (dec ''taker_quote_volume'' 10) (\<lambda>takerQuoteVolume.
             Inr \<lparr>mk_id = [], mk_exchange = exchange, mk_market_type = effectiveMarketType marketType,
               mk_event_type = ''kline'', mk_event_time = from_unix_milli closeTimeMs,
               mk_symbol = symbol, mk_interval = interval,
               mk_open_time = from_unix_milli openTimeMs, mk_close_time = from_unix_milli closeTimeMs,
               mk_open_price = openPrice, mk_high_price = highPrice, mk_low_price = lowPrice,
               mk_close_price = closePrice, mk_base_volume = baseVolume, mk_quote_volume = quoteVolume,
               mk_taker_base_volume = takerBaseVolume, mk_taker_quote_volume = takerQuoteVolume,
               mk_trade_count = tradeCount, mk_is_closed = True,
               mk_created_at = now, mk_updated_at = now\<rparr>))))))))))))"

subsection \<open>Backfill\<close>

record backfill_deps =
  bd_exchange :: string
  bd_market :: string
  bd_base_url :: string
  bd_kline_path :: string
  bd_client_ready :: bool
  bd_mapping :: "exchange_symbol_mapping option"

record backfill_request =
  bf_market :: string
  bf_symbol :: string
  bf_interval :: string
  bf_start :: gotime
  bf_end :: gotime

text \<open>
  What the outside world answers: the reply to the n-th request, the clock when the n-th batch is
  read, and for the n-th stored candle whether the database answers and the id it draws.
\<close>

record backfill_env =
  be_net :: "nat \<Rightarrow> http_request \<Rightarrow> http_reply option"
  be_now :: "nat \<Rightarrow> gotime"
  be_db :: "nat \<Rightarrow> bool"
  be_id :: "nat \<Rightarrow> string"

text \<open>The values the function computes once, before its loop.\<close>

record backfill_plan =
  bj_deps :: backfill_deps
  bj_symbol :: string
  bj_exchange_symbol :: string
  bj_interval :: string
  bj_start :: int
  bj_end :: int

record backfill_run =
  br_inserted :: nat
  br_last :: int
  br_table :: kline_table

abbreviation marketKlineBackfillBatchLimit :: nat where "marketKlineBackfillBatchLimit \<equiv> 1000"

definition resolveExchangeKlineSymbol :: "backfill_deps \<Rightarrow> string \<Rightarrow> string" where
  "resolveExchangeKlineSymbol deps internalSymbol =
     (case snapshotSymbolMapping (bd_mapping deps) (bd_exchange deps) of
        None \<Rightarrow> internalSymbol
      | Some marketTypeMapping \<Rightarrow>
          (case marketTypeMapping (effectiveMarketType (bd_market deps)) of
             None \<Rightarrow> internalSymbol
           | Some indexes \<Rightarrow>
               (case es_internal_to_kline indexes internalSymbol of
                  None \<Rightarrow> internalSymbol
                | Some symbol \<Rightarrow>
                    if trim_space symbol \<noteq> [] then to_upper (trim_space symbol) else internalSymbol)))"

text \<open>\<open>json.Unmarshal\<close> into \<open>[][]any\<close>.\<close>

definition kline_rows_of :: "string \<Rightarrow> json list list option" where
  "kline_rows_of body =
     (case parse_json body of
        Some JNull \<Rightarrow> Some []
      | Some (JArr vs) \<Rightarrow>
          those (map (\<lambda>v. case v of JNull \<Rightarrow> Some [] | JArr row \<Rightarrow> Some row | _ \<Rightarrow> None) vs)
      | _ \<Rightarrow> None)"

text \<open>\<open>url.Values.Encode\<close> sorts the keys.\<close>

definition kline_query :: "string \<Rightarrow> string \<Rightarrow> int \<Rightarrow> int \<Rightarrow> string" where
  "kline_query symbol interval startMs endMs =
     join_with [CHR 0x26]
       [''endTime='' @ format_int (endMs - 1), ''interval='' @ query_escape interval,
        ''limit='' @ format_int (int marketKlineBackfillBatchLimit),
        ''startTime='' @ format_int startMs, ''symbol='' @ query_escape symbol]"

definition fetchKlineRows ::
  "(http_request \<Rightarrow> http_reply option) \<Rightarrow> backfill_deps \<Rightarrow> string \<Rightarrow> string \<Rightarrow> int \<Rightarrow> int
     \<Rightarrow> backfill_error + json list list" where
  "fetchKlineRows net deps symbol interval startMs endMs =
     (let endpoint = trim_right_char (bd_base_url deps) CHR ''/'' @ bd_kline_path deps @ ''?''
                     @ kline_query symbol interval startMs endMs
      in case net \<lparr>hq_method = ''GET'', hq_url = endpoint, hq_api_key = [], hq_body = []\<rparr> of
           None \<Rightarrow> Inl FetchFailed
         | Some resp \<Rightarrow>
             if hr_status resp \<ge> 400 then Inl (FetchRejected (hr_status resp) (hr_body resp))
             else of_option FetchUnparsable (kline_rows_of (hr_body resp)))"

text \<open>The loop over the rows of one batch.\<close>

fun backfill_rows ::
  "decimal_ops \<Rightarrow> float_lib \<Rightarrow> backfill_env \<Rightarrow> backfill_plan \<Rightarrow> gotime \<Rightarrow> json list list \<Rightarrow> backfill_run
     \<Rightarrow> backfill_error option \<times> backfill_run" where
  "backfill_rows D F env job now [] run = (None, run)"
| "backfill_rows D F env job now (row # rows) run =
     (case buildMarketKlineFromRow D F (bd_exchange (bj_deps job)) (bd_market (bj_deps job))
             (bj_symbol job) (bj_interval job) row now of
        Inl e \<Rightarrow> (Some e, run)
      | Inr kline \<Rightarrow>
          (let openTimeMs = unix_milli (mk_open_time kline)
           in if openTimeMs \<ge> bj_end job \<or> openTimeMs < bj_start job
              then backfill_rows D F env job now rows run
              else (case Create_kline (be_db env (br_inserted run)) (be_id env (br_inserted run))
                           kline (br_table run) of
                      (Inl e, t) \<Rightarrow> (Some (RowNotStored e), run\<lparr>br_table := t\<rparr>)
                    | (Inr _, t) \<Rightarrow>
                        backfill_rows D F env job now rows
                          \<lparr>br_inserted = Suc (br_inserted run),
                           br_last = (if openTimeMs > br_last run then openTimeMs else br_last run),
                           br_table = t\<rparr>)))"

fun backfill_loop ::
  "decimal_ops \<Rightarrow> float_lib \<Rightarrow> backfill_env \<Rightarrow> backfill_plan \<Rightarrow> nat \<Rightarrow> nat \<Rightarrow> int \<Rightarrow> backfill_run
     \<Rightarrow> (backfill_error option \<times> backfill_run) option" where
  "backfill_loop D F env job 0 batch nextStartMs run = None"
| "backfill_loop D F env job (Suc fuel) batch nextStartMs run =
     (if \<not> nextStartMs < bj_end job then Some (None, run)
      else (case fetchKlineRows (be_net env batch) (bj_deps job) (bj_exchange_symbol job)
                   (bj_interval job) nextStartMs (bj_end job) of
              Inl e \<Rightarrow> Some (Some e, run)
            | Inr rows \<Rightarrow>
                if rows = [] then Some (None, run)
                else (case backfill_rows D F env job (be_now env batch) rows (run\<lparr>br_last := 0\<rparr>) of
                        (Some e, run') \<Rightarrow> Some (Some e, run')
                      | (None, run') \<Rightarrow>
                          if length rows < marketKlineBackfillBatchLimit \<or> br_last run' \<le> 0
                          then Some (None, run')
                          else backfill_loop D F env job fuel (Suc batch) (br_last run' + 1) run')))"

definition backfill_job_of :: "backfill_deps \<Rightarrow> bool \<Rightarrow> backfill_request \<Rightarrow> backfill_error + backfill_plan" where
  "backfill_job_of deps repo_ready req =
     (let normalizedSymbol = to_upper (trim_space (bf_symbol req));
          normalizedInterval = trim_space (bf_interval req);
          startMs = unix_milli (bf_start req); endMs = unix_milli (bf_end req)
      in if \<not> repo_ready then Inl RepositoryMissing
         else if \<not> bd_client_ready deps then Inl ClientMissing
         else if normalizedSymbol = [] then Inl SymbolRequired
         else if normalizedInterval = [] then Inl IntervalRequired
         else if startMs \<le> 0 \<or> endMs \<le> 0 then Inl InvalidTimestamps
         else if endMs \<le> startMs then Inl EndNotAfterStart
         else (let exchangeSymbol = resolveExchangeKlineSymbol deps normalizedSymbol
               in Inr \<lparr>bj_deps = deps, bj_symbol = normalizedSymbol,
                    bj_exchange_symbol = (if exchangeSymbol = [] then normalizedSymbol else exchangeSymbol),
                    bj_interval = normalizedInterval, bj_start = startMs, bj_end = endMs\<rparr>))"

text \<open>The result is the number of stored candles with the error, and the table.\<close>

definition backfillMarketKlines ::
  "decimal_ops \<Rightarrow> float_lib \<Rightarrow> backfill_env \<Rightarrow> nat \<Rightarrow> backfill_deps \<Rightarrow> bool \<Rightarrow> backfill_request
     \<Rightarrow> kline_table \<Rightarrow> ((nat \<times> backfill_error option) \<times> kline_table) option" where
  "backfillMarketKlines D F env fuel deps repo_ready req t =
     (case backfill_job_of deps repo_ready req of
        Inl e \<Rightarrow> Some ((0, Some e), t)
      | Inr job \<Rightarrow>
          map_option (\<lambda>(err, run). ((br_inserted run, err), br_table run))
            (backfill_loop D F env job fuel 0 (bj_start job)
               \<lparr>br_inserted = 0, br_last = 0, br_table = t\<rparr>))"

definition BinanceBackfillMarketKlines ::
  "decimal_ops \<Rightarrow> float_lib \<Rightarrow> binance_config \<Rightarrow> venue \<Rightarrow> backfill_env \<Rightarrow> nat \<Rightarrow> bool \<Rightarrow> backfill_request
     \<Rightarrow> kline_table \<Rightarrow> ((nat \<times> backfill_error option) \<times> kline_table) option" where
  "BinanceBackfillMarketKlines D F C v env fuel repo_ready req t =
     (let marketType = resolveMarketType C (bf_market req)
      in backfillMarketKlines D F env fuel
           \<lparr>bd_exchange = ExchangeBinance, bd_market = marketType,
            bd_base_url = baseURLByMarketType C marketType,
            bd_kline_path = klinePathByMarketType marketType,
            bd_client_ready = True, bd_mapping = vn_binance_mapping v\<rparr> repo_ready req t)"

definition TokocryptoBackfillMarketKlines ::
  "decimal_ops \<Rightarrow> float_lib \<Rightarrow> venue \<Rightarrow> backfill_env \<Rightarrow> nat \<Rightarrow> bool \<Rightarrow> backfill_request
     \<Rightarrow> kline_table \<Rightarrow> ((nat \<times> backfill_error option) \<times> kline_table) option" where
  "TokocryptoBackfillMarketKlines D F v env fuel repo_ready req t =
     backfillMarketKlines D F env fuel
       \<lparr>bd_exchange = ExchangeTokoCrypto, bd_market = MarketTypeSpot,
        bd_base_url = ''https://www.tokocrypto.site'', bd_kline_path = ''/api/v3/klines'',
        bd_client_ready = True, bd_mapping = vn_toko_mapping v\<rparr> repo_ready req t"

subsection \<open>What a backfill stores\<close>

lemma buildMarketKlineFromRow_fields:
  assumes "buildMarketKlineFromRow D F e m s i row now = Inr k"
  shows "mk_exchange k = e" "mk_market_type k = effectiveMarketType m" "mk_symbol k = s"
    "mk_interval k = i" "mk_is_closed k" "mk_event_time k = mk_close_time k"
    "\<exists>ms. asInt64 F (row ! 0) = Some ms \<and> mk_open_time k = from_unix_milli ms"
    "11 \<le> length row"
  using assms
  by (auto simp: buildMarketKlineFromRow_def Let_def split: if_splits)

text \<open>The keys of the series a job fills, in its time window.\<close>

definition window_keys :: "backfill_plan \<Rightarrow> (string \<times> string \<times> string \<times> string \<times> gotime) set" where
  "window_keys job =
     {(bd_exchange (bj_deps job), effectiveMarketType (bd_market (bj_deps job)), bj_symbol job,
       bj_interval job, from_unix_milli ms) | ms. bj_start job \<le> ms \<and> ms < bj_end job}"

lemma build_in_window:
  assumes "buildMarketKlineFromRow D F (bd_exchange (bj_deps job)) (bd_market (bj_deps job))
      (bj_symbol job) (bj_interval job) row now = Inr k"
    and "\<not> (bj_end job \<le> unix_milli (mk_open_time k) \<or> unix_milli (mk_open_time k) < bj_start job)"
  shows "kline_key k \<in> window_keys job"
  using buildMarketKlineFromRow_fields [OF assms(1)] assms(2)
  by (auto simp: window_keys_def kline_key_def)

text \<open>
  The case distinction of one row: it fails, it is skipped, the table refuses it, or it is stored.
\<close>

lemma backfill_row_cases:
  obtains (invalid) e where "backfill_rows D F env job now (row # rows) run = (Some e, run)"
  | (skipped) k where
      "buildMarketKlineFromRow D F (bd_exchange (bj_deps job)) (bd_market (bj_deps job))
         (bj_symbol job) (bj_interval job) row now = Inr k"
      "bj_end job \<le> unix_milli (mk_open_time k) \<or> unix_milli (mk_open_time k) < bj_start job"
      "backfill_rows D F env job now (row # rows) run = backfill_rows D F env job now rows run"
  | (refused) e where
      "backfill_rows D F env job now (row # rows) run = (Some (RowNotStored e), run)"
  | (stored) k i t run' where
      "buildMarketKlineFromRow D F (bd_exchange (bj_deps job)) (bd_market (bj_deps job))
         (bj_symbol job) (bj_interval job) row now = Inr k"
      "kline_key k \<in> window_keys job"
      "Create_kline (be_db env (br_inserted run)) (be_id env (br_inserted run)) k (br_table run) = (Inr i, t)"
      "run' = \<lparr>br_inserted = Suc (br_inserted run),
        br_last = max (unix_milli (mk_open_time k)) (br_last run), br_table = t\<rparr>"
      "backfill_rows D F env job now (row # rows) run = backfill_rows D F env job now rows run'"
proof (cases "buildMarketKlineFromRow D F (bd_exchange (bj_deps job)) (bd_market (bj_deps job))
    (bj_symbol job) (bj_interval job) row now")
  case (Inl e)
  then show ?thesis by (intro invalid [of e]) simp
next
  case (Inr k)
  show ?thesis
  proof (cases "bj_end job \<le> unix_milli (mk_open_time k) \<or> unix_milli (mk_open_time k) < bj_start job")
    case True
    with Inr show ?thesis by (intro skipped [of k]) simp_all
  next
    case False
    obtain r t where create: "Create_kline (be_db env (br_inserted run)) (be_id env (br_inserted run))
        k (br_table run) = (r, t)" by force
    show ?thesis
    proof (cases r)
      case (Inl e)
      with create have "t = br_table run"
        using Create_kline_Inl [of "be_db env (br_inserted run)" "be_id env (br_inserted run)" k
          "br_table run" e] by simp
      with Inr False create Inl show ?thesis by (intro refused [of e]) (simp add: Let_def)
    next
      case (Inr i)
      with \<open>buildMarketKlineFromRow _ _ _ _ _ _ _ _ = Inr k\<close> False create build_in_window
      show ?thesis by (intro stored [of k i t]) (auto simp: Let_def max_def)
    qed
  qed
qed

text \<open>A table grown by candles of the window only, its constraints kept.\<close>

definition filled :: "backfill_plan \<Rightarrow> kline_table \<Rightarrow> kline_table \<Rightarrow> bool" where
  "filled job t t' \<longleftrightarrow> kline_key ` set t \<subseteq> kline_key ` set t'
     \<and> kline_key ` set t' \<subseteq> window_keys job \<union> kline_key ` set t
     \<and> (kline_table_ok t \<longrightarrow> kline_table_ok t')"

lemma filled_refl [simp]: "filled job t t"
  by (simp add: filled_def)

lemma subset_Un_trans: "C \<subseteq> W \<union> B \<Longrightarrow> B \<subseteq> W \<union> A \<Longrightarrow> C \<subseteq> W \<union> A"
  by blast

lemma filled_trans:
  assumes "filled job t u" "filled job u w"
  shows "filled job t w"
  unfolding filled_def
proof (intro conjI impI)
  show "kline_key ` set t \<subseteq> kline_key ` set w"
    using assms unfolding filled_def by (elim conjE) (rule subset_trans)
  show "kline_key ` set w \<subseteq> window_keys job \<union> kline_key ` set t"
    using assms unfolding filled_def by (elim conjE) (rule subset_Un_trans)
  show "kline_table_ok t \<Longrightarrow> kline_table_ok w"
    using assms unfolding filled_def by simp
qed

lemma backfill_rows_table:
  assumes "backfill_rows D F env job now rows run = (err, run')"
  shows "filled job (br_table run) (br_table run')
    \<and> br_inserted run \<le> br_inserted run' \<and> br_inserted run' \<le> br_inserted run + length rows"
  using assms
proof (induction rows arbitrary: run)
  case Nil
  then show ?case by simp
next
  case (Cons row rows)
  show ?case
  proof (cases rule: backfill_row_cases [of D F env job now row rows run])
    case (stored k i t run1)
    let ?put = "Create_kline (be_db env (br_inserted run)) (be_id env (br_inserted run)) k (br_table run)"
    have "kline_key ` set t = insert (kline_key k) (kline_key ` set (br_table run))"
      using kline_rows.put_keys [of "(be_db env (br_inserted run), be_id env (br_inserted run))"] stored(3)
      by (metis fst_conv is_ok_simps(2) snd_conv)
    moreover have "kline_table_ok (br_table run) \<Longrightarrow> kline_table_ok t"
      using kline_table_ok_Create [of "br_table run"] stored(3) by (metis snd_conv)
    ultimately have "filled job (br_table run) t" using stored(2) by (auto simp: filled_def)
    with Cons.IH [of run1] Cons.prems stored show ?thesis by (auto intro: filled_trans)
  qed (use Cons in \<open>force+\<close>)
qed

text \<open>The cursor of the next request comes from a stored row.\<close>

lemma backfill_rows_last:
  assumes "backfill_rows D F env job now rows run = (err, run')"
  shows "br_last run' = br_last run \<or>
    (\<exists>row\<in>set rows. asInt64 F (row ! 0) = Some (br_last run')) \<and> br_last run' < bj_end job"
  using assms
proof (induction rows arbitrary: run)
  case Nil
  then show ?case by simp
next
  case (Cons row rows)
  show ?case
  proof (cases rule: backfill_row_cases [of D F env job now row rows run])
    case (stored k i t run1)
    from buildMarketKlineFromRow_fields(7) [OF stored(1)] obtain ms
      where ms: "asInt64 F (row ! 0) = Some ms" "mk_open_time k = from_unix_milli ms" by blast
    from stored(2) ms have "ms < bj_end job"
      by (auto simp: window_keys_def kline_key_def from_unix_milli_def)
    with Cons.IH [of run1] Cons.prems stored ms show ?thesis
      by (auto simp: max_def split: if_splits)
  qed (use Cons in \<open>auto\<close>)
qed

lemma backfill_loop_table:
  assumes "backfill_loop D F env job fuel batch nextMs run = Some (err, run')"
  shows "filled job (br_table run) (br_table run')"
  using assms
proof (induction fuel arbitrary: batch nextMs run)
  case 0
  then show ?case by simp
next
  case (Suc fuel)
  obtain e1 run1 where rows: "\<And>now rows. fetchKlineRows (be_net env batch) (bj_deps job)
      (bj_exchange_symbol job) (bj_interval job) nextMs (bj_end job) = Inr rows \<Longrightarrow>
      backfill_rows D F env job (be_now env batch) rows (run\<lparr>br_last := 0\<rparr>) = (e1, run1)"
    by (cases "fetchKlineRows (be_net env batch) (bj_deps job)
      (bj_exchange_symbol job) (bj_interval job) nextMs (bj_end job)") force+
  show ?case
  proof (cases "nextMs < bj_end job \<and> (\<exists>rows. rows \<noteq> [] \<and> fetchKlineRows (be_net env batch) (bj_deps job)
      (bj_exchange_symbol job) (bj_interval job) nextMs (bj_end job) = Inr rows)")
    case True
    then obtain rs where rs: "nextMs < bj_end job" "rs \<noteq> []" "fetchKlineRows (be_net env batch) (bj_deps job)
      (bj_exchange_symbol job) (bj_interval job) nextMs (bj_end job) = Inr rs" by blast
    note step = backfill_rows_table [OF rows [OF rs(3)]]
    show ?thesis
    proof (cases "e1 = None \<and> \<not> (length rs < 1000 \<or> br_last run1 \<le> 0)")
      case again: True
      with Suc.prems rs rows [OF rs(3)]
      have "backfill_loop D F env job fuel (Suc batch) (br_last run1 + 1) run1 = Some (err, run')" by simp
      from Suc.IH [OF this] step show ?thesis by (auto intro: filled_trans)
    next
      case False
      with Suc.prems rs rows [OF rs(3)] have "run' = run1" by (auto split: option.splits if_splits)
      with step show ?thesis by auto
    qed
  next
    case False
    with Suc.prems have "run' = run" by (auto split: sum.splits if_splits)
    then show ?thesis by simp
  qed
qed

subsection \<open>When the backfill ends\<close>

text \<open>The documented behaviour of the candle interface: no row opens before the requested start.\<close>

definition honours_start :: "float_lib \<Rightarrow> backfill_env \<Rightarrow> backfill_plan \<Rightarrow> bool" where
  "honours_start F env job \<longleftrightarrow>
     (\<forall>batch startMs rows row ms. startMs < bj_end job \<longrightarrow>
        fetchKlineRows (be_net env batch) (bj_deps job) (bj_exchange_symbol job) (bj_interval job)
          startMs (bj_end job) = Inr rows \<longrightarrow>
        row \<in> set rows \<longrightarrow> asInt64 F (row ! 0) = Some ms \<longrightarrow> startMs \<le> ms)"

lemma backfill_loop_step:
  assumes "honours_start F env job" "nextMs < bj_end job"
    and "fetchKlineRows (be_net env batch) (bj_deps job) (bj_exchange_symbol job) (bj_interval job)
          nextMs (bj_end job) = Inr rows"
    and "backfill_rows D F env job now rows (run\<lparr>br_last := 0\<rparr>) = (None, run')" "0 < br_last run'"
  shows "nextMs \<le> br_last run'" "br_last run' < bj_end job"
  using assms backfill_rows_last [OF assms(4)] unfolding honours_start_def by auto

lemma backfill_loop_ends:
  assumes "honours_start F env job" "nat (bj_end job - nextMs) < fuel"
  shows "backfill_loop D F env job fuel batch nextMs run \<noteq> None"
  using assms(2)
proof (induction fuel arbitrary: batch nextMs run)
  case 0
  then show ?case by simp
next
  case (Suc fuel)
  let ?fetch = "fetchKlineRows (be_net env batch) (bj_deps job) (bj_exchange_symbol job)
    (bj_interval job) nextMs (bj_end job)"
  show ?case
  proof (cases "nextMs < bj_end job \<and> (\<exists>rows. ?fetch = Inr rows \<and> rows \<noteq> [])")
    case False
    then show ?thesis by (auto split: sum.splits)
  next
    case True
    then obtain rows where nx: "nextMs < bj_end job" "?fetch = Inr rows" "rows \<noteq> []" by blast
    obtain e run' where rows: "backfill_rows D F env job (be_now env batch) rows (run\<lparr>br_last := 0\<rparr>) = (e, run')"
      by force
    show ?thesis
    proof (cases "e = None \<and> \<not> (length rows < 1000 \<or> br_last run' \<le> 0)")
      case False
      with nx rows show ?thesis by (auto split: option.splits)
    next
      case True
      with backfill_loop_step [OF assms(1) nx(1,2), of D "be_now env batch" run run'] rows
      have "nextMs \<le> br_last run'" "br_last run' < bj_end job" by auto
      with Suc.prems have "nat (bj_end job - (br_last run' + 1)) < fuel" by linarith
      from Suc.IH [OF this] True nx rows show ?thesis by simp
    qed
  qed
qed

lemma backfill_loop_more_fuel:
  "backfill_loop D F env job fuel batch nextMs run = Some r \<Longrightarrow> fuel \<le> fuel' \<Longrightarrow>
   backfill_loop D F env job fuel' batch nextMs run = Some r"
proof (induction fuel arbitrary: fuel' batch nextMs run)
  case 0
  then show ?case by simp
next
  case (Suc fuel)
  then obtain f where "fuel' = Suc f" "fuel \<le> f" by (cases fuel') auto
  with Suc show ?case by (auto split: if_splits sum.splits option.splits prod.splits)
qed

subsection \<open>An exchange that ignores the start time\<close>

lemma backfill_loop_stuck:
  assumes "\<And>batch startMs. fetchKlineRows (be_net env batch) (bj_deps job) (bj_exchange_symbol job)
      (bj_interval job) startMs (bj_end job) = Inr rows"
    and "1000 \<le> length rows" "0 < ms" "ms + 1 < bj_end job"
    and "\<And>now run. P (br_table run) \<Longrightarrow> \<exists>run'. P (br_table run') \<and> br_last run' = ms \<and>
      backfill_rows D F env job now rows (run\<lparr>br_last := 0\<rparr>) = (None, run')"
  shows "nextMs < bj_end job \<Longrightarrow> P (br_table run) \<Longrightarrow> backfill_loop D F env job fuel batch nextMs run = None"
proof (induction fuel arbitrary: batch nextMs run)
  case 0
  then show ?case by simp
next
  case (Suc fuel)
  from assms(5) [OF Suc.prems(2), of "be_now env batch"] obtain run'
    where run': "P (br_table run')" "br_last run' = ms"
      "backfill_rows D F env job (be_now env batch) rows (run\<lparr>br_last := 0\<rparr>) = (None, run')" by blast
  have "rows \<noteq> []" using assms(2) by auto
  with Suc.IH [OF _ run'(1), of "br_last run' + 1" "Suc batch"] Suc.prems assms run' show ?case by simp
qed

lemma Create_kline_again:
  assumes "kline_key k \<in> kline_key ` set t"
  shows "\<exists>i t'. Create_kline True j k t = (Inr i, t') \<and> kline_key ` set t' = kline_key ` set t"
proof -
  from assms find_key [of kline_key "kline_key k" t]
  obtain row where "find (\<lambda>r. kline_key r = kline_key k) t = Some row" by blast
  note created = Create_kline_old [OF this, of j]
  have "kline_key ` set (map (\<lambda>r. if kline_key r = kline_key k then merged_kline k r else r) t) =
      kline_key ` set t"
    using arg_cong [OF merged_keys [of k t], of set] by (simp only: set_map)
  with created show ?thesis by blast
qed

lemma backfill_rows_repeated:
  assumes build: "\<And>now. \<exists>k. kline_key k = key \<and> unix_milli (mk_open_time k) = ms \<and>
      buildMarketKlineFromRow D F (bd_exchange (bj_deps job)) (bd_market (bj_deps job))
        (bj_symbol job) (bj_interval job) row now = Inr k"
    and "bj_start job \<le> ms" "ms < bj_end job" "\<And>n. be_db env n"
  shows "key \<in> kline_key ` set (br_table run) \<Longrightarrow> br_last run \<le> ms \<Longrightarrow>
    \<exists>run'. key \<in> kline_key ` set (br_table run') \<and> br_last run' = (if n = 0 then br_last run else ms) \<and>
      backfill_rows D F env job now (replicate n row) run = (None, run')"
proof (induction n arbitrary: run)
  case 0
  then show ?case by simp
next
  case (Suc n)
  from build [of now] obtain k where k: "kline_key k = key" "unix_milli (mk_open_time k) = ms"
    "buildMarketKlineFromRow D F (bd_exchange (bj_deps job)) (bd_market (bj_deps job))
        (bj_symbol job) (bj_interval job) row now = Inr k" by blast
  from Suc.prems(1) k(1) obtain i t' where t': "kline_key ` set t' = kline_key ` set (br_table run)"
    "Create_kline True (be_id env (br_inserted run)) k (br_table run) = (Inr i, t')"
    using Create_kline_again [of k "br_table run"] by blast
  let ?run = "\<lparr>br_inserted = Suc (br_inserted run), br_last = ms, br_table = t'\<rparr>"
  have "backfill_rows D F env job now (replicate (Suc n) row) run =
      backfill_rows D F env job now (replicate n row) ?run"
    using k t' Suc.prems(2) assms(2-4) by (simp add: Let_def)
  moreover have "\<exists>run'. key \<in> kline_key ` set (br_table run') \<and> br_last run' = ms \<and>
      backfill_rows D F env job now (replicate n row) ?run = (None, run')"
    using Suc.IH [of ?run] t'(1) Suc.prems(1) by (auto split: if_splits)
  ultimately show ?case by simp
qed

end
