(* ===== verification/EngineProps.thy ===== *)
theory EngineProps
  imports Registry JsonText
begin

text \<open>
  The properties of the order engine over the configured exchanges: what a placement leaves behind,
  how often a request reaches an exchange, the retries of a message, and the synchronisation. The
  instances at the end of each property use the small world defined first.
\<close>

subsection \<open>The configured exchanges are live\<close>

lemma sync_step_paper [frame_simps]:
  "oh_is_paper_trading (fill_price e h) = oh_is_paper_trading h"
  "oh_is_paper_trading (fill_time t s h) = oh_is_paper_trading h"
  "oh_is_paper_trading (adopt_order_id s h) = oh_is_paper_trading h"
  "oh_is_paper_trading (adopt_client_id s h) = oh_is_paper_trading h"
  "oh_is_paper_trading (adopt_event_time i h) = oh_is_paper_trading h"
  "oh_is_paper_trading (adopt_symbol s h) = oh_is_paper_trading h"
  by (simp_all add: fill_price_def fill_time_def adopt_order_id_def adopt_client_id_def
      adopt_event_time_def adopt_symbol_def)

lemma synced_history_paper:
  "oh_is_paper_trading (synced_history now st fq ep oid cid et sy h) = oh_is_paper_trading h"
  by (simp add: synced_history_def frame_simps)

lemma BinanceSync_paper:
  "BinanceSyncOrderHistory L C h v = (Inr (Some u), v') \<Longrightarrow> oh_is_paper_trading u = oh_is_paper_trading h"
  by (elim BinanceSync_Inr) (simp add: synced_history_paper)

lemma TokocryptoSync_paper:
  assumes "TokocryptoSyncOrderHistory L C h v = (Inr (Some u), v')"
  shows "oh_is_paper_trading u = oh_is_paper_trading h"
proof -
  obtain v1 resp where "toko_mapOrderHistorySyncResponse L v1 h resp = Inr u"
    using assms unfolding TokocryptoSyncOrderHistory_def Let_def
    by (auto split: sum.splits if_splits prod.splits simp: bind_res_Inr_iff res_map_Inr_iff)
  then show ?thesis by (elim toko_mapSync_Inr) (simp add: synced_history_paper)
qed

interpretation venues: live_registry "initConfiguredExchanges A" for A
proof
  fix n ex order x h x'
  assume reg: "initConfiguredExchanges A n = Some ex" and place: "xa_place ex order x = (Inr h, x')"
  show "\<not> oh_is_paper_trading h"
    using reg place
    by (cases rule: initConfiguredExchanges_Some)
       (auto simp: binance_api_def tokocrypto_api_def dest: BinancePlaceOrder_fields(5) TokocryptoPlaceOrder_fields(5))
next
  fix n ex h x u x'
  assume reg: "initConfiguredExchanges A n = Some ex" and sync: "xa_sync ex h x = (Inr (Some u), x')"
  show "oh_is_paper_trading u = oh_is_paper_trading h"
    using reg sync
    by (cases rule: initConfiguredExchanges_Some)
       (auto simp: binance_api_def tokocrypto_api_def dest: BinanceSync_paper TokocryptoSync_paper)
qed

subsection \<open>A small world\<close>

definition demo_lib :: exchange_lib where
  "demo_lib = \<lparr>xl_decimal = ref_decimal, xl_hmac = (\<lambda>k m. m), xl_getenv = (\<lambda>_. [])\<rparr>"

definition demo_app :: app_config where
  "demo_app = \<lparr>ap_lib = demo_lib, ap_tokocrypto = None,
     ap_binance = Some (\<lparr>ec_key = ''key'', ec_secret = ''secret''\<rparr>, [])\<rparr>"

definition demo_venue :: venue where
  "demo_venue = \<lparr>vn_ctx_done = False, vn_now = 0, vn_replies = [], vn_requests = [],
     vn_binance_precision = Map.empty, vn_toko_precision = Map.empty,
     vn_binance_mapping = None, vn_toko_mapping = None\<rparr>"

definition demo_world :: "venue world" where
  "demo_world = \<lparr>w_table = [], w_events = [], w_exchange = demo_venue, w_placed = []\<rparr>"

definition demo_env :: call_env where
  "demo_env = \<lparr>ce_ctx_done = False, ce_now = 0, ce_find_ok = True, ce_create_ok = True,
     ce_new_id = ''id1'', ce_close_ok = True, ce_notify_ok = True\<rparr>"

text \<open>A paper order on Binance that asks for a notification.\<close>

definition demo_order :: order_request where
  "demo_order = \<lparr>rq_request_id = ''r1'', rq_user_id = ''u1'', rq_order_id = None,
     rq_entry_order_id = ''e1'', rq_exchange = '' Binance '', rq_market_type = ''spot'',
     rq_position_side = [], rq_symbol = ''BTCUSDT'', rq_type = ''MARKET'', rq_side = ''buy'',
     rq_price = 2, rq_quantity = 1, rq_requested_at = 0, rq_expired_at = None, rq_source = ''test'',
     rq_strategy_id = None, rq_strategy_name = [], rq_interval = [], rq_internal = [],
     rq_entry_price = [], rq_exit_price = [], rq_pnl_percentage = [], rq_trade_condition = ''entry'',
     rq_order_reason = ''manual_close'', rq_exit_type = [], rq_need_notification = True,
     rq_is_paper_trading = True\<rparr>"

definition demo_prepared :: order_request where
  "demo_prepared = demo_order\<lparr>rq_exchange := ''binance'', rq_side := ''BUY'', rq_position_side := ''BOTH'',
     rq_trade_condition := ''ENTRY''\<rparr>"

lemma demo_prepare: "prepare_order id demo_order = Inr demo_prepared"
  by code_simp

lemma demo_registry: "initConfiguredExchanges demo_app ''binance'' =
    Some (binance_api demo_lib (InitBinanceExchange demo_lib \<lparr>ec_key = ''key'', ec_secret = ''secret''\<rparr> []))"
  by (simp add: initConfiguredExchanges_def demo_app_def RegisterExchange_def)

lemma demo_prepared_sel:
  "rq_exchange demo_prepared = ''binance''" "rq_is_paper_trading demo_prepared"
  by (simp_all add: demo_prepared_def demo_order_def)

lemma demo_placed:
  "\<exists>row w'. PlaceOrder ref_decimal id (initConfiguredExchanges demo_app) demo_env demo_order demo_world = (Inr row, w')"
  by (simp add: PlaceOrder_def demo_prepare demo_prepared_sel demo_env_def demo_world_def
      demo_registry GetByRequestID_def record_order_def Create_def Let_def
      publishManualPositionClosed_def publishOrderNotificationEvent_def)

lemma demo_fields:
  "rq_request_id demo_order = ''r1''" "rq_is_paper_trading demo_order"
  "rq_need_notification demo_order" "w_table demo_world = []" "w_events demo_world = []"
  "w_placed demo_world = []"
  by (simp_all add: demo_order_def demo_world_def)

lemma same_order_flags:
  assumes "same_order r o'"
  shows "rq_is_paper_trading o' = rq_is_paper_trading r" "rq_need_notification o' = rq_need_notification r"
  using assms unfolding same_order_def by (cases o'; cases r; simp)+

lemma record_order_Inl:
  assumes "(Inl e, w') = record_order D env order h w"
    and "e \<noteq> PublishFailed" "e \<noteq> ErrPublishOrderNotificationFailed"
  shows "w_table w' = w_table w"
  using assms Create_fail [of "ce_create_ok env" "ce_new_id env" h "w_table w"]
  by (auto simp: record_order_def split: prod.splits sum.splits bool.splits)

subsection \<open>Requests\<close>

text \<open>
  C33: normalising a request is sound: on success the market type, side, position side, trade
  condition, exit type and entry order id are canonical and consistent with each other, and every
  other field is the request's own.
\<close>

theorem prepared_order_wf:
  assumes "prepare_order ft req = Inr order"
  shows "order_wf order \<and> same_order req order"
  using prepare_order_wf_aux [OF assms] prepare_order_Inr(11) [OF assms] by simp

theorem prepared_order_wf_witness: "order_wf demo_prepared \<and> same_order demo_order demo_prepared"
  by (rule prepared_order_wf [OF demo_prepare])

text \<open>
  Publishing an order and placing what was published is the same as placing the order: the
  request of the event is normalised already, so the queue handler's own normalisation does not
  change it, and \<open>PlaceOrder\<close> behaves alike on both.
\<close>

theorem async_order_is_direct:
  assumes "PlaceOrderAsync ft False publish_ok req evs = (None, evs')"
  shows "\<exists>order. evs' = evs @ [PlaceOrderEvent order] \<and> rq_request_id order = rq_request_id req
    \<and> PlaceOrder D ft reg env order w = PlaceOrder D ft reg env req w"
proof -
  obtain order where prep: "prepare_order ft req = Inr order"
    and evs: "evs' = evs @ [PlaceOrderEvent order]"
    using assms by (cases publish_ok) (auto simp: PlaceOrderAsync_def split: sum.splits)
  have again: "prepare_order ft order = Inr order"
    by (rule prepare_order_fix [OF prepare_order_wf_aux [OF prep]])
  have "rq_request_id order = rq_request_id req"
    by (rule same_order_request [OF prepare_order_Inr(11) [OF prep]])
  moreover have "PlaceOrder D ft reg env order w = PlaceOrder D ft reg env req w"
    unfolding PlaceOrder_def prep again ..
  ultimately show ?thesis using evs by blast
qed

theorem async_order_is_direct_witness:
  "\<exists>order. snd (PlaceOrderAsync id False True demo_order []) = [] @ [PlaceOrderEvent order]
    \<and> rq_request_id order = ''r1''
    \<and> PlaceOrder ref_decimal id (initConfiguredExchanges demo_app) demo_env order demo_world =
      PlaceOrder ref_decimal id (initConfiguredExchanges demo_app) demo_env demo_order demo_world"
proof -
  have "PlaceOrderAsync id False True demo_order [] =
      (None, snd (PlaceOrderAsync id False True demo_order []))"
    by (simp add: PlaceOrderAsync_def demo_prepare)
  from async_order_is_direct [OF this, of ref_decimal "initConfiguredExchanges demo_app" demo_env demo_world]
  show ?thesis by (simp only: demo_fields)
qed

subsection \<open>What a placement leaves behind\<close>

text \<open>
  C12: a successful \<open>PlaceOrder\<close> has added exactly one row, which carries the request's id; if
  that row closes a position by hand the strategies are told, and if the request wants a notification
  one with the row's price is published.
\<close>

theorem placed_order_recorded:
  assumes "PlaceOrder D ft (initConfiguredExchanges A) env req w = (Inr row, w')"
  shows "w_table w' = w_table w @ [row] \<and> oh_request_id row = rq_request_id req
    \<and> oh_is_paper_trading row = rq_is_paper_trading req
    \<and> (closes_position row \<longrightarrow> PositionClosedEvent (position_closed row) \<in> set (w_events w'))
    \<and> (rq_need_notification req \<longrightarrow> (\<exists>order. prepare_order ft req = Inr order \<and>
         NotificationEvent (order_notification_of D order row) \<in> set (w_events w')))"
  using assms
proof (cases rule: PlaceOrder_cases)
  case (refused e x evs)
  then show ?thesis by simp
next
  case (paper order)
  note R = record_order_Inr [OF paper(4) [symmetric]]
  have same: "same_order req order" by (rule prepare_order_Inr(11) [OF paper(1)])
  show ?thesis
    using R paper(1,2) same_order_request [OF same] same_order_flags [OF same]
    by (auto simp: buildPaperOrderHistory_def)
next
  case (live order ex h x)
  note R = record_order_Inr [OF live(6) [symmetric]]
  have same: "same_order req order" by (rule prepare_order_Inr(11) [OF live(1)])
  show ?thesis
    using R live(1,2) same_order_request [OF same] same_order_flags [OF same]
      configured.place_request [OF live(3,4)] venues.place_live [OF live(3,4)]
    by auto
qed

theorem placed_order_recorded_witness:
  "\<exists>row w'. PlaceOrder ref_decimal id (initConfiguredExchanges demo_app) demo_env demo_order demo_world = (Inr row, w')
    \<and> w_table w' = w_table demo_world @ [row] \<and> oh_request_id row = ''r1'' \<and> oh_is_paper_trading row"
proof -
  obtain row w' where run: "PlaceOrder ref_decimal id (initConfiguredExchanges demo_app) demo_env demo_order
      demo_world = (Inr row, w')" using demo_placed by blast
  from placed_order_recorded [OF this] have "w_table w' = w_table demo_world @ [row]"
    "oh_request_id row = ''r1''" "oh_is_paper_trading row" by (simp_all add: demo_fields)
  with run show ?thesis by blast
qed

text \<open>
  A paper order never touches an exchange: whatever the call returns, the exchange's state
  and the log of placements are as before.
\<close>

theorem paper_order_stays_home:
  assumes "rq_is_paper_trading req" "PlaceOrder D ft reg env req w = (r, w')"
  shows "w_exchange w' = w_exchange w \<and> w_placed w' = w_placed w"
  using assms(2)
proof (cases rule: PlaceOrder_cases)
  case (refused e x evs)
  then show ?thesis using assms(1) by simp
next
  case (paper order)
  then show ?thesis using record_order_step [OF paper(4)] by simp
next
  case (live order ex h x)
  then show ?thesis
    using assms(1) same_order_flags [OF prepare_order_Inr(11) [OF live(1)]] by simp
qed

theorem paper_order_stays_home_witness:
  "\<exists>w' row. PlaceOrder ref_decimal id (initConfiguredExchanges demo_app) demo_env demo_order demo_world = (Inr row, w')
    \<and> w_exchange w' = demo_venue \<and> w_placed w' = []"
proof -
  obtain row w' where run: "PlaceOrder ref_decimal id (initConfiguredExchanges demo_app) demo_env demo_order
      demo_world = (Inr row, w')" using demo_placed by blast
  from paper_order_stays_home [OF demo_fields(2) this] run show ?thesis by (auto simp: demo_world_def)
qed

text \<open>
  A placement that fails leaves no row behind, except when only the announcement of a
  stored row failed.
\<close>

theorem failed_placement_stores_nothing:
  assumes "PlaceOrder D ft reg env req w = (Inl e, w')"
    and "e \<noteq> PublishFailed" "e \<noteq> ErrPublishOrderNotificationFailed"
  shows "w_table w' = w_table w"
  using assms(1)
proof (cases rule: PlaceOrder_cases)
  case (refused e x evs)
  then show ?thesis by simp
next
  case (paper order)
  then show ?thesis using assms(2,3) by (auto intro: record_order_Inl)
next
  case (live order ex h x)
  then show ?thesis using assms(2,3) record_order_Inl by fastforce
qed

theorem failed_placement_stores_nothing_witness:
  "w_table (snd (PlaceOrder ref_decimal id Map.empty demo_env demo_order demo_world)) = []"
proof -
  have "PlaceOrder ref_decimal id Map.empty demo_env demo_order demo_world =
      (Inl ErrExchangeNotFound, snd (PlaceOrder ref_decimal id Map.empty demo_env demo_order demo_world))"
    by (simp add: PlaceOrder_def demo_prepare demo_env_def)
  from failed_placement_stores_nothing [OF this] show ?thesis by (simp add: demo_fields)
qed

subsection \<open>How often a request reaches an exchange\<close>



text \<open>
  A request whose history is stored is never placed again, even when deliveries run into their
  timeout or their answers are lost.
\<close>

theorem stored_request_never_placed_again:
  assumes "lookup_request_id rid (w_table w) \<noteq> None"
  shows "count_list (w_placed (snd (deliver_from maxRetry n
      (plays (handlePlaceOrderEvent D ft (initConfiguredExchanges A) body) ds) w))) rid
    = count_list (w_placed w) rid"
  using assms by (rule configured.handler.done_final)

definition demo_history :: order_history where
  "demo_history = buildPaperOrderHistory 0 demo_prepared"

theorem stored_request_never_placed_again_witness:
  "count_list (w_placed (snd (deliver_from 3 1
      (plays (handlePlaceOrderEvent ref_decimal id (initConfiguredExchanges demo_app) ''x'')
        [((0, demo_env), True, False)]) (demo_world\<lparr>w_table := [demo_history]\<rparr>)))) ''r1''
    = count_list (w_placed (demo_world\<lparr>w_table := [demo_history]\<rparr>)) ''r1''"
  by (rule stored_request_never_placed_again)
     (simp add: lookup_request_id_def demo_history_def buildPaperOrderHistory_def demo_prepared_def demo_order_def)

text \<open>
  C2: the invariant of the engine, over every run of calls, deliveries and synchronisations from an
  empty table: the table keeps its constraints, no request has two rows, and every row of a live
  order belongs to a request an exchange accepted.
\<close>

theorem engine_invariant:
  assumes "engine_reachable (initConfiguredExchanges A) w"
  shows "table_ok (w_table w) \<and> distinct (map oh_request_id (w_table w))
    \<and> (\<forall>row\<in>set (w_table w). \<not> oh_is_paper_trading row \<longrightarrow> oh_request_id row \<in> set (w_placed w))"
  using venues.engine_reachable_inv [OF assms] by (simp add: engine_inv_def)

theorem engine_invariant_witness:
  "\<exists>w. engine_reachable (initConfiguredExchanges demo_app) w \<and> w_table w \<noteq> [] \<and> table_ok (w_table w)"
proof -
  obtain row w' where run: "PlaceOrder ref_decimal id (initConfiguredExchanges demo_app) demo_env demo_order
      demo_world = (Inr row, w')" using demo_placed by blast
  have "engine_reachable (initConfiguredExchanges demo_app) demo_world"
    by (rule engine_reachable.start) (simp add: demo_fields)
  then have r: "engine_reachable (initConfiguredExchanges demo_app) w'"
    by (rule engine_reachable.step) (rule engine_step.call [OF run])
  have "\<exists>row. w_table w' = w_table demo_world @ [row]" using run
    by (cases rule: PlaceOrder_cases) (auto dest: record_order_Inr(2) [OF sym])
  with engine_invariant [OF r] r show ?thesis by auto
qed

text \<open>
  C3: the engine refines a ledger of request ids: a call that succeeds adds an id the ledger did not
  know, a call that fails adds its id at most when only the announcement failed, and no call
  removes one.
\<close>

theorem engine_refines_ledger:
  assumes "PlaceOrder D ft (initConfiguredExchanges A) env req w = (r, w')"
  shows "ledger_step (ledger_of w) (rq_request_id req) (is_ok r) (ledger_of w')"
  using assms by (rule configured.PlaceOrder_ledger)

theorem engine_refines_ledger_witness:
  "\<exists>w'. ledger_step {} ''r1'' True (ledger_of (w' :: venue world))"
proof -
  obtain row w' where run: "PlaceOrder ref_decimal id (initConfiguredExchanges demo_app) demo_env demo_order
      demo_world = (Inr row, w')" using demo_placed by blast
  from engine_refines_ledger [OF this] show ?thesis by (auto simp: demo_fields ledger_of_def)
qed

text \<open>
  What the two guarantees leave open. When a delivery runs into its timeout and the history of the
  order it placed cannot be stored, the message is redelivered, nothing in the table tells, and the
  exchange accepts the same request twice.
\<close>

theorem lost_history_places_twice:
  fixes w :: "'x world"
  assumes body: "decode_place_order D body = Some (Some req)" "rq_expired_at req = None"
    and prep: "prepare_order ft req = Inr order" "\<not> rq_is_paper_trading order"
    and ex: "reg (rq_exchange order) = Some ex" "\<And>x. is_ok (fst (xa_place ex order x))"
    and env: "\<not> ce_ctx_done env" "ce_find_ok env" "\<not> ce_create_ok env"
    and fresh: "lookup_request_id (rq_request_id req) (w_table w) = None"
  shows "w_placed (snd (deliver_from 5 1
      (plays (handlePlaceOrderEvent D ft reg body) [((now, env), True, True), ((now, env), True, True)]) w))
    = w_placed w @ [rq_request_id req, rq_request_id req]"
proof -
  have rid: "rq_request_id order = rq_request_id req"
    by (rule same_order_request [OF prepare_order_Inr(11) [OF prep(1)]])
  have one: "fst (handlePlaceOrderEvent D ft reg body (now, env) w) = Returned None
      \<and> w_placed (snd (handlePlaceOrderEvent D ft reg body (now, env) w)) = w_placed w @ [rq_request_id req]
      \<and> w_table (snd (handlePlaceOrderEvent D ft reg body (now, env) w)) = w_table w"
    if "lookup_request_id (rq_request_id req) (w_table w) = None" for w :: "'x world"
  proof -
    obtain h x where place: "xa_place ex order (w_exchange w) = (Inr h, x)"
      using ex(2) [of "w_exchange w"] by (cases "xa_place ex order (w_exchange w)") (auto simp: is_ok_iff)
    have "GetByRequestID True (rq_request_id order) (w_table w) = Inl ErrNoRows"
      using that rid by (simp add: GetByRequestID_lookup)
    then show ?thesis
      using body prep ex(1) env place rid
      by (simp add: handlePlaceOrderEvent_def handle_request_def PlaceOrder_def record_order_def Create_def)
  qed
  let ?run = "handlePlaceOrderEvent D ft reg body (now, env)"
  have "\<not> (5 :: 64 word) \<le> 1" by (simp add: word_le_nat_alt)
  then have first: "\<not> settled_by (fst (snd (ProcessWithTimeout 5
      \<lparr>dl_attempt = Some 1, dl_timeout = True, dl_answer_ok = True\<rparr> ?run w)))"
    using one [OF fresh] ProcessWithTimeout_failure [of "\<lparr>dl_attempt = Some 1, dl_timeout = True, dl_answer_ok = True\<rparr>" 1 ?run w None 5]
    by (simp add: settled_by_def)
  show ?thesis
    using one [OF fresh] one [of "snd (?run w)"] fresh first
    by (simp add: plays_simps deliver_from_Cons Let_def)
qed

definition demo_body :: string where
  "demo_body = write_json (JObj [(''data'', JObj [(''request_id'', JStr ''r1''), (''exchange'', JStr ''x''),
     (''side'', JStr ''BUY''), (''entry_order_id'', JStr ''e1'')])])"

definition demo_decoded :: order_request where
  "demo_decoded = demo_order\<lparr>rq_user_id := [], rq_exchange := ''x'', rq_market_type := [], rq_symbol := [],
     rq_type := [], rq_side := ''BUY'', rq_price := 0, rq_quantity := 0, rq_source := [],
     rq_trade_condition := [], rq_order_reason := [], rq_need_notification := False,
     rq_is_paper_trading := False\<rparr>"

lemma demo_body_decodes: "decode_place_order ref_decimal demo_body = Some (Some demo_decoded)"
proof -
  have "parse_json demo_body = Some (JObj [(''data'', JObj [(''request_id'', JStr ''r1''), (''exchange'', JStr ''x''),
     (''side'', JStr ''BUY''), (''entry_order_id'', JStr ''e1'')])])"
    unfolding demo_body_def by (intro parse_json_write) simp
  then show ?thesis
    by (simp add: decode_place_order_def) code_simp
qed

text \<open>An exchange that accepts everything.\<close>

definition demo_accepting :: "unit exchange_api" where
  "demo_accepting = \<lparr>xa_place = (\<lambda>order x. (Inr (buildPaperOrderHistory 0 order), x)),
     xa_sync = (\<lambda>h x. (Inr None, x))\<rparr>"

theorem lost_history_places_twice_witness:
  "w_placed (snd (deliver_from 5 1
      (plays (handlePlaceOrderEvent ref_decimal id [''x'' \<mapsto> demo_accepting] demo_body)
        [((0, demo_env\<lparr>ce_create_ok := False\<rparr>), True, True), ((0, demo_env\<lparr>ce_create_ok := False\<rparr>), True, True)])
      \<lparr>w_table = [], w_events = [], w_exchange = (), w_placed = []\<rparr>)) = [''r1'', ''r1'']"
proof -
  have prep: "prepare_order id demo_decoded = Inr (demo_decoded\<lparr>rq_market_type := ''spot'',
      rq_position_side := ''BOTH'', rq_trade_condition := ''UNKNOWN''\<rparr>)" by code_simp
  show ?thesis
    using lost_history_places_twice [OF demo_body_decodes _ prep, of "[''x'' \<mapsto> demo_accepting]" demo_accepting
        "demo_env\<lparr>ce_create_ok := False\<rparr>" "\<lparr>w_table = [], w_events = [], w_exchange = (), w_placed = []\<rparr>" 0]
    by (simp add: demo_decoded_def demo_order_def demo_accepting_def demo_env_def lookup_request_id_def)
qed

end
