(* ===== verification/ExchangeProps.thy ===== *)
theory ExchangeProps
  imports EngineProps
begin

text \<open>
  The properties of the retries, of the synchronisation of pending orders, of the exchange adapters
  and of the symbol mapping and subscriptions they work with.
\<close>

subsection \<open>Retries\<close>

text \<open>
  C27: the life of a message whose handler keeps failing, from any delivery number on: it is
  delayed by twice its delivery number in seconds until the limit is reached, then terminated, and
  the number of deliveries is known in advance. Up to 4611686018 deliveries the product on 64-bit
  words does not wrap.
\<close>

theorem failing_message_is_terminated:
  assumes "\<forall>d\<in>set ds. always_fails d" "unat maxRetry \<le> 4611686018"
    "1 \<le> unat n" "unat n \<le> max 1 (unat maxRetry)"
    "max 1 (unat maxRetry) - unat n < length ds"
  shows "fst (deliver_from maxRetry n ds s) =
     map (\<lambda>k. Some (NakWithDelay (int k * (2 * second)))) [unat n ..< max 1 (unat maxRetry)] @ [Some Term]"
  using assms by (rule deliver_from_failing)

theorem failing_message_is_terminated_witness:
  "fst (deliver_from 3 1 (replicate 3 (\<lambda>s. (Returned (Some ()), s), False, True)) ()) =
     map (\<lambda>k. Some (NakWithDelay (int k * (2 * second)))) [1 ..< 3] @ [Some Term]"
  using failing_message_is_terminated [of "replicate 3 (\<lambda>s. (Returned (Some ()), s), False, True)" 3 1 "()"]
  by (simp add: always_fails_def)

text \<open>
  A reconnection waits between the minimum and the maximum delay, whatever the number of
  the attempt and the jitter.
\<close>

theorem reconnect_delay_bounded:
  assumes "0 \<le> jitter"
  shows "second \<le> wsReconnectDelay attempt jitter \<and> wsReconnectDelay attempt jitter \<le> 15 * second
    \<and> (wsReconnectDelay attempt jitter = 15 * second \<or> wsReconnectDelay attempt jitter = second * 2 ^ attempt + jitter)"
  using wsReconnectDelay_bounds [OF assms, of attempt] assms
  by (auto simp: wsReconnectDelay_def Let_def min_def split: if_splits)

theorem reconnect_delay_bounded_witness:
  "second \<le> wsReconnectDelay 100 7 \<and> wsReconnectDelay 100 7 \<le> 15 * second"
  using reconnect_delay_bounded [of 7 100] by simp

subsection \<open>Synchronisation of pending orders\<close>

lemma Run_passes_Nil: "Run_passes reg [] w = w"
  by (simp add: Run_passes_def)

lemma Run_passes_Cons:
  "Run_passes reg ((c, f, env) # ps) w = Run_passes reg ps (SyncPendingOrderHistories reg c f env w)"
  by (simp add: Run_passes_def)

text \<open>
  C28: filled, cancelled and rejected orders are final: no number of passes of the
  synchronisation changes a row that is not pending, whatever the exchanges answer.
\<close>

theorem final_rows_stay:
  assumes "table_ok (w_table w)" "row \<in> set (w_table w)" "\<not> pending row"
  shows "row \<in> set (w_table (Run_passes (initConfiguredExchanges A) passes w))"
  using assms
proof (induction passes arbitrary: w)
  case Nil
  then show ?case by (simp add: Run_passes_Nil)
next
  case (Cons p passes)
  obtain c f env where "p = (c, f, env)" by (cases p)
  with Cons.IH [OF venues.SyncPending_table_ok configured.SyncPending_final] Cons.prems show ?case
    by (simp add: Run_passes_Cons)
qed

definition demo_senv :: sync_env where
  "demo_senv = \<lparr>se_ctx_done = False, se_now = 5, se_close_ok = True, se_update_ok = True\<rparr>"

theorem final_rows_stay_witness:
  "demo_history \<in> set (w_table (Run_passes (initConfiguredExchanges demo_app)
     [(False, True, \<lambda>_. demo_senv), (False, True, \<lambda>_. demo_senv)] (demo_world\<lparr>w_table := [demo_history]\<rparr>)))"
  by (rule final_rows_stay)
     (simp_all add: table_ok_def pending_def pendingOrderHistoryStatuses_def demo_history_def buildPaperOrderHistory_def)

text \<open>
  The synchronisation only updates: it adds and removes no row, keeps every row's id, request and
  kind in place, never places an order, and the table keeps its constraints.
\<close>

theorem passes_keep_rows:
  assumes "table_ok (w_table w)"
  shows "map row_tag (w_table (Run_passes (initConfiguredExchanges A) passes w)) = map row_tag (w_table w)
    \<and> table_ok (w_table (Run_passes (initConfiguredExchanges A) passes w))
    \<and> w_placed (Run_passes (initConfiguredExchanges A) passes w) = w_placed w"
  using assms
proof (induction passes arbitrary: w)
  case Nil
  then show ?case by (simp add: Run_passes_Nil)
next
  case (Cons p passes)
  obtain c f env where p: "p = (c, f, env)" by (cases p)
  let ?w = "SyncPendingOrderHistories (initConfiguredExchanges A) c f env w"
  have "table_ok (w_table ?w)" using Cons.prems by (rule venues.SyncPending_table_ok)
  from Cons.IH [OF this] venues.SyncPending_tags [OF Cons.prems] show ?case
    by (simp add: p Run_passes_Cons SyncPending_placed)
qed

theorem passes_keep_rows_witness:
  "map row_tag (w_table (Run_passes (initConfiguredExchanges demo_app) [(False, True, \<lambda>_. demo_senv)]
     (demo_world\<lparr>w_table := [demo_history\<lparr>oh_status := ''NEW''\<rparr>]\<rparr>)))
   = [row_tag (demo_history\<lparr>oh_status := ''NEW''\<rparr>)]"
  using passes_keep_rows [of "demo_world\<lparr>w_table := [demo_history\<lparr>oh_status := ''NEW''\<rparr>]\<rparr>" demo_app
      "[(False, True, \<lambda>_. demo_senv)]"]
  by (simp add: table_ok_def)

text \<open>
  What the Binance adapter makes of a stored order: its identity, owner, side, quantity and reason
  stay, an order id that is known is kept, and the time of the fill is set at most once, exactly when
  the status is \<open>FILLED\<close> for the first time.
\<close>

theorem binance_sync_keeps_order:
  assumes "BinanceSyncOrderHistory L C h v = (Inr (Some u), v')"
  shows "oh_id u = oh_id h \<and> oh_request_id u = oh_request_id h \<and> oh_user_id u = oh_user_id h
    \<and> oh_side u = oh_side h \<and> oh_quantity u = oh_quantity h \<and> oh_order_reason u = oh_order_reason h
    \<and> (trim_space (oh_order_id h) \<noteq> [] \<longrightarrow> oh_order_id u = oh_order_id h)
    \<and> oh_filled_at u = (if time_valid (oh_filled_at h) \<or> oh_status u \<noteq> ''FILLED'' then oh_filled_at h
                        else some_time (oh_updated_at u))"
proof -
  obtain u' st fq ep oid cid et sy now where "Some u = Some u'" and
    "u' = synced_history now st fq ep oid cid et sy (h\<lparr>oh_market_type := resolveMarketType C (oh_market_type h)\<rparr>)"
    using BinanceSync_Inr [OF assms] .
  then have u: "u = synced_history now st fq ep oid cid et sy
      (h\<lparr>oh_market_type := resolveMarketType C (oh_market_type h)\<rparr>)" by simp
  show ?thesis
    using synced_history_order_id [of "h\<lparr>oh_market_type := resolveMarketType C (oh_market_type h)\<rparr>"
        now st fq ep oid cid et sy]
    unfolding u synced_history_keeps synced_history_filled_at synced_history_status by simp
qed

definition demo_binance :: binance_config where
  "demo_binance = \<lparr>bc_default = \<lparr>ec_key = ''key'', ec_secret = ''secret''\<rparr>, bc_accounts = Map.empty,
     bc_spot_url = ''https://api.binance.com'', bc_futures_url = ''https://fapi.binance.com'',
     bc_default_market = ''spot'', bc_recv_window = 5000\<rparr>"

definition demo_reply :: http_reply where
  "demo_reply = \<lparr>hr_status = 200, hr_body = write_json (JObj [(''status'', JStr ''FILLED'')])\<rparr>"

lemma demo_reply_decodes:
  "parseBinanceOrderDetailResponse (hr_body demo_reply) False = Some \<lparr>bo_symbol = [], bo_order_id = 0,
     bo_client_order_id = [], bo_event_time = 0, bo_price = [], bo_orig_qty = [], bo_executed_qty = [],
     bo_quote_qty = [], bo_status = ''FILLED'', bo_type = [], bo_side = []\<rparr>"
proof -
  have "parse_json (hr_body demo_reply) = Some (JObj [(''status'', JStr ''FILLED'')])"
    unfolding demo_reply_def http_reply.select_convs by (intro parse_json_write) simp
  then show ?thesis
    by (simp add: parseBinanceOrderDetailResponse_def decode_with_def into_struct_def) code_simp
qed

lemma demo_codes:
  "trim_space ''paper-r1'' = ''paper-r1''" "trim_space ''BTCUSDT'' = ''BTCUSDT''"
  "to_upper ''BTCUSDT'' = ''BTCUSDT''" "trim_space ''u1'' = ''u1''"
  "binanceOrderStatusFromCode ''FILLED'' = ''FILLED''" "trim_space ''spot'' = ''spot''"
  by code_simp+

lemma demo_synced:
  "\<exists>u v'. BinanceSyncOrderHistory demo_lib demo_binance demo_history (demo_venue\<lparr>vn_replies := [Some demo_reply]\<rparr>)
     = (Inr (Some u), v') \<and> oh_status u = ''FILLED''"
proof -
  have fields: "oh_user_id demo_history = ''u1''" "oh_market_type demo_history = ''spot''"
    "oh_symbol demo_history = ''BTCUSDT''" "oh_order_id demo_history = ''paper-r1''"
    by (simp_all add: demo_history_def buildPaperOrderHistory_def demo_prepared_def demo_order_def)
  have status: "hr_status demo_reply = 200" by (simp add: demo_reply_def)
  show ?thesis
    by (simp add: BinanceSyncOrderHistory_def demo_venue_def binance_credentials_def credentialsForUser_def
        demo_binance_def fields demo_codes resolveMarketType_def Let_def binance_deps_def deps_indexes_def
        resolveExchangeOrderSymbolFromMapping_def snapshotSymbolMapping_def http_do_def status
        demo_reply_decodes mapOrderHistorySyncResponse_def decimalOrZero_def executed_price_def
        synced_history_status)
qed

theorem binance_sync_keeps_order_witness:
  "\<exists>u v'. BinanceSyncOrderHistory demo_lib demo_binance demo_history (demo_venue\<lparr>vn_replies := [Some demo_reply]\<rparr>)
     = (Inr (Some u), v') \<and> oh_id u = oh_id demo_history \<and> oh_status u = ''FILLED''"
proof -
  obtain u v' where run: "BinanceSyncOrderHistory demo_lib demo_binance demo_history
      (demo_venue\<lparr>vn_replies := [Some demo_reply]\<rparr>) = (Inr (Some u), v')" "oh_status u = ''FILLED''"
    using demo_synced by blast
  from binance_sync_keeps_order [OF run(1)] run show ?thesis by blast
qed

subsection \<open>Placing orders on the exchanges\<close>



text \<open>A placement on Tokocrypto sends at most one order, signed for the request's own user.\<close>

theorem tokocrypto_sends_at_most_one:
  "\<exists>sent. posts (snd (TokocryptoPlaceOrder L C order v)) = posts v @ sent \<and> length sent \<le> 1
     \<and> (\<forall>req\<in>set sent. \<exists>keys. toko_credentials C (rq_user_id order) = Inr keys \<and> hq_api_key req = ec_key keys)"
  using TokocryptoPlaceOrder_posts [of L C order v] by fastforce

definition demo_toko :: toko_config where
  "demo_toko = \<lparr>tc_default = \<lparr>ec_key = ''key'', ec_secret = ''secret''\<rparr>, tc_accounts = Map.empty,
     tc_base_url = ''https://www.tokocrypto.com'', tc_recv_window = 5000\<rparr>"

theorem tokocrypto_sends_at_most_one_witness:
  "\<exists>sent. posts (snd (TokocryptoPlaceOrder demo_lib demo_toko demo_prepared demo_venue)) = posts demo_venue @ sent
     \<and> length sent \<le> 1"
  using tokocrypto_sends_at_most_one [of demo_lib demo_toko demo_prepared demo_venue] by blast

text \<open>
  C35: cutting an amount down to a step gives a whole number of steps that lies within one step of the
  amount, up to the rounding of the quotient at its 16th digit.
\<close>

theorem quantized_amount_bounds:
  assumes "decimal_lib D" "0 < step"
  shows "(\<exists>k :: int. quantizeDownByStep D amount step = of_int k * step)
    \<and> quantizeDownByStep D amount step \<le> amount + step / (2 * 10 ^ 16)
    \<and> amount < quantizeDownByStep D amount step + step + step / (2 * 10 ^ 16)"
  using quantizeDownByStep_bounds [OF assms] quantizeDownByStep_lib [OF assms] by blast

lemma ref_decimal_lib: "decimal_lib ref_decimal"
  by (rule refdec.decimal_lib_axioms)

theorem quantized_amount_bounds_witness:
  "(\<exists>k :: int. quantizeDownByStep ref_decimal 7 2 = of_int k * 2)
    \<and> quantizeDownByStep ref_decimal 7 2 \<le> 7 + 2 / (2 * 10 ^ 16)
    \<and> 7 < quantizeDownByStep ref_decimal 7 2 + 2 + 2 / (2 * 10 ^ 16)"
  by (rule quantized_amount_bounds [OF ref_decimal_lib]) simp

text \<open>
  When the quotient needs at most 16 digits the cut is exact: the largest multiple of the step that
  does not exceed the amount.
\<close>

theorem quantized_amount_exact:
  assumes "decimal_lib D" "0 < step" "amount / step * 10 ^ 16 \<in> \<int>"
  shows "quantizeDownByStep D amount step \<le> amount \<and> amount < quantizeDownByStep D amount step + step"
  using quantizeDownByStep_exact [OF assms] by simp

theorem quantized_amount_exact_witness:
  "quantizeDownByStep ref_decimal 7 2 \<le> 7 \<and> 7 < quantizeDownByStep ref_decimal 7 2 + 2"
proof -
  have "(7 / 2 * 10 ^ 16 :: rat) = of_int 35000000000000000" by simp
  then have "(7 / 2 * 10 ^ 16 :: rat) \<in> \<int>" by (metis Ints_of_int)
  with quantized_amount_exact [OF ref_decimal_lib, of 2 7] show ?thesis by simp
qed

text \<open>
  Without that condition the cut can exceed the amount: the quotient is rounded before it is cut, so
  an amount just below a multiple of the step is raised to it.
\<close>

theorem quantized_amount_can_exceed:
  "\<exists>D amount step. decimal_lib D \<and> 0 < step \<and> 0 < amount \<and> amount < quantizeDownByStep D amount step"
proof (intro exI conjI)
  show "decimal_lib ref_decimal" by (rule ref_decimal_lib)
  let ?a = "1 - 1 / 10 ^ 17 :: rat"
  show "(0::rat) < 1" "0 < ?a" by simp_all
  have "\<lfloor>?a * 10 ^ 16 + 1 / 2\<rfloor> = (10 ^ 16 :: int)" by (simp add: floor_eq_iff)
  then have "round16 ?a = 1" by (simp add: round16_def sgn_if)
  then show "?a < quantizeDownByStep ref_decimal ?a 1" by (simp add: quantizeDownByStep_def)
qed

end
