(* ===== verification/KlineProps.thy ===== *)
theory KlineProps
  imports Klines ExchangeProps
begin

text \<open>
  The properties of the candle and price tables, of their consumers and of the backfill.
\<close>

subsection \<open>The candle table\<close>

text \<open>The statements that change the table, in any order and with any outcome of the database.\<close>

datatype kline_op =
    OpCreate bool string market_kline
  | OpUpdate bool market_kline
  | OpDelete bool string
  | OpPrune bool string string string string int

fun run_kline_op :: "kline_op \<Rightarrow> kline_table \<Rightarrow> kline_table" where
  "run_kline_op (OpCreate ok i d) t = snd (Create_kline ok i d t)"
| "run_kline_op (OpUpdate ok d) t = snd (Update_kline ok d t)"
| "run_kline_op (OpDelete ok i) t = snd (Delete_kline ok i t)"
| "run_kline_op (OpPrune ok e m s i n) t = snd (DeleteOldKlines ok e m s i n t)"

text \<open>
  From an empty table, no sequence of repository calls stores two candles of one series with
  the same open time, or two rows with the same id.
\<close>

theorem candles_stay_unique:
  "kline_table_ok (fold run_kline_op ops [])"
proof -
  have "kline_table_ok t \<Longrightarrow> kline_table_ok (fold run_kline_op ops t)" for t
  proof (induction ops arbitrary: t)
    case (Cons x ops)
    then show ?case by (cases x) (simp_all add: kline_table_ok_ops)
  qed simp
  then show ?thesis by (simp add: kline_table_ok_def)
qed

text \<open>
  C36: pruning a series keeps its newest candles, one more than the count it is given, and touches
  no other series.
\<close>

theorem prune_keeps_newest:
  assumes "distinct (map kline_key t)" "0 < n"
  shows "open_times_desc (in_series e m s i) (snd (DeleteOldKlines True e m s i n t)) =
       take (nat n + 1) (open_times_desc (in_series e m s i) t)
    \<and> filter (\<lambda>r. \<not> in_series e m s i r) (snd (DeleteOldKlines True e m s i n t)) =
       filter (\<lambda>r. \<not> in_series e m s i r) t"
  using DeleteOldKlines_kept [OF assms] DeleteOldKlines_others by blast

definition demo_kline :: "int \<Rightarrow> market_kline" where
  "demo_kline ms = \<lparr>mk_id = format_int ms, mk_exchange = ''binance'', mk_market_type = ''spot'',
     mk_event_type = ''kline'', mk_event_time = from_unix_milli ms, mk_symbol = ''BTCUSDT'',
     mk_interval = ''1m'', mk_open_time = from_unix_milli ms, mk_close_time = from_unix_milli ms,
     mk_open_price = 1, mk_high_price = 1, mk_low_price = 1, mk_close_price = 1, mk_base_volume = 1,
     mk_quote_volume = 1, mk_taker_base_volume = 1, mk_taker_quote_volume = 1, mk_trade_count = 1,
     mk_is_closed = True, mk_created_at = 0, mk_updated_at = 0\<rparr>"

theorem prune_keeps_newest_witness:
  "open_times_desc (in_series ''binance'' ''spot'' ''BTCUSDT'' ''1m'')
     (snd (DeleteOldKlines True ''binance'' ''spot'' ''BTCUSDT'' ''1m'' 1 (map demo_kline [1, 2, 3])))
   = map from_unix_milli [3, 2]"
proof -
  have "distinct (map kline_key (map demo_kline [1, 2, 3]))"
    by (simp add: kline_key_def demo_kline_def from_unix_milli_def)
  moreover have "open_times_desc (in_series ''binance'' ''spot'' ''BTCUSDT'' ''1m'') (map demo_kline [1, 2, 3])
      = map from_unix_milli [3, 2, 1]"
    by (simp add: open_times_desc_def in_series_def demo_kline_def from_unix_milli_def)
  ultimately show ?thesis
    using prune_keeps_newest [of "map demo_kline [1, 2, 3]" 1 "''binance''" "''spot''" "''BTCUSDT''" "''1m''"]
    by simp
qed

subsection \<open>Candle events\<close>

lemma insertKlineEvent_cases:
  obtains (undecoded) "decode_kline_event D body = None"
      "insertKlineEvent D now ok i body t = (Returned (Some IngestDecodeFailed), t)"
  | (nil) "decode_kline_event D body = Some None" "insertKlineEvent D now ok i body t = (Panicked, t)"
  | (stale) d where "decode_kline_event D body = Some (Some d)" "mk_event_time d + minute < now"
      "insertKlineEvent D now ok i body t = (Returned None, t)"
  | (refused) d e where "decode_kline_event D body = Some (Some d)" "now \<le> mk_event_time d + minute"
      "fst (Create_kline ok i d t) = Inl e"
      "insertKlineEvent D now ok i body t = (Returned (Some (IngestStoreFailed e)), t)"
  | (stored) d j t' where "decode_kline_event D body = Some (Some d)" "now \<le> mk_event_time d + minute"
      "Create_kline ok i d t = (Inr j, t')" "insertKlineEvent D now ok i body t = (Returned None, t')"
proof (cases "decode_kline_event D body")
  case None
  then show ?thesis by (intro undecoded) (simp_all add: insertKlineEvent_def)
next
  case (Some od)
  show ?thesis
  proof (cases od)
    case None
    with Some show ?thesis by (intro nil) (simp_all add: insertKlineEvent_def)
  next
    case od: (Some d)
    obtain r t' where put: "Create_kline ok i d t = (r, t')" by force
    show ?thesis
    proof (cases "mk_event_time d + minute < now")
      case True
      with Some od show ?thesis by (intro stale [of d]) (simp_all add: insertKlineEvent_def)
    next
      case False
      note here = Some od False put
      show ?thesis
      proof (cases r)
        case (Inl e)
        with here Create_kline_Inl [of ok i d t e] show ?thesis
          by (intro refused [of d e]) (simp_all add: insertKlineEvent_def)
      next
        case (Inr j)
        with here show ?thesis by (intro stored [of d j t']) (simp_all add: insertKlineEvent_def)
      qed
    qed
  qed
qed




definition demo_candle :: json where
  "demo_candle = JObj [(''data'', JObj [(''exchange'', JStr ''binance''), (''symbol'', JStr ''BTCUSDT''),
     (''event_time'', JStr ''2024-02-29T23:59:59Z''), (''close_price'', JStr ''5'')])]"






text \<open>
  Every outcome of the candle consumer but a stored candle leaves the table as it was: a body
  that does not decode, a database that refuses, a candle older than a minute, and the body
  \<open>null\<close>, on which the handler panics.
\<close>

theorem candle_event_outcomes:
  "(snd (insertKlineEvent D now ok i body t) = t \<or>
     (\<exists>d j. decode_kline_event D body = Some (Some d) \<and> now \<le> mk_event_time d + minute
        \<and> Create_kline ok i d t = (Inr j, snd (insertKlineEvent D now ok i body t))
        \<and> fst (insertKlineEvent D now ok i body t) = Returned None))
   \<and> (fst (insertKlineEvent D now ok i body t) = Panicked \<longleftrightarrow> parse_json body = Some JNull)"
proof -
  have nil: "decode_kline_event D body = Some None \<longleftrightarrow> parse_json body = Some JNull"
    by (auto simp: decode_kline_event_def split: option.splits json.splits)
  show ?thesis
  proof (cases rule: insertKlineEvent_cases [of D body now ok i t])
    case (stored d j u)
    then have "fst (insertKlineEvent D now ok i body t) = Returned None"
      "Create_kline ok i d t = (Inr j, snd (insertKlineEvent D now ok i body t))" by simp_all
    with stored(1,2) nil show ?thesis by auto
  qed (use nil in simp_all)
qed

subsection \<open>The reference prices\<close>

text \<open>What a market's reference price should be after a candle: the newer of the two, the later on a tie.\<close>

definition newest_price :: "market_kline \<Rightarrow> (rat \<times> gotime) option \<Rightarrow> rat \<times> gotime" where
  "newest_price d v =
     (case v of None \<Rightarrow> (mk_close_price d, mk_event_time d)
      | Some (p, et) \<Rightarrow> if mk_event_time d < et then (p, et) else (mk_close_price d, mk_event_time d))"

lemma price_at_UpsertKline:
  "fst (UpsertKline ok i now d t) = None \<Longrightarrow> price_at (snd (UpsertKline ok i now d t)) =
     (price_at t)(market_key d \<mapsto> newest_price d (price_at t (market_key d)))"
  by (rule ext) (auto simp: UpsertKline_price_at newest_price_def split: option.splits)

lemma handleKline_price_at:
  "price_at (snd (handleKline D now ok i body t)) =
     (case decode_with (market_kline_event_of D) body of
        None \<Rightarrow> price_at t
      | Some d \<Rightarrow> if fst (handleKline D now ok i body t) = Returned None
                  then (price_at t)(market_key d \<mapsto> newest_price d (price_at t (market_key d)))
                  else price_at t)"
proof (cases "decode_with (market_kline_event_of D) body")
  case (Some d)
  obtain e u where put: "UpsertKline ok i now d t = (e, u)" by force
  show ?thesis
  proof (cases e)
    case None
    with Some put price_at_UpsertKline [of ok i now d t] show ?thesis by (simp add: handleKline_def)
  next
    case (Some err)
    with put UpsertKline_fail [of ok i now d t err] \<open>decode_with _ _ = Some d\<close> show ?thesis
      by (simp add: handleKline_def)
  qed
qed (simp add: handleKline_def)

text \<open>
  C29: the table of reference prices, read as a map from a market to its price, is refined by the
  candle consumer: a consumed candle updates its own market to the newest price, everything else,
  a body that does not decode or a database that refuses, leaves the map as it was.
\<close>

theorem price_consumer_refines_map:
  "price_at (snd (handleKline D now ok i body t)) =
     (case decode_with (market_kline_event_of D) body of
        None \<Rightarrow> price_at t
      | Some d \<Rightarrow> if fst (handleKline D now ok i body t) = Returned None
                  then (price_at t)(market_key d \<mapsto> newest_price d (price_at t (market_key d)))
                  else price_at t)"
  by (rule handleKline_price_at)

lemma handleKline_forward:
  assumes "price_at t k = Some (p, et)"
  shows "\<exists>p' et'. price_at (snd (handleKline D now ok i body t)) k = Some (p', et') \<and> et \<le> et'"
  using assms
  by (auto simp: handleKline_price_at newest_price_def split: option.splits)

definition handle_klines ::
  "decimal_ops \<Rightarrow> (gotime \<times> bool \<times> string \<times> string) list \<Rightarrow> price_table \<Rightarrow> price_table" where
  "handle_klines D ms t = foldl (\<lambda>t (now, ok, i, body). snd (handleKline D now ok i body t)) t ms"

lemma handle_klines_simps [simp]:
  "handle_klines D [] t = t"
  "handle_klines D ((now, ok, i, body) # ms) t = handle_klines D ms (snd (handleKline D now ok i body t))"
  by (simp_all add: handle_klines_def)

text \<open>
  A market that has a reference price keeps one and its event time never goes back, whatever
  messages arrive, in whatever order, late, repeated or damaged.
\<close>

theorem prices_never_go_back:
  assumes "price_at t k = Some (p, et)"
  shows "\<exists>p' et'. price_at (handle_klines D ms t) k = Some (p', et') \<and> et \<le> et'"
  using assms
proof (induction ms arbitrary: t p et)
  case Nil
  then show ?case by simp
next
  case (Cons m ms)
  obtain now ok i body where m: "m = (now, ok, i, body)" by (cases m)
  from handleKline_forward [OF Cons.prems, of D now ok i body] obtain p1 et1
    where "price_at (snd (handleKline D now ok i body t)) k = Some (p1, et1)" "et \<le> et1" by blast
  with Cons.IH [OF this(1)] show ?case by (fastforce simp: m)
qed

definition demo_price :: price_reference where
  "demo_price = \<lparr>pr_id = ''p'', pr_exchange = ''binance'', pr_market_type = [], pr_symbol = ''BTCUSDT'',
     pr_price = 6, pr_event_time = 1709251199000000001, pr_updated_at = 0\<rparr>"

theorem prices_never_go_back_witness:
  "\<exists>p' et'. price_at (handle_klines ref_decimal [(7, True, ''q'', write_json demo_candle), (8, True, ''r'', ''x'')]
      [demo_price]) (''binance'', [], ''BTCUSDT'') = Some (p', et') \<and> 1709251199000000001 \<le> et'"
  by (rule prices_never_go_back [of _ _ 6]) (simp add: price_at_def demo_price_def price_key_def)

subsection \<open>The backfill\<close>

lemma backfill_job_of_Inr:
  assumes "backfill_job_of deps ready req = Inr job"
  shows "bj_deps job = deps" "bj_symbol job = to_upper (trim_space (bf_symbol req))"
    "bj_interval job = trim_space (bf_interval req)"
    "bj_start job = unix_milli (bf_start req)" "bj_end job = unix_milli (bf_end req)"
    "0 < bj_start job" "bj_start job < bj_end job"
  using assms by (auto simp: backfill_job_of_def Let_def split: if_splits)

lemma backfill_filled:
  assumes "backfillMarketKlines D F env fuel deps ready req t = Some (r, t')"
  shows "t' = t \<or> (\<exists>job. backfill_job_of deps ready req = Inr job \<and> filled job t t')"
  using assms
  by (auto simp: backfillMarketKlines_def split: sum.splits option.splits dest!: backfill_loop_table)

text \<open>
  C24: a finished backfill of Binance candles, with or without an error, has added candles of the
  requested market, symbol and interval only, opening inside the requested window; no stored candle
  is lost and the table keeps its constraints.
\<close>

theorem backfill_fills_its_window:
  assumes "BinanceBackfillMarketKlines D F C v env fuel ready req t = Some (r, t')" "kline_table_ok t"
  shows "kline_table_ok t' \<and> kline_key ` set t \<subseteq> kline_key ` set t'
    \<and> kline_key ` set t' - kline_key ` set t \<subseteq>
        {(ExchangeBinance, effectiveMarketType (resolveMarketType C (bf_market req)),
          to_upper (trim_space (bf_symbol req)), trim_space (bf_interval req), from_unix_milli ms) | ms.
         unix_milli (bf_start req) \<le> ms \<and> ms < unix_milli (bf_end req)}"
proof -
  let ?deps = "\<lparr>bd_exchange = ExchangeBinance, bd_market = resolveMarketType C (bf_market req),
    bd_base_url = baseURLByMarketType C (resolveMarketType C (bf_market req)),
    bd_kline_path = klinePathByMarketType (resolveMarketType C (bf_market req)),
    bd_client_ready = True, bd_mapping = vn_binance_mapping v\<rparr>"
  from assms(1) have "backfillMarketKlines D F env fuel ?deps ready req t = Some (r, t')"
    by (simp add: BinanceBackfillMarketKlines_def Let_def)
  from backfill_filled [OF this] show ?thesis
  proof (elim disjE exE conjE)
    assume "t' = t"
    with assms(2) show ?thesis by simp
  next
    fix job assume job: "backfill_job_of ?deps ready req = Inr job" and "filled job t t'"
    with assms(2) backfill_job_of_Inr [OF job] show ?thesis
      unfolding filled_def window_keys_def by auto
  qed
qed

text \<open>
  C23: when the exchange honours the start time of a request, a backfill ends: one batch for each
  millisecond of the window is enough, and any more change nothing.
\<close>

theorem backfill_terminates:
  assumes "\<forall>job. backfill_job_of deps ready req = Inr job \<longrightarrow> honours_start F env job"
    and "nat (unix_milli (bf_end req) - unix_milli (bf_start req)) < fuel"
  shows "\<exists>r. \<forall>more. backfillMarketKlines D F env (fuel + more) deps ready req t = Some r"
proof (cases "backfill_job_of deps ready req")
  case (Inl e)
  then show ?thesis by (simp add: backfillMarketKlines_def)
next
  case (Inr job)
  let ?run = "\<lparr>br_inserted = 0, br_last = 0, br_table = t\<rparr>"
  from assms Inr backfill_job_of_Inr [OF Inr]
  have "backfill_loop D F env job fuel 0 (bj_start job) ?run \<noteq> None"
    by (intro backfill_loop_ends) auto
  then obtain r where "backfill_loop D F env job fuel 0 (bj_start job) ?run = Some r" by blast
  then have "backfill_loop D F env job (fuel + more) 0 (bj_start job) ?run = Some r" for more
    by (rule backfill_loop_more_fuel) simp
  with Inr show ?thesis by (simp add: backfillMarketKlines_def)
qed

text \<open>A candle row opening at the fifth millisecond, and an exchange that always answers with rows of it.\<close>

definition demo_row :: "json list" where
  "demo_row = [JNum ''5'', JStr ''1'', JStr ''1'', JStr ''1'', JStr ''1'', JStr ''1'', JNum ''6'',
     JStr ''1'', JNum ''1'', JStr ''1'', JStr ''1'', JStr ''0'']"

definition constant_env :: "nat \<Rightarrow> backfill_env" where
  "constant_env n =
     \<lparr>be_net = (\<lambda>_ _. Some \<lparr>hr_status = 200, hr_body = write_json (JArr (replicate n (JArr demo_row)))\<rparr>),
      be_now = (\<lambda>_. 0), be_db = (\<lambda>_. True), be_id = format_int \<circ> int\<rparr>"

lemma demo_row_numbers: "json_number ''5''" "json_number ''6''" "json_number ''1''"
proof -
  have "format_int 5 = ''5''" "format_int 6 = ''6''" "format_int 1 = ''1''" by code_simp+
  then show "json_number ''5''" "json_number ''6''" "json_number ''1''"
    using json_number_format_int [of 5] json_number_format_int [of 6] json_number_format_int [of 1] by simp_all
qed

lemma demo_row_valid: "json_valid (JArr demo_row)"
  by (simp add: demo_row_def demo_row_numbers)

lemma those_Somes: "those (map Some xs) = Some xs"
  by (induction xs) simp_all

lemma constant_env_rows:
  "fetchKlineRows (be_net (constant_env n) batch) deps s i startMs endMs = Inr (replicate n demo_row)"
proof -
  have "parse_json (write_json (JArr (replicate n (JArr demo_row)))) = Some (JArr (replicate n (JArr demo_row)))"
    by (rule parse_json_write) (induction n, use demo_row_valid in auto)
  moreover have "those (replicate n (Some demo_row)) = Some (replicate n demo_row)"
    using those_Somes [of "replicate n demo_row"] by simp
  ultimately have "kline_rows_of (write_json (JArr (replicate n (JArr demo_row)))) = Some (replicate n demo_row)"
    by (simp add: kline_rows_of_def)
  then show ?thesis
    by (simp add: fetchKlineRows_def constant_env_def Let_def)
qed

lemma demo_row_values:
  "asInt64 F (demo_row ! 0) = Some 5" "asInt64 F (demo_row ! 6) = Some 6"
  "asInt32 F (demo_row ! 8) = Some 1" "length demo_row = 12"
  "\<forall>i\<in>{1, 2, 3, 4, 5, 7, 9, 10}. ref_parse (asString F (demo_row ! i)) = Some 1"
proof -
  have "parse_int64 ''5'' = Some 5" "parse_int64 ''6'' = Some 6" "parse_int64 ''1'' = Some 1"
    "ref_parse ''1'' = Some 1"
    by code_simp+
  then show "asInt64 F (demo_row ! 0) = Some 5" "asInt64 F (demo_row ! 6) = Some 6"
    "asInt32 F (demo_row ! 8) = Some 1" "length demo_row = 12"
    "\<forall>i\<in>{1, 2, 3, 4, 5, 7, 9, 10}. ref_parse (asString F (demo_row ! i)) = Some 1"
    by (simp_all add: demo_row_def asInt64_def asInt32_def asString_def exact_int_def)
qed

lemma build_demo_row:
  "\<exists>k. kline_key k = (e, effectiveMarketType m, s, i, from_unix_milli 5)
     \<and> unix_milli (mk_open_time k) = 5 \<and> buildMarketKlineFromRow ref_decimal F e m s i demo_row now = Inr k"
  using demo_row_values
  by (simp add: buildMarketKlineFromRow_def Let_def kline_key_def)

definition demo_window :: backfill_request where
  "demo_window = \<lparr>bf_market = ''spot'', bf_symbol = ''BTCUSDT'', bf_interval = ''1m'',
     bf_start = from_unix_milli 1, bf_end = from_unix_milli 10\<rparr>"

definition demo_feed :: backfill_deps where
  "demo_feed = \<lparr>bd_exchange = ''binance'', bd_market = ''spot'', bd_base_url = [], bd_kline_path = [],
     bd_client_ready = True, bd_mapping = None\<rparr>"

definition quiet_env :: backfill_env where
  "quiet_env = (constant_env 1)\<lparr>be_net := \<lambda>_ _. Some \<lparr>hr_status = 200, hr_body = ''[]''\<rparr>\<rparr>"

definition plain_floats :: float_lib where
  "plain_floats = \<lparr>fl_int = (\<lambda>_. 0), fl_show = id, fl_print = id\<rparr>"

theorem backfill_terminates_witness:
  "\<exists>r. \<forall>more. backfillMarketKlines ref_decimal plain_floats quiet_env (10 + more) demo_feed True demo_window [] = Some r"
proof (rule backfill_terminates)
  have "kline_rows_of ''[]'' = Some []" by code_simp
  then show "\<forall>job. backfill_job_of demo_feed True demo_window = Inr job \<longrightarrow> honours_start plain_floats quiet_env job"
    by (simp add: honours_start_def fetchKlineRows_def quiet_env_def Let_def)
qed (simp add: demo_window_def)

lemma demo_trimmed: "to_upper (trim_space ''BTCUSDT'') = ''BTCUSDT''" "trim_space ''1m'' = ''1m''"
  by code_simp+

lemma demo_job:
  "backfill_job_of deps True demo_window = Inr job \<Longrightarrow>
     bj_deps job = deps \<and> bj_symbol job = ''BTCUSDT'' \<and> bj_interval job = ''1m'' \<and> bj_start job = 1 \<and> bj_end job = 10"
  using backfill_job_of_Inr [of deps True demo_window job] by (simp add: demo_window_def demo_trimmed)

lemma demo_job_exists:
  assumes "bd_client_ready deps"
  obtains job where "backfill_job_of deps True demo_window = Inr job"
  using assms by (auto simp: backfill_job_of_def Let_def demo_window_def demo_trimmed)

lemma demo_backfill:
  assumes "bd_client_ready deps"
  shows "\<exists>t'. backfillMarketKlines ref_decimal F (constant_env 1) 1 deps True demo_window [] = Some ((1, None), t')"
proof -
  obtain job where job: "backfill_job_of deps True demo_window = Inr job" using demo_job_exists [OF assms] .
  note fields = demo_job [OF job]
  obtain k where k: "unix_milli (mk_open_time k) = 5"
    "buildMarketKlineFromRow ref_decimal F (bd_exchange deps) (bd_market deps) ''BTCUSDT'' ''1m'' demo_row 0 = Inr k"
    using build_demo_row by blast
  have "be_now (constant_env 1) n = 0" "be_db (constant_env 1) n" for n by (simp_all add: constant_env_def)
  with k fields show ?thesis
    by (simp add: backfillMarketKlines_def job constant_env_rows Create_kline_def Let_def)
qed

theorem backfill_fills_its_window_witness:
  "\<exists>t'. kline_table_ok t' \<and> kline_key ` set t' \<subseteq>
     {(''binance'', effectiveMarketType (resolveMarketType demo_binance (bf_market demo_window)),
       to_upper (trim_space (bf_symbol demo_window)), trim_space (bf_interval demo_window), from_unix_milli ms) | ms.
      unix_milli (bf_start demo_window) \<le> ms \<and> ms < unix_milli (bf_end demo_window)}"
proof -
  obtain t' where run: "BinanceBackfillMarketKlines ref_decimal plain_floats
      demo_binance demo_venue (constant_env 1) 1 True demo_window [] = Some ((1, None), t')"
    using demo_backfill unfolding BinanceBackfillMarketKlines_def Let_def by fastforce
  from backfill_fills_its_window [OF run] show ?thesis
    by (intro exI [of _ t']) (simp add: kline_table_ok_def)
qed

text \<open>
  Without that, a backfill may run for ever: over an exchange that answers every request with
  the same full batch of candles, ignoring the start it was asked for, the cursor never passes the
  newest of them and no number of batches is enough.
\<close>

theorem backfill_may_not_end:
  "backfillMarketKlines ref_decimal F (constant_env 1000) fuel demo_feed True demo_window [demo_kline 5] = None"
proof -
  obtain job where job: "backfill_job_of demo_feed True demo_window = Inr job"
    using demo_job_exists [of demo_feed] by (auto simp: demo_feed_def)
  note fields = demo_job [OF job]
  let ?key = "(''binance'', effectiveMarketType ''spot'', ''BTCUSDT'', ''1m'', from_unix_milli 5)"
  have feed: "bd_exchange demo_feed = ''binance''" "bd_market demo_feed = ''spot''" by (simp_all add: demo_feed_def)
  have spot: "effectiveMarketType ''spot'' = ''spot''" by code_simp
  have batch: "\<exists>run'. ?key \<in> kline_key ` set (br_table run') \<and> br_last run' = 5 \<and>
      backfill_rows ref_decimal F (constant_env 1000) job now (replicate 1000 demo_row) (run\<lparr>br_last := 0\<rparr>)
        = (None, run')" if "?key \<in> kline_key ` set (br_table run)" for now run
    using backfill_rows_repeated [of ?key 5 ref_decimal F job demo_row "constant_env 1000" "run\<lparr>br_last := 0\<rparr>" 1000 now]
      that fields feed build_demo_row
    by (simp add: constant_env_def)
  have "?key \<in> kline_key ` set [demo_kline 5]"
    unfolding spot by (simp add: demo_kline_def kline_key_def)
  moreover have "bj_start job < bj_end job" "(0 :: int) < 5" "5 + 1 < bj_end job" using fields by simp_all
  ultimately have "backfill_loop ref_decimal F (constant_env 1000) job fuel 0 (bj_start job)
      \<lparr>br_inserted = 0, br_last = 0, br_table = [demo_kline 5]\<rparr> = None"
    by (intro backfill_loop_stuck [where ms = 5 and rows = "replicate 1000 demo_row"
          and P = "\<lambda>t. ?key \<in> kline_key ` set t"]) (use constant_env_rows batch in auto)
  then show ?thesis by (simp add: backfillMarketKlines_def job)
qed

end
