(* ===== verification/MappingProps.thy ===== *)
theory MappingProps
  imports KlineSubs ExchangeProps
begin

text \<open>
  The properties of the codes, symbols and subscriptions the adapters translate, and of the filters
  of the order reports.
\<close>

subsection \<open>Codes\<close>

text \<open>
  An order type or side that an exchange knows is read back from the code it is sent as, on
  Binance for both markets and on Tokocrypto.
\<close>

theorem order_codes_round_trip:
  assumes "t = OrderTypeLimit \<or> t = OrderTypeMarket" "s = OrderSideBuy \<or> s = OrderSideSell"
    "f = OrderSideLong \<or> f = OrderSideShort"
  shows "bind_res (binanceOrderTypeCode t) binanceOrderTypeFromCode = Inr t
    \<and> bind_res (tokocryptoOrderTypeCode t) tokocryptoOrderTypeFromCode = Inr t
    \<and> bind_res (binanceOrderSideCode s MarketTypeSpot) binanceOrderSideFromCode = Inr s
    \<and> bind_res (tokocryptoOrderSideCode s) tokocryptoOrderSideFromCode = Inr s
    \<and> bind_res (binanceOrderSideCode f MarketTypeFutures) futuresSideFromCode = Inr f
    \<and> tokocryptoOrderSideCode f = Inl (UnsupportedOrderSide f)"
  using binance_types.round_trip [OF assms(1)] toko_types.round_trip [OF assms(1)]
    binance_sides.round_trip [OF assms(2)] toko_sides.round_trip [OF assms(2)]
    binance_futures_sides.round_trip [OF assms(3)] toko_futures_rejected [OF assms(3)]
  by blast

theorem order_codes_round_trip_witness:
  "bind_res (binanceOrderTypeCode ''LIMIT'') binanceOrderTypeFromCode = Inr ''LIMIT''
    \<and> bind_res (binanceOrderSideCode ''LONG'' MarketTypeFutures) futuresSideFromCode = Inr ''LONG''"
  using order_codes_round_trip [of "''LIMIT''" "''BUY''" "''LONG''"] by simp

text \<open>
  A client order id for Binance is accepted unchanged when it is normalised again, has one to 36
  of the characters the exchange allows, and is the start of the request id without its blanks and dashes.
\<close>

theorem binance_client_id_canonical:
  assumes "normalizeBinanceClientID raw = Inr c"
  shows "normalizeBinanceClientID c = Inr c \<and> c \<noteq> [] \<and> length c \<le> 36 \<and> list_all client_id_char c
    \<and> c = take 36 (remove_char (trim_space raw) CHR ''-'')"
  using normalizeBinanceClientID_idem [OF assms] normalizeBinanceClientID_Inr [OF assms] by blast

theorem binance_client_id_canonical_witness:
  "normalizeBinanceClientID ''reqa'' = Inr ''reqa'' \<and> list_all client_id_char ''reqa''"
proof -
  have "normalizeBinanceClientID '' req-a'' = Inr ''reqa''" by code_simp
  from binance_client_id_canonical [OF this] show ?thesis by blast
qed

subsection \<open>Symbols\<close>

text \<open>
  C37: over an index built from mapping rows that do not contradict each other, an internal symbol that
  a row of the market names comes back, up to case and blanks, from its translation to the exchange's
  symbol for candles, and two such symbols never share one.
\<close>

theorem candle_symbols_round_trip:
  assumes "covered_by kline_entry exchange mt rows (norm_upper s)" "covered_by kline_entry exchange mt rows (norm_upper u)"
  shows "resolveInternalSymbolFromKlineMapping (mapped_deps exchange mt rows)
       (resolveExchangeKlineSymbolFromMapping (mapped_deps exchange mt rows) s) = norm_upper s
    \<and> (resolveExchangeKlineSymbolFromMapping (mapped_deps exchange mt rows) s =
         resolveExchangeKlineSymbolFromMapping (mapped_deps exchange mt rows) u
       \<longleftrightarrow> norm_upper s = norm_upper u)"
  using kline_symbols.round_trip [OF assms(1)] kline_symbols.out_inj [OF assms]
    kline_symbols.out_norm [of exchange mt rows s] kline_symbols.out_norm [of exchange mt rows u]
  by fastforce

definition demo_mapping :: "string \<Rightarrow> string \<Rightarrow> symbol_mapping" where
  "demo_mapping s k = \<lparr>sm_id = s, sm_exchange = ''binance'', sm_market_type = ''spot'', sm_symbol = s,
     sm_kline_symbol = k, sm_order_symbol = k, sm_created_at = 0, sm_updated_at = 0\<rparr>"

lemma demo_covered:
  "covered_by kline_entry ''binance'' ''spot'' [demo_mapping ''BTC_USDT'' ''btcusdt'', demo_mapping ''ETH_USDT'' ''ethusdt''] (norm_upper ''btc_usdt'')"
  unfolding covered_by_def agree_def demo_mapping_def by code_simp

theorem candle_symbols_round_trip_witness:
  "resolveInternalSymbolFromKlineMapping
      (mapped_deps ''binance'' ''spot'' [demo_mapping ''BTC_USDT'' ''btcusdt'', demo_mapping ''ETH_USDT'' ''ethusdt''])
      (resolveExchangeKlineSymbolFromMapping
        (mapped_deps ''binance'' ''spot'' [demo_mapping ''BTC_USDT'' ''btcusdt'', demo_mapping ''ETH_USDT'' ''ethusdt''])
        ''btc_usdt'') = norm_upper ''btc_usdt''"
  using candle_symbols_round_trip [OF demo_covered demo_covered] by blast

subsection \<open>Subscriptions\<close>

text \<open>
  The spot and the futures stream of an exchange divide its subscriptions between them: every one is
  kept by exactly one of the two, with a payload and its own interval, under its internal symbol.
\<close>

theorem subscriptions_are_split:
  assumes "\<forall>sub\<in>set subs. ks_exchange sub = rd_exchange deps"
  shows "length (normalizeExchangeSubscriptions (deps\<lparr>rd_market := MarketTypeSpot\<rparr>) subs)
      + length (normalizeExchangeSubscriptions (deps\<lparr>rd_market := MarketTypeFutures\<rparr>) subs) = length subs
    \<and> (\<forall>sub'\<in>set (normalizeExchangeSubscriptions deps subs).
         ks_payload sub' \<noteq> [] \<and> ks_market_type sub' = effectiveMarketType (rd_market deps)
         \<and> (\<exists>sub\<in>set subs. ks_symbol sub' = resolveInternalSymbolFromKlineMapping deps (ks_symbol sub)
              \<and> ks_interval sub' = ks_interval sub))"
proof (intro conjI ballI)
  show "length (normalizeExchangeSubscriptions (deps\<lparr>rd_market := MarketTypeSpot\<rparr>) subs)
      + length (normalizeExchangeSubscriptions (deps\<lparr>rd_market := MarketTypeFutures\<rparr>) subs) = length subs"
    using assms by (rule normalize_split_length)
  fix sub' assume "sub' \<in> set (normalizeExchangeSubscriptions deps subs)"
  then obtain sub where "sub \<in> set subs" "normalize_subscription deps sub = Some sub'"
    by (auto simp: normalizeExchangeSubscriptions_def List.map_filter_def)
  with assms normalize_subscription_Some [of deps sub sub']
  show "ks_payload sub' \<noteq> []" "ks_market_type sub' = effectiveMarketType (rd_market deps)"
    "\<exists>sub\<in>set subs. ks_symbol sub' = resolveInternalSymbolFromKlineMapping deps (ks_symbol sub)
       \<and> ks_interval sub' = ks_interval sub"
    by blast+
qed

definition demo_sub :: "string \<Rightarrow> kline_subscription" where
  "demo_sub mt = \<lparr>ks_id = [], ks_exchange = ''binance'', ks_market_type = mt, ks_symbol = ''BTCUSDT'',
     ks_interval = ''1m'', ks_payload = [], ks_max_kline_data = 5, ks_created_at = 0, ks_updated_at = 0\<rparr>"

definition demo_resync :: resync_deps where
  "demo_resync = \<lparr>rd_exchange = ''binance'', rd_market = ''spot'', rd_mapping = None\<rparr>"

theorem subscriptions_are_split_witness:
  "length (normalizeExchangeSubscriptions (demo_resync\<lparr>rd_market := MarketTypeSpot\<rparr>) (map demo_sub [''spot'', ''futures'']))
    + length (normalizeExchangeSubscriptions (demo_resync\<lparr>rd_market := MarketTypeFutures\<rparr>) (map demo_sub [''spot'', ''futures'']))
   = 2"
  using subscriptions_are_split [of "map demo_sub [''spot'', ''futures'']" demo_resync]
  by (simp add: demo_sub_def demo_resync_def)

subsection \<open>Report filters\<close>

text \<open>Conditions with numbered placeholders: each added one carries the position of its argument.\<close>

definition numbered :: "nat \<Rightarrow> string list \<Rightarrow> string list" where
  "numbered first conds = map2 (\<lambda>c k. c @ CHR ''$'' # format_int (int k)) conds [first ..< first + length conds]"

lemma numbered_snoc:
  "numbered first (conds @ [c]) = numbered first conds @ [c @ CHR ''$'' # format_int (int (first + length conds))]"
  by (simp add: numbered_def)

lemma numbered_Nil [simp]: "numbered first [] = []"
  by (simp add: numbered_def)

text \<open>The conditions that have an argument, added one after another.\<close>

definition given :: "(string \<times> sql_arg option) list \<Rightarrow> (string \<times> sql_arg) list" where
  "given cas = map (\<lambda>(c, a). (c, the a)) (filter (\<lambda>(c, a). a \<noteq> None) cas)"

lemma given_snoc: "given (cas @ [(c, a)]) = given cas @ (case a of None \<Rightarrow> [] | Some x \<Rightarrow> [(c, x)])"
  by (simp add: given_def split: option.splits)

lemma add_conditions:
  "foldl (\<lambda>ca (c, a). add_condition c a ca) (base, args) cas =
     (base @ numbered (Suc (length args)) (map fst (given cas)), args @ map snd (given cas))"
proof (induction cas rule: rev_induct)
  case Nil
  then show ?case by (simp add: given_def)
next
  case (snoc ca cas)
  then show ?case
    by (cases ca; cases "snd ca") (simp_all add: given_snoc add_condition_def numbered_snoc)
qed

text \<open>
  The filter of the signal report appends its conditions to the fixed ones and its arguments to
  the caller's, and numbers every placeholder by the position of its argument; the arguments are the
  bounds of the time window and the filters that are not blank, in that order.
\<close>

theorem report_placeholders_match:
  "\<exists>base conds. fst (signalPerformanceWhere f args) =
       join_with '' AND '' (base @ numbered (Suc (length args)) conds)
     \<and> snd (signalPerformanceWhere f args) = args @ report_args f \<and> length conds = length (report_args f)"
proof -
  let ?cas = "[(''COALESCE(oh.filled_at, oh.created_at) >= '', map_option ArgTime (rf_start f)),
    (''COALESCE(oh.filled_at, oh.created_at) <= '', map_option ArgTime (rf_end f)),
    (''oh.strategy_id = '', nonblank (rf_strategy f)), (''oh.symbol = '', nonblank (rf_symbol f))]"
  obtain base where "signalPerformanceWhere f args =
      (let ca = foldl (\<lambda>ca (c, a). add_condition c a ca) (base, args) ?cas
       in (join_with '' AND '' (fst ca), snd ca))"
    unfolding signalPerformanceWhere_def Let_def by simp
  then have "signalPerformanceWhere f args =
      (join_with '' AND '' (base @ numbered (Suc (length args)) (map fst (given ?cas))), args @ map snd (given ?cas))"
    unfolding add_conditions Let_def by simp
  moreover have "length (given ?cas) = length (report_args f)"
    by (simp add: given_def report_args_def split: option.splits)
  ultimately show ?thesis
    using signalPerformanceWhere_args [of f args] by (metis fst_conv length_map)
qed

end
