(* ===== verification/AuthStore.thy ===== *)
theory AuthStore
  imports OrderStore "HOL-Library.Char_ord" "HOL-Library.List_Lexorder"
begin

text \<open>
  The tables of the dashboard's users, roles, permissions and pages with their repository
  (\<open>internal/repository/api_auth.repository.go\<close>). Each call takes a flag that says whether the
  database answers; the statements of a transaction take effect together or not at all, so one flag
  covers a transaction. Rows deleted by a foreign key's \<open>ON DELETE CASCADE\<close> go with the row they
  refer to. Names are sorted by bytes, the database's collation being a setting. The paginated
  lists are in \<open>Pagination\<close>.
\<close>

record api_user =
  us_id :: string
  us_email :: string
  us_name :: string
  us_password_hash :: string
  us_active :: bool
  us_last_login_at :: null_time
  us_created_at :: gotime
  us_updated_at :: gotime

record api_role =
  ro_id :: string
  ro_name :: string
  ro_description :: string
  ro_created_at :: gotime
  ro_updated_at :: gotime

record api_permission =
  pe_id :: string
  pe_name :: string
  pe_description :: string
  pe_created_at :: gotime

record dashboard_page =
  dp_id :: string
  dp_resource_key :: string
  dp_parent_key :: string
  dp_label :: string
  dp_description :: string
  dp_short_description :: string
  dp_icon :: string
  dp_path :: string
  dp_read_permission :: string
  dp_write_permission :: string
  dp_sort_order :: int
  dp_visible :: bool
  dp_created_at :: gotime
  dp_updated_at :: gotime

record auth_db =
  ad_users :: "api_user list"
  ad_roles :: "api_role list"
  ad_permissions :: "api_permission list"
  ad_user_roles :: "(string \<times> string) list"        \<comment> \<open>user id, role id\<close>
  ad_role_permissions :: "(string \<times> string) list"  \<comment> \<open>role id, permission id\<close>
  ad_pages :: "dashboard_page list"

subsection \<open>Links\<close>

text \<open>\<open>INSERT ... SELECT ... ON CONFLICT DO NOTHING\<close> for one name: each row found is linked once.\<close>

definition link :: "string \<Rightarrow> string list \<Rightarrow> (string \<times> string) list \<Rightarrow> (string \<times> string) list" where
  "link i targets l = l @ filter (\<lambda>p. p \<notin> set l) (map (Pair i) (remdups targets))"

definition link_role :: "auth_db \<Rightarrow> string \<Rightarrow> string \<Rightarrow> (string \<times> string) list \<Rightarrow> (string \<times> string) list" where
  "link_role db userID roleName l =
     link userID (map ro_id (filter (\<lambda>r. ro_name r = roleName) (ad_roles db))) l"

definition link_permission :: "auth_db \<Rightarrow> string \<Rightarrow> string \<Rightarrow> (string \<times> string) list \<Rightarrow> (string \<times> string) list" where
  "link_permission db roleID permissionName l =
     link roleID (map pe_id (filter (\<lambda>p. pe_name p = permissionName) (ad_permissions db))) l"

definition unlink :: "string \<Rightarrow> (string \<times> string) list \<Rightarrow> (string \<times> string) list" where
  "unlink i l = filter (\<lambda>p. fst p \<noteq> i) l"

definition unlink_target :: "string \<Rightarrow> (string \<times> string) list \<Rightarrow> (string \<times> string) list" where
  "unlink_target i l = filter (\<lambda>p. snd p \<noteq> i) l"

definition targets_of :: "string \<Rightarrow> (string \<times> string) list \<Rightarrow> string list" where
  "targets_of i l = map snd (filter (\<lambda>p. fst p = i) l)"

subsection \<open>Users\<close>

definition CountUsers :: "bool \<Rightarrow> auth_db \<Rightarrow> db_error + nat" where
  "CountUsers db_ok db = (if \<not> db_ok then Inl DbFault else Inr (length (ad_users db)))"

text \<open>The caller's struct gets the drawn id and the two times.\<close>

definition CreateUser :: "bool \<Rightarrow> string \<Rightarrow> gotime \<Rightarrow> api_user \<Rightarrow> string list \<Rightarrow> auth_db
    \<Rightarrow> (db_error + api_user) \<times> auth_db" where
  "CreateUser db_ok new_id now user roleNames db =
     (if \<not> db_ok then (Inl DbFault, db)
      else if new_id \<in> us_id ` set (ad_users db) \<or> us_email user \<in> us_email ` set (ad_users db)
      then (Inl UniqueViolation, db)
      else (let row = user\<lparr>us_id := new_id, us_last_login_at := no_time, us_created_at := now, us_updated_at := now\<rparr>
            in (Inr (user\<lparr>us_id := new_id, us_created_at := now, us_updated_at := now\<rparr>),
                db\<lparr>ad_users := ad_users db @ [row],
                   ad_user_roles := fold (link_role db new_id) roleNames (ad_user_roles db)\<rparr>)))"

definition GetUserByEmail :: "bool \<Rightarrow> string \<Rightarrow> auth_db \<Rightarrow> db_error + api_user" where
  "GetUserByEmail db_ok email db =
     (if \<not> db_ok then Inl DbFault
      else of_option ErrNoRows (find (\<lambda>u. us_email u = email) (ad_users db)))"

definition GetUserByID :: "bool \<Rightarrow> string \<Rightarrow> auth_db \<Rightarrow> db_error + api_user" where
  "GetUserByID db_ok i db =
     (if \<not> db_ok then Inl DbFault else of_option ErrNoRows (find (\<lambda>u. us_id u = i) (ad_users db)))"

text \<open>\<open>FindUserByID\<close> does not select the password hash.\<close>

definition FindUserByID :: "bool \<Rightarrow> string \<Rightarrow> auth_db \<Rightarrow> db_error + api_user" where
  "FindUserByID db_ok i db =
     res_map (\<lambda>u. u\<lparr>us_password_hash := []\<rparr>) (GetUserByID db_ok i db)"

definition UpdateLastLogin :: "bool \<Rightarrow> gotime \<Rightarrow> string \<Rightarrow> auth_db \<Rightarrow> db_error option \<times> auth_db" where
  "UpdateLastLogin db_ok now i db =
     (if \<not> db_ok then (Some DbFault, db)
      else (None, db\<lparr>ad_users := map (\<lambda>u. if us_id u = i
        then u\<lparr>us_last_login_at := some_time now, us_updated_at := now\<rparr> else u) (ad_users db)\<rparr>))"

definition UpdateUserProfile :: "bool \<Rightarrow> gotime \<Rightarrow> string \<Rightarrow> string \<Rightarrow> string \<Rightarrow> auth_db
    \<Rightarrow> db_error option \<times> auth_db" where
  "UpdateUserProfile db_ok now i name passwordHash db =
     (if \<not> db_ok then (Some DbFault, db)
      else if i \<notin> us_id ` set (ad_users db) then (Some ErrNoRows, db)
      else (None, db\<lparr>ad_users := map (\<lambda>u. if us_id u = i
        then u\<lparr>us_name := name, us_updated_at := now,
               us_password_hash := (if passwordHash \<noteq> [] then passwordHash else us_password_hash u)\<rparr>
        else u) (ad_users db)\<rparr>))"

text \<open>The role names are \<open>None\<close> for a \<open>nil\<close> slice, which leaves the user's roles.\<close>

definition UpdateUser :: "bool \<Rightarrow> gotime \<Rightarrow> api_user \<Rightarrow> string list option \<Rightarrow> auth_db
    \<Rightarrow> db_error option \<times> auth_db" where
  "UpdateUser db_ok now user roleNames db =
     (if \<not> db_ok then (Some DbFault, db)
      else if us_id user \<notin> us_id ` set (ad_users db) then (Some ErrNoRows, db)
      else if (\<exists>u\<in>set (ad_users db). us_id u \<noteq> us_id user \<and> us_email u = us_email user)
      then (Some UniqueViolation, db)
      else (None, db\<lparr>ad_users := map (\<lambda>u. if us_id u = us_id user
             then u\<lparr>us_email := us_email user, us_name := us_name user, us_active := us_active user,
                    us_updated_at := now,
                    us_password_hash := (if us_password_hash user \<noteq> [] then us_password_hash user
                                         else us_password_hash u)\<rparr>
             else u) (ad_users db),
           ad_user_roles := (case roleNames of None \<Rightarrow> ad_user_roles db
             | Some names \<Rightarrow> fold (link_role db (us_id user)) names (unlink (us_id user) (ad_user_roles db)))\<rparr>))"

definition DeleteUser :: "bool \<Rightarrow> string \<Rightarrow> auth_db \<Rightarrow> db_error option \<times> auth_db" where
  "DeleteUser db_ok i db =
     (if \<not> db_ok then (Some DbFault, db)
      else if i \<notin> us_id ` set (ad_users db) then (Some ErrNoRows, db)
      else (None, db\<lparr>ad_users := filter (\<lambda>u. us_id u \<noteq> i) (ad_users db),
                     ad_user_roles := unlink i (ad_user_roles db)\<rparr>))"

subsection \<open>Roles and permissions\<close>

definition ListRoleNamesByUserID :: "bool \<Rightarrow> string \<Rightarrow> auth_db \<Rightarrow> db_error + string list" where
  "ListRoleNamesByUserID db_ok userID db =
     (if \<not> db_ok then Inl DbFault
      else Inr (sort (map ro_name
        (filter (\<lambda>r. ro_id r \<in> set (targets_of userID (ad_user_roles db))) (ad_roles db)))))"

definition ListPermissionNamesByUserID :: "bool \<Rightarrow> string \<Rightarrow> auth_db \<Rightarrow> db_error + string list" where
  "ListPermissionNamesByUserID db_ok userID db =
     (if \<not> db_ok then Inl DbFault
      else Inr (sort (remdups (map pe_name
        (filter (\<lambda>p. \<exists>rid\<in>set (targets_of userID (ad_user_roles db)).
             (rid, pe_id p) \<in> set (ad_role_permissions db)) (ad_permissions db))))))"

definition ListPermissionNamesByRoleID :: "bool \<Rightarrow> string \<Rightarrow> auth_db \<Rightarrow> db_error + string list" where
  "ListPermissionNamesByRoleID db_ok roleID db =
     (if \<not> db_ok then Inl DbFault
      else Inr (sort (map pe_name
        (filter (\<lambda>p. pe_id p \<in> set (targets_of roleID (ad_role_permissions db))) (ad_permissions db)))))"

definition ListRoleNames :: "bool \<Rightarrow> auth_db \<Rightarrow> db_error + string list" where
  "ListRoleNames db_ok db = (if \<not> db_ok then Inl DbFault else Inr (sort (map ro_name (ad_roles db))))"

definition ListPermissionNames :: "bool \<Rightarrow> auth_db \<Rightarrow> db_error + string list" where
  "ListPermissionNames db_ok db =
     (if \<not> db_ok then Inl DbFault else Inr (sort (map pe_name (ad_permissions db))))"

definition FindRoleByID :: "bool \<Rightarrow> string \<Rightarrow> auth_db \<Rightarrow> db_error + api_role" where
  "FindRoleByID db_ok i db =
     (if \<not> db_ok then Inl DbFault else of_option ErrNoRows (find (\<lambda>r. ro_id r = i) (ad_roles db)))"

definition FindPermissionByID :: "bool \<Rightarrow> string \<Rightarrow> auth_db \<Rightarrow> db_error + api_permission" where
  "FindPermissionByID db_ok i db =
     (if \<not> db_ok then Inl DbFault else of_option ErrNoRows (find (\<lambda>p. pe_id p = i) (ad_permissions db)))"

definition replaceRolePermissions :: "auth_db \<Rightarrow> string \<Rightarrow> string list \<Rightarrow> (string \<times> string) list" where
  "replaceRolePermissions db roleID permissionNames =
     fold (link_permission db roleID) permissionNames (unlink roleID (ad_role_permissions db))"

definition CreateRole :: "bool \<Rightarrow> string \<Rightarrow> gotime \<Rightarrow> api_role \<Rightarrow> string list \<Rightarrow> auth_db
    \<Rightarrow> (db_error + api_role) \<times> auth_db" where
  "CreateRole db_ok new_id now role permissionNames db =
     (if \<not> db_ok then (Inl DbFault, db)
      else if new_id \<in> ro_id ` set (ad_roles db) \<or> ro_name role \<in> ro_name ` set (ad_roles db)
      then (Inl UniqueViolation, db)
      else (let row = role\<lparr>ro_id := new_id, ro_created_at := now, ro_updated_at := now\<rparr>
            in (Inr row, db\<lparr>ad_roles := ad_roles db @ [row],
                            ad_role_permissions := replaceRolePermissions db new_id permissionNames\<rparr>)))"

definition UpdateRole :: "bool \<Rightarrow> gotime \<Rightarrow> api_role \<Rightarrow> string list option \<Rightarrow> auth_db
    \<Rightarrow> db_error option \<times> auth_db" where
  "UpdateRole db_ok now role permissionNames db =
     (if \<not> db_ok then (Some DbFault, db)
      else if ro_id role \<notin> ro_id ` set (ad_roles db) then (Some ErrNoRows, db)
      else if (\<exists>r\<in>set (ad_roles db). ro_id r \<noteq> ro_id role \<and> ro_name r = ro_name role)
      then (Some UniqueViolation, db)
      else (None, db\<lparr>ad_roles := map (\<lambda>r. if ro_id r = ro_id role
             then r\<lparr>ro_name := ro_name role, ro_description := ro_description role, ro_updated_at := now\<rparr>
             else r) (ad_roles db),
           ad_role_permissions := (case permissionNames of None \<Rightarrow> ad_role_permissions db
             | Some names \<Rightarrow> replaceRolePermissions db (ro_id role) names)\<rparr>))"

definition DeleteRole :: "bool \<Rightarrow> string \<Rightarrow> auth_db \<Rightarrow> db_error option \<times> auth_db" where
  "DeleteRole db_ok i db =
     (if \<not> db_ok then (Some DbFault, db)
      else if i \<notin> ro_id ` set (ad_roles db) then (Some ErrNoRows, db)
      else (None, db\<lparr>ad_roles := filter (\<lambda>r. ro_id r \<noteq> i) (ad_roles db),
                     ad_user_roles := unlink_target i (ad_user_roles db),
                     ad_role_permissions := unlink i (ad_role_permissions db)\<rparr>))"

definition CreatePermission :: "bool \<Rightarrow> string \<Rightarrow> gotime \<Rightarrow> api_permission \<Rightarrow> auth_db
    \<Rightarrow> (db_error + api_permission) \<times> auth_db" where
  "CreatePermission db_ok new_id now permission db =
     (if \<not> db_ok then (Inl DbFault, db)
      else if new_id \<in> pe_id ` set (ad_permissions db) \<or> pe_name permission \<in> pe_name ` set (ad_permissions db)
      then (Inl UniqueViolation, db)
      else (let row = permission\<lparr>pe_id := new_id, pe_created_at := now\<rparr>
            in (Inr row, db\<lparr>ad_permissions := ad_permissions db @ [row]\<rparr>)))"

definition UpdatePermission :: "bool \<Rightarrow> api_permission \<Rightarrow> auth_db \<Rightarrow> db_error option \<times> auth_db" where
  "UpdatePermission db_ok permission db =
     (if \<not> db_ok then (Some DbFault, db)
      else if pe_id permission \<notin> pe_id ` set (ad_permissions db) then (Some ErrNoRows, db)
      else if (\<exists>p\<in>set (ad_permissions db). pe_id p \<noteq> pe_id permission \<and> pe_name p = pe_name permission)
      then (Some UniqueViolation, db)
      else (None, db\<lparr>ad_permissions := map (\<lambda>p. if pe_id p = pe_id permission
             then p\<lparr>pe_name := pe_name permission, pe_description := pe_description permission\<rparr>
             else p) (ad_permissions db)\<rparr>))"

definition DeletePermission :: "bool \<Rightarrow> string \<Rightarrow> auth_db \<Rightarrow> db_error option \<times> auth_db" where
  "DeletePermission db_ok i db =
     (if \<not> db_ok then (Some DbFault, db)
      else if i \<notin> pe_id ` set (ad_permissions db) then (Some ErrNoRows, db)
      else (None, db\<lparr>ad_permissions := filter (\<lambda>p. pe_id p \<noteq> i) (ad_permissions db),
                     ad_role_permissions := unlink_target i (ad_role_permissions db)\<rparr>))"

subsection \<open>Dashboard pages\<close>

definition FindDashboardPageByID :: "bool \<Rightarrow> string \<Rightarrow> auth_db \<Rightarrow> db_error + dashboard_page" where
  "FindDashboardPageByID db_ok i db =
     (if \<not> db_ok then Inl DbFault else of_option ErrNoRows (find (\<lambda>p. dp_id p = i) (ad_pages db)))"

text \<open>\<open>ORDER BY sort_order, label\<close>: a stable sort by the second key, then by the first.\<close>

definition ListVisibleDashboardPages :: "bool \<Rightarrow> auth_db \<Rightarrow> db_error + dashboard_page list" where
  "ListVisibleDashboardPages db_ok db =
     (if \<not> db_ok then Inl DbFault
      else Inr (sort_key dp_sort_order (sort_key dp_label (filter dp_visible (ad_pages db)))))"

definition CreateDashboardPage :: "bool \<Rightarrow> string \<Rightarrow> gotime \<Rightarrow> dashboard_page \<Rightarrow> auth_db
    \<Rightarrow> (db_error + dashboard_page) \<times> auth_db" where
  "CreateDashboardPage db_ok new_id now page db =
     (if \<not> db_ok then (Inl DbFault, db)
      else if new_id \<in> dp_id ` set (ad_pages db) \<or> dp_resource_key page \<in> dp_resource_key ` set (ad_pages db)
      then (Inl UniqueViolation, db)
      else (let row = page\<lparr>dp_id := new_id, dp_created_at := now, dp_updated_at := now\<rparr>
            in (Inr row, db\<lparr>ad_pages := ad_pages db @ [row]\<rparr>)))"

definition UpdateDashboardPage :: "bool \<Rightarrow> gotime \<Rightarrow> dashboard_page \<Rightarrow> auth_db \<Rightarrow> db_error option \<times> auth_db" where
  "UpdateDashboardPage db_ok now page db =
     (if \<not> db_ok then (Some DbFault, db)
      else if dp_id page \<notin> dp_id ` set (ad_pages db) then (Some ErrNoRows, db)
      else if (\<exists>p\<in>set (ad_pages db). dp_id p \<noteq> dp_id page \<and> dp_resource_key p = dp_resource_key page)
      then (Some UniqueViolation, db)
      else (None, db\<lparr>ad_pages := map (\<lambda>p. if dp_id p = dp_id page
             then page\<lparr>dp_created_at := dp_created_at p, dp_updated_at := now\<rparr> else p) (ad_pages db)\<rparr>))"

definition DeleteDashboardPage :: "bool \<Rightarrow> string \<Rightarrow> auth_db \<Rightarrow> db_error option \<times> auth_db" where
  "DeleteDashboardPage db_ok i db =
     (if \<not> db_ok then (Some DbFault, db)
      else if i \<notin> dp_id ` set (ad_pages db) then (Some ErrNoRows, db)
      else (None, db\<lparr>ad_pages := filter (\<lambda>p. dp_id p \<noteq> i) (ad_pages db)\<rparr>))"

subsection \<open>The constraints of the schema\<close>

text \<open>
  Primary keys and unique columns, and that every link joins rows that exist.
\<close>

definition links_ok :: "string set \<Rightarrow> string set \<Rightarrow> (string \<times> string) list \<Rightarrow> bool" where
  "links_ok A B l = (distinct l \<and> (\<forall>p\<in>set l. fst p \<in> A \<and> snd p \<in> B))"

definition auth_db_ok :: "auth_db \<Rightarrow> bool" where
  "auth_db_ok db =
     (distinct (map us_id (ad_users db)) \<and> distinct (map us_email (ad_users db))
      \<and> distinct (map ro_id (ad_roles db)) \<and> distinct (map ro_name (ad_roles db))
      \<and> distinct (map pe_id (ad_permissions db)) \<and> distinct (map pe_name (ad_permissions db))
      \<and> distinct (map dp_id (ad_pages db)) \<and> distinct (map dp_resource_key (ad_pages db))
      \<and> links_ok (us_id ` set (ad_users db)) (ro_id ` set (ad_roles db)) (ad_user_roles db)
      \<and> links_ok (ro_id ` set (ad_roles db)) (pe_id ` set (ad_permissions db)) (ad_role_permissions db))"

lemma links_ok_mono: "links_ok A B l \<Longrightarrow> A \<subseteq> A' \<Longrightarrow> B \<subseteq> B' \<Longrightarrow> links_ok A' B' l"
  by (auto simp: links_ok_def)

lemma links_ok_link:
  "links_ok A B l \<Longrightarrow> i \<in> A \<Longrightarrow> set ts \<subseteq> B \<Longrightarrow> links_ok A B (link i ts l)"
  by (auto simp: links_ok_def link_def distinct_map inj_on_def)

lemma links_ok_unlink: "links_ok A B l \<Longrightarrow> links_ok A B (unlink i l)"
  by (auto simp: links_ok_def unlink_def)

lemma links_ok_unlink_drop: "links_ok A B l \<Longrightarrow> links_ok (A - {i}) B (unlink i l)"
  by (auto simp: links_ok_def unlink_def)

lemma links_ok_target_drop: "links_ok A B l \<Longrightarrow> links_ok A (B - {i}) (unlink_target i l)"
  by (auto simp: links_ok_def unlink_target_def)

lemma links_ok_fold:
  assumes "links_ok A B l" "\<And>n l. links_ok A B l \<Longrightarrow> links_ok A B (f n l)"
  shows "links_ok A B (fold f ns l)"
  using assms(1) by (induction ns arbitrary: l) (simp_all add: assms(2))

lemma links_ok_roles:
  "links_ok A (ro_id ` set (ad_roles db)) l \<Longrightarrow> i \<in> A \<Longrightarrow>
     links_ok A (ro_id ` set (ad_roles db)) (fold (link_role db i) ns l)"
  by (erule links_ok_fold) (auto simp: link_role_def intro!: links_ok_link)

lemma links_ok_permissions:
  "links_ok A (pe_id ` set (ad_permissions db)) (ad_role_permissions db) \<Longrightarrow> i \<in> A \<Longrightarrow>
     links_ok A (pe_id ` set (ad_permissions db)) (replaceRolePermissions db i ns)"
  unfolding replaceRolePermissions_def
  by (rule links_ok_fold [OF links_ok_unlink]) (auto simp: link_permission_def intro!: links_ok_link)

text \<open>A row updated in place under its own id, its unique column checked against the others.\<close>

lemma distinct_upd:
  assumes "distinct (map f t)" "distinct (map g t)" "\<not> (\<exists>r\<in>set t. g r \<noteq> k \<and> f r = c)"
    and "\<And>r. g r = k \<Longrightarrow> f (h r) = c"
  shows "distinct (map f (map (\<lambda>r. if g r = k then h r else r) t))"
proof -
  have "map f (map (\<lambda>r. if g r = k then h r else r) t) = map (\<lambda>r. if g r = k then c else f r) t"
    using assms(4) by auto
  then show ?thesis using assms(1-3) by (simp only:) (rule distinct_map_upd_one, auto)
qed

lemma upd_ids: "(\<And>r. g (h r) = g r) \<Longrightarrow> map g (map (\<lambda>r. if g r = k then h r else r) t) = map g t"
  by auto

lemma upd_keeps: "(\<And>r. f (h r) = f r) \<Longrightarrow> map f (map (\<lambda>r. if g r = k then h r else r) t) = map f t"
  by auto

text \<open>The constraints read off the lists of keys, so that an update that keeps the keys keeps them.\<close>

lemma auth_db_ok_keys:
  "auth_db_ok db \<longleftrightarrow>
     distinct (map us_id (ad_users db)) \<and> distinct (map us_email (ad_users db))
      \<and> distinct (map ro_id (ad_roles db)) \<and> distinct (map ro_name (ad_roles db))
      \<and> distinct (map pe_id (ad_permissions db)) \<and> distinct (map pe_name (ad_permissions db))
      \<and> distinct (map dp_id (ad_pages db)) \<and> distinct (map dp_resource_key (ad_pages db))
      \<and> links_ok (set (map us_id (ad_users db))) (set (map ro_id (ad_roles db))) (ad_user_roles db)
      \<and> links_ok (set (map ro_id (ad_roles db))) (set (map pe_id (ad_permissions db))) (ad_role_permissions db)"
  by (simp add: auth_db_ok_def)

lemma auth_ok_UpdateLastLogin: "auth_db_ok db \<Longrightarrow> auth_db_ok (snd (UpdateLastLogin ok now i db))"
  unfolding auth_db_ok_keys UpdateLastLogin_def by (simp add: upd_keeps del: map_map set_map)

lemma auth_ok_UpdateUserProfile:
  "auth_db_ok db \<Longrightarrow> auth_db_ok (snd (UpdateUserProfile ok now i name h db))"
  unfolding auth_db_ok_keys UpdateUserProfile_def by (simp add: upd_keeps del: map_map set_map)

lemma auth_ok_CreateUser:
  assumes "auth_db_ok db"
  shows "auth_db_ok (snd (CreateUser ok i now u ns db))"
proof -
  have "links_ok (insert i (us_id ` set (ad_users db))) (ro_id ` set (ad_roles db))
      (fold (link_role db i) ns (ad_user_roles db))"
    using assms by (intro links_ok_roles) (auto simp: auth_db_ok_def elim: links_ok_mono)
  with assms show ?thesis by (simp add: CreateUser_def auth_db_ok_def Let_def)
qed

lemma auth_ok_UpdateUser:
  assumes "auth_db_ok db"
  shows "auth_db_ok (snd (UpdateUser ok now u ns db))"
proof (cases "ok \<and> us_id u \<in> us_id ` set (ad_users db)
    \<and> \<not> (\<exists>r\<in>set (ad_users db). us_id r \<noteq> us_id u \<and> us_email r = us_email u)")
  case True
  let ?f = "\<lambda>r. r\<lparr>us_email := us_email u, us_name := us_name u, us_active := us_active u,
    us_updated_at := now, us_password_hash := (if us_password_hash u \<noteq> [] then us_password_hash u
    else us_password_hash r)\<rparr>"
  let ?t = "map (\<lambda>r. if us_id r = us_id u then ?f r else r) (ad_users db)"
  have ids: "map us_id ?t = map us_id (ad_users db)" by (rule upd_ids) simp
  have "distinct (map us_email ?t)"
    using assms True by (intro distinct_upd [where c = "us_email u"]) (auto simp: auth_db_ok_def)
  moreover have "links_ok (us_id ` set (ad_users db)) (ro_id ` set (ad_roles db))
      (fold (link_role db (us_id u)) names (unlink (us_id u) (ad_user_roles db)))" for names
    using assms True by (intro links_ok_roles links_ok_unlink) (auto simp: auth_db_ok_def)
  ultimately show ?thesis
    using assms True ids unfolding auth_db_ok_keys UpdateUser_def
    by (simp del: map_map set_map split: option.splits) (simp add: set_map)
next
  case False
  then have "snd (UpdateUser ok now u ns db) = db" by (auto simp: UpdateUser_def)
  with assms show ?thesis by simp
qed

lemma image_filter_ids: "f ` set (filter (\<lambda>r. f r \<noteq> i) t) = f ` set t - {i}"
  by auto

lemma auth_ok_DeleteUser: "auth_db_ok db \<Longrightarrow> auth_db_ok (snd (DeleteUser ok i db))"
  unfolding auth_db_ok_def DeleteUser_def
  by (simp add: distinct_map_filter image_filter_ids links_ok_unlink_drop del: set_filter)

lemma auth_ok_CreateRole:
  assumes "auth_db_ok db"
  shows "auth_db_ok (snd (CreateRole ok i now r ns db))"
proof -
  have "links_ok (insert i (ro_id ` set (ad_roles db))) (pe_id ` set (ad_permissions db))
      (replaceRolePermissions db i ns)"
    using assms by (intro links_ok_permissions) (auto simp: auth_db_ok_def elim: links_ok_mono)
  with assms show ?thesis
    by (auto simp: CreateRole_def auth_db_ok_def Let_def elim: links_ok_mono)
qed

lemma auth_ok_UpdateRole:
  assumes "auth_db_ok db"
  shows "auth_db_ok (snd (UpdateRole ok now r ns db))"
proof (cases "ok \<and> ro_id r \<in> ro_id ` set (ad_roles db)
    \<and> \<not> (\<exists>x\<in>set (ad_roles db). ro_id x \<noteq> ro_id r \<and> ro_name x = ro_name r)")
  case True
  let ?t = "map (\<lambda>x. if ro_id x = ro_id r then x\<lparr>ro_name := ro_name r, ro_description := ro_description r,
    ro_updated_at := now\<rparr> else x) (ad_roles db)"
  have ids: "map ro_id ?t = map ro_id (ad_roles db)" by (rule upd_ids) simp
  have "distinct (map ro_name ?t)"
    using assms True by (intro distinct_upd [where c = "ro_name r"]) (auto simp: auth_db_ok_def)
  moreover have "links_ok (ro_id ` set (ad_roles db)) (pe_id ` set (ad_permissions db))
      (replaceRolePermissions db (ro_id r) names)" for names
    using assms True by (intro links_ok_permissions) (auto simp: auth_db_ok_def)
  ultimately show ?thesis
    using assms True ids unfolding auth_db_ok_keys UpdateRole_def
    by (simp del: map_map set_map split: option.splits) (simp add: set_map)
next
  case False
  then have "snd (UpdateRole ok now r ns db) = db" by (auto simp: UpdateRole_def)
  with assms show ?thesis by simp
qed

lemma auth_ok_DeleteRole: "auth_db_ok db \<Longrightarrow> auth_db_ok (snd (DeleteRole ok i db))"
  unfolding auth_db_ok_def DeleteRole_def
  by (simp add: distinct_map_filter image_filter_ids links_ok_unlink_drop links_ok_target_drop del: set_filter)

lemma auth_ok_CreatePermission: "auth_db_ok db \<Longrightarrow> auth_db_ok (snd (CreatePermission ok i now p db))"
  by (auto simp: CreatePermission_def auth_db_ok_def Let_def elim: links_ok_mono)

lemma auth_ok_UpdatePermission:
  assumes "auth_db_ok db"
  shows "auth_db_ok (snd (UpdatePermission ok p db))"
proof (cases "ok \<and> pe_id p \<in> pe_id ` set (ad_permissions db)
    \<and> \<not> (\<exists>x\<in>set (ad_permissions db). pe_id x \<noteq> pe_id p \<and> pe_name x = pe_name p)")
  case True
  let ?t = "map (\<lambda>x. if pe_id x = pe_id p then x\<lparr>pe_name := pe_name p, pe_description := pe_description p\<rparr>
    else x) (ad_permissions db)"
  have ids: "map pe_id ?t = map pe_id (ad_permissions db)" by (rule upd_ids) simp
  have "distinct (map pe_name ?t)"
    using assms True by (intro distinct_upd [where c = "pe_name p"]) (auto simp: auth_db_ok_def)
  then show ?thesis
    using assms True ids unfolding auth_db_ok_keys UpdatePermission_def by (simp del: map_map set_map)
next
  case False
  then have "snd (UpdatePermission ok p db) = db" by (auto simp: UpdatePermission_def)
  with assms show ?thesis by simp
qed

lemma auth_ok_DeletePermission: "auth_db_ok db \<Longrightarrow> auth_db_ok (snd (DeletePermission ok i db))"
  unfolding auth_db_ok_def DeletePermission_def
  by (simp add: distinct_map_filter image_filter_ids links_ok_target_drop del: set_filter)

lemma auth_ok_CreateDashboardPage: "auth_db_ok db \<Longrightarrow> auth_db_ok (snd (CreateDashboardPage ok i now p db))"
  by (auto simp: CreateDashboardPage_def auth_db_ok_def Let_def)

lemma auth_ok_UpdateDashboardPage:
  assumes "auth_db_ok db"
  shows "auth_db_ok (snd (UpdateDashboardPage ok now p db))"
proof (cases "ok \<and> dp_id p \<in> dp_id ` set (ad_pages db)
    \<and> \<not> (\<exists>x\<in>set (ad_pages db). dp_id x \<noteq> dp_id p \<and> dp_resource_key x = dp_resource_key p)")
  case True
  let ?t = "map (\<lambda>x. if dp_id x = dp_id p then p\<lparr>dp_created_at := dp_created_at x, dp_updated_at := now\<rparr>
    else x) (ad_pages db)"
  have ids: "map dp_id ?t = map dp_id (ad_pages db)" by auto
  have "distinct (map dp_resource_key ?t)"
    using assms True by (intro distinct_upd [where c = "dp_resource_key p"]) (auto simp: auth_db_ok_def)
  then show ?thesis
    using assms True ids unfolding auth_db_ok_keys UpdateDashboardPage_def by (simp del: map_map set_map)
next
  case False
  then have "snd (UpdateDashboardPage ok now p db) = db" by (auto simp: UpdateDashboardPage_def)
  with assms show ?thesis by simp
qed

lemma auth_ok_DeleteDashboardPage: "auth_db_ok db \<Longrightarrow> auth_db_ok (snd (DeleteDashboardPage ok i db))"
  by (simp add: auth_db_ok_def DeleteDashboardPage_def distinct_map_filter)

lemmas auth_ok_ops =
  auth_ok_UpdateLastLogin auth_ok_UpdateUserProfile auth_ok_CreateUser auth_ok_UpdateUser auth_ok_DeleteUser
  auth_ok_CreateRole auth_ok_UpdateRole auth_ok_DeleteRole auth_ok_CreatePermission auth_ok_UpdatePermission
  auth_ok_DeletePermission auth_ok_CreateDashboardPage auth_ok_UpdateDashboardPage auth_ok_DeleteDashboardPage

subsection \<open>What a user may do\<close>

text \<open>The permissions the tables grant: those of the roles linked to the user.\<close>

definition granted :: "auth_db \<Rightarrow> string \<Rightarrow> string \<Rightarrow> bool" where
  "granted db userID permission =
     (\<exists>rid pid p. (userID, rid) \<in> set (ad_user_roles db) \<and> (rid, pid) \<in> set (ad_role_permissions db)
        \<and> p \<in> set (ad_permissions db) \<and> pe_id p = pid \<and> pe_name p = permission)"

lemma ListPermissionNames_granted:
  "ListPermissionNamesByUserID True i db = Inr ps \<Longrightarrow> n \<in> set ps \<longleftrightarrow> granted db i n"
  by (force simp: ListPermissionNamesByUserID_def granted_def targets_of_def)

lemma ListRoleNames_member:
  "ListRoleNamesByUserID True i db = Inr rs \<Longrightarrow>
     n \<in> set rs \<longleftrightarrow> (\<exists>r\<in>set (ad_roles db). ro_name r = n \<and> (i, ro_id r) \<in> set (ad_user_roles db))"
  by (force simp: ListRoleNamesByUserID_def targets_of_def)

end
