(* ===== verification/Token.thy ===== *)
theory Token
  imports JsonText
begin

text \<open>
  The access tokens of the dashboard (\<open>internal/api/token.go\<close>): the claims as JSON in unpadded
  URL-safe base64, followed by a keyed signature of that text. \<open>encoding/base64\<close> is modelled down to
  its bytes; HMAC-SHA256, SHA-256 and the random generator are parameters.
\<close>

subsection \<open>Base64\<close>

definition b64_char :: "nat \<Rightarrow> char" where
  "b64_char v =
     (if v < 26 then char_of (65 + v) else if v < 52 then char_of (71 + v)
      else if v < 62 then char_of (v - 4) else if v = 62 then CHR ''-'' else CHR ''_'')"

definition b64_val :: "char \<Rightarrow> nat option" where
  "b64_val c =
     (let n = of_char c :: nat
      in if 65 \<le> n \<and> n \<le> 90 then Some (n - 65) else if 97 \<le> n \<and> n \<le> 122 then Some (n - 71)
         else if 48 \<le> n \<and> n \<le> 57 then Some (n + 4)
         else if c = CHR ''-'' then Some 62 else if c = CHR ''_'' then Some 63 else None)"

fun b64_groups :: "nat list \<Rightarrow> nat list" where
  "b64_groups (a # b # c # r) = a div 4 # (a mod 4 * 16 + b div 16) # (b mod 16 * 4 + c div 64) # c mod 64
     # b64_groups r"
| "b64_groups [a, b] = [a div 4, a mod 4 * 16 + b div 16, b mod 16 * 4]"
| "b64_groups [a] = [a div 4, a mod 4 * 16]"
| "b64_groups [] = []"

text \<open>The decoder drops the bits that do not fill a byte; a single character left over is an error.\<close>

fun b64_bytes :: "nat list \<Rightarrow> nat list option" where
  "b64_bytes (p # q # r # s # vs) =
     map_option (\<lambda>bs. (p * 4 + q div 16) # (q mod 16 * 16 + r div 4) # (r mod 4 * 64 + s) # bs) (b64_bytes vs)"
| "b64_bytes [p, q, r] = Some [p * 4 + q div 16, q mod 16 * 16 + r div 4]"
| "b64_bytes [p, q] = Some [p * 4 + q div 16]"
| "b64_bytes [p] = None"
| "b64_bytes [] = Some []"

definition b64_encode :: "string \<Rightarrow> string" where
  "b64_encode s = map b64_char (b64_groups (map of_char s))"

text \<open>Line breaks are skipped wherever they stand.\<close>

definition b64_decode :: "string \<Rightarrow> string option" where
  "b64_decode s =
     (case those (map b64_val (filter (\<lambda>c. c \<noteq> CHR 0x0A \<and> c \<noteq> CHR 0x0D) s)) of
        None \<Rightarrow> None | Some vs \<Rightarrow> map_option (map char_of) (b64_bytes vs))"

lemma of_char_b64: "v < 64 \<Longrightarrow> (of_char (b64_char v) :: nat) =
    (if v < 26 then 65 + v else if v < 52 then 71 + v else if v < 62 then v - 4 else if v = 62 then 45 else 95)"
  by (auto simp: b64_char_def)

lemma b64_val_char: "v < 64 \<Longrightarrow> b64_val (b64_char v) = Some v"
  by (auto simp: b64_val_def b64_char_def Let_def)

lemma b64_char_bounds:
  assumes "v < 64"
  shows "(of_char (b64_char v) :: nat) \<notin> {10, 13, 46}"
  unfolding of_char_b64 [OF assms] by auto

lemma b64_char_plain:
  assumes "v < 64"
  shows "b64_char v \<noteq> CHR ''.'' \<and> b64_char v \<noteq> CHR 0x0A \<and> b64_char v \<noteq> CHR 0x0D"
proof -
  have eq: "c = d \<longleftrightarrow> (of_char c :: nat) = of_char d" for c d by simp
  show ?thesis unfolding eq using b64_char_bounds [OF assms] by simp
qed

lemma b64_groups_small: "list_all (\<lambda>b. b < 256) bs \<Longrightarrow> list_all (\<lambda>v. v < 64) (b64_groups bs)"
  by (induction bs rule: b64_groups.induct) auto

lemma b64_bytes_groups: "list_all (\<lambda>b. b < 256) bs \<Longrightarrow> b64_bytes (b64_groups bs) = Some bs"
proof (induction bs rule: b64_groups.induct)
  case (1 a b c r)
  then have "a < 256" "b < 256" "c < 256" "b64_bytes (b64_groups r) = Some r" by simp_all
  moreover have "b div 16 < 16" "c div 64 < 4" if "b < 256" "c < 256" for b c :: nat
    using that by (simp_all add: less_mult_imp_div_less)
  then have "b div 16 div 16 = 0" "b div 16 mod 16 * 16 + (b mod 16 + c div 64 div 4) = b"
    "c div 64 mod 4 * 64 + c mod 64 = c" if "b < 256" "c < 256" for b c :: nat
    using that by simp_all
  ultimately show ?case by simp
qed auto

lemma those_b64: "list_all (\<lambda>v. v < 64) vs \<Longrightarrow> those (map (b64_val \<circ> b64_char) vs) = Some vs"
  by (induction vs) (simp_all add: b64_val_char)

lemma of_chars_small: "list_all (\<lambda>b. b < 256) (map of_char (s :: string) :: nat list)"
  by (simp add: list_all_iff)

lemma b64_encode_plain: "c \<in> set (b64_encode s) \<Longrightarrow> c \<noteq> CHR ''.'' \<and> c \<noteq> CHR 0x0A \<and> c \<noteq> CHR 0x0D"
  using b64_groups_small [OF of_chars_small, of s] b64_char_plain
  by (auto simp: b64_encode_def list_all_iff)

lemma b64_decode_encode: "b64_decode (b64_encode s) = Some s"
proof -
  have "filter (\<lambda>c. c \<noteq> CHR 0x0A \<and> c \<noteq> CHR 0x0D) (b64_encode s) = b64_encode s"
    using b64_encode_plain by (auto simp: filter_id_conv)
  moreover have "those (map b64_val (b64_encode s)) = Some (b64_groups (map of_char s))"
    using those_b64 [OF b64_groups_small [OF of_chars_small, of s]] by (simp add: b64_encode_def)
  ultimately show ?thesis
    by (simp add: b64_decode_def b64_bytes_groups [OF of_chars_small] comp_def)
qed

subsection \<open>Signed claims\<close>

record token_claims =
  tc_sub :: string
  tc_iss :: string
  tc_exp :: int
  tc_iat :: int
  tc_roles :: "string list"
  tc_permissions :: "string list"

text \<open>\<open>tl_mac\<close> is HMAC-SHA256 of a key and a text, \<open>tl_sha\<close> SHA-256, as bytes.\<close>

record token_lib =
  tl_mac :: "string \<Rightarrow> string \<Rightarrow> string"
  tl_sha :: "string \<Rightarrow> string"

definition claims_json :: "token_claims \<Rightarrow> json" where
  "claims_json c = JObj [(''sub'', JStr (tc_sub c)), (''iss'', JStr (tc_iss c)),
     (''exp'', JNum (format_int (tc_exp c))), (''iat'', JNum (format_int (tc_iat c))),
     (''roles'', JArr (map JStr (tc_roles c))), (''permissions'', JArr (map JStr (tc_permissions c)))]"

definition claims_tags :: "string list" where
  "claims_tags = [''sub'', ''iss'', ''exp'', ''iat'', ''roles'', ''permissions'']"

text \<open>An element \<open>null\<close> of a slice of strings leaves the empty string.\<close>

fun as_element :: "json \<Rightarrow> string option" where
  "as_element JNull = Some []"
| "as_element j = as_string j"

definition claims_of :: "(string \<times> json) list \<Rightarrow> token_claims option" where
  "claims_of ms = do {
     sub \<leftarrow> fstr claims_tags ms ''sub''; iss \<leftarrow> fstr claims_tags ms ''iss'';
     exp \<leftarrow> fint claims_tags ms ''exp''; iat \<leftarrow> fint claims_tags ms ''iat'';
     roles \<leftarrow> fslice as_element claims_tags ms ''roles'';
     permissions \<leftarrow> fslice as_element claims_tags ms ''permissions'';
     Some \<lparr>tc_sub = sub, tc_iss = iss, tc_exp = exp, tc_iat = iat, tc_roles = roles,
       tc_permissions = permissions\<rparr>
   }"

definition sign :: "token_lib \<Rightarrow> string \<Rightarrow> string \<Rightarrow> string" where
  "sign T payload secret = b64_encode (tl_mac T secret payload)"

definition SignToken :: "token_lib \<Rightarrow> token_claims \<Rightarrow> string \<Rightarrow> string" where
  "SignToken T claims secret =
     (let encodedPayload = b64_encode (write_json (claims_json claims));
          signature = sign T encodedPayload secret
      in encodedPayload @ ''.'' @ signature)"

text \<open>\<open>now\<close> is the clock in seconds; every failure is the one error \<open>ErrInvalidToken\<close>.\<close>

definition VerifyToken :: "token_lib \<Rightarrow> int \<Rightarrow> string \<Rightarrow> string \<Rightarrow> token_claims option" where
  "VerifyToken T now rawToken secret =
     (case split_on CHR ''.'' rawToken of
        [payload, signature] \<Rightarrow>
          if sign T payload secret \<noteq> signature then None
          else (case b64_decode payload of
                  None \<Rightarrow> None
                | Some text \<Rightarrow>
                    (case parse_json text of
                       None \<Rightarrow> None
                     | Some j \<Rightarrow>
                         (case into_struct claims_of j of
                            None \<Rightarrow> None
                          | Some claims \<Rightarrow> if tc_exp claims \<le> now then None else Some claims)))
      | _ \<Rightarrow> None)"

text \<open>The argument is what the random generator delivered, \<open>None\<close> when it failed.\<close>

definition NewRandomToken :: "string option \<Rightarrow> string option" where
  "NewRandomToken rand = map_option b64_encode rand"

definition HashToken :: "token_lib \<Rightarrow> string \<Rightarrow> string" where
  "HashToken T raw =
     concat (map (\<lambda>c. [hex_digit (of_char c div 16), hex_digit (of_char c mod 16)]) (tl_sha T raw))"

subsection \<open>Facts\<close>

lemma split_on_plain: "c \<notin> set s \<Longrightarrow> split_on c s = [s]"
  by (induction s) auto

lemma split_on_two: "c \<notin> set s \<Longrightarrow> c \<notin> set u \<Longrightarrow> split_on c (s @ c # u) = [s, u]"
  by (induction s) (auto simp: split_on_plain)

lemma split_on_not_Nil [simp]: "split_on c s \<noteq> []"
  by (induction s) (auto split: list.splits)

lemma split_on_two_iff: "split_on c s = [a, b] \<Longrightarrow> s = a @ c # b"
proof (induction s arbitrary: a)
  case Nil
  then show ?case by simp
next
  case (Cons x s)
  have one: "split_on c s = [b] \<Longrightarrow> s = b" for b
  proof (induction s arbitrary: b)
    case (Cons y s)
    then show ?case by (auto split: if_splits list.splits)
  qed simp
  from Cons show ?case
    by (auto split: if_splits list.splits dest: one)
qed

lemma b64_no_dot: "CHR ''.'' \<notin> set (b64_encode s)"
  using b64_encode_plain by blast

lemma as_strings: "those (map (as_element \<circ> JStr) xs) = Some xs"
  by (induction xs) simp_all

lemma claims_of_json:
  assumes "in_int64 (tc_exp c)" "in_int64 (tc_iat c)"
  shows "\<exists>ms. claims_json c = JObj ms \<and> claims_of ms = Some c"
proof -
  have "match_tag claims_tags t = Some t" if "t \<in> set claims_tags" for t
    using that by (simp add: match_tag_def)
  then show ?thesis
    using assms as_strings
    by (simp add: claims_json_def claims_of_def field_def fslice_def members_def claims_tags_def
        parse_int64_format_int o_def)
qed

lemma claims_json_valid: "json_valid (claims_json c)"
  by (simp add: claims_json_def json_number_format_int list_all_iff)

lemma SignToken_split:
  "split_on CHR ''.'' (SignToken T c secret) =
     [b64_encode (write_json (claims_json c)), sign T (b64_encode (write_json (claims_json c))) secret]"
  unfolding SignToken_def Let_def sign_def append_Cons append_Nil by (intro split_on_two b64_no_dot)

lemma VerifyToken_SignToken:
  assumes "in_int64 (tc_exp c)" "in_int64 (tc_iat c)"
  shows "VerifyToken T now (SignToken T c secret) secret = (if tc_exp c \<le> now then None else Some c)"
proof -
  obtain ms where "claims_json c = JObj ms" "claims_of ms = Some c"
    using claims_of_json [OF assms] by blast
  then show ?thesis
    using parse_json_write [OF claims_json_valid, of c]
    by (simp add: VerifyToken_def SignToken_split b64_decode_encode into_struct_def)
qed

lemma VerifyToken_Some:
  assumes "VerifyToken T now raw secret = Some c"
  shows "\<exists>payload. raw = payload @ ''.'' @ sign T payload secret" "now < tc_exp c"
  using assms split_on_two_iff [of "CHR ''.''" raw]
  by (auto simp: VerifyToken_def split: list.splits if_splits option.splits)

end
