(* ===== verification/AuthService.thy ===== *)
theory AuthService
  imports AuthStore Token ExchangeCommon
begin

text \<open>
  Signing in to the dashboard (\<open>internal/service/api/auth.service.go\<close>, \<open>auth_cache.go\<close>). The state
  is the database and the Redis cache, a map from keys to texts with the instant they expire at; it
  is absent when no client is configured. The n-th call of an operation to the database or to Redis
  is answered or fails as the environment says. \<open>bcrypt\<close> is a parameter. Errors that the code
  ignores are ignored here.
\<close>

subsection \<open>The cache\<close>

record auth_user =
  au_id :: string
  au_email :: string
  au_name :: string
  au_roles :: "string list"
  au_permissions :: "string list"

record auth_cache =
  ca_ttl :: duration
  ca_store :: "string \<Rightarrow> (string \<times> gotime) option"

datatype auth_error =
    ErrInvalidCredential | ErrInactiveUser | ErrSetupAlreadyDone | ErrInvalidRefresh
  | ErrAuthCacheMiss | ErrAuthCache | ErrHashFailed | ErrRandomFailed | AuthDb db_error

definition NewAuthCache :: "duration \<Rightarrow> auth_cache" where
  "NewAuthCache ttl = \<lparr>ca_ttl = (if ttl \<le> 0 then 5 * minute else ttl), ca_store = Map.empty\<rparr>"

definition redis_get :: "bool \<Rightarrow> gotime \<Rightarrow> string \<Rightarrow> auth_cache option \<Rightarrow> auth_error + string" where
  "redis_get ok now key c =
     (case c of None \<Rightarrow> Inl ErrAuthCacheMiss
      | Some cache \<Rightarrow>
          if \<not> ok then Inl ErrAuthCache
          else (case ca_store cache key of
                  None \<Rightarrow> Inl ErrAuthCacheMiss
                | Some (text, expires) \<Rightarrow> if now < expires then Inr text else Inl ErrAuthCacheMiss))"

definition redis_set :: "bool \<Rightarrow> gotime \<Rightarrow> string \<Rightarrow> string \<Rightarrow> duration \<Rightarrow> auth_cache option
    \<Rightarrow> auth_error option \<times> auth_cache option" where
  "redis_set ok now key text ttl c =
     (case c of None \<Rightarrow> (None, None)
      | Some cache \<Rightarrow>
          if \<not> ok then (Some ErrAuthCache, c)
          else (None, Some (cache\<lparr>ca_store := (ca_store cache)(key \<mapsto> (text, now + ttl))\<rparr>)))"

definition redis_del :: "bool \<Rightarrow> string \<Rightarrow> auth_cache option \<Rightarrow> auth_error option \<times> auth_cache option" where
  "redis_del ok key c =
     (case c of None \<Rightarrow> (None, None)
      | Some cache \<Rightarrow>
          if \<not> ok then (Some ErrAuthCache, c)
          else (None, Some (cache\<lparr>ca_store := (ca_store cache)(key := None)\<rparr>)))"

definition userKey :: "string \<Rightarrow> string" where
  "userKey userID = ''hft:api:auth:user:'' @ userID"

definition refreshKey :: "string \<Rightarrow> string" where
  "refreshKey tokenHash = ''hft:api:auth:refresh:'' @ tokenHash"

definition auth_user_json :: "auth_user \<Rightarrow> json" where
  "auth_user_json u = JObj [(''id'', JStr (au_id u)), (''email'', JStr (au_email u)), (''name'', JStr (au_name u)),
     (''roles'', JArr (map JStr (au_roles u))), (''permissions'', JArr (map JStr (au_permissions u)))]"

definition auth_user_tags :: "string list" where
  "auth_user_tags = [''id'', ''email'', ''name'', ''roles'', ''permissions'']"

definition auth_user_of :: "(string \<times> json) list \<Rightarrow> auth_user option" where
  "auth_user_of ms = do {
     i \<leftarrow> fstr auth_user_tags ms ''id''; email \<leftarrow> fstr auth_user_tags ms ''email'';
     name \<leftarrow> fstr auth_user_tags ms ''name''; roles \<leftarrow> fslice as_element auth_user_tags ms ''roles'';
     permissions \<leftarrow> fslice as_element auth_user_tags ms ''permissions'';
     Some \<lparr>au_id = i, au_email = email, au_name = name, au_roles = roles, au_permissions = permissions\<rparr>
   }"

definition refresh_session_json :: "auth_user \<Rightarrow> json" where
  "refresh_session_json u = JObj [(''user'', auth_user_json u)]"

definition refresh_session_of :: "(string \<times> json) list \<Rightarrow> auth_user option" where
  "refresh_session_of ms =
     (case fobj [''user''] ms ''user'' of None \<Rightarrow> None | Some m \<Rightarrow> auth_user_of m)"

definition GetUser :: "bool \<Rightarrow> gotime \<Rightarrow> string \<Rightarrow> auth_cache option \<Rightarrow> auth_error + auth_user" where
  "GetUser ok now userID c =
     bind_res (redis_get ok now (userKey userID) c)
       (\<lambda>raw. of_option ErrAuthCache (decode_with auth_user_of raw))"

definition SetUser :: "bool \<Rightarrow> gotime \<Rightarrow> auth_user \<Rightarrow> auth_cache option \<Rightarrow> auth_error option \<times> auth_cache option" where
  "SetUser ok now user c =
     (case c of None \<Rightarrow> (None, None)
      | Some cache \<Rightarrow> redis_set ok now (userKey (au_id user)) (write_json (auth_user_json user)) (ca_ttl cache) c)"

definition DeleteUser_cache :: "bool \<Rightarrow> string \<Rightarrow> auth_cache option \<Rightarrow> auth_error option \<times> auth_cache option" where
  "DeleteUser_cache ok userID c = redis_del ok (userKey userID) c"

text \<open>A refresh session holds its user only.\<close>

definition GetRefreshSession :: "bool \<Rightarrow> gotime \<Rightarrow> string \<Rightarrow> auth_cache option \<Rightarrow> auth_error + auth_user" where
  "GetRefreshSession ok now tokenHash c =
     bind_res (redis_get ok now (refreshKey tokenHash) c)
       (\<lambda>raw. of_option ErrAuthCache (decode_with refresh_session_of raw))"

definition SetRefreshSession :: "bool \<Rightarrow> gotime \<Rightarrow> string \<Rightarrow> auth_user \<Rightarrow> duration \<Rightarrow> auth_cache option
    \<Rightarrow> auth_error option \<times> auth_cache option" where
  "SetRefreshSession ok now tokenHash user ttl c =
     (case c of None \<Rightarrow> (None, None)
      | Some cache \<Rightarrow> redis_set ok now (refreshKey tokenHash)
          (write_json (refresh_session_json user)) (if ttl \<le> 0 then ca_ttl cache else ttl) c)"

definition DeleteRefreshSession :: "bool \<Rightarrow> string \<Rightarrow> auth_cache option \<Rightarrow> auth_error option \<times> auth_cache option" where
  "DeleteRefreshSession ok tokenHash c = redis_del ok (refreshKey tokenHash) c"

subsection \<open>The service\<close>

record auth_config =
  ac_issuer :: string
  ac_secret :: string
  ac_access_ttl :: duration
  ac_refresh_ttl :: duration

definition NewAuthService :: "auth_config \<Rightarrow> auth_config" where
  "NewAuthService cfg = cfg
     \<lparr>ac_issuer := (if ac_issuer cfg = [] then ''hft-dashboard'' else ac_issuer cfg),
      ac_access_ttl := (if ac_access_ttl cfg \<le> 0 then 15 * minute else ac_access_ttl cfg),
      ac_refresh_ttl := (if ac_refresh_ttl cfg \<le> 0 then 7 * 24 * 60 * minute else ac_refresh_ttl cfg)\<rparr>"

record auth_tokens =
  at_access_token :: string
  at_refresh_token :: string
  at_token_type :: string
  at_expires_in :: int
  at_refresh_token_expires_in :: int

record auth_result =
  ar_user :: auth_user
  ar_tokens :: auth_tokens

text \<open>\<open>al_compare\<close> is \<open>bcrypt.CompareHashAndPassword\<close> without its error.\<close>

record auth_lib =
  al_token :: token_lib
  al_compare :: "string \<Rightarrow> string \<Rightarrow> bool"

record auth_env =
  ae_now :: gotime
  ae_db :: "nat \<Rightarrow> bool"
  ae_cache :: "nat \<Rightarrow> bool"
  ae_hash :: "string \<Rightarrow> string option"  \<comment> \<open>\<open>bcrypt.GenerateFromPassword\<close> with its salt\<close>
  ae_random :: "string option"
  ae_new_id :: string

record auth_state =
  as_db :: auth_db
  as_cache :: "auth_cache option"

definition hashPassword :: "auth_env \<Rightarrow> string \<Rightarrow> auth_error + string" where
  "hashPassword env password = of_option ErrHashFailed (ae_hash env password)"

definition access_claims :: "auth_config \<Rightarrow> gotime \<Rightarrow> auth_user \<Rightarrow> token_claims" where
  "access_claims cfg now user =
     \<lparr>tc_sub = au_id user, tc_iss = ac_issuer cfg, tc_exp = unix_sec (now + ac_access_ttl cfg),
      tc_iat = unix_sec now, tc_roles = au_roles user, tc_permissions = au_permissions user\<rparr>"

text \<open>\<open>cc\<close> is the number of the Redis call.\<close>

definition issueFromAuthUser :: "auth_lib \<Rightarrow> auth_config \<Rightarrow> auth_env \<Rightarrow> nat \<Rightarrow> auth_user \<Rightarrow> auth_state
    \<Rightarrow> (auth_error + auth_result) \<times> auth_state" where
  "issueFromAuthUser L cfg env cc user s =
     (let now = ae_now env; T = al_token L;
          accessToken = SignToken T (access_claims cfg now user) (ac_secret cfg)
      in case NewRandomToken (ae_random env) of
           None \<Rightarrow> (Inl ErrRandomFailed, s)
         | Some refreshToken \<Rightarrow>
             (case SetRefreshSession (ae_cache env cc) now (HashToken T refreshToken) user
                     (ac_refresh_ttl cfg) (as_cache s) of
                (Some e, c) \<Rightarrow> (Inl e, s\<lparr>as_cache := c\<rparr>)
              | (None, c) \<Rightarrow>
                  (Inr \<lparr>ar_user = user, ar_tokens = \<lparr>at_access_token = accessToken,
                      at_refresh_token = refreshToken, at_token_type = ''Bearer'',
                      at_expires_in = ac_access_ttl cfg div second,
                      at_refresh_token_expires_in = ac_refresh_ttl cfg div second\<rparr>\<rparr>,
                   s\<lparr>as_cache := c\<rparr>)))"

text \<open>\<open>dc\<close> is the number of the first of its two database calls.\<close>

definition auth_user_for :: "auth_env \<Rightarrow> nat \<Rightarrow> api_user \<Rightarrow> auth_db \<Rightarrow> auth_error + auth_user" where
  "auth_user_for env dc user db =
     (case ListRoleNamesByUserID (ae_db env dc) (us_id user) db of
        Inl e \<Rightarrow> Inl (AuthDb e)
      | Inr roles \<Rightarrow>
          (case ListPermissionNamesByUserID (ae_db env (Suc dc)) (us_id user) db of
             Inl e \<Rightarrow> Inl (AuthDb e)
           | Inr permissions \<Rightarrow>
               Inr \<lparr>au_id = us_id user, au_email = us_email user, au_name = us_name user,
                    au_roles = roles, au_permissions = permissions\<rparr>))"

definition issue :: "auth_lib \<Rightarrow> auth_config \<Rightarrow> auth_env \<Rightarrow> nat \<Rightarrow> nat \<Rightarrow> api_user \<Rightarrow> auth_state
    \<Rightarrow> (auth_error + auth_result) \<times> auth_state" where
  "issue L cfg env dc cc user s =
     (case auth_user_for env dc user (as_db s) of
        Inl e \<Rightarrow> (Inl e, s)
      | Inr authUser \<Rightarrow> issueFromAuthUser L cfg env cc authUser s)"

text \<open>The last step of three operations: the user is cached and an error of the cache ignored.\<close>

definition remember :: "auth_env \<Rightarrow> nat \<Rightarrow> (auth_error + auth_result) \<times> auth_state
    \<Rightarrow> (auth_error + auth_result) \<times> auth_state" where
  "remember env cc r =
     (case r of
        (Inl e, s) \<Rightarrow> (Inl e, s)
      | (Inr result, s) \<Rightarrow>
          (Inr result, s\<lparr>as_cache := snd (SetUser (ae_cache env cc) (ae_now env) (ar_user result) (as_cache s))\<rparr>))"

definition Setup :: "auth_lib \<Rightarrow> auth_config \<Rightarrow> auth_env \<Rightarrow> string \<Rightarrow> string \<Rightarrow> string \<Rightarrow> auth_state
    \<Rightarrow> (auth_error + auth_result) \<times> auth_state" where
  "Setup L cfg env email name password s =
     (case CountUsers (ae_db env 0) (as_db s) of
        Inl e \<Rightarrow> (Inl (AuthDb e), s)
      | Inr existing \<Rightarrow>
          if existing > 0 then (Inl ErrSetupAlreadyDone, s)
          else (case hashPassword env password of
                  Inl e \<Rightarrow> (Inl e, s)
                | Inr passwordHash \<Rightarrow>
                    (let user = \<lparr>us_id = [], us_email = to_lower (trim_space email), us_name = trim_space name,
                         us_password_hash = passwordHash, us_active = True, us_last_login_at = no_time,
                         us_created_at = zero_time, us_updated_at = zero_time\<rparr>
                     in case CreateUser (ae_db env 1) (ae_new_id env) (ae_now env) user [''admin''] (as_db s) of
                          (Inl e, db) \<Rightarrow> (Inl (AuthDb e), s\<lparr>as_db := db\<rparr>)
                        | (Inr user, db) \<Rightarrow>
                            remember env 1 (issue L cfg env 2 0 user (s\<lparr>as_db := db\<rparr>)))))"

definition Login :: "auth_lib \<Rightarrow> auth_config \<Rightarrow> auth_env \<Rightarrow> string \<Rightarrow> string \<Rightarrow> auth_state
    \<Rightarrow> (auth_error + auth_result) \<times> auth_state" where
  "Login L cfg env email password s =
     (case GetUserByEmail (ae_db env 0) (to_lower (trim_space email)) (as_db s) of
        Inl e \<Rightarrow> (Inl (if e = ErrNoRows then ErrInvalidCredential else AuthDb e), s)
      | Inr user \<Rightarrow>
          if \<not> us_active user then (Inl ErrInactiveUser, s)
          else if \<not> al_compare L (us_password_hash user) password then (Inl ErrInvalidCredential, s)
          else (case UpdateLastLogin (ae_db env 1) (ae_now env) (us_id user) (as_db s) of
                  (Some e, db) \<Rightarrow> (Inl (AuthDb e), s\<lparr>as_db := db\<rparr>)
                | (None, db) \<Rightarrow>
                    (let s = s\<lparr>as_db := db, as_cache := snd (DeleteUser_cache (ae_cache env 0) (us_id user) (as_cache s))\<rparr>
                     in remember env 2 (issue L cfg env 2 1 user s))))"

definition Refresh :: "auth_lib \<Rightarrow> auth_config \<Rightarrow> auth_env \<Rightarrow> string \<Rightarrow> auth_state
    \<Rightarrow> (auth_error + auth_result) \<times> auth_state" where
  "Refresh L cfg env refreshToken s =
     (let tokenHash = HashToken (al_token L) (trim_space refreshToken)
      in case GetRefreshSession (ae_cache env 0) (ae_now env) tokenHash (as_cache s) of
           Inl e \<Rightarrow> (Inl (if e = ErrAuthCacheMiss then ErrInvalidRefresh else e), s)
         | Inr user \<Rightarrow>
             if au_id user = [] then (Inl ErrInvalidRefresh, s)
             else (let s = s\<lparr>as_cache := snd (DeleteRefreshSession (ae_cache env 1) tokenHash (as_cache s))\<rparr>
                   in remember env 3 (issueFromAuthUser L cfg env 2 user s)))"

definition Logout :: "auth_lib \<Rightarrow> auth_env \<Rightarrow> string \<Rightarrow> auth_state \<Rightarrow> auth_error option \<times> auth_state" where
  "Logout L env refreshToken s =
     (if trim_space refreshToken = [] then (Some ErrInvalidRefresh, s)
      else (case DeleteRefreshSession (ae_cache env 0) (HashToken (al_token L) refreshToken) (as_cache s) of
              (e, c) \<Rightarrow> (e, s\<lparr>as_cache := c\<rparr>)))"

text \<open>The numbers of its first calls are arguments, since \<open>UpdateProfile\<close> ends with it.\<close>

definition Me :: "auth_env \<Rightarrow> nat \<Rightarrow> nat \<Rightarrow> string \<Rightarrow> auth_state \<Rightarrow> (auth_error + auth_user) \<times> auth_state" where
  "Me env dc cc userID s =
     (case GetUser (ae_cache env cc) (ae_now env) (trim_space userID) (as_cache s) of
        Inr cachedUser \<Rightarrow> (Inr cachedUser, s)
      | Inl _ \<Rightarrow>
          (case GetUserByID (ae_db env dc) (trim_space userID) (as_db s) of
             Inl e \<Rightarrow> (Inl (AuthDb e), s)
           | Inr user \<Rightarrow>
               if \<not> us_active user then (Inl ErrInactiveUser, s)
               else (case auth_user_for env (Suc dc) user (as_db s) of
                       Inl e \<Rightarrow> (Inl e, s)
                     | Inr authUser \<Rightarrow>
                         (Inr authUser, s\<lparr>as_cache :=
                            snd (SetUser (ae_cache env (Suc cc)) (ae_now env) authUser (as_cache s))\<rparr>))))"

definition UpdateProfile :: "auth_env \<Rightarrow> string \<Rightarrow> string \<Rightarrow> string \<Rightarrow> auth_state
    \<Rightarrow> (auth_error + auth_user) \<times> auth_state" where
  "UpdateProfile env userID name password s =
     (case GetUserByID (ae_db env 0) (trim_space userID) (as_db s) of
        Inl e \<Rightarrow> (Inl (AuthDb e), s)
      | Inr user \<Rightarrow>
          if \<not> us_active user then (Inl ErrInactiveUser, s)
          else
            (let nextName = (if trim_space name = [] then us_name user else trim_space name)
             in case (if trim_space password \<noteq> [] then hashPassword env password else Inr []) of
                  Inl e \<Rightarrow> (Inl e, s)
                | Inr passwordHash \<Rightarrow>
                    (case UpdateUserProfile (ae_db env 1) (ae_now env) (us_id user) nextName passwordHash (as_db s) of
                       (Some e, db) \<Rightarrow> (Inl (AuthDb e), s\<lparr>as_db := db\<rparr>)
                     | (None, db) \<Rightarrow>
                         Me env 2 1 (us_id user) (s\<lparr>as_db := db,
                           as_cache := snd (DeleteUser_cache (ae_cache env 0) (us_id user) (as_cache s))\<rparr>))))"

subsection \<open>What the cache gives back\<close>

lemma auth_user_of_json: "\<exists>ms. auth_user_json u = JObj ms \<and> auth_user_of ms = Some u"
proof -
  have "match_tag auth_user_tags t = Some t" if "t \<in> set auth_user_tags" for t
    using that by (simp add: match_tag_def)
  then show ?thesis
    using as_strings
    by (simp add: auth_user_json_def auth_user_of_def field_def fslice_def members_def auth_user_tags_def o_def)
qed

lemma auth_user_json_valid: "json_valid (auth_user_json u)"
  by (simp add: auth_user_json_def list_all_iff)

lemma auth_user_round_trip: "decode_with auth_user_of (write_json (auth_user_json u)) = Some u"
proof -
  obtain ms where "auth_user_json u = JObj ms" "auth_user_of ms = Some u" using auth_user_of_json by blast
  with parse_json_write [OF auth_user_json_valid, of u] show ?thesis
    by (simp add: decode_with_def into_struct_def)
qed

lemma refresh_session_round_trip:
  "decode_with refresh_session_of (write_json (refresh_session_json u)) = Some u"
proof -
  obtain ms where ms: "auth_user_json u = JObj ms" "auth_user_of ms = Some u" using auth_user_of_json by blast
  have "parse_json (write_json (refresh_session_json u)) = Some (refresh_session_json u)"
    by (rule parse_json_write) (simp add: auth_user_json_valid refresh_session_json_def)
  with ms show ?thesis
    by (simp add: refresh_session_json_def decode_with_def into_struct_def refresh_session_of_def fobj_def members_def match_tag_def)
qed

lemma key_inj [simp]:
  "userKey a = userKey b \<longleftrightarrow> a = b" "refreshKey a = refreshKey b \<longleftrightarrow> a = b"
  "userKey a \<noteq> refreshKey b" "refreshKey b \<noteq> userKey a"
  by (simp_all add: userKey_def refreshKey_def)

lemma case_of_option [simp]: "(case of_option e r of Inl x \<Rightarrow> None | Inr u \<Rightarrow> Some u) = r"
  by (cases r) simp_all

text \<open>The entry of the store that a key has at an instant.\<close>

definition cached_user :: "gotime \<Rightarrow> string \<Rightarrow> auth_cache option \<Rightarrow> auth_user option" where
  "cached_user now i c = (case GetUser True now i c of Inl _ \<Rightarrow> None | Inr u \<Rightarrow> Some u)"

definition session_user :: "gotime \<Rightarrow> string \<Rightarrow> auth_cache option \<Rightarrow> auth_user option" where
  "session_user now h c = (case GetRefreshSession True now h c of Inl _ \<Rightarrow> None | Inr u \<Rightarrow> Some u)"

lemmas cache_defs = cached_user_def session_user_def GetUser_def GetRefreshSession_def SetUser_def
  SetRefreshSession_def DeleteUser_cache_def DeleteRefreshSession_def redis_get_def redis_set_def redis_del_def

lemma session_user_SetUser [simp]: "session_user now h (snd (SetUser ok now' u c)) = session_user now h c"
  by (simp add: cache_defs split: option.splits)

lemma session_user_DeleteUser [simp]: "session_user now h (snd (DeleteUser_cache ok i c)) = session_user now h c"
  by (simp add: cache_defs split: option.splits)

lemma cached_user_SetRefresh [simp]:
  "cached_user now i (snd (SetRefreshSession ok now' h u ttl c)) = cached_user now i c"
  by (simp add: cache_defs split: option.splits)

lemma cached_user_DeleteRefresh [simp]:
  "cached_user now i (snd (DeleteRefreshSession ok h c)) = cached_user now i c"
  by (simp add: cache_defs split: option.splits)

lemma cached_user_SetUser:
  "cached_user now i (snd (SetUser ok now' u c)) =
     (if c \<noteq> None \<and> ok \<and> i = au_id u
      then (if now < now' + ca_ttl (the c) then Some u else None) else cached_user now i c)"
  by (auto simp: cache_defs auth_user_round_trip split: option.splits)

lemma session_user_SetRefresh:
  "session_user now h (snd (SetRefreshSession ok now' h' u ttl c)) =
     (if c \<noteq> None \<and> ok \<and> h = h'
      then (if now < now' + (if ttl \<le> 0 then ca_ttl (the c) else ttl) then Some u else None)
      else session_user now h c)"
  by (auto simp: cache_defs refresh_session_round_trip split: option.splits)

lemma session_user_DeleteRefresh:
  "session_user now h (snd (DeleteRefreshSession ok h' c)) =
     (if ok \<and> h = h' then None else session_user now h c)"
  by (auto simp: cache_defs split: option.splits)

lemma GetRefreshSession_Inr:
  "GetRefreshSession ok now h c = Inr u \<longleftrightarrow> ok \<and> session_user now h c = Some u"
  by (auto simp: cache_defs bind_res_Inr_iff split: option.splits if_splits)

lemma GetUser_Inr: "GetUser ok now i c = Inr u \<longleftrightarrow> ok \<and> cached_user now i c = Some u"
  by (auto simp: cache_defs bind_res_Inr_iff split: option.splits if_splits)

end
