(* ===== verification/Pagination.thy ===== *)
theory Pagination
  imports Json "HOL-Library.Word"
begin

text \<open>
  The paginated lists of the dashboard: the parsing of the query parameters and the query that is
  built from them (\<open>internal/api/pagination.go\<close>), the columns, default order and searchable fields of
  each entity, and the repositories' \<open>GetPagination\<close> methods. The query builder is not part of the
  repository: a query is the list of its parts, and the database a function from queries to results.
  Page, limit and offset are 64-bit integers.
\<close>

subsection \<open>Numbers and escapes of a query string\<close>

text \<open>
  \<open>fmt.Sscan\<close> into an \<open>int64\<close>: an optional sign, a base prefix or a leading zero, digits with single
  underscores between them. What follows the digits is ignored and any failure leaves 0.
\<close>

fun underscores_ok :: "bool \<Rightarrow> string \<Rightarrow> bool" where
  "underscores_ok after_digit [] = True"
| "underscores_ok after_digit (c # cs) =
     (if c = CHR ''_'' then after_digit \<and> cs \<noteq> [] \<and> underscores_ok False cs else underscores_ok True cs)"

definition digits_of_base :: "nat \<Rightarrow> string \<Rightarrow> string" where
  "digits_of_base base s =
     takeWhile (\<lambda>c. c = CHR ''_'' \<or> (case hex_val c of None \<Rightarrow> False | Some d \<Rightarrow> d < base)) s"

definition base_value :: "nat \<Rightarrow> string \<Rightarrow> int" where
  "base_value base s =
     foldl (\<lambda>a c. case hex_val c of None \<Rightarrow> a | Some d \<Rightarrow> a * int base + int d) 0 s"

definition scan_prefix :: "string \<Rightarrow> nat \<times> bool \<times> bool \<times> string" where
  "scan_prefix u =
     (case u of
        CHR ''0'' # c # r \<Rightarrow>
          if c \<in> {CHR ''b'', CHR ''B''} then (2, True, True, digits_of_base 2 r)
          else if c \<in> {CHR ''o'', CHR ''O''} then (8, True, True, digits_of_base 8 r)
          else if c \<in> {CHR ''x'', CHR ''X''} then (16, True, True, digits_of_base 16 r)
          else (8, True, False, digits_of_base 8 (c # r))
      | [CHR ''0''] \<Rightarrow> (8, True, False, [])
      | _ \<Rightarrow> (10, False, True, digits_of_base 10 u))"

definition parseInt64 :: "string \<Rightarrow> int" where
  "parseInt64 raw =
     (let s = trim_space raw;
          negative = (s \<noteq> [] \<and> hd s = CHR ''-'');
          u = (if s \<noteq> [] \<and> hd s \<in> {CHR ''-'', CHR ''+''} then tl s else s);
          (base, after_digit, needs_digits, body) = scan_prefix u;
          v = (if negative then - base_value base body else base_value base body)
      in if (needs_digits \<and> body = []) \<or> \<not> underscores_ok after_digit body \<or> \<not> in_int64 v then 0 else v)"

fun query_unescape :: "string \<Rightarrow> string option" where
  "query_unescape [] = Some []"
| "query_unescape (c # s) =
     (if c = CHR ''%'' then
        (case s of
           a # b # r \<Rightarrow>
             (case (hex_val a, hex_val b) of
                (Some x, Some y) \<Rightarrow> map_option ((#) (char_of (16 * x + y))) (query_unescape r)
              | _ \<Rightarrow> None)
         | _ \<Rightarrow> None)
      else map_option ((#) (if c = CHR ''+'' then CHR '' '' else c)) (query_unescape s))"

definition opens_json :: "string \<Rightarrow> bool" where
  "opens_json s = (has_prefix s [CHR 0x7B] \<or> has_prefix s ''['')"

definition decodeQueryJSONParam :: "string \<Rightarrow> string" where
  "decodeQueryJSONParam raw =
     (case query_unescape raw of
        None \<Rightarrow> raw
      | Some decoded \<Rightarrow>
          if opens_json (trim_space raw) then raw
          else if opens_json (trim_space decoded) then decoded else raw)"

subsection \<open>Requests\<close>

record pagination_entity =
  pm_columns :: "string \<Rightarrow> string option"
  pm_sort :: "string \<times> string"
  pm_search :: "string list"

record filter_req =
  fr_field :: string
  fr_op :: string
  fr_value :: "string list"

record pagination_query =
  qp_keyword :: string
  qp_search_by :: string
  qp_page :: int
  qp_limit :: int
  qp_pagination :: string
  qp_filter :: string
  qp_sort :: string

record pagination_req =
  pr_keyword :: string
  pr_search_by :: string
  pr_page :: int
  pr_limit :: int
  pr_offset :: int
  pr_filter :: "filter_req list"
  pr_sort :: "string \<times> string"

definition NewPaginationQueryParamReq :: "(string \<Rightarrow> string) \<Rightarrow> pagination_query" where
  "NewPaginationQueryParamReq values =
     \<lparr>qp_keyword = trim_space (values ''keyword''), qp_search_by = trim_space (values ''searchBy''),
      qp_page = parseInt64 (values ''page''), qp_limit = parseInt64 (values ''limit''),
      qp_pagination = trim_space (values ''pagination''), qp_filter = trim_space (values ''filter''),
      qp_sort = trim_space (values ''sort'')\<rparr>"

text \<open>The product of two \<open>int64\<close> values, which wraps.\<close>

definition int64_mult :: "int \<Rightarrow> int \<Rightarrow> int" where
  "int64_mult a b = sint (word_of_int a * word_of_int b :: 64 word)"

definition page_bounds :: "int \<Rightarrow> int \<Rightarrow> int \<times> int" where
  "page_bounds page limit =
     (if page = 0 \<and> limit = 0 then (1, 10)
      else (let page = (if page \<le> 0 then 1 else page);
                limit = (if limit \<le> 0 then 10 else limit);
                limit = (if limit > 100 then 100 else limit)
            in (page, limit)))"

definition page_pair_of :: "(string \<times> json) list \<Rightarrow> (int \<times> int) option" where
  "page_pair_of ms = do {
     let tags = [''page'', ''limit''];
     page \<leftarrow> fint tags ms ''page''; limit \<leftarrow> fint tags ms ''limit''; Some (page, limit)
   }"

fun string_element :: "json \<Rightarrow> string option" where
  "string_element JNull = Some []"
| "string_element j = as_string j"

definition filter_req_of :: "(string \<times> json) list \<Rightarrow> filter_req option" where
  "filter_req_of ms = do {
     let tags = [''field'', ''op'', ''value''];
     f \<leftarrow> fstr tags ms ''field''; op \<leftarrow> fstr tags ms ''op''; v \<leftarrow> fslice string_element tags ms ''value'';
     Some \<lparr>fr_field = f, fr_op = op, fr_value = v\<rparr>
   }"

definition filters_of :: "string \<Rightarrow> filter_req list option" where
  "filters_of raw =
     (case parse_json raw of
        Some JNull \<Rightarrow> Some []
      | Some (JArr vs) \<Rightarrow> those (map (into_struct filter_req_of) vs)
      | _ \<Rightarrow> None)"

definition sort_req_of :: "(string \<times> json) list \<Rightarrow> (string \<times> string) option" where
  "sort_req_of ms = do {
     let tags = [''field'', ''direction''];
     f \<leftarrow> fstr tags ms ''field''; d \<leftarrow> fstr tags ms ''direction''; Some (f, d)
   }"

definition known_ops :: "string list" where
  "known_ops = [''eq'', ''neq'', ''in'', ''contain'', ''between'', ''gte'', ''lte'', ''gt'', ''lt'']"

text \<open>What is computed once the three parameters are decoded.\<close>

definition normalized_req ::
  "pagination_entity \<Rightarrow> pagination_query \<Rightarrow> int \<times> int \<Rightarrow> filter_req list \<Rightarrow> string \<times> string \<Rightarrow> pagination_req" where
  "normalized_req model qp pages filters srt =
     (let (page, limit) = page_bounds (fst pages) (snd pages);
          d = norm_upper (snd srt);
          d = (if d \<noteq> ''ASC'' \<and> d \<noteq> ''DESC'' then ''ASC'' else d);
          f = (case pm_columns model (fst srt) of Some column \<Rightarrow> column | None \<Rightarrow> fst srt)
      in \<lparr>pr_keyword = qp_keyword qp, pr_search_by = trim_space (qp_search_by qp),
          pr_page = page, pr_limit = limit, pr_offset = int64_mult (page - 1) limit,
          pr_filter = map (\<lambda>v. v\<lparr>fr_op := norm_lower (fr_op v)\<rparr>)
            (filter (\<lambda>v. norm_lower (fr_op v) \<in> set known_ops) filters),
          pr_sort = (if f = [] then pm_sort model else (f, d))\<rparr>)"

text \<open>The request is fresh: every field starts with its zero value. \<open>None\<close> is an error.\<close>

definition ParseFromQueryParam :: "pagination_entity \<Rightarrow> pagination_query \<Rightarrow> pagination_req option" where
  "ParseFromQueryParam model qp = do {
     pages \<leftarrow> (if qp_pagination qp \<noteq> []
        then Option.bind (parse_json (decodeQueryJSONParam (qp_pagination qp))) (into_struct page_pair_of)
        else Some (qp_page qp, qp_limit qp));
     filters \<leftarrow> (if qp_filter qp \<noteq> [] then filters_of (decodeQueryJSONParam (qp_filter qp)) else Some []);
     srt \<leftarrow> (if qp_sort qp \<noteq> []
        then Option.bind (parse_json (decodeQueryJSONParam (qp_sort qp))) (into_struct sort_req_of)
        else Some ([], []));
     Some (normalized_req model qp pages filters srt)
   }"

subsection \<open>Queries\<close>

datatype sql_cond =
    SqlEq string string | SqlNotEq string string | SqlGt string string | SqlGtOrEq string string
  | SqlLt string string | SqlLtOrEq string string | SqlLike string string | SqlIn string "string list"
  | SqlAnd "sql_cond list" | SqlOr "sql_cond list"

record page_query =
  pq_columns :: "string list"
  pq_table :: string
  pq_where :: "sql_cond list"
  pq_order :: string
  pq_limit :: nat
  pq_offset :: nat

definition filter_cond :: "pagination_entity \<Rightarrow> filter_req \<Rightarrow> sql_cond option" where
  "filter_cond model v =
     (if fr_value v = [] then None
      else case pm_columns model (fr_field v) of
        None \<Rightarrow> None
      | Some column \<Rightarrow>
          (let op = norm_lower (fr_op v); x = hd (fr_value v)
           in if op = ''eq'' then Some (SqlEq column x)
              else if op = ''neq'' then Some (SqlNotEq column x)
              else if op = ''gt'' then Some (SqlGt column x)
              else if op = ''gte'' then Some (SqlGtOrEq column x)
              else if op = ''lt'' then Some (SqlLt column x)
              else if op = ''lte'' then Some (SqlLtOrEq column x)
              else if op = ''contain'' then Some (SqlLike column (''%'' @ x @ ''%''))
              else if op = ''in'' then Some (SqlIn column (fr_value v))
              else if op = ''between'' \<and> length (fr_value v) \<ge> 2
              then Some (SqlAnd [SqlGtOrEq column x, SqlLtOrEq column (fr_value v ! 1)])
              else None))"

definition ApplyFilter :: "pagination_entity \<Rightarrow> pagination_req \<Rightarrow> sql_cond list \<Rightarrow> sql_cond list" where
  "ApplyFilter model r conds =
     conds @ List.map_filter (filter_cond model) (pr_filter r)
       @ (if pr_keyword r \<noteq> [] \<and> pm_search model \<noteq> []
          then [SqlOr (map (\<lambda>c. SqlLike (''LOWER('' @ c @ '')'') (''%'' @ to_lower (pr_keyword r) @ ''%''))
                  (pm_search model))]
          else [])"

text \<open>The conversion of an \<open>int64\<close> to \<open>uint64\<close>.\<close>

definition to_uint64 :: "int \<Rightarrow> nat" where
  "to_uint64 i = nat (i mod 2 ^ 64)"

definition page_query_of :: "string list \<Rightarrow> string \<Rightarrow> pagination_entity \<Rightarrow> pagination_req \<Rightarrow> page_query" where
  "page_query_of columns table model req =
     \<lparr>pq_columns = columns, pq_table = table, pq_where = ApplyFilter model req [],
      pq_order = fst (pr_sort req) @ '' '' @ snd (pr_sort req),
      pq_limit = to_uint64 (pr_limit req), pq_offset = to_uint64 (pr_offset req)\<rparr>"

record pagination_resp =
  ps_page :: int
  ps_limit :: int
  ps_total_items :: int
  ps_total_pages :: int

definition NewPaginationResp :: "int \<Rightarrow> int \<Rightarrow> int \<Rightarrow> pagination_resp" where
  "NewPaginationResp page limit totalItems =
     \<lparr>ps_page = page, ps_limit = limit, ps_total_items = totalItems,
      ps_total_pages = (if limit > 0
        then totalItems div limit + (if totalItems mod limit \<noteq> 0 then 1 else 0) else 0)\<rparr>"

text \<open>
  The common body of the \<open>GetPagination\<close> methods: the filtered rows are counted, which ignores order
  and page, and one page of them is read.
\<close>

record 'r page_db =
  pd_count :: "page_query \<Rightarrow> int option"
  pd_select :: "page_query \<Rightarrow> 'r list option"

definition run_page_query :: "'r page_db \<Rightarrow> page_query \<Rightarrow> pagination_req \<Rightarrow> (pagination_resp \<times> 'r list) option" where
  "run_page_query db q req = do {
     rowCount \<leftarrow> pd_count db (q\<lparr>pq_order := [], pq_limit := 0, pq_offset := 0\<rparr>);
     items \<leftarrow> pd_select db q;
     Some (NewPaginationResp (pr_page req) (pr_limit req) rowCount, items)
   }"

subsection \<open>The entities\<close>

definition same_names :: "string list \<Rightarrow> string \<Rightarrow> string option" where
  "same_names columns c = (if c \<in> set columns then Some c else None)"

definition APIUser_model :: pagination_entity where
  "APIUser_model =
     \<lparr>pm_columns = same_names
        [''id'', ''email'', ''name'', ''active'', ''last_login_at'', ''created_at'',
         ''updated_at''],
      pm_sort = (''created_at'', ''DESC''),
      pm_search = [''email'', ''name'']\<rparr>"

definition APIRole_model :: pagination_entity where
  "APIRole_model =
     \<lparr>pm_columns = same_names
        [''id'', ''name'', ''description'', ''created_at'', ''updated_at''],
      pm_sort = (''name'', ''ASC''),
      pm_search = [''name'', ''description'']\<rparr>"

definition APIPermission_model :: pagination_entity where
  "APIPermission_model =
     \<lparr>pm_columns = same_names
        [''id'', ''name'', ''description'', ''created_at''],
      pm_sort = (''name'', ''ASC''),
      pm_search = [''name'', ''description'']\<rparr>"

definition APISetting_model :: pagination_entity where
  "APISetting_model =
     \<lparr>pm_columns = same_names
        [''id'', ''key'', ''value'', ''created_at'', ''updated_at''],
      pm_sort = (''updated_at'', ''DESC''),
      pm_search = [''key'']\<rparr>"

definition APIDashboardPage_model :: pagination_entity where
  "APIDashboardPage_model =
     \<lparr>pm_columns = same_names
        [''id'', ''resource_key'', ''parent_key'', ''label'', ''description'',
         ''short_description'', ''icon'', ''path'', ''read_permission'', ''write_permission'',
         ''sort_order'', ''visible'', ''created_at'', ''updated_at''],
      pm_sort = (''sort_order'', ''ASC''),
      pm_search = [''resource_key'', ''parent_key'', ''label'', ''description'', ''path'', ''read_permission'', ''write_permission'']\<rparr>"

definition StrategyConfig_model :: pagination_entity where
  "StrategyConfig_model =
     \<lparr>pm_columns = same_names
        [''id'', ''strategy'', ''exchange'', ''market_type'', ''symbol'', ''interval'',
         ''user_id'', ''position_side'', ''source'', ''enabled'', ''monitor_url'',
         ''need_notification'', ''is_paper_trading'', ''order_type'', ''order_qty'',
         ''limit_slippage_pct'', ''cooldown_bars'', ''sl_cooldown_bars'',
         ''max_consecutive_stop_losses'', ''sl_pause_bars'', ''take_profit_pct'',
         ''stop_loss_pct'', ''trailing_stop_pct'', ''trailing_stop_trigger_pct'',
         ''max_hold_bars'', ''max_positions'', ''enable_intrabar_risk_exit'', ''created_at'',
         ''updated_at''],
      pm_sort = (''created_at'', ''DESC''),
      pm_search = [''strategy'', ''exchange'', ''market_type'', ''symbol'', ''interval'', ''user_id'', ''source'', ''monitor_url'']\<rparr>"

definition OrderHistory_model :: pagination_entity where
  "OrderHistory_model =
     \<lparr>pm_columns = same_names
        [''id'', ''request_id'', ''user_id'', ''exchange'', ''market_type'', ''position_side'',
         ''symbol'', ''order_id'', ''entry_order_id'', ''side'', ''type'', ''status'',
         ''strategy_id'', ''state'', ''entry_price'', ''exit_price'', ''pnl'',
         ''trade_condition'', ''is_paper_trading'', ''created_at'', ''updated_at''],
      pm_sort = (''created_at'', ''DESC''),
      pm_search = [''request_id'', ''user_id'', ''exchange'', ''symbol'', ''status'', ''strategy_id'']\<rparr>"

definition PriceReference_model :: pagination_entity where
  "PriceReference_model =
     \<lparr>pm_columns = same_names
        [''id'', ''exchange'', ''market_type'', ''symbol'', ''price'', ''event_time'',
         ''updated_at''],
      pm_sort = (''updated_at'', ''DESC''),
      pm_search = [''exchange'', ''market_type'', ''symbol'']\<rparr>"

definition SymbolMapping_model :: pagination_entity where
  "SymbolMapping_model =
     \<lparr>pm_columns = same_names
        [''id'', ''exchange'', ''market_type'', ''symbol'', ''kline_symbol'', ''order_symbol'',
         ''created_at'', ''updated_at''],
      pm_sort = (''created_at'', ''DESC''),
      pm_search = [''exchange'', ''market_type'', ''symbol'', ''kline_symbol'', ''order_symbol'']\<rparr>"

definition MarketKline_model :: pagination_entity where
  "MarketKline_model =
     \<lparr>pm_columns = same_names
        [''id'', ''exchange'', ''market_type'', ''event_type'', ''symbol'', ''interval'',
         ''open_time'', ''close_time'', ''is_closed'', ''created_at'', ''updated_at''],
      pm_sort = (''open_time'', ''DESC''),
      pm_search = [''exchange'', ''symbol'', ''interval'', ''market_type'']\<rparr>"

definition KlineSubscription_model :: pagination_entity where
  "KlineSubscription_model =
     \<lparr>pm_columns = same_names
        [''id'', ''exchange'', ''market_type'', ''symbol'', ''interval'', ''payload'',
         ''max_kline_data'', ''created_at'', ''updated_at''],
      pm_sort = (''created_at'', ''DESC''),
      pm_search = [''exchange'', ''market_type'', ''symbol'', ''interval'']\<rparr>"

subsection \<open>The paginated lists\<close>

type_synonym 'r paginated = "'r page_db \<Rightarrow> pagination_req \<Rightarrow> (pagination_resp \<times> 'r list) option"

definition GetUsersPagination :: "'r paginated" where
  "GetUsersPagination db req =
     run_page_query db (page_query_of
       [''id'', ''email'', ''name'', ''active'', ''last_login_at'', ''created_at'',
        ''updated_at'']
       ''users'' APIUser_model req) req"

definition GetPermissionsPagination :: "'r paginated" where
  "GetPermissionsPagination db req =
     run_page_query db (page_query_of
       [''id'', ''name'', ''description'', ''created_at'']
       ''permissions'' APIPermission_model req) req"

definition GetDashboardPagesPagination :: "'r paginated" where
  "GetDashboardPagesPagination db req =
     run_page_query db (page_query_of
       [''id'', ''resource_key'', ''parent_key'', ''label'', ''description'',
        ''short_description'', ''icon'', ''path'', ''read_permission'',
        ''write_permission'', ''sort_order'', ''visible'', ''created_at'',
        ''updated_at'']
       ''dashboard_pages'' APIDashboardPage_model req) req"

definition GetRolesPagination :: "'r paginated" where
  "GetRolesPagination db req =
     run_page_query db (page_query_of
       [''id'', ''name'', ''description'', ''created_at'', ''updated_at'']
       ''roles'' APIRole_model req) req"

definition GetSettingsPagination :: "'r paginated" where
  "GetSettingsPagination db req =
     run_page_query db (page_query_of
       [''id'', ''key'', ''value'', ''created_at'', ''updated_at'']
       ''settings'' APISetting_model req) req"

definition GetStrategyConfigsPagination :: "'r paginated" where
  "GetStrategyConfigsPagination db req =
     run_page_query db (page_query_of
       [''*'']
       ''strategy_configs'' StrategyConfig_model req) req"

definition GetSymbolMappingsPagination :: "'r paginated" where
  "GetSymbolMappingsPagination db req =
     run_page_query db (page_query_of
       [''*'']
       ''symbol_mappings'' SymbolMapping_model req) req"

definition GetKlineSubscriptionsPagination :: "'r paginated" where
  "GetKlineSubscriptionsPagination db req =
     run_page_query db (page_query_of
       [''*'']
       ''kline_subscriptions'' KlineSubscription_model req) req"

definition GetMarketKlinesPagination :: "'r paginated" where
  "GetMarketKlinesPagination db req =
     run_page_query db (page_query_of
       [''*'']
       ''market_klines'' MarketKline_model req) req"

definition GetPriceReferencesPagination :: "'r paginated" where
  "GetPriceReferencesPagination db req =
     run_page_query db (page_query_of
       [''*'']
       ''price_references'' PriceReference_model req) req"

definition GetOrdersPagination :: "'r paginated" where
  "GetOrdersPagination db req =
     run_page_query db (page_query_of
       [''*'']
       ''order_histories'' OrderHistory_model req) req"

subsection \<open>Facts\<close>

lemma page_bounds_ok:
  "page_bounds p l = (p', l') \<Longrightarrow> 1 \<le> p' \<and> 1 \<le> l' \<and> l' \<le> 100"
  by (auto simp: page_bounds_def Let_def split: if_splits)

lemma int64_mult_exact:
  assumes "in_int64 (a * b)"
  shows "int64_mult a b = a * b"
proof -
  have "(word_of_int a * word_of_int b :: 64 word) = word_of_int (a * b)" by simp
  then show ?thesis
    using assms unfolding int64_mult_def in_int64_def
    by (simp only: sint_sbintrunc') (simp add: signed_take_bit_int_eq_self)
qed

text \<open>The columns a condition compares, and the fields searched for a keyword.\<close>

fun cond_columns :: "sql_cond \<Rightarrow> string set" where
  "cond_columns (SqlEq c _) = {c}"
| "cond_columns (SqlNotEq c _) = {c}"
| "cond_columns (SqlGt c _) = {c}"
| "cond_columns (SqlGtOrEq c _) = {c}"
| "cond_columns (SqlLt c _) = {c}"
| "cond_columns (SqlLtOrEq c _) = {c}"
| "cond_columns (SqlLike c _) = {c}"
| "cond_columns (SqlIn c _) = {c}"
| "cond_columns (SqlAnd cs) = \<Union> (set (map cond_columns cs))"
| "cond_columns (SqlOr cs) = \<Union> (set (map cond_columns cs))"

lemma filter_cond_columns:
  "filter_cond model v = Some c \<Longrightarrow> cond_columns c \<subseteq> ran (pm_columns model)"
  by (auto simp: filter_cond_def Let_def ran_def split: option.splits if_splits)

lemma ApplyFilter_columns:
  assumes "c \<in> set (ApplyFilter model r [])"
  shows "cond_columns c \<subseteq> ran (pm_columns model) \<union> (\<lambda>c. ''LOWER('' @ c @ '')'') ` set (pm_search model)"
  using assms filter_cond_columns [of model]
  by (auto simp: ApplyFilter_def List.map_filter_def split: if_splits) blast

text \<open>The parts of a parsed request.\<close>

definition page_req_ok :: "pagination_entity \<Rightarrow> pagination_req \<Rightarrow> bool" where
  "page_req_ok model r =
     (1 \<le> pr_page r \<and> 1 \<le> pr_limit r \<and> pr_limit r \<le> 100
      \<and> pr_offset r = int64_mult (pr_page r - 1) (pr_limit r)
      \<and> (\<forall>v\<in>set (pr_filter r). fr_op v \<in> set known_ops)
      \<and> (pr_sort r = pm_sort model \<or> fst (pr_sort r) \<noteq> [] \<and> snd (pr_sort r) \<in> {''ASC'', ''DESC''}))"

lemma normalized_req_ok: "page_req_ok model (normalized_req model qp pages filters srt)"
proof -
  obtain page limit where b: "page_bounds (fst pages) (snd pages) = (page, limit)" by force
  show ?thesis
    using page_bounds_ok [OF b] by (auto simp: normalized_req_def b page_req_ok_def Let_def)
qed

lemma ParseFromQueryParam_ok:
  assumes "ParseFromQueryParam model qp = Some r"
  shows "page_req_ok model r"
proof -
  from assms obtain pages filters srt where "r = normalized_req model qp pages filters srt"
    unfolding ParseFromQueryParam_def bind_eq_Some_conv by (elim exE conjE) (simp only: option.inject, metis)
  then show ?thesis by (simp add: normalized_req_ok)
qed

end
