(* ===== verification/ApiHttp.thy ===== *)
theory ApiHttp
  imports AuthService Pagination
begin

text \<open>
  The HTTP interface of the dashboard (\<open>internal/handler/api/http/api.http.go\<close>): the routes with
  their access rules, the two middlewares, and every handler. A handler decides what to do with a
  request from the request and the claims alone, so it is a function to a \<open>handled\<close> value: an error
  reply, or the one call it makes to a service with the writer of its result. The calls to the
  sign-in service are carried out here, those to the data and backfill services are values.
  \<open>time.Parse\<close> is the parameter \<open>tp\<close>, of a layout and a text.
\<close>

subsection \<open>Requests, calls and replies\<close>

record http_in =
  hi_method :: string
  hi_path :: string
  hi_authorization :: string
  hi_body :: string
  hi_query :: "string \<Rightarrow> string"

type_synonym json_map = "(string \<times> json) list"

record backfill_form =
  bq_exchange :: string
  bq_market_type :: string
  bq_symbol :: string
  bq_interval :: string
  bq_start_time :: gotime
  bq_end_time :: gotime

text \<open>
  The data service has one group of five methods for most resources (\<open>List\<close>, \<open>Get\<close>, \<open>Create\<close>, \<open>Update\<close>
  and \<open>Delete\<close> of the resource's name), and methods of their own for the rest.
\<close>

datatype resource =
    Order | MarketKline | PriceReference | SymbolMapping | KlineSubscription | StrategyConfig
  | Setting | User | Role | Permission | DashboardPage

datatype data_call =
    ListOf resource pagination_req | Get resource string
  | CreateOf resource json_map | UpdateOf resource string json_map | DeleteOf resource string
  | GetAuthConfig | GetFormEnums | ListVisiblePages | GetDashboardOverview
  | CreateManualOrder string json_map | CloseOrder string
  | ListOrderTradePnL report_filter | ListDailyOrderReports report_filter
  | ListStrategyPerformanceReports report_filter
  | ListStrategyMonitors | StrategyMonitorAction string string
  | StartBackfill backfill_form | GetBackfill string | WaitBackfill string duration

datatype auth_call =
    CallSetup string string string | CallLogin string string | CallRefresh string
  | CallLogout string | CallMe string | CallUpdateProfile string string string

text \<open>Who writes the result of a data call.\<close>

datatype writer = WriteData | WriteDelete | WriteOrderAction | WriteBackfillStart | WriteBackfillJob

datatype handled = Failure nat string string | DataCall data_call writer | AuthCall auth_call

type_synonym handler = "token_claims option \<Rightarrow> http_in \<Rightarrow> handled"

subsection \<open>Replies\<close>

datatype 'p reply = ErrorReply nat string string | SuccessReply 'p

datatype service_error = NoRows | InvalidManualOrder string | PositionNotRunning string | OtherError

abbreviation internal_error :: "'p reply" where
  "internal_error \<equiv> ErrorReply 500 ''INTERNAL_ERROR'' ''internal server error''"

definition writeDataResult :: "service_error + 'p \<Rightarrow> 'p reply" where
  "writeDataResult result =
     (case result of Inr p \<Rightarrow> SuccessReply p
      | Inl NoRows \<Rightarrow> ErrorReply 404 ''NOT_FOUND'' ''data not found''
      | Inl _ \<Rightarrow> internal_error)"

definition writeOrderActionResult :: "service_error + 'p \<Rightarrow> 'p reply" where
  "writeOrderActionResult result =
     (case result of
        Inl (InvalidManualOrder m) \<Rightarrow> ErrorReply 400 ''BAD_REQUEST'' m
      | Inl (PositionNotRunning m) \<Rightarrow> ErrorReply 400 ''BAD_REQUEST'' m
      | _ \<Rightarrow> writeDataResult result)"

definition writeAuthResult :: "auth_error + 'p \<Rightarrow> 'p reply" where
  "writeAuthResult result =
     (case result of Inr p \<Rightarrow> SuccessReply p
      | Inl ErrInvalidCredential \<Rightarrow> ErrorReply 401 ''UNAUTHORIZED'' ''invalid credential''
      | Inl ErrInvalidRefresh \<Rightarrow> ErrorReply 401 ''UNAUTHORIZED'' ''invalid refresh token''
      | Inl ErrInactiveUser \<Rightarrow> ErrorReply 409 ''CONFLICT'' ''user is inactive''
      | Inl ErrSetupAlreadyDone \<Rightarrow> ErrorReply 409 ''CONFLICT'' ''setup already done''
      | Inl _ \<Rightarrow> internal_error)"

definition writeAuthAccessError :: "auth_error \<Rightarrow> handled" where
  "writeAuthAccessError e =
     (if e = AuthDb ErrNoRows then Failure 401 ''UNAUTHORIZED'' ''invalid authorization token''
      else if e = ErrInactiveUser then Failure 401 ''UNAUTHORIZED'' ''user is inactive''
      else Failure 500 ''INTERNAL_ERROR'' ''internal server error'')"

subsection \<open>Guards of a handler\<close>

definition method_not_allowed :: handled where
  "method_not_allowed = Failure 405 ''BAD_REQUEST'' ''method not allowed''"

definition requireMethod :: "http_in \<Rightarrow> string \<Rightarrow> handled \<Rightarrow> handled" where
  "requireMethod r m next_step = (if hi_method r \<noteq> m then method_not_allowed else next_step)"

definition hasPermission :: "token_claims option \<Rightarrow> string \<Rightarrow> bool" where
  "hasPermission claims permission =
     (case claims of None \<Rightarrow> False
      | Some c \<Rightarrow> ''admin'' \<in> set (tc_roles c) \<or> permission \<in> set (tc_permissions c))"

definition requirePermission :: "token_claims option \<Rightarrow> string \<Rightarrow> handled \<Rightarrow> handled" where
  "requirePermission claims permission next_step =
     (if \<not> hasPermission claims permission then Failure 403 ''FORBIDDEN'' ''permission denied'' else next_step)"

text \<open>\<open>json.Decoder.Decode\<close> reads the first value of the body and ignores what follows.\<close>

definition decodeBody :: "http_in \<Rightarrow> (json \<Rightarrow> 'a option) \<Rightarrow> ('a \<Rightarrow> handled) \<Rightarrow> handled" where
  "decodeBody r f next_step =
     (case p_val (2 * length (hi_body r) + 2) (hi_body r) of
        None \<Rightarrow> Failure 400 ''BAD_REQUEST'' ''invalid json body''
      | Some (j, _) \<Rightarrow>
          (case f j of None \<Rightarrow> Failure 400 ''BAD_REQUEST'' ''invalid json body'' | Some a \<Rightarrow> next_step a))"

fun as_map :: "json \<Rightarrow> json_map option" where
  "as_map JNull = Some []"
| "as_map j = as_object j"

definition parsePagination :: "http_in \<Rightarrow> pagination_entity \<Rightarrow> (pagination_req \<Rightarrow> handled) \<Rightarrow> handled" where
  "parsePagination r model next_step =
     (case ParseFromQueryParam model (NewPaginationQueryParamReq (hi_query r)) of
        None \<Rightarrow> Failure 400 ''BAD_REQUEST'' ''invalid query parameter''
      | Some req \<Rightarrow> next_step req)"

definition pathID :: "http_in \<Rightarrow> string \<Rightarrow> (string \<Rightarrow> handled) \<Rightarrow> handled" where
  "pathID r prefix_path next_step =
     (let i = trim_space (trim_prefix (hi_path r) prefix_path)
      in if i = [] then Failure 400 ''BAD_REQUEST'' ''id is required'' else next_step i)"

definition parsePositiveInt64 :: "string \<Rightarrow> int \<Rightarrow> int" where
  "parsePositiveInt64 raw fallback =
     (case parse_int64 (trim_space raw) of None \<Rightarrow> fallback | Some v \<Rightarrow> if v \<le> 0 then fallback else v)"

definition report_layouts :: "string list" where
  "report_layouts = [''2006-01-02T15:04:05.999999999Z07:00'', ''2006-01-02T15:04:05Z07:00'', ''2006-01-02T15:04'',
     ''2006-01-02 15:04:05.999 -0700'', ''2006-01-02 15:04:05 -0700'', ''2006-01-02'']"

definition parseReportTime :: "(string \<Rightarrow> string \<Rightarrow> gotime option) \<Rightarrow> string \<Rightarrow> gotime option" where
  "parseReportTime tp raw =
     (case List.map_filter (\<lambda>layout. tp layout raw) report_layouts of [] \<Rightarrow> None | t # _ \<Rightarrow> Some t)"

definition optional_time :: "(string \<Rightarrow> string \<Rightarrow> gotime option) \<Rightarrow> string \<Rightarrow> gotime option option" where
  "optional_time tp raw =
     (if trim_space raw = [] then Some None else map_option Some (parseReportTime tp (trim_space raw)))"

definition parseOrderReportFilter ::
  "(string \<Rightarrow> string \<Rightarrow> gotime option) \<Rightarrow> http_in \<Rightarrow> (report_filter \<Rightarrow> handled) \<Rightarrow> handled" where
  "parseOrderReportFilter tp r next_step =
     (let values = hi_query r;
          limit = parsePositiveInt64 (values ''limit'') 50
      in case optional_time tp (values ''start_time'') of
           None \<Rightarrow> Failure 400 ''BAD_REQUEST'' ''invalid start_time''
         | Some start_time \<Rightarrow>
             (case optional_time tp (values ''end_time'') of
                None \<Rightarrow> Failure 400 ''BAD_REQUEST'' ''invalid end_time''
              | Some end_time \<Rightarrow>
                  next_step \<lparr>rf_start = start_time, rf_end = end_time,
                    rf_strategy = trim_space (values ''strategy_id''), rf_symbol = trim_space (values ''symbol''),
                    rf_page = parsePositiveInt64 (values ''page'') 1,
                    rf_limit = (if limit > 100 then 100 else limit)\<rparr>))"

definition parseWaitDuration :: "http_in \<Rightarrow> duration" where
  "parseWaitDuration r =
     (let raw = trim_space (hi_query r ''wait'')
      in if raw = [] then 0
         else (case parse_int64 raw of None \<Rightarrow> 0
               | Some seconds \<Rightarrow> if seconds \<le> 0 then 0
                                 else (if seconds > 30 then 30 else seconds) * second))"

subsection \<open>Permissions\<close>

abbreviation PermissionOrderRead :: string where "PermissionOrderRead \<equiv> ''order:read''"
abbreviation PermissionOrderWrite :: string where "PermissionOrderWrite \<equiv> ''order:write''"
abbreviation PermissionOrderReportRead :: string where "PermissionOrderReportRead \<equiv> ''order_report:read''"
abbreviation PermissionMarketRead :: string where "PermissionMarketRead \<equiv> ''market:read''"
abbreviation PermissionMarketConfigWrite :: string where "PermissionMarketConfigWrite \<equiv> ''market_config:write''"
abbreviation PermissionStrategyConfigRead :: string where "PermissionStrategyConfigRead \<equiv> ''strategy_config:read''"
abbreviation PermissionStrategyConfigWrite :: string where "PermissionStrategyConfigWrite \<equiv> ''strategy_config:write''"
abbreviation PermissionSettingsRead :: string where "PermissionSettingsRead \<equiv> ''settings:read''"
abbreviation PermissionSettingsWrite :: string where "PermissionSettingsWrite \<equiv> ''settings:write''"
abbreviation PermissionUserRead :: string where "PermissionUserRead \<equiv> ''user:read''"
abbreviation PermissionUserWrite :: string where "PermissionUserWrite \<equiv> ''user:write''"
abbreviation PermissionDashboardPageRead :: string where "PermissionDashboardPageRead \<equiv> ''dashboard_page:read''"
abbreviation PermissionDashboardPageWrite :: string where "PermissionDashboardPageWrite \<equiv> ''dashboard_page:write''"
abbreviation PermissionPermissionRead :: string where "PermissionPermissionRead \<equiv> ''permission:read''"
abbreviation PermissionPermissionWrite :: string where "PermissionPermissionWrite \<equiv> ''permission:write''"

subsection \<open>Handlers of the sign-in service\<close>

definition setup_request_of :: "json_map \<Rightarrow> (string \<times> string \<times> string) option" where
  "setup_request_of ms = do {
     let tags = [''email'', ''name'', ''password''];
     e \<leftarrow> fstr tags ms ''email''; n \<leftarrow> fstr tags ms ''name''; p \<leftarrow> fstr tags ms ''password''; Some (e, n, p)
   }"

definition login_request_of :: "json_map \<Rightarrow> (string \<times> string) option" where
  "login_request_of ms = do {
     let tags = [''email'', ''password''];
     e \<leftarrow> fstr tags ms ''email''; p \<leftarrow> fstr tags ms ''password''; Some (e, p)
   }"

definition profile_request_of :: "json_map \<Rightarrow> (string \<times> string) option" where
  "profile_request_of ms = do {
     let tags = [''name'', ''password''];
     n \<leftarrow> fstr tags ms ''name''; p \<leftarrow> fstr tags ms ''password''; Some (n, p)
   }"

definition refresh_request_of :: "json_map \<Rightarrow> string option" where
  "refresh_request_of ms = fstr [''refresh_token''] ms ''refresh_token''"

definition Handle_Setup :: handler where
  "Handle_Setup claims r = requireMethod r ''POST'' (decodeBody r (into_struct setup_request_of)
     (\<lambda>(email, name, password).
        if trim_space email = [] \<or> trim_space password = []
        then Failure 400 ''BAD_REQUEST'' ''email and password are required''
        else AuthCall (CallSetup email name password)))"

definition Handle_Login :: handler where
  "Handle_Login claims r = requireMethod r ''POST'' (decodeBody r (into_struct login_request_of)
     (\<lambda>(email, password). AuthCall (CallLogin email password)))"

definition Handle_Refresh :: handler where
  "Handle_Refresh claims r = requireMethod r ''POST'' (decodeBody r (into_struct refresh_request_of)
     (\<lambda>token. AuthCall (CallRefresh token)))"

definition Handle_Logout :: handler where
  "Handle_Logout claims r = requireMethod r ''POST'' (decodeBody r (into_struct refresh_request_of)
     (\<lambda>token. AuthCall (CallLogout token)))"

definition with_subject :: "token_claims option \<Rightarrow> (string \<Rightarrow> handled) \<Rightarrow> handled" where
  "with_subject claims next_step =
     (case claims of
        None \<Rightarrow> Failure 401 ''UNAUTHORIZED'' ''invalid authorization token''
      | Some c \<Rightarrow>
          if trim_space (tc_sub c) = [] then Failure 401 ''UNAUTHORIZED'' ''invalid authorization token''
          else next_step (tc_sub c))"

definition Handle_Me :: handler where
  "Handle_Me claims r = requireMethod r ''GET'' (with_subject claims (\<lambda>sub. AuthCall (CallMe sub)))"

definition Handle_Profile :: handler where
  "Handle_Profile claims r = requireMethod r ''PATCH'' (with_subject claims (\<lambda>sub.
     decodeBody r (into_struct profile_request_of)
       (\<lambda>(name, password). AuthCall (CallUpdateProfile sub name password))))"

subsection \<open>Handlers of the data service\<close>

definition read_only :: "data_call \<Rightarrow> handler" where
  "read_only call claims r = requireMethod r ''GET'' (DataCall call WriteData)"

definition read_page :: "pagination_entity \<Rightarrow> resource \<Rightarrow> handler" where
  "read_page model res claims r =
     requireMethod r ''GET'' (parsePagination r model (\<lambda>req. DataCall (ListOf res req) WriteData))"

definition read_item :: "string \<Rightarrow> resource \<Rightarrow> handler" where
  "read_item prefix_path res claims r =
     requireMethod r ''GET'' (pathID r prefix_path (\<lambda>i. DataCall (Get res i) WriteData))"

definition read_report :: "(string \<Rightarrow> string \<Rightarrow> gotime option) \<Rightarrow> (report_filter \<Rightarrow> data_call) \<Rightarrow> handler" where
  "read_report tp call claims r =
     requireMethod r ''GET'' (parseOrderReportFilter tp r (\<lambda>filt. DataCall (call filt) WriteData))"

text \<open>The shape of a collection: a page on \<open>GET\<close>, a new item on \<open>POST\<close>.\<close>

definition collection :: "pagination_entity \<Rightarrow> resource \<Rightarrow> string \<Rightarrow> handler" where
  "collection model res permission claims r =
     (if hi_method r = ''GET'' then parsePagination r model (\<lambda>req. DataCall (ListOf res req) WriteData)
      else if hi_method r = ''POST'' then
        requirePermission claims permission (decodeBody r as_map (\<lambda>body. DataCall (CreateOf res body) WriteData))
      else method_not_allowed)"

text \<open>The shape of an item: read, replaced or changed, deleted.\<close>

definition item :: "string \<Rightarrow> resource \<Rightarrow> string \<Rightarrow> handler" where
  "item prefix_path res permission claims r = pathID r prefix_path (\<lambda>i.
     if hi_method r = ''GET'' then DataCall (Get res i) WriteData
     else if hi_method r = ''PUT'' \<or> hi_method r = ''PATCH'' then
       requirePermission claims permission (decodeBody r as_map (\<lambda>body. DataCall (UpdateOf res i body) WriteData))
     else if hi_method r = ''DELETE'' then
       requirePermission claims permission (DataCall (DeleteOf res i) WriteDelete)
     else method_not_allowed)"

definition Orders :: handler where
  "Orders claims r =
     (if hi_method r = ''GET'' then parsePagination r OrderHistory_model (\<lambda>req. DataCall (ListOf Order req) WriteData)
      else if hi_method r = ''POST'' then
        requirePermission claims PermissionOrderWrite (decodeBody r as_map (\<lambda>body.
          DataCall (CreateManualOrder (case claims of None \<Rightarrow> [] | Some c \<Rightarrow> tc_sub c) body) WriteOrderAction))
      else method_not_allowed)"

definition OrderByID :: handler where
  "OrderByID claims r = pathID r ''/api/v1/orders/'' (\<lambda>i.
     if has_suffix i ''/close'' then
       requireMethod r ''POST'' (requirePermission claims PermissionOrderWrite
         (DataCall (CloseOrder (trim_suffix i ''/close'')) WriteOrderAction))
     else requireMethod r ''GET'' (DataCall (Get Order i) WriteData))"

definition backfill_form_of :: "json_map \<Rightarrow> (string \<times> string \<times> string \<times> string \<times> string \<times> string) option" where
  "backfill_form_of ms = do {
     let tags = [''exchange'', ''market_type'', ''symbol'', ''interval'', ''start_time'', ''end_time''];
     a \<leftarrow> fstr tags ms ''exchange''; b \<leftarrow> fstr tags ms ''market_type''; c \<leftarrow> fstr tags ms ''symbol'';
     d \<leftarrow> fstr tags ms ''interval''; e \<leftarrow> fstr tags ms ''start_time''; f \<leftarrow> fstr tags ms ''end_time'';
     Some (a, b, c, d, e, f)
   }"

definition parseMarketBackfillRequest ::
  "(string \<Rightarrow> string \<Rightarrow> gotime option) \<Rightarrow> string \<times> string \<times> string \<times> string \<times> string \<times> string
     \<Rightarrow> (backfill_form \<Rightarrow> handled) \<Rightarrow> handled" where
  "parseMarketBackfillRequest tp body next_step =
     (case body of (exchange, market, symbol, interval, start_time, end_time) \<Rightarrow>
        (case tp ''2006-01-02T15:04:05Z07:00'' (trim_space start_time) of
           None \<Rightarrow> Failure 400 ''BAD_REQUEST'' ''start_time must be RFC3339''
         | Some s \<Rightarrow>
             (case tp ''2006-01-02T15:04:05Z07:00'' (trim_space end_time) of
                None \<Rightarrow> Failure 400 ''BAD_REQUEST'' ''end_time must be RFC3339''
              | Some e \<Rightarrow> next_step \<lparr>bq_exchange = exchange, bq_market_type = market, bq_symbol = symbol,
                              bq_interval = interval, bq_start_time = s, bq_end_time = e\<rparr>)))"

definition MarketBackfills :: "(string \<Rightarrow> string \<Rightarrow> gotime option) \<Rightarrow> handler" where
  "MarketBackfills tp claims r = requireMethod r ''POST'' (requirePermission claims PermissionMarketConfigWrite
     (decodeBody r (into_struct backfill_form_of) (\<lambda>body. parseMarketBackfillRequest tp body
        (\<lambda>req. DataCall (StartBackfill req) WriteBackfillStart))))"

definition MarketBackfillByID :: handler where
  "MarketBackfillByID claims r = pathID r ''/api/v1/market/backfills/'' (\<lambda>i. requireMethod r ''GET''
     (let wait = parseWaitDuration r
      in DataCall (if wait > 0 then WaitBackfill i wait else GetBackfill i) WriteBackfillJob))"

definition StrategyMonitorByName :: handler where
  "StrategyMonitorByName claims r =
     (let rest = trim_prefix (hi_path r) ''/api/v1/strategy/monitors/'';
          rest = trim_right_char (dropWhile (\<lambda>c. c = CHR ''/'') rest) CHR ''/''
      in case split_on CHR ''/'' rest of
           [name, action] \<Rightarrow>
             if name = [] \<or> (action \<noteq> ''reset'' \<and> action \<noteq> ''restart'') then Failure 404 ''NOT_FOUND'' ''not found''
             else requireMethod r ''POST'' (requirePermission claims PermissionStrategyConfigWrite
                    (DataCall (StrategyMonitorAction name action) WriteData))
         | _ \<Rightarrow> Failure 404 ''NOT_FOUND'' ''not found'')"

text \<open>The handlers of these shapes.\<close>

definition AuthConfig :: "handler" where
  "AuthConfig = read_only GetAuthConfig"

definition FormEnums :: "handler" where
  "FormEnums = read_only GetFormEnums"

definition DashboardPageMenu :: "handler" where
  "DashboardPageMenu = read_only ListVisiblePages"

definition DashboardOverview :: "handler" where
  "DashboardOverview = read_only GetDashboardOverview"

definition OrderTradePnL :: "(string \<Rightarrow> string \<Rightarrow> gotime option) \<Rightarrow> handler" where
  "OrderTradePnL tp = read_report tp ListOrderTradePnL"

definition DailyOrderReports :: "(string \<Rightarrow> string \<Rightarrow> gotime option) \<Rightarrow> handler" where
  "DailyOrderReports tp = read_report tp ListDailyOrderReports"

definition StrategyPerformanceReports :: "(string \<Rightarrow> string \<Rightarrow> gotime option) \<Rightarrow> handler" where
  "StrategyPerformanceReports tp = read_report tp ListStrategyPerformanceReports"

definition MarketKlines :: "handler" where
  "MarketKlines = read_page MarketKline_model MarketKline"

definition MarketKlineByID :: "handler" where
  "MarketKlineByID = read_item ''/api/v1/market/klines/'' MarketKline"

definition PriceReferences :: "handler" where
  "PriceReferences = read_page PriceReference_model PriceReference"

definition PriceReferenceByID :: "handler" where
  "PriceReferenceByID = read_item ''/api/v1/market/price-references/'' PriceReference"

definition StrategyMonitors :: "handler" where
  "StrategyMonitors = read_only ListStrategyMonitors"

definition SymbolMappings :: "handler" where
  "SymbolMappings = collection SymbolMapping_model SymbolMapping PermissionMarketConfigWrite"

definition SymbolMappingByID :: "handler" where
  "SymbolMappingByID = item ''/api/v1/market/symbol-mappings/'' SymbolMapping PermissionMarketConfigWrite"

definition KlineSubscriptions :: "handler" where
  "KlineSubscriptions = collection KlineSubscription_model KlineSubscription PermissionMarketConfigWrite"

definition KlineSubscriptionByID :: "handler" where
  "KlineSubscriptionByID = item ''/api/v1/market/kline-subscriptions/'' KlineSubscription PermissionMarketConfigWrite"

definition StrategyConfigs :: "handler" where
  "StrategyConfigs = collection StrategyConfig_model StrategyConfig PermissionStrategyConfigWrite"

definition StrategyConfigByID :: "handler" where
  "StrategyConfigByID = item ''/api/v1/strategy/configs/'' StrategyConfig PermissionStrategyConfigWrite"

definition Settings :: "handler" where
  "Settings = collection APISetting_model Setting PermissionSettingsWrite"

definition SettingByID :: "handler" where
  "SettingByID = item ''/api/v1/settings/'' Setting PermissionSettingsWrite"

definition Users :: "handler" where
  "Users = collection APIUser_model User PermissionUserWrite"

definition UserByID :: "handler" where
  "UserByID = item ''/api/v1/users/'' User PermissionUserWrite"

definition Roles :: "handler" where
  "Roles = collection APIRole_model Role PermissionUserWrite"

definition RoleByID :: "handler" where
  "RoleByID = item ''/api/v1/roles/'' Role PermissionUserWrite"

definition Permissions :: "handler" where
  "Permissions = collection APIPermission_model Permission PermissionPermissionWrite"

definition PermissionByID :: "handler" where
  "PermissionByID = item ''/api/v1/permissions/'' Permission PermissionPermissionWrite"

definition DashboardPages :: "handler" where
  "DashboardPages = collection APIDashboardPage_model DashboardPage PermissionDashboardPageWrite"

definition DashboardPageByID :: "handler" where
  "DashboardPageByID = item ''/api/v1/dashboard/pages/'' DashboardPage PermissionDashboardPageWrite"

subsection \<open>Routes\<close>

datatype access = Public | SignedIn | Permitted string

definition Register :: "(string \<Rightarrow> string \<Rightarrow> gotime option) \<Rightarrow> (string \<times> access \<times> handler) list" where
  "Register tp =
     [(''/api/v1/auth/setup'', Public, Handle_Setup),
      (''/api/v1/auth/login'', Public, Handle_Login),
      (''/api/v1/auth/config'', Public, AuthConfig),
      (''/api/v1/auth/refresh'', Public, Handle_Refresh),
      (''/api/v1/auth/logout'', SignedIn, Handle_Logout),
      (''/api/v1/auth/me'', SignedIn, Handle_Me),
      (''/api/v1/auth/profile'', SignedIn, Handle_Profile),
      (''/api/v1/form/enums'', SignedIn, FormEnums),
      (''/api/v1/dashboard/pages/menu'', SignedIn, DashboardPageMenu),
      (''/api/v1/dashboard/overview'', Permitted PermissionOrderRead, DashboardOverview),
      (''/api/v1/order-reports/trades'', Permitted PermissionOrderReportRead, OrderTradePnL tp),
      (''/api/v1/order-reports/daily'', Permitted PermissionOrderReportRead, DailyOrderReports tp),
      (''/api/v1/order-reports/strategy-performance'', Permitted PermissionOrderReportRead, StrategyPerformanceReports tp),
      (''/api/v1/orders'', Permitted PermissionOrderRead, Orders),
      (''/api/v1/orders/'', Permitted PermissionOrderRead, OrderByID),
      (''/api/v1/market/backfills'', Permitted PermissionMarketRead, MarketBackfills tp),
      (''/api/v1/market/backfills/'', Permitted PermissionMarketRead, MarketBackfillByID),
      (''/api/v1/market/klines'', Permitted PermissionMarketRead, MarketKlines),
      (''/api/v1/market/klines/'', Permitted PermissionMarketRead, MarketKlineByID),
      (''/api/v1/market/price-references'', Permitted PermissionMarketRead, PriceReferences),
      (''/api/v1/market/price-references/'', Permitted PermissionMarketRead, PriceReferenceByID),
      (''/api/v1/market/symbol-mappings'', Permitted PermissionMarketRead, SymbolMappings),
      (''/api/v1/market/symbol-mappings/'', Permitted PermissionMarketRead, SymbolMappingByID),
      (''/api/v1/market/kline-subscriptions'', Permitted PermissionMarketRead, KlineSubscriptions),
      (''/api/v1/market/kline-subscriptions/'', Permitted PermissionMarketRead, KlineSubscriptionByID),
      (''/api/v1/strategy/monitors'', Permitted PermissionStrategyConfigRead, StrategyMonitors),
      (''/api/v1/strategy/monitors/'', Permitted PermissionStrategyConfigRead, StrategyMonitorByName),
      (''/api/v1/strategy/configs'', Permitted PermissionStrategyConfigRead, StrategyConfigs),
      (''/api/v1/strategy/configs/'', Permitted PermissionStrategyConfigRead, StrategyConfigByID),
      (''/api/v1/settings'', Permitted PermissionSettingsRead, Settings),
      (''/api/v1/settings/'', Permitted PermissionSettingsRead, SettingByID),
      (''/api/v1/users'', Permitted PermissionUserRead, Users),
      (''/api/v1/users/'', Permitted PermissionUserRead, UserByID),
      (''/api/v1/roles'', Permitted PermissionUserRead, Roles),
      (''/api/v1/roles/'', Permitted PermissionUserRead, RoleByID),
      (''/api/v1/permissions'', Permitted PermissionPermissionRead, Permissions),
      (''/api/v1/permissions/'', Permitted PermissionPermissionRead, PermissionByID),
      (''/api/v1/dashboard/pages'', Permitted PermissionDashboardPageRead, DashboardPages),
      (''/api/v1/dashboard/pages/'', Permitted PermissionDashboardPageRead, DashboardPageByID)]"

text \<open>\<open>http.ServeMux\<close>: a pattern that ends with a slash matches every path below it, the longest wins.\<close>

definition route_matches :: "string \<Rightarrow> string \<Rightarrow> bool" where
  "route_matches path pattern = (pattern = path \<or> has_suffix pattern ''/'' \<and> has_prefix path pattern)"

definition find_route :: "(string \<times> 'a) list \<Rightarrow> string \<Rightarrow> 'a option" where
  "find_route routes path =
     (case sort_key (\<lambda>rt. - int (length (fst rt))) (filter (\<lambda>rt. route_matches path (fst rt)) routes) of
        [] \<Rightarrow> None | rt # _ \<Rightarrow> Some (snd rt))"

subsection \<open>Middlewares\<close>

definition withAuth ::
  "auth_lib \<Rightarrow> auth_config \<Rightarrow> gotime \<Rightarrow> http_in \<Rightarrow> (token_claims \<Rightarrow> auth_state \<Rightarrow> handled \<times> auth_state)
     \<Rightarrow> auth_state \<Rightarrow> handled \<times> auth_state" where
  "withAuth L cfg now r next_step s =
     (let raw = trim_space (trim_prefix (trim_space (hi_authorization r)) ''Bearer '')
      in if raw = [] then (Failure 401 ''UNAUTHORIZED'' ''authorization token is required'', s)
         else (case VerifyToken (al_token L) (unix_sec now) raw (ac_secret cfg) of
                 None \<Rightarrow> (Failure 401 ''UNAUTHORIZED'' ''invalid authorization token'', s)
               | Some claims \<Rightarrow> next_step claims s))"

definition withPermission ::
  "auth_lib \<Rightarrow> auth_config \<Rightarrow> auth_env \<Rightarrow> http_in \<Rightarrow> string \<Rightarrow> handler \<Rightarrow> auth_state \<Rightarrow> handled \<times> auth_state" where
  "withPermission L cfg env r permission h =
     withAuth L cfg (ae_now env) r (\<lambda>claims s.
       if trim_space (tc_sub claims) = [] then (Failure 401 ''UNAUTHORIZED'' ''invalid authorization token'', s)
       else (case Me env 0 0 (tc_sub claims) s of
               (Inl e, s') \<Rightarrow> (writeAuthAccessError e, s')
             | (Inr user, s') \<Rightarrow>
                 (let claims = claims\<lparr>tc_roles := au_roles user, tc_permissions := au_permissions user\<rparr>
                  in if \<not> hasPermission (Some claims) permission
                     then (Failure 403 ''FORBIDDEN'' ''permission denied'', s')
                     else (h (Some claims) r, s'))))"

text \<open>What the server makes of a request; \<open>None\<close> is the multiplexer's own 404.\<close>

definition dispatch ::
  "(string \<Rightarrow> string \<Rightarrow> gotime option) \<Rightarrow> auth_lib \<Rightarrow> auth_config \<Rightarrow> auth_env \<Rightarrow> http_in \<Rightarrow> auth_state
     \<Rightarrow> handled option \<times> auth_state" where
  "dispatch tp L cfg env r s =
     (case find_route (Register tp) (hi_path r) of
        None \<Rightarrow> (None, s)
      | Some (Public, h) \<Rightarrow> (Some (h None r), s)
      | Some (SignedIn, h) \<Rightarrow>
          apfst Some (withAuth L cfg (ae_now env) r (\<lambda>claims s. (h (Some claims) r, s)) s)
      | Some (Permitted permission, h) \<Rightarrow> apfst Some (withPermission L cfg env r permission h s))"

text \<open>The calls to the sign-in service, with the environment of their own calls.\<close>

datatype auth_payload = PayloadSession auth_result | PayloadUser auth_user | PayloadStatus string

definition user_error :: "auth_error \<Rightarrow> service_error" where
  "user_error e = (if e = AuthDb ErrNoRows then NoRows else OtherError)"

definition run_auth_call ::
  "auth_lib \<Rightarrow> auth_config \<Rightarrow> (auth_error \<Rightarrow> string) \<Rightarrow> auth_env \<Rightarrow> auth_call \<Rightarrow> auth_state
     \<Rightarrow> auth_payload reply \<times> auth_state" where
  "run_auth_call L cfg err_text env call s =
     (let session = apfst (writeAuthResult \<circ> res_map PayloadSession);
          user = apfst (\<lambda>u. writeDataResult (case u of Inl e \<Rightarrow> Inl (user_error e) | Inr u \<Rightarrow> Inr (PayloadUser u)))
      in case call of
           CallSetup email name password \<Rightarrow> session (Setup L cfg env email name password s)
         | CallLogin email password \<Rightarrow> session (Login L cfg env email password s)
         | CallRefresh token \<Rightarrow> session (Refresh L cfg env token s)
         | CallLogout token \<Rightarrow>
             (case Logout L env token s of
                (Some e, s') \<Rightarrow> (ErrorReply 400 ''BAD_REQUEST'' (err_text e), s')
              | (None, s') \<Rightarrow> (SuccessReply (PayloadStatus ''logged_out''), s'))
         | CallMe sub \<Rightarrow> user (Me env 0 0 sub s)
         | CallUpdateProfile sub name password \<Rightarrow> user (UpdateProfile env sub name password s))"

end
