(* ===== verification/ApiProps.thy ===== *)
theory ApiProps
  imports ApiHttp
begin

text \<open>
  The properties of the dashboard's interface: tokens and sessions, access to the data service, the
  tables of users, roles and permissions, and the paginated lists.
\<close>

subsection \<open>Access tokens\<close>

text \<open>
  C32: a signed token is read back to the claims it was signed for until it expires, and every token
  that is accepted, whoever wrote it, is a text followed by its own signature and has not expired.
\<close>

theorem access_token_round_trip:
  assumes "in_int64 (tc_exp c)" "in_int64 (tc_iat c)"
  shows "VerifyToken T now (SignToken T c secret) secret = (if tc_exp c \<le> now then None else Some c)
    \<and> (\<forall>raw c'. VerifyToken T now raw secret = Some c' \<longrightarrow>
         now < tc_exp c' \<and> (\<exists>payload. raw = payload @ ''.'' @ sign T payload secret))"
  using VerifyToken_SignToken [OF assms] VerifyToken_Some by blast

definition demo_token_lib :: token_lib where
  "demo_token_lib = \<lparr>tl_mac = (\<lambda>k m. take 32 (rev m @ k)), tl_sha = rev\<rparr>"

definition demo_claims :: token_claims where
  "demo_claims = \<lparr>tc_sub = ''u1'', tc_iss = ''hft-dashboard'', tc_exp = 900, tc_iat = 0,
     tc_roles = [''viewer''], tc_permissions = [''order:read'']\<rparr>"

theorem access_token_round_trip_witness:
  "VerifyToken demo_token_lib 5 (SignToken demo_token_lib demo_claims ''k'') ''k'' = Some demo_claims"
  using access_token_round_trip [of demo_claims demo_token_lib 5 "''k''"]
  by (simp add: demo_claims_def in_int64_def)

subsection \<open>Sessions\<close>

lemma issueFromAuthUser_Inr:
  assumes "issueFromAuthUser L cfg env cc user s = (Inr res, s')"
  shows "ar_user res = user"
    "s' = s\<lparr>as_cache := snd (SetRefreshSession (ae_cache env cc) (ae_now env)
        (HashToken (al_token L) (at_refresh_token (ar_tokens res))) user (ac_refresh_ttl cfg) (as_cache s))\<rparr>"
    "at_access_token (ar_tokens res) =
       SignToken (al_token L) (access_claims cfg (ae_now env) user) (ac_secret cfg)"
  using assms
  by (auto simp: issueFromAuthUser_def Let_def split: option.splits prod.splits)

lemma remember_Inr:
  assumes "remember env cc r = (Inr res, s')"
  shows "fst r = Inr res" "s' = (snd r)\<lparr>as_cache :=
      snd (SetUser (ae_cache env cc) (ae_now env) (ar_user res) (as_cache (snd r)))\<rparr>"
  using assms by (auto simp: remember_def split: prod.splits sum.splits)

text \<open>A refresh that succeeds, step by step.\<close>

lemma Refresh_Inr:
  assumes "Refresh L cfg env token s = (Inr res, s')"
  defines "h \<equiv> HashToken (al_token L) (trim_space token)"
  obtains user where "session_user (ae_now env) h (as_cache s) = Some user" "au_id user \<noteq> []"
    "ar_user res = user" "ae_cache env 0"
    "s' = s\<lparr>as_cache := snd (SetUser (ae_cache env 3) (ae_now env) user
        (snd (SetRefreshSession (ae_cache env 2) (ae_now env)
           (HashToken (al_token L) (at_refresh_token (ar_tokens res))) user (ac_refresh_ttl cfg)
           (snd (DeleteRefreshSession (ae_cache env 1) h (as_cache s))))))\<rparr>"
proof -
  obtain user where user: "GetRefreshSession (ae_cache env 0) (ae_now env) h (as_cache s) = Inr user"
      "au_id user \<noteq> []"
    and r: "remember env 3 (issueFromAuthUser L cfg env 2 user
      (s\<lparr>as_cache := snd (DeleteRefreshSession (ae_cache env 1) h (as_cache s))\<rparr>)) = (Inr res, s')"
    using assms(1) unfolding Refresh_def Let_def h_def by (auto split: sum.splits if_splits)
  note R = remember_Inr [OF r]
  obtain s1 where "issueFromAuthUser L cfg env 2 user
      (s\<lparr>as_cache := snd (DeleteRefreshSession (ae_cache env 1) h (as_cache s))\<rparr>) = (Inr res, s1)"
    using R(1) by (metis prod.collapse)
  from issueFromAuthUser_Inr [OF this] R(2) this user that [of user] show ?thesis
    by (simp add: GetRefreshSession_Inr)
qed


definition demo_auth_lib :: auth_lib where
  "demo_auth_lib = \<lparr>al_token = demo_token_lib, al_compare = (\<lambda>h p. h = p)\<rparr>"

definition demo_auth_config :: auth_config where
  "demo_auth_config = NewAuthService \<lparr>ac_issuer = [], ac_secret = ''k'', ac_access_ttl = 0, ac_refresh_ttl = 0\<rparr>"

definition demo_auth_env :: auth_env where
  "demo_auth_env = \<lparr>ae_now = 0, ae_db = (\<lambda>_. True), ae_cache = (\<lambda>_. True), ae_hash = Some,
     ae_random = Some ''b'', ae_new_id = ''n1''\<rparr>"

definition demo_auth_user :: auth_user where
  "demo_auth_user = \<lparr>au_id = ''u1'', au_email = ''a@b.c'', au_name = ''A'', au_roles = [''viewer''],
     au_permissions = [''order:read'']\<rparr>"

definition empty_auth_db :: auth_db where
  "empty_auth_db = \<lparr>ad_users = [], ad_roles = [], ad_permissions = [], ad_user_roles = [],
     ad_role_permissions = [], ad_pages = []\<rparr>"

text \<open>A state with one session, whose token is \<open>a\<close>.\<close>

definition demo_auth_state :: auth_state where
  "demo_auth_state = \<lparr>as_db = empty_auth_db, as_cache = snd (SetRefreshSession True 0
     (HashToken demo_token_lib ''a'') demo_auth_user second (Some (NewAuthCache 0)))\<rparr>"

lemma demo_session: "session_user 0 (HashToken demo_token_lib ''a'') (as_cache demo_auth_state) = Some demo_auth_user"
  unfolding demo_auth_state_def by (simp add: session_user_SetRefresh second_def)

lemma demo_refresh:
  "\<exists>res s'. Refresh demo_auth_lib demo_auth_config demo_auth_env ''a'' demo_auth_state = (Inr res, s')
     \<and> at_refresh_token (ar_tokens res) = b64_encode ''b'' \<and> ar_user res = demo_auth_user"
proof -
  have "trim_space ''a'' = ''a''" by code_simp
  moreover have "GetRefreshSession True 0 (HashToken demo_token_lib ''a'') (as_cache demo_auth_state) = Inr demo_auth_user"
    using demo_session by (simp add: GetRefreshSession_Inr)
  ultimately show ?thesis
    by (auto simp: Refresh_def demo_auth_lib_def demo_auth_env_def Let_def issueFromAuthUser_def NewRandomToken_def
        remember_def SetRefreshSession_def redis_set_def demo_auth_user_def split: option.splits)
qed


text \<open>
  A refresh never looks at the database. Whatever the tables say by then, that the user was
  deleted, deactivated or lost a role, the session of an earlier sign-in is renewed with the rights it
  had, and put in front of the database again: the next \<open>Me\<close>, which decides every access, returns them.
\<close>

theorem refresh_ignores_database:
  assumes "Refresh L cfg env token s = (Inr res, s')" "ae_cache env 3"
    and "trim_space (au_id (ar_user res)) = au_id (ar_user res)"
    and "ae_cache env' 0" "as_cache s = Some cache" "ae_now env' < ae_now env + ca_ttl cache"
  shows "Refresh L cfg env token (s\<lparr>as_db := db\<rparr>) = (Inr res, s'\<lparr>as_db := db\<rparr>)
    \<and> Me env' 0 0 (au_id (ar_user res)) (s'\<lparr>as_db := db\<rparr>) = (Inr (ar_user res), s'\<lparr>as_db := db\<rparr>)"
proof
  show "Refresh L cfg env token (s\<lparr>as_db := db\<rparr>) = (Inr res, s'\<lparr>as_db := db\<rparr>)"
    using assms(1)
    by (auto simp: Refresh_def Let_def issueFromAuthUser_def remember_def
        split: sum.splits if_splits option.splits prod.splits)
  from assms(1) obtain user where user: "ar_user res = user"
    "s' = s\<lparr>as_cache := snd (SetUser (ae_cache env 3) (ae_now env) user
      (snd (SetRefreshSession (ae_cache env 2) (ae_now env)
         (HashToken (al_token L) (at_refresh_token (ar_tokens res))) user (ac_refresh_ttl cfg)
         (snd (DeleteRefreshSession (ae_cache env 1) (HashToken (al_token L) (trim_space token)) (as_cache s))))))\<rparr>"
    by (rule Refresh_Inr)
  let ?c = "snd (SetRefreshSession (ae_cache env 2) (ae_now env)
      (HashToken (al_token L) (at_refresh_token (ar_tokens res))) user (ac_refresh_ttl cfg)
      (snd (DeleteRefreshSession (ae_cache env 1) (HashToken (al_token L) (trim_space token)) (as_cache s))))"
  have "\<exists>c'. ?c = Some c' \<and> ca_ttl c' = ca_ttl cache"
    using assms(5) by (simp add: SetRefreshSession_def DeleteRefreshSession_def redis_set_def redis_del_def)
  then obtain c' where c': "?c = Some c'" "ca_ttl c' = ca_ttl cache" by blast
  have "cached_user (ae_now env') (au_id user) (snd (SetUser True (ae_now env) user (Some c'))) = Some user"
    using assms(6) c'(2) by (simp add: cached_user_SetUser)
  then have "cached_user (ae_now env') (au_id user) (as_cache s') = Some user"
    unfolding user(2) c'(1) using assms(2) by simp
  with assms(3,4) user(1) show "Me env' 0 0 (au_id (ar_user res)) (s'\<lparr>as_db := db\<rparr>) =
      (Inr (ar_user res), s'\<lparr>as_db := db\<rparr>)"
    by (simp add: Me_def GetUser_Inr [THEN iffD2])
qed

theorem refresh_ignores_database_witness:
  "\<exists>res s'. Refresh demo_auth_lib demo_auth_config demo_auth_env ''a'' (demo_auth_state\<lparr>as_db := empty_auth_db\<rparr>) = (Inr res, s')
     \<and> Me demo_auth_env 0 0 ''u1'' s' = (Inr demo_auth_user, s')"
proof -
  obtain res s' where run: "Refresh demo_auth_lib demo_auth_config demo_auth_env ''a'' demo_auth_state = (Inr res, s')"
    "ar_user res = demo_auth_user" using demo_refresh by blast
  have t: "trim_space ''u1'' = ''u1''" by code_simp
  obtain cache where c: "as_cache demo_auth_state = Some cache" "ca_ttl cache = 5 * minute"
    by (simp add: demo_auth_state_def SetRefreshSession_def redis_set_def NewAuthCache_def)
  show ?thesis
    using refresh_ignores_database [OF run(1) _ _ _ c(1), of demo_auth_env empty_auth_db] run(2) t c(2)
    by (simp add: demo_auth_user_def demo_auth_env_def minute_def second_def)
qed

subsection \<open>Access\<close>

text \<open>
  The permissions a call to the data service needs: one to read a resource, a second to change it.
  Three calls need a valid token only, or, for the settings of the sign-in page, not even that.
\<close>

fun read_permission :: "resource \<Rightarrow> string" where
  "read_permission Order = PermissionOrderRead"
| "read_permission StrategyConfig = PermissionStrategyConfigRead"
| "read_permission Setting = PermissionSettingsRead"
| "read_permission User = PermissionUserRead"
| "read_permission Role = PermissionUserRead"
| "read_permission Permission = PermissionPermissionRead"
| "read_permission DashboardPage = PermissionDashboardPageRead"
| "read_permission MarketKline = PermissionMarketRead"
| "read_permission PriceReference = PermissionMarketRead"
| "read_permission SymbolMapping = PermissionMarketRead"
| "read_permission KlineSubscription = PermissionMarketRead"

fun write_permission :: "resource \<Rightarrow> string option" where
  "write_permission StrategyConfig = Some PermissionStrategyConfigWrite"
| "write_permission Setting = Some PermissionSettingsWrite"
| "write_permission User = Some PermissionUserWrite"
| "write_permission Role = Some PermissionUserWrite"
| "write_permission Permission = Some PermissionPermissionWrite"
| "write_permission DashboardPage = Some PermissionDashboardPageWrite"
| "write_permission SymbolMapping = Some PermissionMarketConfigWrite"
| "write_permission KlineSubscription = Some PermissionMarketConfigWrite"
| "write_permission MarketKline = None"
| "write_permission PriceReference = None"
| "write_permission Order = None"

definition may_write :: "token_claims option \<Rightarrow> resource \<Rightarrow> bool" where
  "may_write claims res =
     (hasPermission claims (read_permission res)
      \<and> (case write_permission res of None \<Rightarrow> False | Some p \<Rightarrow> hasPermission claims p))"

fun authorised :: "token_claims option \<Rightarrow> data_call \<Rightarrow> bool" where
  "authorised claims (ListOf res _) = hasPermission claims (read_permission res)"
| "authorised claims (Get res _) = hasPermission claims (read_permission res)"
| "authorised claims (CreateOf res _) = may_write claims res"
| "authorised claims (UpdateOf res _ _) = may_write claims res"
| "authorised claims (DeleteOf res _) = may_write claims res"
| "authorised claims (CreateManualOrder sub _) =
     (hasPermission claims PermissionOrderRead \<and> hasPermission claims PermissionOrderWrite
      \<and> (\<exists>c. claims = Some c \<and> tc_sub c = sub))"
| "authorised claims (CloseOrder _) =
     (hasPermission claims PermissionOrderRead \<and> hasPermission claims PermissionOrderWrite)"
| "authorised claims GetDashboardOverview = hasPermission claims PermissionOrderRead"
| "authorised claims (ListOrderTradePnL _) = hasPermission claims PermissionOrderReportRead"
| "authorised claims (ListDailyOrderReports _) = hasPermission claims PermissionOrderReportRead"
| "authorised claims (ListStrategyPerformanceReports _) = hasPermission claims PermissionOrderReportRead"
| "authorised claims ListStrategyMonitors = hasPermission claims PermissionStrategyConfigRead"
| "authorised claims (StrategyMonitorAction _ _) =
     (hasPermission claims PermissionStrategyConfigRead \<and> hasPermission claims PermissionStrategyConfigWrite)"
| "authorised claims (StartBackfill _) =
     (hasPermission claims PermissionMarketRead \<and> hasPermission claims PermissionMarketConfigWrite)"
| "authorised claims (GetBackfill _) = hasPermission claims PermissionMarketRead"
| "authorised claims (WaitBackfill _ _) = hasPermission claims PermissionMarketRead"
| "authorised claims GetAuthConfig = True"
| "authorised claims GetFormEnums = True"
| "authorised claims ListVisiblePages = True"

text \<open>What the guards of a handler guarantee when it makes a call.\<close>

declare p_val.simps [simp del]

named_theorems data_calls \<open>the data calls a handler can make\<close>

lemma requireMethod_DataCall [data_calls]:
  "requireMethod r m h = DataCall c w \<longleftrightarrow> hi_method r = m \<and> h = DataCall c w"
  by (auto simp: requireMethod_def method_not_allowed_def)

lemma requirePermission_DataCall [data_calls]:
  "requirePermission claims p h = DataCall c w \<longleftrightarrow> hasPermission claims p \<and> h = DataCall c w"
  by (auto simp: requirePermission_def)

lemma decodeBody_DataCall [data_calls]:
  "decodeBody r f k = DataCall c w \<longleftrightarrow>
     (\<exists>j s a. p_val (2 * length (hi_body r) + 2) (hi_body r) = Some (j, s) \<and> f j = Some a \<and> k a = DataCall c w)"
  by (auto simp: decodeBody_def split: option.splits prod.splits)

lemma parsePagination_DataCall [data_calls]:
  "parsePagination r m k = DataCall c w \<longleftrightarrow>
     (\<exists>req. ParseFromQueryParam m (NewPaginationQueryParamReq (hi_query r)) = Some req \<and> k req = DataCall c w)"
  by (auto simp: parsePagination_def split: option.splits)

lemma pathID_DataCall [data_calls]:
  "pathID r p k = DataCall c w \<longleftrightarrow>
     trim_space (trim_prefix (hi_path r) p) \<noteq> [] \<and> k (trim_space (trim_prefix (hi_path r) p)) = DataCall c w"
  by (auto simp: pathID_def Let_def)

lemma parseOrderReportFilter_DataCall [data_calls]:
  "parseOrderReportFilter tp r k = DataCall c w \<Longrightarrow> \<exists>filt. k filt = DataCall c w"
  by (auto simp: parseOrderReportFilter_def Let_def split: option.splits)

lemma parseMarketBackfillRequest_DataCall:
  "parseMarketBackfillRequest tp body k = DataCall c w \<Longrightarrow> \<exists>req. k req = DataCall c w"
  by (auto simp: parseMarketBackfillRequest_def split: option.splits prod.splits)

lemma method_not_allowed_DataCall [data_calls]: "method_not_allowed \<noteq> DataCall c w"
  by (simp add: method_not_allowed_def)

lemma collection_authorised:
  assumes "collection m res p claims r = DataCall c w" "hasPermission claims (read_permission res)"
    "write_permission res = Some p"
  shows "authorised claims c"
  using assms by (auto simp: collection_def data_calls may_write_def split: if_splits)

lemma item_authorised:
  assumes "item path res p claims r = DataCall c w" "hasPermission claims (read_permission res)"
    "write_permission res = Some p"
  shows "authorised claims c"
  using assms by (auto simp: item_def data_calls may_write_def split: if_splits)

lemma read_authorised:
  "read_only call claims r = DataCall c w \<Longrightarrow> authorised claims call \<Longrightarrow> authorised claims c"
  "read_page m res claims r = DataCall c w \<Longrightarrow> hasPermission claims (read_permission res) \<Longrightarrow> authorised claims c"
  "read_item path res claims r = DataCall c w \<Longrightarrow> hasPermission claims (read_permission res) \<Longrightarrow> authorised claims c"
  "read_report tp report claims r = DataCall c w \<Longrightarrow> (\<And>filt. authorised claims (report filt)) \<Longrightarrow> authorised claims c"
  by (auto simp: read_only_def read_page_def read_item_def read_report_def data_calls
      dest!: parseOrderReportFilter_DataCall)

lemma Handle_no_data [data_calls]:
  "Handle_Setup claims r \<noteq> DataCall c w" "Handle_Login claims r \<noteq> DataCall c w"
  "Handle_Refresh claims r \<noteq> DataCall c w" "Handle_Logout claims r \<noteq> DataCall c w"
  "Handle_Me claims r \<noteq> DataCall c w" "Handle_Profile claims r \<noteq> DataCall c w"
  by (auto simp: Handle_Setup_def Handle_Login_def Handle_Refresh_def Handle_Logout_def Handle_Me_def
      Handle_Profile_def with_subject_def data_calls split: option.splits prod.splits if_splits)

definition route_allows :: "access \<Rightarrow> token_claims option \<Rightarrow> bool" where
  "route_allows acc claims = (case acc of Permitted p \<Rightarrow> hasPermission claims p | _ \<Rightarrow> True)"

lemma Orders_authorised:
  "Orders claims r = DataCall c w \<Longrightarrow> hasPermission claims PermissionOrderRead \<Longrightarrow> authorised claims c"
  by (auto simp: Orders_def data_calls hasPermission_def split: if_splits option.splits)

lemma OrderByID_authorised:
  "OrderByID claims r = DataCall c w \<Longrightarrow> hasPermission claims PermissionOrderRead \<Longrightarrow> authorised claims c"
  by (auto simp: OrderByID_def data_calls split: if_splits)

lemma MarketBackfills_authorised:
  "MarketBackfills tp claims r = DataCall c w \<Longrightarrow> hasPermission claims PermissionMarketRead \<Longrightarrow> authorised claims c"
  by (auto simp: MarketBackfills_def data_calls dest!: parseMarketBackfillRequest_DataCall)

lemma MarketBackfillByID_authorised:
  "MarketBackfillByID claims r = DataCall c w \<Longrightarrow> hasPermission claims PermissionMarketRead \<Longrightarrow> authorised claims c"
  by (auto simp: MarketBackfillByID_def Let_def data_calls split: if_splits)

lemma StrategyMonitorByName_authorised:
  "StrategyMonitorByName claims r = DataCall c w \<Longrightarrow> hasPermission claims PermissionStrategyConfigRead \<Longrightarrow>
     authorised claims c"
  by (auto simp: StrategyMonitorByName_def Let_def data_calls split: list.splits if_splits)

lemmas shaped_handlers = AuthConfig_def FormEnums_def DashboardPageMenu_def DashboardOverview_def OrderTradePnL_def
  DailyOrderReports_def StrategyPerformanceReports_def MarketKlines_def MarketKlineByID_def PriceReferences_def
  PriceReferenceByID_def StrategyMonitors_def SymbolMappings_def SymbolMappingByID_def KlineSubscriptions_def
  KlineSubscriptionByID_def StrategyConfigs_def StrategyConfigByID_def Settings_def SettingByID_def Users_def
  UserByID_def Roles_def RoleByID_def Permissions_def PermissionByID_def DashboardPages_def DashboardPageByID_def

lemmas own_handlers = Orders_authorised OrderByID_authorised MarketBackfills_authorised
  MarketBackfillByID_authorised StrategyMonitorByName_authorised

lemma routes_authorised:
  assumes "(pattern, acc, h) \<in> set (Register tp)" "h claims r = DataCall c w" "route_allows acc claims"
  shows "authorised claims c"
  using assms unfolding Register_def shaped_handlers
  by (simp add: route_allows_def)
     (elim disjE conjE; simp add: Handle_no_data;
      ((erule collection_authorised item_authorised own_handlers; simp) | (erule read_authorised; simp)))

text \<open>Calls of the routes that ask for no permission.\<close>

lemma public_calls:
  assumes "(pattern, Public, h) \<in> set (Register tp)" "h claims r = DataCall c w"
  shows "c = GetAuthConfig"
proof -
  from assms(1) have "h \<in> {Handle_Setup, Handle_Login, AuthConfig, Handle_Refresh}"
    by (simp add: Register_def) blast
  with assms(2) show ?thesis
    by (elim insertE emptyE) (simp_all add: Handle_no_data AuthConfig_def read_only_def data_calls)
qed

lemma signed_in_calls:
  assumes "(pattern, SignedIn, h) \<in> set (Register tp)" "h claims r = DataCall c w"
  shows "c \<in> {GetFormEnums, ListVisiblePages}"
proof -
  from assms(1) have "h \<in> {Handle_Logout, Handle_Me, Handle_Profile, FormEnums, DashboardPageMenu}"
    by (simp add: Register_def) blast
  with assms(2) show ?thesis
    by (elim insertE emptyE)
       (simp_all add: Handle_no_data FormEnums_def DashboardPageMenu_def read_only_def data_calls)
qed

lemma find_route_member:
  assumes "find_route routes path = Some v"
  shows "\<exists>pattern. (pattern, v) \<in> set routes"
proof -
  let ?l = "sort_key (\<lambda>rt. - int (length (fst rt))) (filter (\<lambda>rt. route_matches path (fst rt)) routes)"
  obtain rt rest where l: "?l = rt # rest" "snd rt = v"
    using assms unfolding find_route_def by (cases ?l) auto
  have "rt \<in> set ?l" using l(1) by simp
  then have "rt \<in> set routes" by (simp only: set_sort set_filter) simp
  with l(2) show ?thesis by (metis prod.collapse)
qed

text \<open>The claims of the token of a request, when it has a valid one.\<close>

definition request_claims :: "auth_lib \<Rightarrow> auth_config \<Rightarrow> gotime \<Rightarrow> http_in \<Rightarrow> token_claims option" where
  "request_claims L cfg now r =
     VerifyToken (al_token L) (unix_sec now) (trim_space (trim_prefix (trim_space (hi_authorization r)) ''Bearer ''))
       (ac_secret cfg)"

lemma withAuth_DataCall:
  assumes "withAuth L cfg now r k s = (DataCall c w, s')"
  obtains claims where "request_claims L cfg now r = Some claims" "k claims s = (DataCall c w, s')"
  using assms by (auto simp: withAuth_def request_claims_def Let_def split: if_splits option.splits)

lemma withPermission_DataCall:
  assumes "withPermission L cfg env r p h s = (DataCall c w, s')"
  obtains claims user where "request_claims L cfg (ae_now env) r = Some claims"
    "Me env 0 0 (tc_sub claims) s = (Inr user, s')"
    "hasPermission (Some (claims\<lparr>tc_roles := au_roles user, tc_permissions := au_permissions user\<rparr>)) p"
    "h (Some (claims\<lparr>tc_roles := au_roles user, tc_permissions := au_permissions user\<rparr>)) r = DataCall c w"
  using assms unfolding withPermission_def
  by (elim withAuth_DataCall)
     (auto simp: writeAuthAccessError_def Let_def split: if_splits prod.splits sum.splits)

text \<open>
  C8: no request reaches the data service without the rights of its call. Apart from the settings of
  the sign-in page, every call comes with a valid token; apart from the form's enumerations and the menu,
  the rights are those the user has now (\<open>Me\<close>), not those written in the token: the permission of the
  route to read, and the permission of the handler as well to create, change or delete.
\<close>

theorem data_calls_are_authorised:
  assumes "dispatch tp L cfg env r s = (Some (DataCall call w), s')"
  shows "call = GetAuthConfig \<or>
    (\<exists>c. request_claims L cfg (ae_now env) r = Some c \<and>
      (call \<in> {GetFormEnums, ListVisiblePages} \<or>
       (\<exists>user. Me env 0 0 (tc_sub c) s = (Inr user, s') \<and>
          authorised (Some (c\<lparr>tc_roles := au_roles user, tc_permissions := au_permissions user\<rparr>)) call)))"
proof -
  from assms obtain acc h where route: "find_route (Register tp) (hi_path r) = Some (acc, h)"
    unfolding dispatch_def by (auto split: option.splits)
  from find_route_member [OF this] obtain pattern where m: "(pattern, acc, h) \<in> set (Register tp)"
    by blast
  show ?thesis
  proof (cases acc)
    case Public
    with assms route m public_calls show ?thesis by (fastforce simp: dispatch_def)
  next
    case SignedIn
    with assms route have "withAuth L cfg (ae_now env) r (\<lambda>claims s. (h (Some claims) r, s)) s = (DataCall call w, s')"
      by (auto simp: dispatch_def apfst_def map_prod_def split: prod.splits)
    then obtain c where "request_claims L cfg (ae_now env) r = Some c" "h (Some c) r = DataCall call w"
      by (elim withAuth_DataCall) simp
    with m SignedIn signed_in_calls show ?thesis by blast
  next
    case (Permitted p)
    with assms route have "withPermission L cfg env r p h s = (DataCall call w, s')"
      by (auto simp: dispatch_def apfst_def map_prod_def split: prod.splits)
    then show ?thesis
      using routes_authorised [OF m] Permitted
      by (elim withPermission_DataCall) (auto simp: route_allows_def)
  qed
qed

text \<open>A token contains no white space.\<close>

lemma trim_space_id:
  assumes "s \<noteq> []" "\<not> is_space (hd s)" "\<not> is_space (last s)"
  shows "trim_space s = s"
proof -
  have "trim_left u = u" if "u \<noteq> []" "\<not> is_space (hd u)" for u
    using that by (cases u) (simp_all add: trim_left_def)
  with assms show ?thesis by (simp add: trim_space_def hd_rev)
qed

lemma b64_no_space:
  assumes "c \<in> set (b64_encode s)"
  shows "\<not> is_space c"
proof -
  obtain v where "v < 64" "c = b64_char v"
    using assms b64_groups_small [OF of_chars_small, of s] by (auto simp: b64_encode_def list_all_iff)
  then have "(of_char c :: nat) > 32"
    using of_char_b64 [of v] by (cases "v < 26"; cases "v < 52"; cases "v < 62"; cases "v = 62") simp_all
  then show ?thesis by (auto simp: is_space_def)
qed

lemma SignToken_no_space: "c \<in> set (SignToken T claims secret) \<Longrightarrow> \<not> is_space c"
  by (auto simp: SignToken_def Let_def sign_def dest: b64_no_space) (simp add: is_space_def)

lemma request_claims_signed:
  assumes "hi_authorization r = ''Bearer '' @ SignToken (al_token L) c (ac_secret cfg)"
    and "in_int64 (tc_exp c)" "in_int64 (tc_iat c)" "unix_sec now < tc_exp c"
  shows "request_claims L cfg now r = Some c"
    "trim_space (trim_prefix (trim_space (hi_authorization r)) ''Bearer '') \<noteq> []"
proof -
  let ?t = "SignToken (al_token L) c (ac_secret cfg)"
  have t: "?t \<noteq> []" by (simp add: SignToken_def Let_def)
  then have "trim_space ?t = ?t"
    using SignToken_no_space [OF hd_in_set] SignToken_no_space [OF last_in_set] by (intro trim_space_id)
  moreover have "trim_space (''Bearer '' @ ?t) = ''Bearer '' @ ?t"
    using t SignToken_no_space [OF last_in_set] by (intro trim_space_id) (simp_all add: is_space_def)
  ultimately have "trim_space (trim_prefix (trim_space (hi_authorization r)) ''Bearer '') = ?t"
    unfolding assms(1) by (simp add: trim_prefix_def has_prefix_def)
  then show "request_claims L cfg now r = Some c"
    "trim_space (trim_prefix (trim_space (hi_authorization r)) ''Bearer '') \<noteq> []"
    using assms(2-4) t VerifyToken_SignToken by (simp_all add: request_claims_def)
qed

text \<open>A signed-in user with the right to read orders asks for one.\<close>

definition demo_request :: http_in where
  "demo_request = \<lparr>hi_method = ''GET'', hi_path = ''/api/v1/orders/7'',
     hi_authorization = ''Bearer '' @ SignToken demo_token_lib demo_claims ''k'', hi_body = [], hi_query = (\<lambda>_. [])\<rparr>"

definition signed_in_state :: auth_state where
  "signed_in_state = \<lparr>as_db = empty_auth_db, as_cache = snd (SetUser True 0 demo_auth_user (Some (NewAuthCache 0)))\<rparr>"

lemma demo_me: "Me demo_auth_env 0 0 ''u1'' signed_in_state = (Inr demo_auth_user, signed_in_state)"
proof -
  have "trim_space ''u1'' = ''u1''" by code_simp
  moreover have "cached_user 0 ''u1'' (as_cache signed_in_state) = Some demo_auth_user"
    using cached_user_SetUser [of 0 "''u1''" True 0 demo_auth_user "Some (NewAuthCache 0)"]
    by (simp add: signed_in_state_def NewAuthCache_def demo_auth_user_def minute_def second_def)
  ultimately show ?thesis by (simp add: Me_def GetUser_Inr [THEN iffD2] demo_auth_env_def)
qed

lemma demo_route:
  "find_route (Register tp) ''/api/v1/orders/7'' = Some (Permitted PermissionOrderRead, OrderByID)"
  by (simp add: find_route_def Register_def route_matches_def has_suffix_def has_prefix_def)

lemma demo_dispatch:
  "dispatch tp demo_auth_lib demo_auth_config demo_auth_env demo_request signed_in_state =
     (Some (DataCall (Get Order ''7'') WriteData), signed_in_state)"
proof -
  have auth: "withAuth demo_auth_lib demo_auth_config 0 demo_request k signed_in_state = k demo_claims signed_in_state" for k
    using request_claims_signed [of demo_request demo_auth_lib demo_claims demo_auth_config 0]
    by (simp add: withAuth_def request_claims_def Let_def demo_request_def demo_auth_lib_def demo_auth_config_def
        NewAuthService_def demo_claims_def in_int64_def unix_sec_def)
  have "trim_space ''7'' = ''7''" and u1: "trim_space ''u1'' = ''u1''" by code_simp+
  moreover from this have "pathID demo_request ''/api/v1/orders/'' k = k ''7''" for k
    by (simp add: demo_request_def pathID_def trim_prefix_def has_prefix_def Let_def)
  then have "OrderByID claims demo_request = DataCall (Get Order ''7'') WriteData" for claims
    by (simp add: OrderByID_def demo_request_def has_suffix_def requireMethod_def)
  ultimately show ?thesis
    using auth demo_route [of tp] demo_me u1
    by (simp add: dispatch_def withPermission_def demo_auth_env_def demo_claims_def hasPermission_def
        demo_auth_user_def demo_request_def Let_def)
qed

theorem data_calls_are_authorised_witness:
  "authorised (Some demo_claims) (Get Order ''7'')
    \<and> (\<exists>c. request_claims demo_auth_lib demo_auth_config 0 demo_request = Some c)"
  using data_calls_are_authorised [OF demo_dispatch [of "\<lambda>_ _. None"]]
  by (auto simp: demo_auth_env_def demo_claims_def hasPermission_def)

subsection \<open>The tables of users, roles and permissions\<close>

text \<open>The statements that change the tables, in any order and with any outcome of the database.\<close>

datatype auth_op =
    OpCreateUser bool string gotime api_user "string list"
  | OpLastLogin bool gotime string
  | OpUserProfile bool gotime string string string
  | OpUpdateUser bool gotime api_user "string list option"
  | OpDeleteUser bool string
  | OpCreateRole bool string gotime api_role "string list"
  | OpUpdateRole bool gotime api_role "string list option"
  | OpDeleteRole bool string
  | OpCreatePermission bool string gotime api_permission
  | OpUpdatePermission bool api_permission
  | OpDeletePermission bool string
  | OpCreatePage bool string gotime dashboard_page
  | OpUpdatePage bool gotime dashboard_page
  | OpDeletePage bool string

fun run_auth_op :: "auth_op \<Rightarrow> auth_db \<Rightarrow> auth_db" where
  "run_auth_op (OpCreateUser ok i now u ns) db = snd (CreateUser ok i now u ns db)"
| "run_auth_op (OpLastLogin ok now i) db = snd (UpdateLastLogin ok now i db)"
| "run_auth_op (OpUserProfile ok now i n h) db = snd (UpdateUserProfile ok now i n h db)"
| "run_auth_op (OpUpdateUser ok now u ns) db = snd (UpdateUser ok now u ns db)"
| "run_auth_op (OpDeleteUser ok i) db = snd (DeleteUser ok i db)"
| "run_auth_op (OpCreateRole ok i now r ns) db = snd (CreateRole ok i now r ns db)"
| "run_auth_op (OpUpdateRole ok now r ns) db = snd (UpdateRole ok now r ns db)"
| "run_auth_op (OpDeleteRole ok i) db = snd (DeleteRole ok i db)"
| "run_auth_op (OpCreatePermission ok i now p) db = snd (CreatePermission ok i now p db)"
| "run_auth_op (OpUpdatePermission ok p) db = snd (UpdatePermission ok p db)"
| "run_auth_op (OpDeletePermission ok i) db = snd (DeletePermission ok i db)"
| "run_auth_op (OpCreatePage ok i now p) db = snd (CreateDashboardPage ok i now p db)"
| "run_auth_op (OpUpdatePage ok now p) db = snd (UpdateDashboardPage ok now p db)"
| "run_auth_op (OpDeletePage ok i) db = snd (DeleteDashboardPage ok i db)"

text \<open>
  From empty tables, no sequence of repository calls stores two users with one email, two roles,
  permissions or pages with one name or key, or a link to a row that does not exist; and with an
  answering database a user's list of permissions has the names the links grant, each once.
\<close>

theorem auth_constraints_kept:
  fixes ops i
  defines "db \<equiv> fold run_auth_op ops empty_auth_db"
  shows "auth_db_ok db
    \<and> (\<exists>ns. ListPermissionNamesByUserID True i db = Inr ns \<and> distinct ns \<and> set ns = {n. granted db i n})"
proof -
  have "auth_db_ok t \<Longrightarrow> auth_db_ok (fold run_auth_op ops t)" for t
  proof (induction ops arbitrary: t)
    case (Cons x ops)
    then show ?case by (cases x) (simp_all add: auth_ok_ops)
  qed simp
  moreover have "auth_db_ok empty_auth_db"
    by (simp add: auth_db_ok_def empty_auth_db_def links_ok_def)
  moreover obtain ns where "ListPermissionNamesByUserID True i db = Inr ns" "distinct ns"
    by (simp add: ListPermissionNamesByUserID_def)
  ultimately show ?thesis
    using ListPermissionNames_granted [of i db ns] unfolding db_def by blast
qed

subsection \<open>Paginated lists\<close>

text \<open>
  The query of a list that was asked for with any query string reads one page of at most 100 rows,
  the page that was asked for while its number is below \<open>2 ^ 56\<close>, compares only columns of the entity,
  and sorts upwards or downwards.
\<close>

theorem pagination_request_safe:
  fixes columns table
  assumes "ParseFromQueryParam model (NewPaginationQueryParamReq values) = Some req"
  defines "q \<equiv> page_query_of columns table model req"
  shows "1 \<le> pr_page req \<and> 1 \<le> pq_limit q \<and> pq_limit q \<le> 100 \<and> int (pq_limit q) = pr_limit req
    \<and> (pr_page req < 2 ^ 56 \<longrightarrow> int (pq_offset q) = (pr_page req - 1) * pr_limit req)
    \<and> (\<forall>c\<in>set (pq_where q). cond_columns c \<subseteq>
         ran (pm_columns model) \<union> (\<lambda>c. ''LOWER('' @ c @ '')'') ` set (pm_search model))
    \<and> (pr_sort req = pm_sort model \<or> snd (pr_sort req) \<in> {''ASC'', ''DESC''})"
proof -
  from ParseFromQueryParam_ok [OF assms(1)] have ok: "1 \<le> pr_page req" "1 \<le> pr_limit req" "pr_limit req \<le> 100"
    "pr_offset req = int64_mult (pr_page req - 1) (pr_limit req)"
    "pr_sort req = pm_sort model \<or> snd (pr_sort req) \<in> {''ASC'', ''DESC''}"
    by (auto simp: page_req_ok_def)
  have "int (pq_offset q) = (pr_page req - 1) * pr_limit req" if "pr_page req < 2 ^ 56"
  proof -
    have "(pr_page req - 1) * pr_limit req \<le> 2 ^ 56 * 100"
      using ok that by (intro mult_mono) simp_all
    moreover have "0 \<le> (pr_page req - 1) * pr_limit req" using ok by simp
    ultimately show ?thesis
      using ok(4) by (simp add: q_def page_query_of_def to_uint64_def int64_mult_exact in_int64_def)
  qed
  moreover have "int (pq_limit q) = pr_limit req"
    using ok(2,3) by (simp add: q_def page_query_of_def to_uint64_def)
  ultimately show ?thesis
    using ok ApplyFilter_columns [of _ model req] by (auto simp: q_def page_query_of_def)
qed

theorem pagination_request_safe_witness:
  "\<exists>req. ParseFromQueryParam APIRole_model (NewPaginationQueryParamReq ((\<lambda>_. [])(''page'' := ''3'', ''keyword'' := ''ad''))) = Some req
     \<and> pr_page req = 3 \<and> pq_offset (page_query_of [''id''] ''roles'' APIRole_model req) = 20"
proof -
  let ?v = "(\<lambda>_. [])(''page'' := ''3'', ''keyword'' := ''ad'') :: string \<Rightarrow> string"
  obtain req where r: "ParseFromQueryParam APIRole_model (NewPaginationQueryParamReq ?v) = Some req"
    "pr_page req = 3" "pr_limit req = 10"
  proof -
    have p: "parseInt64 ''3'' = 3" "parseInt64 [] = 0" "trim_space ''ad'' = ''ad''" by code_simp+
    have "ParseFromQueryParam APIRole_model (NewPaginationQueryParamReq ?v) =
        Some (normalized_req APIRole_model (NewPaginationQueryParamReq ?v) (3, 0) [] ([], []))"
      by (simp add: ParseFromQueryParam_def NewPaginationQueryParamReq_def p)
    then show thesis by (rule that) (simp_all add: normalized_req_def page_bounds_def Let_def)
  qed
  then show ?thesis
    using pagination_request_safe [OF r(1), of "[''id'']" "''roles''"] by auto
qed

text \<open>
  A sort field that is no column of the entity is put in the query as it was sent.
\<close>

lemma sort_field_unchecked:
  assumes "pm_columns model f = None" "f \<noteq> []" "d \<in> {''ASC'', ''DESC''}"
  shows "pq_order (page_query_of columns table model (normalized_req model qp pages filters (f, d))) =
    f @ '' '' @ d"
proof -
  have "norm_upper ''ASC'' = ''ASC''" "norm_upper ''DESC'' = ''DESC''" by code_simp+
  with assms have "norm_upper d = d" by auto
  with assms show ?thesis
    by (auto simp: page_query_of_def normalized_req_def Let_def split: prod.splits)
qed

end
