(* ===== verification/OrderGateway.thy ===== *)
theory OrderGateway
  imports OrderEngine JsonText
begin

text \<open>
  The two doors of the order engine: the HTTP handlers
  (\<open>internal/handler/orderengine/http/order_engine.http.go\<close>) with their API keys, and the gRPC server
  (\<open>internal/handler/orderengine/grpc/order_engine.grpc.go\<close>). Both turn a request into an
  \<open>order_request\<close> and hand it to the engine. \<open>time.Parse\<close> is the parameter \<open>tp\<close>, of a layout and a text,
  and \<open>et\<close> gives the text of an error of the engine.
\<close>

subsection \<open>API keys\<close>

text \<open>An expiry comes from the configuration file with the type its parser gives it.\<close>

datatype expiry_value = ExpiryNone | ExpiryTime gotime | ExpiryText string | ExpiryOther

record api_key_config =
  ak_key :: string
  ak_active :: bool
  ak_expired_at :: expiry_value

datatype api_key_error = APIKeyMissing | APIKeyInvalid | APIKeyInactive | APIKeyExpired

text \<open>\<open>None\<close> is an error, \<open>Some None\<close> no expiry.\<close>

definition parseExpiry :: "(string \<Rightarrow> string \<Rightarrow> gotime option) \<Rightarrow> expiry_value \<Rightarrow> gotime option option" where
  "parseExpiry tp v =
     (case v of
        ExpiryNone \<Rightarrow> Some None
      | ExpiryTime t \<Rightarrow> Some (if t = zero_time then None else Some t)
      | ExpiryText s \<Rightarrow>
          (let raw = trim_space s
           in if raw = [] then Some None
              else (case tp ''2006-01-02T15:04:05Z07:00'' raw of
                      Some t \<Rightarrow> Some (Some t)
                    | None \<Rightarrow>
                        (case tp ''2006-01-02'' raw of
                           None \<Rightarrow> None
                         | Some t \<Rightarrow> Some (Some (t + 24 * 60 * minute)))))
      | ExpiryOther \<Rightarrow> None)"

text \<open>The loop over the configured keys; the first candidate with the key decides.\<close>

fun check_keys ::
  "(string \<Rightarrow> string \<Rightarrow> gotime option) \<Rightarrow> gotime \<Rightarrow> string \<Rightarrow> api_key_config list \<Rightarrow> api_key_error option" where
  "check_keys tp now apiKey [] = Some APIKeyInvalid"
| "check_keys tp now apiKey (candidate # rest) =
     (let storedKey = trim_space (ak_key candidate)
      in if storedKey = [] \<or> apiKey \<noteq> storedKey then check_keys tp now apiKey rest
         else if \<not> ak_active candidate then Some APIKeyInactive
         else (case parseExpiry tp (ak_expired_at candidate) of
                 None \<Rightarrow> Some APIKeyInvalid
               | Some None \<Rightarrow> None
               | Some (Some expiredAt) \<Rightarrow> if now < expiredAt then None else Some APIKeyExpired))"

definition validateAPIKey ::
  "(string \<Rightarrow> string \<Rightarrow> gotime option) \<Rightarrow> gotime \<Rightarrow> api_key_config list \<Rightarrow> string \<Rightarrow> api_key_error option" where
  "validateAPIKey tp now keys rawAPIKey =
     (let apiKey = trim_space rawAPIKey
      in if apiKey = [] then Some APIKeyMissing
         else if keys = [] then Some APIKeyInvalid
         else check_keys tp now apiKey keys)"

definition resolveAPIKey :: "string \<Rightarrow> string \<Rightarrow> string" where
  "resolveAPIKey header body_key =
     (let headerKey = trim_space header in if headerKey \<noteq> [] then headerKey else trim_space body_key)"

fun api_key_message :: "api_key_error \<Rightarrow> string" where
  "api_key_message APIKeyMissing = ''api key is required''"
| "api_key_message APIKeyInvalid = ''invalid api key''"
| "api_key_message APIKeyInactive = ''api key is inactive''"
| "api_key_message APIKeyExpired = ''api key is expired''"

subsection \<open>Requests\<close>

text \<open>
  The body of an HTTP request. The protobuf message has the same fields but the key and the entry
  order id, an absent optional field reading as its zero value.
\<close>

record place_order_request =
  po_api_key :: string
  po_request_id :: string
  po_user_id :: string
  po_order_id :: string
  po_entry_order_id :: string
  po_exchange :: string
  po_market_type :: string
  po_position_side :: string
  po_symbol :: string
  po_type :: string
  po_side :: string
  po_price :: string
  po_quantity :: string
  po_requested_at :: int
  po_expired_at :: int
  po_source :: string
  po_strategy_id :: string
  po_strategy_name :: string
  po_interval :: string
  po_internal :: string
  po_trade_condition :: string
  po_order_reason :: string
  po_exit_type :: string
  po_need_notification :: bool
  po_is_paper_trading :: bool

definition place_order_tags :: "string list" where
  "place_order_tags = [''api_key'', ''request_id'', ''user_id'', ''order_id'', ''entry_order_id'', ''exchange'',
     ''market_type'', ''position_side'', ''symbol'', ''type'', ''side'', ''price'', ''quantity'', ''requested_at'',
     ''expired_at'', ''source'', ''strategy_id'', ''strategy_name'', ''interval'', ''internal'',
     ''trade_condition'', ''order_reason'', ''exit_type'', ''need_notification'', ''is_paper_trading'']"

definition place_order_request_of :: "(string \<times> json) list \<Rightarrow> place_order_request option" where
  "place_order_request_of ms = do {
     let str = fstr place_order_tags ms;
     api_key \<leftarrow> str ''api_key''; request_id \<leftarrow> str ''request_id''; user_id \<leftarrow> str ''user_id'';
     order_id \<leftarrow> str ''order_id''; entry_order_id \<leftarrow> str ''entry_order_id''; exchange \<leftarrow> str ''exchange'';
     market_type \<leftarrow> str ''market_type''; position_side \<leftarrow> str ''position_side''; symbol \<leftarrow> str ''symbol'';
     typ \<leftarrow> str ''type''; side \<leftarrow> str ''side''; price \<leftarrow> str ''price''; quantity \<leftarrow> str ''quantity'';
     requested_at \<leftarrow> fint place_order_tags ms ''requested_at'';
     expired_at \<leftarrow> fint place_order_tags ms ''expired_at'';
     source \<leftarrow> str ''source''; strategy_id \<leftarrow> str ''strategy_id''; strategy_name \<leftarrow> str ''strategy_name'';
     interval \<leftarrow> str ''interval''; internal \<leftarrow> str ''internal'';
     trade_condition \<leftarrow> str ''trade_condition''; order_reason \<leftarrow> str ''order_reason'';
     exit_type \<leftarrow> str ''exit_type'';
     need_notification \<leftarrow> fbool place_order_tags ms ''need_notification'';
     is_paper_trading \<leftarrow> fbool place_order_tags ms ''is_paper_trading'';
     Some \<lparr>po_api_key = api_key, po_request_id = request_id, po_user_id = user_id, po_order_id = order_id,
       po_entry_order_id = entry_order_id, po_exchange = exchange, po_market_type = market_type,
       po_position_side = position_side, po_symbol = symbol, po_type = typ, po_side = side, po_price = price,
       po_quantity = quantity, po_requested_at = requested_at, po_expired_at = expired_at, po_source = source,
       po_strategy_id = strategy_id, po_strategy_name = strategy_name, po_interval = interval,
       po_internal = internal, po_trade_condition = trade_condition, po_order_reason = order_reason,
       po_exit_type = exit_type, po_need_notification = need_notification,
       po_is_paper_trading = is_paper_trading\<rparr>
   }"

text \<open>\<open>json.Decoder.Decode\<close> reads the first value of the body and ignores what follows.\<close>

definition decode_body :: "string \<Rightarrow> place_order_request option" where
  "decode_body body =
     Option.bind (p_val (2 * length body + 2) body) (\<lambda>(j, _). into_struct place_order_request_of j)"

definition castToString :: "json \<Rightarrow> string" where
  "castToString v = (case v of JStr s \<Rightarrow> s | _ \<Rightarrow> [])"

definition resolveEntryOrderID :: "string \<Rightarrow> string \<Rightarrow> string" where
  "resolveEntryOrderID entryOrderID internal =
     (let trimmed = trim_space entryOrderID
      in if trimmed \<noteq> [] then trimmed
         else (let internalText = trim_space internal
               in if internalText = [] then []
                  else (case parse_json internalText of
                          Some (JObj ms) \<Rightarrow>
                            (case map_lookup ms ''entry_order_id'' of
                               None \<Rightarrow> []
                             | Some raw \<Rightarrow> if raw = JNull then [] else trim_space (castToString raw))
                        | _ \<Rightarrow> [])))"

definition required_present :: "place_order_request \<Rightarrow> bool" where
  "required_present req =
     (list_all (\<lambda>s. trim_space s \<noteq> []) [po_request_id req, po_user_id req, po_exchange req, po_symbol req,
        po_type req, po_side req, po_quantity req, po_source req]
      \<and> resolveEntryOrderID (po_entry_order_id req) (po_internal req) \<noteq> [])"

text \<open>\<open>null.NewString(s, s != "").Ptr()\<close> and its integer counterpart.\<close>

definition string_ptr :: "string \<Rightarrow> string option" where
  "string_ptr s = (if s \<noteq> [] then Some s else None)"

definition int_ptr :: "int \<Rightarrow> int option" where
  "int_ptr i = (if i \<noteq> 0 then Some i else None)"

definition mapHTTPRequestToOrderRequest :: "decimal_ops \<Rightarrow> place_order_request \<Rightarrow> string + order_request" where
  "mapHTTPRequestToOrderRequest D req =
     (case d_parse D (po_price req) of None \<Rightarrow> Inl ''invalid price''
      | Some price \<Rightarrow>
     (case d_parse D (po_quantity req) of None \<Rightarrow> Inl ''invalid quantity''
      | Some quantity \<Rightarrow>
          (let marketType = NormalizeMarketType (po_market_type req);
               side = NormalizeOrderSideByMarket (po_side req) marketType
           in if side = [] then Inl ''invalid side for market_type''
              else Inr \<lparr>rq_request_id = po_request_id req, rq_user_id = po_user_id req,
                rq_order_id = string_ptr (po_order_id req),
                rq_entry_order_id = resolveEntryOrderID (po_entry_order_id req) (po_internal req),
                rq_exchange = po_exchange req, rq_market_type = marketType,
                rq_position_side = NormalizePositionSide (po_position_side req), rq_symbol = po_symbol req,
                rq_type = to_upper (po_type req), rq_side = side, rq_price = price, rq_quantity = quantity,
                rq_requested_at = po_requested_at req, rq_expired_at = int_ptr (po_expired_at req),
                rq_source = po_source req, rq_strategy_id = string_ptr (po_strategy_id req),
                rq_strategy_name = po_strategy_name req, rq_interval = po_interval req,
                rq_internal = po_internal req, rq_entry_price = [], rq_exit_price = [],
                rq_pnl_percentage = [], rq_trade_condition = po_trade_condition req,
                rq_order_reason = po_order_reason req, rq_exit_type = po_exit_type req,
                rq_need_notification = po_need_notification req,
                rq_is_paper_trading = po_is_paper_trading req\<rparr>)))"

subsection \<open>Responses\<close>

record place_order_response =
  pp_id :: string
  pp_request_id :: string
  pp_user_id :: string
  pp_exchange :: string
  pp_market_type :: string
  pp_position_side :: string
  pp_symbol :: string
  pp_order_id :: string
  pp_entry_order_id :: string
  pp_client_order_id :: "string option"
  pp_side :: string
  pp_type :: string
  pp_price :: "string option"
  pp_quantity :: string
  pp_filled_quantity :: string
  pp_avg_fill_price :: "string option"
  pp_status :: string
  pp_leverage :: "string option"
  pp_fee :: "string option"
  pp_realized_pnl :: "string option"
  pp_created_at_exchange :: "int option"
  pp_sent_at :: "int option"
  pp_acknowledged_at :: "int option"
  pp_filled_at :: "int option"
  pp_strategy_id :: "string option"
  pp_trade_condition :: string
  pp_order_reason :: string
  pp_exit_type :: string
  pp_error_message :: "string option"
  pp_created_at :: int
  pp_updated_at :: int
  pp_is_paper_trading :: bool

definition valid_string :: "null_string \<Rightarrow> string option" where
  "valid_string s = (if str_valid s then Some (str_val s) else None)"

definition valid_millis :: "null_time \<Rightarrow> int option" where
  "valid_millis t = (if time_valid t then Some (unix_milli (time_val t)) else None)"

text \<open>The reason and the exit type are set by the caller.\<close>

definition mapOrderHistoryToHTTPResponse :: "decimal_ops \<Rightarrow> order_history \<Rightarrow> place_order_response" where
  "mapOrderHistoryToHTTPResponse D h =
     \<lparr>pp_id = oh_id h, pp_request_id = oh_request_id h, pp_user_id = oh_user_id h,
      pp_exchange = oh_exchange h, pp_market_type = oh_market_type h, pp_position_side = oh_position_side h,
      pp_symbol = oh_symbol h, pp_order_id = oh_order_id h, pp_entry_order_id = oh_entry_order_id h,
      pp_client_order_id = valid_string (oh_client_order_id h), pp_side = oh_side h, pp_type = oh_type h,
      pp_price = map_option (d_show D) (oh_price h), pp_quantity = d_show D (oh_quantity h),
      pp_filled_quantity = d_show D (oh_filled_quantity h),
      pp_avg_fill_price = map_option (d_show D) (oh_avg_fill_price h), pp_status = oh_status h,
      pp_leverage = map_option (d_show D) (oh_leverage h), pp_fee = map_option (d_show D) (oh_fee h),
      pp_realized_pnl = map_option (d_show D) (oh_realized_pnl h),
      pp_created_at_exchange = valid_millis (oh_created_at_exchange h),
      pp_sent_at = valid_millis (oh_sent_at h), pp_acknowledged_at = valid_millis (oh_acknowledged_at h),
      pp_filled_at = valid_millis (oh_filled_at h), pp_strategy_id = valid_string (oh_strategy_id h),
      pp_trade_condition = oh_trade_condition h, pp_order_reason = [], pp_exit_type = [],
      pp_error_message = valid_string (oh_error_message h), pp_created_at = unix_milli (oh_created_at h),
      pp_updated_at = unix_milli (oh_updated_at h), pp_is_paper_trading = oh_is_paper_trading h\<rparr>"

datatype gateway_reply =
    GatewayError nat string | OrderReply place_order_response | QueuedReply string

subsection \<open>HTTP handlers\<close>

record gateway_request =
  gr_method :: string
  gr_api_key :: string   \<comment> \<open>the header \<open>X-API-Key\<close>\<close>
  gr_body :: string

text \<open>The common beginning of both handlers, up to the request for the engine.\<close>

definition accept_request ::
  "decimal_ops \<Rightarrow> (string \<Rightarrow> string \<Rightarrow> gotime option) \<Rightarrow> gotime \<Rightarrow> api_key_config list \<Rightarrow> gateway_request
     \<Rightarrow> gateway_reply + order_request" where
  "accept_request D tp now keys r =
     (if gr_method r \<noteq> ''POST'' then Inl (GatewayError 405 ''method not allowed'')
      else case decode_body (gr_body r) of
        None \<Rightarrow> Inl (GatewayError 400 ''invalid json body'')
      | Some req \<Rightarrow>
          (case validateAPIKey tp now keys (resolveAPIKey (gr_api_key r) (po_api_key req)) of
             Some e \<Rightarrow> Inl (GatewayError 401 (api_key_message e))
           | None \<Rightarrow>
               if \<not> required_present req then Inl (GatewayError 400 ''missing required fields'')
               else (case mapHTTPRequestToOrderRequest D req of
                       Inl e \<Rightarrow> Inl (GatewayError 400 e)
                     | Inr order \<Rightarrow> Inr order)))"

definition place_order_error :: "(engine_error \<Rightarrow> string) \<Rightarrow> engine_error \<Rightarrow> gateway_reply" where
  "place_order_error et e =
     (if e = ErrDuplicateOrder then GatewayError 409 ''duplicate request''
      else if e = ErrExchangeNotFound then GatewayError 400 ''exchange not found''
      else if e = ErrInvalidEntryOrderID then GatewayError 400 (et e)
      else GatewayError 500 ''internal server error'')"

definition HTTP_PlaceOrder ::
  "decimal_ops \<Rightarrow> (string \<Rightarrow> string) \<Rightarrow> (string \<Rightarrow> string \<Rightarrow> gotime option) \<Rightarrow> (engine_error \<Rightarrow> string)
     \<Rightarrow> 'x registry \<Rightarrow> gotime \<Rightarrow> api_key_config list \<Rightarrow> call_env \<Rightarrow> gateway_request \<Rightarrow> 'x world
     \<Rightarrow> gateway_reply \<times> 'x world" where
  "HTTP_PlaceOrder D ft tp et reg now keys env r w =
     (case accept_request D tp now keys r of
        Inl reply \<Rightarrow> (reply, w)
      | Inr order \<Rightarrow>
          (case PlaceOrder D ft reg env order w of
             (Inl e, w') \<Rightarrow> (place_order_error et e, w')
           | (Inr history, w') \<Rightarrow>
               (OrderReply ((mapOrderHistoryToHTTPResponse D history)
                  \<lparr>pp_order_reason := trim_space (rq_order_reason order),
                   pp_exit_type := trim_space (rq_exit_type order)\<rparr>), w')))"

definition place_order_async_error :: "(engine_error \<Rightarrow> string) \<Rightarrow> engine_error \<Rightarrow> gateway_reply" where
  "place_order_async_error et e =
     (if e = ErrInvalidEntryOrderID then GatewayError 400 (et e)
      else if e = ErrPublishOrderEventFailed then GatewayError 502 (et e)
      else GatewayError 500 (et e))"

definition HTTP_PlaceOrderAsync ::
  "decimal_ops \<Rightarrow> (string \<Rightarrow> string) \<Rightarrow> (string \<Rightarrow> string \<Rightarrow> gotime option) \<Rightarrow> (engine_error \<Rightarrow> string)
     \<Rightarrow> gotime \<Rightarrow> api_key_config list \<Rightarrow> bool \<Rightarrow> bool \<Rightarrow> gateway_request \<Rightarrow> event list
     \<Rightarrow> gateway_reply \<times> event list" where
  "HTTP_PlaceOrderAsync D ft tp et now keys ctx_done publish_ok r evlog =
     (case accept_request D tp now keys r of
        Inl reply \<Rightarrow> (reply, evlog)
      | Inr order \<Rightarrow>
          (case PlaceOrderAsync ft ctx_done publish_ok order evlog of
             (Some e, evlog') \<Rightarrow> (place_order_async_error et e, evlog')
           | (None, evlog') \<Rightarrow> (QueuedReply (rq_request_id order), evlog')))"

subsection \<open>The gRPC server\<close>

datatype grpc_error = BadDecimal string | InvalidSide | EngineFailed engine_error

text \<open>The request the server builds; it reads the entry order id from \<open>internal\<close> only.\<close>

definition grpc_order_request ::
  "decimal_ops \<Rightarrow> (string \<Rightarrow> string) \<Rightarrow> place_order_request \<Rightarrow> grpc_error + order_request" where
  "grpc_order_request D ft req =
     (case d_parse D (po_price req) of None \<Rightarrow> Inl (BadDecimal (po_price req))
      | Some price \<Rightarrow>
     (case d_parse D (po_quantity req) of None \<Rightarrow> Inl (BadDecimal (po_quantity req))
      | Some quantity \<Rightarrow>
          (let marketType = NormalizeMarketType (po_market_type req);
               normalizedSide = NormalizeOrderSideByMarket (po_side req) marketType
           in if normalizedSide = [] then Inl InvalidSide
              else Inr \<lparr>rq_request_id = po_request_id req, rq_user_id = po_user_id req,
                rq_order_id = string_ptr (po_order_id req),
                rq_entry_order_id = extractEntryOrderIDFromInternal ft (po_internal req),
                rq_exchange = po_exchange req, rq_market_type = marketType,
                rq_position_side = NormalizePositionSide (po_position_side req), rq_symbol = po_symbol req,
                rq_type = po_type req, rq_side = normalizedSide, rq_price = price, rq_quantity = quantity,
                rq_requested_at = po_requested_at req, rq_expired_at = int_ptr (po_expired_at req),
                rq_source = po_source req, rq_strategy_id = string_ptr (po_strategy_id req),
                rq_strategy_name = po_strategy_name req, rq_interval = po_interval req,
                rq_internal = po_internal req, rq_entry_price = [], rq_exit_price = [],
                rq_pnl_percentage = [], rq_trade_condition = po_trade_condition req,
                rq_order_reason = po_order_reason req, rq_exit_type = po_exit_type req,
                rq_need_notification = po_need_notification req,
                rq_is_paper_trading = po_is_paper_trading req\<rparr>)))"

text \<open>
  The protobuf response has no entry order id, its \<open>created_at\<close> and \<open>updated_at\<close> are in seconds, and
  reason and exit type are those of the request as sent.
\<close>

definition grpc_response :: "decimal_ops \<Rightarrow> place_order_request \<Rightarrow> order_history \<Rightarrow> place_order_response" where
  "grpc_response D req h =
     (mapOrderHistoryToHTTPResponse D h)
       \<lparr>pp_entry_order_id := [], pp_order_reason := po_order_reason req, pp_exit_type := po_exit_type req,
        pp_created_at := unix_sec (oh_created_at h), pp_updated_at := unix_sec (oh_updated_at h)\<rparr>"

definition GRPC_PlaceOrder ::
  "decimal_ops \<Rightarrow> (string \<Rightarrow> string) \<Rightarrow> 'x registry \<Rightarrow> call_env \<Rightarrow> place_order_request \<Rightarrow> 'x world
     \<Rightarrow> (grpc_error + place_order_response) \<times> 'x world" where
  "GRPC_PlaceOrder D ft reg env req w =
     (case grpc_order_request D ft req of
        Inl e \<Rightarrow> (Inl e, w)
      | Inr order \<Rightarrow>
          (case PlaceOrder D ft reg env order w of
             (Inl e, w') \<Rightarrow> (Inl (EngineFailed e), w')
           | (Inr history, w') \<Rightarrow> (Inr (grpc_response D req history), w')))"

end
