(* ===== verification/BackfillJobs.thy ===== *)
theory BackfillJobs
  imports ApiHttp Klines
begin

text \<open>
  Backfill jobs of the dashboard (\<open>internal/service/api/backfill.service.go\<close>) and the gRPC server that
  runs a backfill (\<open>internal/handler/marketdata/grpc/market_data.grpc.go\<close>). Every method holds the
  service's lock, so a method is one step; each accepted job has a goroutine of its own, which takes two
  steps with the call to the server between them. Jobs are returned as copies, here values. \<open>et\<close> prints
  an error of the server.
\<close>

subsection \<open>Jobs\<close>

record backfill_job =
  jb_id :: string
  jb_status :: string
  jb_request :: backfill_form
  jb_inserted_count :: int
  jb_error :: string
  jb_created_at :: gotime
  jb_started_at :: "gotime option"
  jb_completed_at :: "gotime option"
  jb_updated_at :: gotime

type_synonym job_map = "string \<Rightarrow> backfill_job option"

abbreviation BackfillJobPending :: string where "BackfillJobPending \<equiv> ''pending''"
abbreviation BackfillJobRunning :: string where "BackfillJobRunning \<equiv> ''running''"
abbreviation BackfillJobSucceeded :: string where "BackfillJobSucceeded \<equiv> ''succeeded''"
abbreviation BackfillJobFailed :: string where "BackfillJobFailed \<equiv> ''failed''"

definition isBackfillTerminal :: "string \<Rightarrow> bool" where
  "isBackfillTerminal status = (status = BackfillJobSucceeded \<or> status = BackfillJobFailed)"

text \<open>Instants carry no zone, so \<open>UTC\<close> is the identity.\<close>

definition normalizeBackfillRequest :: "backfill_form \<Rightarrow> backfill_form" where
  "normalizeBackfillRequest req =
     req\<lparr>bq_exchange := norm_lower (bq_exchange req), bq_market_type := norm_lower (bq_market_type req),
         bq_symbol := norm_upper (bq_symbol req), bq_interval := trim_space (bq_interval req)\<rparr>"

definition Validate :: "backfill_form \<Rightarrow> string option" where
  "Validate r =
     (if trim_space (bq_exchange r) = [] then Some ''exchange is required''
      else if trim_space (bq_market_type r) = [] then Some ''market_type is required''
      else if trim_space (bq_symbol r) = [] then Some ''symbol is required''
      else if trim_space (bq_interval r) = [] then Some ''interval is required''
      else if bq_start_time r = zero_time \<or> bq_end_time r = zero_time
      then Some ''start_time and end_time are required''
      else if \<not> bq_start_time r < bq_end_time r then Some ''end_time must be greater than start_time''
      else None)"

text \<open>Sixteen random bytes in hexadecimal, or the clock when the generator fails.\<close>

definition newJobID :: "string option \<Rightarrow> gotime \<Rightarrow> string" where
  "newJobID rand now =
     (case rand of
        Some b \<Rightarrow> concat (map (\<lambda>c. [hex_digit (of_char c div 16), hex_digit (of_char c mod 16)]) b)
      | None \<Rightarrow> format_int now)"

definition Start_job ::
  "bool \<Rightarrow> string option \<Rightarrow> gotime \<Rightarrow> backfill_form \<Rightarrow> job_map \<Rightarrow> (string + backfill_job) \<times> job_map" where
  "Start_job client_ready rand now req jobs =
     (if \<not> client_ready then (Inl ''market data grpc client is not configured'', jobs)
      else (let req = normalizeBackfillRequest req
            in case Validate req of
                 Some e \<Rightarrow> (Inl e, jobs)
               | None \<Rightarrow>
                   (let job = \<lparr>jb_id = newJobID rand now, jb_status = BackfillJobPending, jb_request = req,
                          jb_inserted_count = 0, jb_error = [], jb_created_at = now, jb_started_at = None,
                          jb_completed_at = None, jb_updated_at = now\<rparr>
                    in (Inr job, jobs(jb_id job \<mapsto> job)))))"

definition Get_job :: "string \<Rightarrow> job_map \<Rightarrow> backfill_job option" where
  "Get_job i jobs = jobs i"

text \<open>
  \<open>Wait\<close> looks at once and then at every tick that comes before the deadline and the end of the
  context; the argument is the state of the service at each of these ticks.
\<close>

fun Wait_job :: "string \<Rightarrow> job_map \<Rightarrow> job_map list \<Rightarrow> backfill_job option" where
  "Wait_job i jobs [] = Get_job i jobs"
| "Wait_job i jobs (later # ticks) =
     (case Get_job i jobs of
        None \<Rightarrow> None
      | Some job \<Rightarrow> if isBackfillTerminal (jb_status job) then Some job else Wait_job i later ticks)"

definition markRunning :: "string \<Rightarrow> gotime \<Rightarrow> job_map \<Rightarrow> backfill_job option \<times> job_map" where
  "markRunning i now jobs =
     (case jobs i of
        None \<Rightarrow> (None, jobs)
      | Some job \<Rightarrow>
          (let job = job\<lparr>jb_status := BackfillJobRunning, jb_started_at := Some now, jb_updated_at := now\<rparr>
           in (Some job, jobs(i \<mapsto> job))))"

definition markSucceeded :: "string \<Rightarrow> int \<Rightarrow> gotime \<Rightarrow> job_map \<Rightarrow> job_map" where
  "markSucceeded i insertedCount now jobs =
     (case jobs i of
        None \<Rightarrow> jobs
      | Some job \<Rightarrow> jobs(i \<mapsto> job\<lparr>jb_status := BackfillJobSucceeded, jb_inserted_count := insertedCount,
                          jb_completed_at := Some now, jb_updated_at := now\<rparr>))"

definition markFailed :: "string \<Rightarrow> string \<Rightarrow> gotime \<Rightarrow> job_map \<Rightarrow> job_map" where
  "markFailed i e now jobs =
     (case jobs i of
        None \<Rightarrow> jobs
      | Some job \<Rightarrow> jobs(i \<mapsto> job\<lparr>jb_status := BackfillJobFailed, jb_error := e,
                          jb_completed_at := Some now, jb_updated_at := now\<rparr>))"

subsection \<open>The server\<close>

record rpc_request =
  rr_exchange :: string
  rr_market_type :: string
  rr_symbol :: string
  rr_interval :: string
  rr_start_time :: int
  rr_end_time :: int

datatype rpc_code = InvalidArgument | NotFound | Internal

text \<open>The exchanges are given by the backfill of each; \<open>None\<close> for a request is a \<open>nil\<close> pointer.\<close>

type_synonym 's backfillers = "string \<Rightarrow> (backfill_request \<Rightarrow> 's \<Rightarrow> (string + int) \<times> 's) option"

definition RPC_BackfillMarketKlines ::
  "'s backfillers \<Rightarrow> rpc_request option \<Rightarrow> 's \<Rightarrow> (rpc_code \<times> string + int) \<times> 's" where
  "RPC_BackfillMarketKlines exchanges request s =
     (case request of
        None \<Rightarrow> (Inl (InvalidArgument, ''request is required''), s)
      | Some req \<Rightarrow>
          (let exchange = norm_lower (rr_exchange req); symbol = norm_upper (rr_symbol req);
               interval = trim_space (rr_interval req)
           in if exchange = [] then (Inl (InvalidArgument, ''exchange is required''), s)
              else if symbol = [] then (Inl (InvalidArgument, ''symbol is required''), s)
              else if interval = [] then (Inl (InvalidArgument, ''interval is required''), s)
              else if rr_start_time req \<le> 0 \<or> rr_end_time req \<le> 0
              then (Inl (InvalidArgument, ''start_time and end_time must be unix milliseconds''), s)
              else if rr_end_time req \<le> rr_start_time req
              then (Inl (InvalidArgument, ''end_time must be greater than start_time''), s)
              else (case exchanges exchange of
                      None \<Rightarrow> (Inl (NotFound, ''exchange '' @ exchange @ '' is not configured''), s)
                    | Some backfill \<Rightarrow>
                        (case backfill \<lparr>bf_market = NormalizeMarketType (rr_market_type req), bf_symbol = symbol,
                             bf_interval = interval, bf_start = from_unix_milli (rr_start_time req),
                             bf_end = from_unix_milli (rr_end_time req)\<rparr> s of
                           (Inl e, s') \<Rightarrow> (Inl (Internal, ''backfill market klines failed: '' @ e), s')
                         | (Inr n, s') \<Rightarrow> (Inr n, s')))))"

text \<open>The request the goroutine of a job sends.\<close>

definition rpc_request_of :: "backfill_form \<Rightarrow> rpc_request" where
  "rpc_request_of req =
     \<lparr>rr_exchange = bq_exchange req, rr_market_type = bq_market_type req, rr_symbol = bq_symbol req,
      rr_interval = bq_interval req, rr_start_time = unix_milli (bq_start_time req),
      rr_end_time = unix_milli (bq_end_time req)\<rparr>"

text \<open>The end of \<open>run\<close>: the reply of the server is written into the job.\<close>

definition run_reply ::
  "(rpc_code \<times> string \<Rightarrow> string) \<Rightarrow> string \<Rightarrow> rpc_code \<times> string + int \<Rightarrow> gotime \<Rightarrow> job_map \<Rightarrow> job_map" where
  "run_reply et i reply now jobs =
     (case reply of Inl e \<Rightarrow> markFailed i (et e) now jobs | Inr n \<Rightarrow> markSucceeded i n now jobs)"

subsection \<open>The service and its goroutines\<close>

record job_system =
  js_jobs :: job_map
  js_spawned :: "string list"
  js_calling :: "(string \<times> backfill_form) list"

definition idle_system :: job_system where
  "idle_system = \<lparr>js_jobs = Map.empty, js_spawned = [], js_calling = []\<rparr>"

text \<open>
  A step is one critical section: a job is accepted and its goroutine started, a goroutine begins its
  call, or the server's reply to a call arrives. A job id is drawn from 128 random bits and taken to
  be new.
\<close>

inductive job_step :: "job_system \<Rightarrow> job_system \<Rightarrow> bool" where
  accept: "Start_job True rand now req (js_jobs s) = (Inr job, jobs') \<Longrightarrow> js_jobs s (jb_id job) = None \<Longrightarrow>
     job_step s (s\<lparr>js_jobs := jobs', js_spawned := jb_id job # js_spawned s\<rparr>)"
| gone: "i \<in> set (js_spawned s) \<Longrightarrow> markRunning i now (js_jobs s) = (None, jobs') \<Longrightarrow>
     job_step s (s\<lparr>js_jobs := jobs', js_spawned := remove1 i (js_spawned s)\<rparr>)"
| call: "i \<in> set (js_spawned s) \<Longrightarrow> markRunning i now (js_jobs s) = (Some job, jobs') \<Longrightarrow>
     job_step s (s\<lparr>js_jobs := jobs', js_spawned := remove1 i (js_spawned s),
       js_calling := (i, jb_request job) # js_calling s\<rparr>)"
| reply: "(i, req) \<in> set (js_calling s) \<Longrightarrow>
     job_step s (s\<lparr>js_jobs := run_reply et i answer now (js_jobs s), js_calling := remove1 (i, req) (js_calling s)\<rparr>)"

inductive_cases job_stepE: "job_step s s'"

subsection \<open>The life of a job\<close>

definition request_ok :: "backfill_form \<Rightarrow> bool" where
  "request_ok req = (Validate req = None \<and> normalizeBackfillRequest req = req)"

text \<open>The job a goroutine owns, and where its goroutine is.\<close>

definition job_phase :: "job_system \<Rightarrow> string \<Rightarrow> backfill_job \<Rightarrow> bool" where
  "job_phase s i job =
     (if jb_status job = BackfillJobPending then
        i \<in> set (js_spawned s) \<and> i \<notin> fst ` set (js_calling s) \<and> jb_started_at job = None \<and> jb_completed_at job = None
      else if jb_status job = BackfillJobRunning then
        i \<notin> set (js_spawned s) \<and> (i, jb_request job) \<in> set (js_calling s)
        \<and> jb_started_at job \<noteq> None \<and> jb_completed_at job = None
      else isBackfillTerminal (jb_status job) \<and> i \<notin> set (js_spawned s) \<and> i \<notin> fst ` set (js_calling s)
        \<and> jb_started_at job \<noteq> None \<and> jb_completed_at job \<noteq> None)"

definition jobs_ok :: "job_system \<Rightarrow> bool" where
  "jobs_ok s =
     (distinct (js_spawned s) \<and> distinct (map fst (js_calling s))
      \<and> set (js_spawned s) \<union> fst ` set (js_calling s) \<subseteq> dom (js_jobs s)
      \<and> (\<forall>i job. js_jobs s i = Some job \<longrightarrow> jb_id job = i \<and> request_ok (jb_request job) \<and> job_phase s i job))"

lemma normalizeBackfillRequest_idem [simp]:
  "normalizeBackfillRequest (normalizeBackfillRequest req) = normalizeBackfillRequest req"
  by (simp add: normalizeBackfillRequest_def)

lemma Start_job_Inr:
  assumes "Start_job ready rand now req jobs = (Inr job, jobs')"
  shows "jobs' = jobs(jb_id job \<mapsto> job)" "request_ok (jb_request job)" "jb_status job = BackfillJobPending"
    "jb_started_at job = None" "jb_completed_at job = None" "jb_request job = normalizeBackfillRequest req"
proof -
  let ?req = "normalizeBackfillRequest req"
  have "Validate ?req = None" "jobs' = jobs(jb_id job \<mapsto> job)" "job = \<lparr>jb_id = newJobID rand now,
      jb_status = BackfillJobPending, jb_request = ?req, jb_inserted_count = 0, jb_error = [], jb_created_at = now,
      jb_started_at = None, jb_completed_at = None, jb_updated_at = now\<rparr>"
    using assms by (cases ready; cases "Validate ?req"; fastforce simp: Start_job_def Let_def)+
  then show "jobs' = jobs(jb_id job \<mapsto> job)" "request_ok (jb_request job)" "jb_status job = BackfillJobPending"
    "jb_started_at job = None" "jb_completed_at job = None" "jb_request job = ?req"
    by (simp_all add: request_ok_def)
qed

lemma markRunning_Some:
  assumes "markRunning i now jobs = (Some job, jobs')"
  obtains job0 where "jobs i = Some job0" "jobs' = jobs(i \<mapsto> job)"
    "job = job0\<lparr>jb_status := BackfillJobRunning, jb_started_at := Some now, jb_updated_at := now\<rparr>"
proof (cases "jobs i")
  case None
  with assms show ?thesis by (simp add: markRunning_def)
next
  case (Some job0)
  let ?job = "job0\<lparr>jb_status := BackfillJobRunning, jb_started_at := Some now, jb_updated_at := now\<rparr>"
  have "markRunning i now jobs = (Some ?job, jobs(i \<mapsto> ?job))"
    by (simp add: markRunning_def Some Let_def)
  from this [symmetric] assms have "(Some ?job, jobs(i \<mapsto> ?job)) = (Some job, jobs')" by (rule trans)
  then have a: "?job = job" and b: "jobs(i \<mapsto> ?job) = jobs'"
    unfolding prod.inject option.inject by blast+
  show ?thesis by (rule that [OF Some b [unfolded a, symmetric] a [symmetric]])
qed

lemma run_reply_Some:
  assumes "jobs i = Some job"
  obtains job' where "run_reply et i answer now jobs = jobs(i \<mapsto> job')" "isBackfillTerminal (jb_status job')"
    "jb_completed_at job' = Some now" "jb_id job' = jb_id job" "jb_request job' = jb_request job"
    "jb_started_at job' = jb_started_at job"
proof (cases answer)
  case (Inl e)
  show ?thesis
    by (rule that [of "job\<lparr>jb_status := BackfillJobFailed, jb_error := et e, jb_completed_at := Some now,
          jb_updated_at := now\<rparr>"])
       (simp_all add: Inl run_reply_def markFailed_def assms isBackfillTerminal_def)
next
  case (Inr n)
  show ?thesis
    by (rule that [of "job\<lparr>jb_status := BackfillJobSucceeded, jb_inserted_count := n, jb_completed_at := Some now,
          jb_updated_at := now\<rparr>"])
       (simp_all add: Inr run_reply_def markSucceeded_def assms isBackfillTerminal_def)
qed

lemma terminal_status: "isBackfillTerminal st \<Longrightarrow> st \<noteq> BackfillJobPending \<and> st \<noteq> BackfillJobRunning"
  by (auto simp: isBackfillTerminal_def)

text \<open>Writing one job, when the goroutines of the others stay where they are.\<close>

lemma jobs_ok_upd:
  assumes ok: "jobs_ok s"
    and job: "jb_id job = i" "request_ok (jb_request job)" "job_phase s' i job"
    and s': "js_jobs s' = (js_jobs s)(i \<mapsto> job)" "distinct (js_spawned s')" "distinct (map fst (js_calling s'))"
    and others: "set (js_spawned s') - {i} = set (js_spawned s) - {i}"
      "\<And>j q. j \<noteq> i \<Longrightarrow> (j, q) \<in> set (js_calling s') \<longleftrightarrow> (j, q) \<in> set (js_calling s)"
  shows "jobs_ok s'"
proof -
  have spawned: "j \<in> set (js_spawned s') \<longleftrightarrow> j \<in> set (js_spawned s)" if "j \<noteq> i" for j
    using others(1) that by blast
  have calling: "j \<in> fst ` set (js_calling s') \<longleftrightarrow> j \<in> fst ` set (js_calling s)" if "j \<noteq> i" for j
    using others(2) [OF that] by (auto simp: image_iff)
  have phase: "job_phase s' j k = job_phase s j k" if "j \<noteq> i" for j k
    unfolding job_phase_def spawned [OF that] calling [OF that] others(2) [OF that] ..
  have "jb_id k = j \<and> request_ok (jb_request k) \<and> job_phase s' j k" if "js_jobs s' j = Some k" for j k
  proof (cases "j = i")
    case True
    with that s'(1) have "k = job" by simp
    with job True show ?thesis by simp
  next
    case False
    with that s'(1) have "js_jobs s j = Some k" by simp
    with ok show ?thesis unfolding phase [OF False] jobs_ok_def by blast
  qed
  moreover have "set (js_spawned s') \<union> fst ` set (js_calling s') \<subseteq> dom (js_jobs s')"
  proof
    fix j
    assume "j \<in> set (js_spawned s') \<union> fst ` set (js_calling s')"
    then show "j \<in> dom (js_jobs s')"
      using spawned [of j] calling [of j] ok unfolding s'(1) jobs_ok_def by (cases "j = i") auto
  qed
  ultimately show ?thesis unfolding jobs_ok_def using s'(2,3) by blast
qed

lemma jobs_ok_idle: "jobs_ok idle_system"
  by (simp add: jobs_ok_def idle_system_def)

lemma jobs_ok_job:
  assumes "jobs_ok s" "js_jobs s i = Some job"
  shows "jb_id job = i" "request_ok (jb_request job)" "job_phase s i job"
  using assms by (simp_all add: jobs_ok_def)

lemma jobs_ok_step: "job_step s s' \<Longrightarrow> jobs_ok s \<Longrightarrow> jobs_ok s'"
proof (induction rule: job_step.induct)
  case (accept rand now req s job jobs')
  note S = Start_job_Inr [OF accept(1)]
  have "jb_id job \<notin> set (js_spawned s) \<union> fst ` set (js_calling s)"
    using accept(2,3) by (auto simp: jobs_ok_def)
  then show ?case
    using accept(3) S
    by (intro jobs_ok_upd [OF accept(3), of job "jb_id job"]) (auto simp: job_phase_def jobs_ok_def)
next
  case (gone i s now jobs')
  then show ?case by (auto simp: markRunning_def jobs_ok_def Let_def split: option.splits)
next
  case (call i s now job jobs')
  obtain job0 where j: "js_jobs s i = Some job0" "jobs' = (js_jobs s)(i \<mapsto> job)"
    "job = job0\<lparr>jb_status := BackfillJobRunning, jb_started_at := Some now, jb_updated_at := now\<rparr>"
    using call(2) by (rule markRunning_Some)
  note J = jobs_ok_job [OF call(3) j(1)]
  then have p: "jb_completed_at job0 = None" "i \<notin> fst ` set (js_calling s)"
    using call(1) by (auto simp: job_phase_def split: if_splits)
  show ?case
    using call(1,3) J j p
    by (intro jobs_ok_upd [OF call(3), of job i]) (auto simp: job_phase_def jobs_ok_def)
next
  case (reply i req s et answer now)
  then obtain job where j: "js_jobs s i = Some job" by (force simp: jobs_ok_def)
  note J = jobs_ok_job [OF reply(2) j]
  obtain job' where r: "run_reply et i answer now (js_jobs s) = (js_jobs s)(i \<mapsto> job')"
    "isBackfillTerminal (jb_status job')" "jb_completed_at job' = Some now" "jb_id job' = jb_id job"
    "jb_request job' = jb_request job" "jb_started_at job' = jb_started_at job"
    using j by (rule run_reply_Some)
  have run: "jb_status job = BackfillJobRunning" "i \<notin> set (js_spawned s)"
    using J(3) reply(1) by (auto simp: job_phase_def split: if_splits) force+
  have d: "distinct (map fst (js_calling s))" using reply(2) by (simp add: jobs_ok_def)
  then have left: "set (remove1 (i, req) (js_calling s)) = set (js_calling s) - {(i, req)}"
    by (intro set_remove1_eq) (simp add: distinct_map)
  have gone: "i \<notin> fst ` set (remove1 (i, req) (js_calling s))"
    unfolding left using eq_key_imp_eq_value [OF d reply(1)] by auto
  have keep: "j \<noteq> i \<Longrightarrow> (j, q) \<in> set (remove1 (i, req) (js_calling s)) \<longleftrightarrow> (j, q) \<in> set (js_calling s)" for j q
    unfolding left by simp
  have d': "distinct (map fst (remove1 (i, req) (js_calling s)))"
    using d by (auto simp: distinct_map inj_on_def)
  have ph: "job_phase (s\<lparr>js_jobs := run_reply et i answer now (js_jobs s),
      js_calling := remove1 (i, req) (js_calling s)\<rparr>) i job'"
    using J(3) run gone r terminal_status [OF r(2)] by (simp add: job_phase_def)
  show ?case
    using reply(2) J r run d' keep ph by (intro jobs_ok_upd [OF reply(2), of job' i]) (auto simp: jobs_ok_def)
qed

text \<open>A step keeps every job's request, and a job that is over as it is.\<close>

lemma job_step_keeps:
  assumes "job_step s s'" "jobs_ok s" "js_jobs s i = Some job"
  shows "\<exists>job'. js_jobs s' i = Some job' \<and> jb_request job' = jb_request job
    \<and> (isBackfillTerminal (jb_status job) \<longrightarrow> job' = job)"
  using assms
proof (induction rule: job_step.induct)
  case (accept rand now req s k jobs')
  then show ?case using Start_job_Inr(1) [OF accept(1)] by auto
next
  case (gone j s now jobs')
  then show ?case by (auto simp: markRunning_def Let_def split: option.splits)
next
  case (call j s now k jobs')
  obtain k0 where k: "js_jobs s j = Some k0" "jobs' = (js_jobs s)(j \<mapsto> k)"
    "k = k0\<lparr>jb_status := BackfillJobRunning, jb_started_at := Some now, jb_updated_at := now\<rparr>"
    using call(2) by (rule markRunning_Some)
  have "\<not> isBackfillTerminal (jb_status k0)"
    using jobs_ok_job(3) [OF call(3) k(1)] call(1) terminal_status by (auto simp: job_phase_def split: if_splits)
  then show ?case using call(4) k by auto
next
  case (reply j req s et answer now)
  then obtain k0 where k: "js_jobs s j = Some k0" by (force simp: jobs_ok_def)
  obtain k where r: "run_reply et j answer now (js_jobs s) = (js_jobs s)(j \<mapsto> k)" "jb_request k = jb_request k0"
    using k by (rule run_reply_Some)
  have "\<not> isBackfillTerminal (jb_status k0)"
    using jobs_ok_job(3) [OF reply(2) k] reply(1) terminal_status by (force simp: job_phase_def split: if_splits)
  then show ?case using reply(3) k r by auto
qed

lemma job_steps_keep:
  assumes "job_step\<^sup>*\<^sup>* s s'" "jobs_ok s" "js_jobs s i = Some job"
  shows "jobs_ok s' \<and> (\<exists>job'. js_jobs s' i = Some job' \<and> jb_request job' = jb_request job
    \<and> (isBackfillTerminal (jb_status job) \<longrightarrow> job' = job))"
  using assms
proof (induction rule: rtranclp_induct)
  case base
  then show ?case by blast
next
  case (step u v)
  then show ?case using jobs_ok_step job_step_keeps by metis
qed

lemma jobs_ok_reachable: "job_step\<^sup>*\<^sup>* s s' \<Longrightarrow> jobs_ok s \<Longrightarrow> jobs_ok s'"
  by (induction rule: rtranclp_induct) (auto intro: jobs_ok_step)

end
