(* ===== verification/JobProps.thy ===== *)
theory JobProps
  imports BackfillJobs
begin

text \<open>
  The properties of the backfill jobs: the life of a job under any interleaving of requests and
  goroutines, and what the server makes of the call of a job.
\<close>

lemma Wait_terminal: "jobs i = Some job \<Longrightarrow> isBackfillTerminal (jb_status job) \<Longrightarrow> Wait_job i jobs ticks = Some job"
  by (cases ticks) (simp_all add: Get_job_def)

text \<open>
  C15: whatever jobs are accepted and however their goroutines interleave, a job keeps its id and its
  valid, normalised request; it is pending before its goroutine starts, running exactly while its one
  call is under way and then over, with the times of its phase; once it is over it never changes and
  every wait for it returns it at once.
\<close>

theorem backfill_job_lifecycle:
  assumes "job_step\<^sup>*\<^sup>* idle_system s" "js_jobs s i = Some job" "job_step\<^sup>*\<^sup>* s s'"
  shows "jb_id job = i \<and> request_ok (jb_request job) \<and> job_phase s i job
    \<and> (\<exists>job'. js_jobs s' i = Some job' \<and> jb_request job' = jb_request job
         \<and> (isBackfillTerminal (jb_status job) \<longrightarrow> job' = job \<and> Wait_job i (js_jobs s') ticks = Some job))"
proof -
  have ok: "jobs_ok s" by (rule jobs_ok_reachable [OF assms(1) jobs_ok_idle])
  show ?thesis
    using jobs_ok_job [OF ok assms(2)] job_steps_keep [OF assms(3) ok assms(2)] Wait_terminal by blast
qed

lemma calling_request_ok:
  assumes "jobs_ok s" "(i, req) \<in> set (js_calling s)"
  shows "request_ok req"
proof -
  obtain job where j: "js_jobs s i = Some job" using assms by (force simp: jobs_ok_def)
  note J = jobs_ok_job [OF assms(1) j]
  have "(i, jb_request job) \<in> set (js_calling s)"
    using J(3) assms(2) by (auto simp: job_phase_def split: if_splits) force+
  then have "req = jb_request job"
    using assms by (auto simp: jobs_ok_def dest: eq_key_imp_eq_value)
  with J(2) show ?thesis by simp
qed

lemma request_ok_fields:
  assumes "request_ok req"
  shows "norm_lower (bq_exchange req) = bq_exchange req" "norm_upper (bq_symbol req) = bq_symbol req"
    "trim_space (bq_interval req) = bq_interval req" "norm_lower (bq_market_type req) = bq_market_type req"
    "bq_exchange req \<noteq> []" "bq_symbol req \<noteq> []" "bq_interval req \<noteq> []"
proof -
  have n: "normalizeBackfillRequest req = req" and v: "Validate req = None"
    using assms by (simp_all add: request_ok_def)
  show "norm_lower (bq_exchange req) = bq_exchange req" "norm_upper (bq_symbol req) = bq_symbol req"
    "trim_space (bq_interval req) = bq_interval req" "norm_lower (bq_market_type req) = bq_market_type req"
    using arg_cong [OF n, of bq_exchange] arg_cong [OF n, of bq_symbol] arg_cong [OF n, of bq_interval]
      arg_cong [OF n, of bq_market_type] by (simp_all add: normalizeBackfillRequest_def)
  show "bq_exchange req \<noteq> []" "bq_symbol req \<noteq> []" "bq_interval req \<noteq> []"
    using v by (auto simp: Validate_def split: if_splits)
qed

text \<open>
  C25: the call a job makes is answered by the exchange it names, on the market, symbol and interval of
  the job, exactly when its window starts after the epoch and spans a whole millisecond; otherwise the
  server rejects what the service had accepted.
\<close>

theorem job_call_reaches_exchange:
  assumes "job_step\<^sup>*\<^sup>* idle_system s" "(i, req) \<in> set (js_calling s)"
    and "exchanges (bq_exchange req) = Some backfill"
  defines "from_ms \<equiv> unix_milli (bq_start_time req)" and "to_ms \<equiv> unix_milli (bq_end_time req)"
  shows "if 0 < from_ms \<and> from_ms < to_ms
    then RPC_BackfillMarketKlines exchanges (Some (rpc_request_of req)) x =
      (case backfill \<lparr>bf_market = NormalizeMarketType (bq_market_type req), bf_symbol = bq_symbol req,
         bf_interval = bq_interval req, bf_start = from_unix_milli from_ms, bf_end = from_unix_milli to_ms\<rparr> x of
         (Inl e, x') \<Rightarrow> (Inl (Internal, ''backfill market klines failed: '' @ e), x') | (Inr n, x') \<Rightarrow> (Inr n, x'))
    else \<exists>m. RPC_BackfillMarketKlines exchanges (Some (rpc_request_of req)) x = (Inl (InvalidArgument, m), x)"
proof -
  have "request_ok req"
    by (rule calling_request_ok [OF jobs_ok_reachable [OF assms(1) jobs_ok_idle] assms(2)])
  note R = request_ok_fields [OF this]
  show ?thesis
    using R assms(3) by (auto simp: RPC_BackfillMarketKlines_def rpc_request_of_def Let_def from_ms_def to_ms_def)
qed

subsection \<open>A run\<close>

definition demo_form_request :: backfill_form where
  "demo_form_request = \<lparr>bq_exchange = ''binance'', bq_market_type = ''spot'', bq_symbol = ''BTCUSDT'',
     bq_interval = ''1m'', bq_start_time = 5000000, bq_end_time = 9000000\<rparr>"

definition demo_backfill_job :: backfill_job where
  "demo_backfill_job = \<lparr>jb_id = ''61'', jb_status = BackfillJobRunning, jb_request = demo_form_request,
     jb_inserted_count = 0, jb_error = [], jb_created_at = 1, jb_started_at = Some 2, jb_completed_at = None,
     jb_updated_at = 2\<rparr>"

definition demo_running :: job_system where
  "demo_running = \<lparr>js_jobs = [''61'' \<mapsto> demo_backfill_job], js_spawned = [], js_calling = [(''61'', demo_form_request)]\<rparr>"

lemma demo_run: "job_step\<^sup>*\<^sup>* idle_system demo_running"
proof -
  let ?pending = "demo_backfill_job\<lparr>jb_status := BackfillJobPending, jb_started_at := None, jb_updated_at := 1\<rparr>"
  let ?s = "\<lparr>js_jobs = [''61'' \<mapsto> ?pending], js_spawned = [''61''], js_calling = []\<rparr> :: job_system"
  have "normalizeBackfillRequest demo_form_request = demo_form_request" "Validate demo_form_request = None"
    "newJobID (Some ''a'') 1 = ''61''"
    by code_simp+
  then have "Start_job True (Some ''a'') 1 demo_form_request Map.empty = (Inr ?pending, [''61'' \<mapsto> ?pending])"
    by (simp add: Start_job_def demo_backfill_job_def Let_def)
  then have "job_step idle_system ?s"
    using job_step.accept [of "Some ''a''" 1 demo_form_request idle_system ?pending "[''61'' \<mapsto> ?pending]"]
    by (simp add: idle_system_def demo_backfill_job_def)
  moreover have "markRunning ''61'' 2 (js_jobs ?s) = (Some demo_backfill_job, [''61'' \<mapsto> demo_backfill_job])"
    by (simp add: markRunning_def demo_backfill_job_def Let_def)
  then have "job_step ?s demo_running"
    using job_step.call [of "''61''" ?s 2 demo_backfill_job "[''61'' \<mapsto> demo_backfill_job]"]
    by (simp add: demo_running_def demo_backfill_job_def)
  ultimately show ?thesis by (meson converse_rtranclp_into_rtranclp rtranclp.rtrancl_refl)
qed

theorem backfill_job_lifecycle_witness:
  "job_phase demo_running ''61'' demo_backfill_job \<and> (''61'', demo_form_request) \<in> set (js_calling demo_running)"
  using backfill_job_lifecycle [OF demo_run, of "''61''" demo_backfill_job demo_running "[]"]
  by (simp add: demo_running_def)

theorem job_call_reaches_exchange_witness:
  "RPC_BackfillMarketKlines [''binance'' \<mapsto> \<lambda>req x. (Inr 3, x + 1)] (Some (rpc_request_of demo_form_request)) (0::nat)
   = (Inr 3, 1)"
  using job_call_reaches_exchange [OF demo_run, of "''61''" demo_form_request
      "[''binance'' \<mapsto> \<lambda>req x. (Inr 3, x + 1)]" "\<lambda>req x. (Inr 3, x + 1)" "0::nat"]
  by (simp add: demo_running_def demo_form_request_def unix_milli_def)

end
