(* ===== verification/ConfigStore.thy ===== *)
theory ConfigStore
  imports Klines AuthStore JsonText
begin

text \<open>
  The configuration tables behind the dashboard: symbol mappings, candle subscriptions, strategy
  configurations and settings, with their repositories
  (\<open>internal/repository/symbol_mapping.repository.go\<close>, \<open>kline_subscription.repository.go\<close>,
  \<open>strategy_config.repository.go\<close>, \<open>api_setting.repository.go\<close>, \<open>api_repository_helpers.go\<close>). The first
  three share one shape, an id drawn by the database, a unique key and \<open>CHECK\<close> constraints, so their
  statements are instances of \<open>insert_row\<close>, \<open>change_row\<close> and \<open>delete_row\<close>. The widths of columns
  are not checked.
\<close>

subsection \<open>Rows with an id and a unique key\<close>

definition insert_row ::
  "('r \<Rightarrow> string) \<Rightarrow> ('r \<Rightarrow> 'k) \<Rightarrow> (string \<Rightarrow> 'r \<Rightarrow> 'r) \<Rightarrow> ('r \<Rightarrow> bool) \<Rightarrow> bool \<Rightarrow> string \<Rightarrow> 'r \<Rightarrow> 'r list
     \<Rightarrow> (db_error + 'r) \<times> 'r list" where
  "insert_row idf key set_id check db_ok new_id item t =
     (if \<not> db_ok \<or> \<not> check item then (Inl DbFault, t)
      else if new_id \<in> idf ` set t \<or> key item \<in> key ` set t then (Inl UniqueViolation, t)
      else (let row = set_id new_id item in (Inr row, t @ [row])))"

text \<open>The \<open>UPDATE\<close> sees the rows with the id only; when there is none it succeeds all the same.\<close>

definition change_row ::
  "('r \<Rightarrow> string) \<Rightarrow> ('r \<Rightarrow> 'k) \<Rightarrow> ('r \<Rightarrow> 'r \<Rightarrow> 'r) \<Rightarrow> ('r \<Rightarrow> bool) \<Rightarrow> bool \<Rightarrow> 'r \<Rightarrow> 'r list
     \<Rightarrow> db_error option \<times> 'r list" where
  "change_row idf key merge check db_ok item t =
     (if \<not> db_ok then (Some DbFault, t)
      else if idf item \<notin> idf ` set t then (None, t)
      else if \<not> check item then (Some DbFault, t)
      else if (\<exists>r\<in>set t. idf r \<noteq> idf item \<and> key r = key item) then (Some UniqueViolation, t)
      else (None, map (\<lambda>r. if idf r = idf item then merge item r else r) t))"

definition delete_row :: "('r \<Rightarrow> string) \<Rightarrow> bool \<Rightarrow> string \<Rightarrow> 'r list \<Rightarrow> db_error option \<times> 'r list" where
  "delete_row idf db_ok i t =
     (if \<not> db_ok then (Some DbFault, t)
      else if i \<notin> idf ` set t then (Some ErrNoRows, t)
      else (None, filter (\<lambda>r. idf r \<noteq> i) t))"

definition find_row :: "('r \<Rightarrow> string) \<Rightarrow> bool \<Rightarrow> string \<Rightarrow> 'r list \<Rightarrow> db_error + 'r option" where
  "find_row idf db_ok i t = (if \<not> db_ok then Inl DbFault else Inr (find (\<lambda>r. idf r = i) t))"

text \<open>\<open>SELECT DISTINCT exchange \<dots> WHERE exchange <> '' ORDER BY exchange\<close>.\<close>

definition distinct_exchanges :: "('r \<Rightarrow> string) \<Rightarrow> bool \<Rightarrow> 'r list \<Rightarrow> db_error + string list" where
  "distinct_exchanges exchange db_ok t =
     (if \<not> db_ok then Inl DbFault
      else Inr (sort (remdups (filter (\<lambda>e. e \<noteq> []) (map exchange t)))))"

definition rows_ok :: "('r \<Rightarrow> string) \<Rightarrow> ('r \<Rightarrow> 'k) \<Rightarrow> ('r \<Rightarrow> bool) \<Rightarrow> 'r list \<Rightarrow> bool" where
  "rows_ok idf key check t = (distinct (map idf t) \<and> distinct (map key t) \<and> list_all check t)"

text \<open>What an id and a key must satisfy for the statements to keep the constraints.\<close>

locale keyed_rows =
  fixes idf :: "'r \<Rightarrow> string" and key :: "'r \<Rightarrow> 'k" and set_id :: "string \<Rightarrow> 'r \<Rightarrow> 'r"
    and merge :: "'r \<Rightarrow> 'r \<Rightarrow> 'r" and check :: "'r \<Rightarrow> bool"
  assumes id_set: "idf (set_id i r) = i" and key_set: "key (set_id i r) = key r"
    and check_set: "check (set_id i r) = check r"
    and id_merge: "idf (merge item r) = idf r" and key_merge: "key (merge item r) = key item"
    and check_merge: "check (merge item r) = check item"
begin

lemma insert_ok: "rows_ok idf key check t \<Longrightarrow> rows_ok idf key check (snd (insert_row idf key set_id check ok i x t))"
  by (auto simp: insert_row_def rows_ok_def Let_def id_set key_set check_set)

lemma change_ok:
  assumes "rows_ok idf key check t"
  shows "rows_ok idf key check (snd (change_row idf key merge check ok x t))"
proof (cases "ok \<and> idf x \<in> idf ` set t \<and> check x \<and> \<not> (\<exists>r\<in>set t. idf r \<noteq> idf x \<and> key r = key x)")
  case True
  let ?t = "map (\<lambda>r. if idf r = idf x then merge x r else r) t"
  have "map idf ?t = map idf t" by (rule upd_ids) (rule id_merge)
  moreover have "distinct (map key ?t)"
    using assms True by (intro distinct_upd [where c = "key x"]) (auto simp: rows_ok_def key_merge)
  moreover have "list_all check ?t"
    using assms True by (auto simp: rows_ok_def list_all_iff check_merge)
  ultimately show ?thesis
    using assms True unfolding rows_ok_def change_row_def by (simp del: map_map)
next
  case False
  then have "snd (change_row idf key merge check ok x t) = t" by (auto simp: change_row_def)
  with assms show ?thesis by simp
qed

lemma delete_ok: "rows_ok idf key check t \<Longrightarrow> rows_ok idf key check (snd (delete_row idf ok i t))"
  by (auto simp: delete_row_def rows_ok_def distinct_map_filter list_all_iff)

lemmas keeps_rows_ok = insert_ok change_ok delete_ok

lemma change_found:
  assumes "change_row idf key merge check True x t = (None, t')" "find (\<lambda>r. idf r = idf x) t = Some old"
  shows "find (\<lambda>r. idf r = idf x) t' = Some (merge x old)"
proof -
  have "idf old = idf x \<and> old \<in> set t" using assms(2) by (auto simp: find_Some_iff)
  then have "idf x \<in> idf ` set t" by (metis imageI)
  then have "t' = map (\<lambda>r. if idf r = idf x then merge x r else r) t"
    using assms(1) by (auto simp: change_row_def split: if_splits)
  moreover have "find (\<lambda>r. idf r = idf x) (map (\<lambda>r. if idf r = idf x then merge x r else r) t) =
      map_option (\<lambda>r. if idf r = idf x then merge x r else r) (find (\<lambda>r. idf r = idf x) t)"
    by (rule find_map_same) (simp add: id_merge)
  moreover have "idf old = idf x" using assms(2) by (auto simp: find_Some_iff)
  ultimately show ?thesis using assms(2) by simp
qed

end

subsection \<open>Symbol mappings\<close>

type_synonym mapping_table = "symbol_mapping list"

definition mapping_key :: "symbol_mapping \<Rightarrow> string \<times> string \<times> string" where
  "mapping_key m = (sm_exchange m, sm_market_type m, sm_symbol m)"

definition merged_mapping :: "symbol_mapping \<Rightarrow> symbol_mapping \<Rightarrow> symbol_mapping" where
  "merged_mapping item row = item\<lparr>sm_id := sm_id row, sm_created_at := sm_created_at row\<rparr>"

definition FindByID_mapping :: "bool \<Rightarrow> string \<Rightarrow> mapping_table \<Rightarrow> db_error + symbol_mapping option" where
  "FindByID_mapping = find_row sm_id"

definition Create_mapping :: "bool \<Rightarrow> string \<Rightarrow> symbol_mapping \<Rightarrow> mapping_table
    \<Rightarrow> (db_error + symbol_mapping) \<times> mapping_table" where
  "Create_mapping = insert_row sm_id mapping_key (\<lambda>i m. m\<lparr>sm_id := i\<rparr>) (\<lambda>_. True)"

definition Update_mapping :: "bool \<Rightarrow> symbol_mapping \<Rightarrow> mapping_table \<Rightarrow> db_error option \<times> mapping_table" where
  "Update_mapping = change_row sm_id mapping_key merged_mapping (\<lambda>_. True)"

definition Delete_mapping :: "bool \<Rightarrow> string \<Rightarrow> mapping_table \<Rightarrow> db_error option \<times> mapping_table" where
  "Delete_mapping = delete_row sm_id"

definition ListExchanges_mapping :: "bool \<Rightarrow> mapping_table \<Rightarrow> db_error + string list" where
  "ListExchanges_mapping = distinct_exchanges sm_exchange"

abbreviation mappings_ok :: "mapping_table \<Rightarrow> bool" where
  "mappings_ok \<equiv> rows_ok sm_id mapping_key (\<lambda>_. True)"

interpretation mapping_rows: keyed_rows sm_id mapping_key "\<lambda>i m. m\<lparr>sm_id := i\<rparr>" merged_mapping "\<lambda>_. True"
  by unfold_locales (simp_all add: mapping_key_def merged_mapping_def)

subsection \<open>Candle subscriptions\<close>

type_synonym subscription_table = "kline_subscription list"

definition subscription_key :: "kline_subscription \<Rightarrow> string \<times> string \<times> string \<times> string" where
  "subscription_key s = (ks_exchange s, ks_market_type s, ks_symbol s, ks_interval s)"

definition merged_subscription :: "kline_subscription \<Rightarrow> kline_subscription \<Rightarrow> kline_subscription" where
  "merged_subscription item row = item\<lparr>ks_id := ks_id row, ks_created_at := ks_created_at row\<rparr>"

text \<open>The column \<open>payload\<close> is \<open>JSONB\<close>: a text that is no JSON value is
  refused, and the rendering the database gives a value it returns is not modelled.\<close>

definition payload_valid :: "kline_subscription \<Rightarrow> bool" where
  "payload_valid s = (parse_json (ks_payload s) \<noteq> None)"

definition FindByID_subscription :: "bool \<Rightarrow> string \<Rightarrow> subscription_table
    \<Rightarrow> db_error + kline_subscription option" where
  "FindByID_subscription = find_row ks_id"

definition Create_subscription :: "bool \<Rightarrow> string \<Rightarrow> kline_subscription \<Rightarrow> subscription_table
    \<Rightarrow> (db_error + kline_subscription) \<times> subscription_table" where
  "Create_subscription = insert_row ks_id subscription_key (\<lambda>i s. s\<lparr>ks_id := i\<rparr>) payload_valid"

definition Update_subscription :: "bool \<Rightarrow> kline_subscription \<Rightarrow> subscription_table
    \<Rightarrow> db_error option \<times> subscription_table" where
  "Update_subscription = change_row ks_id subscription_key merged_subscription payload_valid"

definition Delete_subscription :: "bool \<Rightarrow> string \<Rightarrow> subscription_table
    \<Rightarrow> db_error option \<times> subscription_table" where
  "Delete_subscription = delete_row ks_id"

abbreviation subscriptions_ok :: "subscription_table \<Rightarrow> bool" where
  "subscriptions_ok \<equiv> rows_ok ks_id subscription_key payload_valid"

interpretation subscription_rows: keyed_rows ks_id subscription_key "\<lambda>i s. s\<lparr>ks_id := i\<rparr>"
    merged_subscription payload_valid
  by unfold_locales (simp_all add: subscription_key_def merged_subscription_def payload_valid_def)

subsection \<open>Strategy configurations\<close>

record strategy_config =
  sc_id :: string
  sc_strategy :: string
  sc_exchange :: string
  sc_market_type :: string
  sc_symbol :: string
  sc_interval :: string
  sc_user_id :: null_string
  sc_position_side :: string
  sc_source :: string
  sc_enabled :: bool
  sc_monitor_url :: string
  sc_need_notification :: bool
  sc_is_paper_trading :: bool
  sc_order_type :: string
  sc_order_qty :: rat
  sc_limit_slippage_pct :: rat
  sc_cooldown_bars :: int
  sc_sl_cooldown_bars :: int
  sc_max_consecutive_stop_losses :: int
  sc_sl_pause_bars :: int
  sc_take_profit_pct :: rat
  sc_stop_loss_pct :: rat
  sc_trailing_stop_pct :: rat
  sc_trailing_stop_trigger_pct :: rat
  sc_max_hold_bars :: int
  sc_max_positions :: int
  sc_enable_intrabar_risk_exit :: bool
  sc_created_at :: gotime
  sc_updated_at :: gotime

type_synonym config_table = "strategy_config list"

definition config_key :: "strategy_config \<Rightarrow> string \<times> string \<times> string \<times> string \<times> string" where
  "config_key c = (sc_strategy c, sc_exchange c, sc_symbol c, sc_market_type c, sc_interval c)"

text \<open>\<open>btrim\<close> of the database trims blanks only.\<close>

definition not_blank :: "string \<Rightarrow> bool" where
  "not_blank s = (\<exists>c\<in>set s. c \<noteq> CHR '' '')"

definition config_valid :: "strategy_config \<Rightarrow> bool" where
  "config_valid c =
     (not_blank (sc_order_type c) \<and> not_blank (sc_market_type c) \<and> not_blank (sc_position_side c)
      \<and> not_blank (sc_source c) \<and> 0 < sc_order_qty c
      \<and> 0 \<le> sc_limit_slippage_pct c \<and> 0 \<le> sc_cooldown_bars c \<and> 0 \<le> sc_sl_cooldown_bars c
      \<and> 0 \<le> sc_max_consecutive_stop_losses c \<and> 0 \<le> sc_sl_pause_bars c \<and> 0 \<le> sc_take_profit_pct c
      \<and> 0 \<le> sc_stop_loss_pct c \<and> 0 \<le> sc_trailing_stop_pct c \<and> 0 \<le> sc_trailing_stop_trigger_pct c
      \<and> 0 \<le> sc_max_hold_bars c \<and> 0 < sc_max_positions c)"

definition merged_config :: "strategy_config \<Rightarrow> strategy_config \<Rightarrow> strategy_config" where
  "merged_config item row = item\<lparr>sc_id := sc_id row, sc_created_at := sc_created_at row\<rparr>"

definition FindByID_config :: "bool \<Rightarrow> string \<Rightarrow> config_table \<Rightarrow> db_error + strategy_config option" where
  "FindByID_config = find_row sc_id"

definition Create_config :: "bool \<Rightarrow> string \<Rightarrow> strategy_config \<Rightarrow> config_table
    \<Rightarrow> (db_error + strategy_config) \<times> config_table" where
  "Create_config = insert_row sc_id config_key (\<lambda>i c. c\<lparr>sc_id := i\<rparr>) config_valid"

text \<open>The clock of \<open>Update\<close> overwrites the caller's \<open>updated_at\<close>.\<close>

definition Update_config :: "bool \<Rightarrow> gotime \<Rightarrow> strategy_config \<Rightarrow> config_table \<Rightarrow> db_error option \<times> config_table" where
  "Update_config db_ok now item =
     change_row sc_id config_key merged_config config_valid db_ok (item\<lparr>sc_updated_at := now\<rparr>)"

definition Delete_config :: "bool \<Rightarrow> string \<Rightarrow> config_table \<Rightarrow> db_error option \<times> config_table" where
  "Delete_config = delete_row sc_id"

definition ListExchanges_config :: "bool \<Rightarrow> config_table \<Rightarrow> db_error + string list" where
  "ListExchanges_config = distinct_exchanges sc_exchange"

definition CountEnabled :: "bool \<Rightarrow> config_table \<Rightarrow> db_error + nat \<times> nat" where
  "CountEnabled db_ok t =
     (if \<not> db_ok then Inl DbFault else Inr (length (filter sc_enabled t), length t))"

text \<open>\<open>DISTINCT ON (monitor_url) \<dots> ORDER BY monitor_url, strategy, id\<close>: the first row of each address.\<close>

fun first_of_each :: "('r \<Rightarrow> 'k) \<Rightarrow> 'r list \<Rightarrow> 'r list" where
  "first_of_each f [] = []"
| "first_of_each f (x # xs) = x # first_of_each f (filter (\<lambda>y. f y \<noteq> f x) xs)"

definition ListMonitors :: "bool \<Rightarrow> config_table \<Rightarrow> db_error + strategy_config list" where
  "ListMonitors db_ok t =
     (if \<not> db_ok then Inl DbFault
      else Inr (first_of_each sc_monitor_url
        (sort_key sc_monitor_url (sort_key sc_strategy (sort_key sc_id
          (filter (\<lambda>c. sc_enabled c \<and> not_blank (sc_monitor_url c)) t))))))"

abbreviation configs_ok :: "config_table \<Rightarrow> bool" where
  "configs_ok \<equiv> rows_ok sc_id config_key config_valid"

interpretation config_rows: keyed_rows sc_id config_key "\<lambda>i c. c\<lparr>sc_id := i\<rparr>" merged_config config_valid
  by unfold_locales (simp_all add: config_key_def merged_config_def config_valid_def)

lemma config_updated_valid [simp]: "config_valid (c\<lparr>sc_updated_at := t\<rparr>) = config_valid c"
  by (simp add: config_valid_def)

end
