(* ===== verification/DataValues.thy ===== *)
theory DataValues
  imports ConfigStore
begin

text \<open>
  Reading the decoded bodies of the dashboard's requests, \<open>map[string]any\<close> values
  (\<open>internal/service/api/data.service.go\<close>), and the settings table with the helpers that bring keys and
  values into the form it stores (\<open>internal/repository/api_setting.repository.go\<close>,
  \<open>api_repository_helpers.go\<close>). A body is the list of its members. What the conversions of a
  \<open>float64\<close> give for a literal that is no exact integer is a parameter, as for candles.
\<close>

type_synonym values_map = "(string \<times> json) list"

record value_lib =
  vl_float :: float_lib
  vl_json :: "string \<Rightarrow> string"  \<comment> \<open>the literal \<open>json.Marshal\<close> writes for a \<open>float64\<close>\<close>

abbreviation sprint_value :: "value_lib \<Rightarrow> json \<Rightarrow> string" where
  "sprint_value V \<equiv> sprint_json (fl_print (vl_float V))"

text \<open>\<open>json.Marshal\<close> of a decoded value: the keys of a map are sorted, the last value of a key is kept.\<close>

fun marshalled :: "value_lib \<Rightarrow> json \<Rightarrow> json" where
  "marshalled V JNull = JNull"
| "marshalled V (JBool b) = JBool b"
| "marshalled V (JNum lit) =
     JNum (case exact_int lit of Some i \<Rightarrow> format_int i | None \<Rightarrow> vl_json V lit)"
| "marshalled V (JStr s) = JStr s"
| "marshalled V (JArr vs) = JArr (map (marshalled V) vs)"
| "marshalled V (JObj ms) =
     (let shown = map (\<lambda>m. (fst m, marshalled V (snd m))) ms
      in JObj (map (\<lambda>k. (k, the (map_of (rev shown) k))) (sort (remdups (map fst ms)))))"

definition marshal :: "value_lib \<Rightarrow> json \<Rightarrow> string" where
  "marshal V j = write_json (marshalled V j)"

definition parse_bool :: "string \<Rightarrow> bool option" where
  "parse_bool s =
     (if s \<in> {''1'', ''t'', ''T'', ''TRUE'', ''true'', ''True''} then Some True
      else if s \<in> {''0'', ''f'', ''F'', ''FALSE'', ''false'', ''False''} then Some False else None)"

subsection \<open>Values of a body\<close>

definition stringValue :: "value_lib \<Rightarrow> values_map \<Rightarrow> string \<Rightarrow> string \<Rightarrow> string" where
  "stringValue V values key fallback =
     (case map_lookup values key of None \<Rightarrow> fallback | Some v \<Rightarrow> trim_space (sprint_value V v))"

definition jsonStringValue :: "value_lib \<Rightarrow> values_map \<Rightarrow> string \<Rightarrow> string \<Rightarrow> string" where
  "jsonStringValue V values key fallback =
     (case map_lookup values key of
        None \<Rightarrow> fallback
      | Some (JStr s) \<Rightarrow> trim_space s
      | Some v \<Rightarrow> marshal V v)"

definition intValue :: "value_lib \<Rightarrow> values_map \<Rightarrow> string \<Rightarrow> int \<Rightarrow> int" where
  "intValue V values key fallback =
     (case map_lookup values key of
        None \<Rightarrow> fallback
      | Some (JNum lit) \<Rightarrow> (case exact_int lit of Some i \<Rightarrow> i | None \<Rightarrow> fl_int (vl_float V) lit)
      | Some v \<Rightarrow> (case parse_int64 (trim_space (sprint_value V v)) of Some i \<Rightarrow> i | None \<Rightarrow> fallback))"

definition boolValue :: "value_lib \<Rightarrow> values_map \<Rightarrow> string \<Rightarrow> bool \<Rightarrow> bool" where
  "boolValue V values key fallback =
     (case map_lookup values key of
        None \<Rightarrow> fallback
      | Some (JBool b) \<Rightarrow> b
      | Some v \<Rightarrow> (case parse_bool (trim_space (sprint_value V v)) of Some b \<Rightarrow> b | None \<Rightarrow> fallback))"

definition decimalValue :: "decimal_ops \<Rightarrow> value_lib \<Rightarrow> values_map \<Rightarrow> string \<Rightarrow> rat \<Rightarrow> rat" where
  "decimalValue D V values key fallback =
     (case map_lookup values key of
        None \<Rightarrow> fallback
      | Some v \<Rightarrow> (case d_parse D (trim_space (sprint_value V v)) of Some d \<Rightarrow> d | None \<Rightarrow> fallback))"

definition nullStringValue :: "value_lib \<Rightarrow> values_map \<Rightarrow> string \<Rightarrow> null_string \<Rightarrow> null_string" where
  "nullStringValue V values key fallback =
     (case map_lookup values key of
        None \<Rightarrow> fallback
      | Some v \<Rightarrow> (let raw = trim_space (sprint_value V v) in \<lparr>str_val = raw, str_valid = (raw \<noteq> [])\<rparr>))"

definition stringSliceValue :: "value_lib \<Rightarrow> values_map \<Rightarrow> string \<Rightarrow> string list" where
  "stringSliceValue V values key =
     (case map_lookup values key of
        Some (JArr vs) \<Rightarrow> filter (\<lambda>s. s \<noteq> []) (map (trim_space \<circ> sprint_value V) vs)
      | Some (JStr s) \<Rightarrow> filter (\<lambda>s. s \<noteq> []) (map trim_space (split_on CHR '','' s))
      | _ \<Rightarrow> [])"

text \<open>A body names the key: \<open>_, ok := values[key]\<close>.\<close>

definition named :: "values_map \<Rightarrow> string \<Rightarrow> bool" where
  "named values key = (map_lookup values key \<noteq> None)"

text \<open>The value of a setting as a flag; a nested flag is read in an object.\<close>

function settingBoolValue :: "json \<Rightarrow> bool \<Rightarrow> bool" where
  "settingBoolValue v fallback =
     (case v of
        JBool b \<Rightarrow> b
      | JStr s \<Rightarrow>
          (case parse_json (trim_space s) of
             Some (JBool b) \<Rightarrow> b
           | Some JNull \<Rightarrow> False
           | _ \<Rightarrow> (case parse_bool (trim_space s) of Some b \<Rightarrow> b | None \<Rightarrow> fallback))
      | JObj ms \<Rightarrow>
          (case map_lookup ms ''enabled'' of
             Some nested \<Rightarrow> settingBoolValue nested fallback
           | None \<Rightarrow>
               (case map_lookup ms ''show_setup_link'' of
                  Some nested \<Rightarrow> settingBoolValue nested fallback
                | None \<Rightarrow> fallback))
      | _ \<Rightarrow> fallback)"
  by pat_completeness auto

lemma map_lookup_smaller: "map_lookup ms k = Some v \<Longrightarrow> size v < size (JObj ms)"
proof -
  assume "map_lookup ms k = Some v"
  then have "(k, v) \<in> set ms" unfolding map_lookup_def by (auto dest: map_of_SomeD)
  then have "size_prod (\<lambda>_. 0) size (k, v) \<le> size_list (size_prod (\<lambda>_. 0) size) ms"
    by (rule size_list_estimation') simp
  then show ?thesis by simp
qed

termination settingBoolValue
  by (relation "measure (\<lambda>(v, _). size v)") (auto dest: map_lookup_smaller)

declare settingBoolValue.simps [simp del]

text \<open>\<open>NormalizeExchangeEnums\<close>: the distinct names, trimmed and sorted.\<close>

definition NormalizeExchangeEnums :: "string list list \<Rightarrow> string list" where
  "NormalizeExchangeEnums groups =
     sort (remdups (filter (\<lambda>s. s \<noteq> []) (map trim_space (concat groups))))"

subsection \<open>Settings\<close>

definition is_quote :: "char \<Rightarrow> bool" where
  "is_quote c = (c = CHR 0x22 \<or> c = CHR 0x27 \<or> c = CHR 0x60)"

definition quoted :: "string \<Rightarrow> bool" where
  "quoted raw = (2 \<le> length raw \<and> is_quote (hd raw) \<and> last raw = hd raw)"

function stripOuterQuotes :: "string \<Rightarrow> string" where
  "stripOuterQuotes value_text =
     (let raw = trim_space value_text
      in if quoted raw then stripOuterQuotes (butlast (tl raw)) else raw)"
  by pat_completeness auto

lemma length_trim_space: "length (trim_space s) \<le> length s"
  unfolding trim_space_def trim_left_def by (metis length_dropWhile_le length_rev order_trans)

termination stripOuterQuotes
proof (relation "measure length", simp)
  fix s raw
  assume "raw = trim_space s" "quoted raw"
  then have "2 \<le> length raw" "length raw \<le> length s"
    using length_trim_space [of s] by (auto simp: quoted_def)
  then show "(butlast (tl raw), s) \<in> measure length" by simp
qed

declare stripOuterQuotes.simps [simp del]

fun unescape_quotes :: "string \<Rightarrow> string" where
  "unescape_quotes (a # b # s) =
     (if a = CHR 0x5C \<and> b = CHR 0x22 then CHR 0x22 # unescape_quotes s else a # unescape_quotes (b # s))"
| "unescape_quotes s = s"

definition trim_quotes :: "string \<Rightarrow> string" where
  "trim_quotes s = trim_right_char (dropWhile (\<lambda>c. c = CHR 0x22) s) (CHR 0x22)"

definition valueString :: "value_lib \<Rightarrow> json \<Rightarrow> string" where
  "valueString V v =
     (case v of JStr s \<Rightarrow> s | _ \<Rightarrow> trim_space (unescape_quotes (trim_quotes (sprint_value V v))))"

definition normalizeSettingKey :: "value_lib \<Rightarrow> json \<Rightarrow> string" where
  "normalizeSettingKey V v = stripOuterQuotes (valueString V v)"

text \<open>The value handed to the driver: a text for maps, lists and strings, the value itself otherwise.\<close>

definition normalizeConfigValue :: "value_lib \<Rightarrow> json \<Rightarrow> json" where
  "normalizeConfigValue V v =
     (case v of
        JObj ms \<Rightarrow> JStr (marshal V v)
      | JArr vs \<Rightarrow> JStr (marshal V v)
      | JStr s \<Rightarrow> (let raw = trim_space s
                  in if parse_json raw \<noteq> None then JStr raw else JStr (json_quote raw))
      | _ \<Rightarrow> v)"

record setting =
  st_id :: string
  st_key :: string
  st_value :: json
  st_created_at :: gotime
  st_updated_at :: gotime

type_synonym setting_table = "setting list"

text \<open>
  The column \<open>value\<close> is \<open>JSONB NOT NULL\<close>: the driver sends every argument as a text, and one that is
  no JSON value, or \<open>NULL\<close>, is refused.
\<close>

definition jsonb_of :: "value_lib \<Rightarrow> json \<Rightarrow> json option" where
  "jsonb_of V arg =
     (case arg of
        JStr s \<Rightarrow> parse_json s
      | JBool b \<Rightarrow> Some (JBool b)
      | JNum lit \<Rightarrow> Some (JNum (asString (vl_float V) arg))
      | _ \<Rightarrow> None)"

text \<open>
  A row as the \<open>map[string]any\<close> that \<open>selectMaps\<close> returns: \<open>normalizeDBValue\<close> gives the JSON column as
  its text \<open>jt\<close> and the times as RFC 3339 texts \<open>tt\<close>.
\<close>

definition selectMaps :: "(json \<Rightarrow> string) \<Rightarrow> (gotime \<Rightarrow> string) \<Rightarrow> setting \<Rightarrow> values_map" where
  "selectMaps jt tt r =
     [(''id'', JStr (st_id r)), (''key'', JStr (st_key r)), (''value'', JStr (jt (st_value r))),
      (''created_at'', JStr (tt (st_created_at r))), (''updated_at'', JStr (tt (st_updated_at r)))]"

definition FindByID_setting :: "bool \<Rightarrow> string \<Rightarrow> setting_table \<Rightarrow> db_error + setting" where
  "FindByID_setting db_ok i t =
     (if \<not> db_ok then Inl DbFault else of_option ErrNoRows (find (\<lambda>r. st_id r = i) t))"

definition FindByKey_setting :: "bool \<Rightarrow> string \<Rightarrow> setting_table \<Rightarrow> db_error + setting" where
  "FindByKey_setting db_ok key t =
     (if \<not> db_ok then Inl DbFault else of_option ErrNoRows (find (\<lambda>r. st_key r = key) t))"

text \<open>A key that the body does not name reads as \<open>nil\<close>.\<close>

definition value_or_nil :: "values_map \<Rightarrow> string \<Rightarrow> json" where
  "value_or_nil values key = (case map_lookup values key of None \<Rightarrow> JNull | Some v \<Rightarrow> v)"

definition Create_setting :: "value_lib \<Rightarrow> bool \<Rightarrow> string \<Rightarrow> gotime \<Rightarrow> values_map \<Rightarrow> setting_table
    \<Rightarrow> (db_error + setting) \<times> setting_table" where
  "Create_setting V db_ok new_id now values t =
     (let key = normalizeSettingKey V (value_or_nil values ''key'')
      in case jsonb_of V (normalizeConfigValue V (value_or_nil values ''value'')) of
           None \<Rightarrow> (Inl DbFault, t)
         | Some v \<Rightarrow>
             if \<not> db_ok then (Inl DbFault, t)
             else if new_id \<in> st_id ` set t \<or> key \<in> st_key ` set t then (Inl UniqueViolation, t)
             else (let row = \<lparr>st_id = new_id, st_key = key, st_value = v, st_created_at = now, st_updated_at = now\<rparr>
                   in (Inr row, t @ [row])))"

text \<open>The columns the \<open>UPDATE\<close> sets: the key, the value when it is accepted, and the time.\<close>

definition setting_update :: "value_lib \<Rightarrow> gotime \<Rightarrow> values_map \<Rightarrow> (setting \<Rightarrow> setting) option" where
  "setting_update V now values =
     (let set_key = (case map_lookup values ''key'' of
             None \<Rightarrow> id | Some v \<Rightarrow> st_key_update (\<lambda>_. normalizeSettingKey V v));
          set_time = st_updated_at_update (\<lambda>_. now)
      in case map_lookup values ''value'' of
           None \<Rightarrow> Some (set_time \<circ> set_key)
         | Some v \<Rightarrow> map_option (\<lambda>j. set_time \<circ> st_value_update (\<lambda>_. j) \<circ> set_key)
                       (jsonb_of V (normalizeConfigValue V v)))"

definition Update_setting :: "value_lib \<Rightarrow> bool \<Rightarrow> gotime \<Rightarrow> string \<Rightarrow> values_map \<Rightarrow> setting_table
    \<Rightarrow> (db_error + setting) \<times> setting_table" where
  "Update_setting V db_ok now i values t =
     (if \<not> db_ok then (Inl DbFault, t)
      else case find (\<lambda>r. st_id r = i) t of
        None \<Rightarrow> (Inl ErrNoRows, t)
      | Some row \<Rightarrow>
          (case setting_update V now values of
             None \<Rightarrow> (Inl DbFault, t)
           | Some f \<Rightarrow>
               if (\<exists>r\<in>set t. st_id r \<noteq> i \<and> st_key r = st_key (f row)) then (Inl UniqueViolation, t)
               else (Inr (f row), map (\<lambda>r. if st_id r = i then f r else r) t)))"

definition Delete_setting :: "bool \<Rightarrow> string \<Rightarrow> setting_table \<Rightarrow> db_error option \<times> setting_table" where
  "Delete_setting = delete_row st_id"

subsection \<open>Facts\<close>

lemma stripOuterQuotes_eq:
  "stripOuterQuotes s = (if quoted (trim_space s) then stripOuterQuotes (butlast (tl (trim_space s))) else trim_space s)"
  by (subst stripOuterQuotes.simps) (simp add: Let_def)

lemma stripOuterQuotes_bare:
  "\<not> quoted (stripOuterQuotes s) \<and> trim_space (stripOuterQuotes s) = stripOuterQuotes s"
proof (induction s rule: stripOuterQuotes.induct)
  case (1 s)
  then show ?case by (subst (1 2 3) stripOuterQuotes_eq) auto
qed

lemma stripOuterQuotes_idem: "stripOuterQuotes (stripOuterQuotes s) = stripOuterQuotes s"
  using stripOuterQuotes_bare [of s] by (subst stripOuterQuotes_eq) simp

lemma normalizeSettingKey_idem: "normalizeSettingKey V (JStr (normalizeSettingKey V v)) = normalizeSettingKey V v"
  by (simp add: normalizeSettingKey_def valueString_def stripOuterQuotes_idem)

definition settings_ok :: "setting_table \<Rightarrow> bool" where
  "settings_ok t = (distinct (map st_id t) \<and> distinct (map st_key t))"

lemma settings_ok_Create: "settings_ok t \<Longrightarrow> settings_ok (snd (Create_setting V ok i now values t))"
  by (auto simp: Create_setting_def settings_ok_def Let_def split: option.splits)

lemma setting_update_id: "setting_update V now values = Some f \<Longrightarrow> st_id (f r) = st_id r"
  by (auto simp: setting_update_def Let_def split: option.splits)

lemma setting_update_key:
  "setting_update V now values = Some f \<Longrightarrow> st_key (f r) =
     (case map_lookup values ''key'' of None \<Rightarrow> st_key r | Some v \<Rightarrow> normalizeSettingKey V v)"
  by (auto simp: setting_update_def Let_def split: option.splits)

lemma settings_ok_Update:
  assumes "settings_ok t"
  shows "settings_ok (snd (Update_setting V ok now i values t))"
proof (cases "\<exists>row f. ok \<and> find (\<lambda>r. st_id r = i) t = Some row \<and> setting_update V now values = Some f
    \<and> \<not> (\<exists>r\<in>set t. st_id r \<noteq> i \<and> st_key r = st_key (f row))")
  case True
  then obtain row f where f: "ok" "find (\<lambda>r. st_id r = i) t = Some row" "setting_update V now values = Some f"
    "\<not> (\<exists>r\<in>set t. st_id r \<noteq> i \<and> st_key r = st_key (f row))" by blast
  let ?t = "map (\<lambda>r. if st_id r = i then f r else r) t"
  have row: "st_id row = i" "row \<in> set t" using f(2) by (auto simp: find_Some_iff)
  have ids: "map st_id ?t = map st_id t" by (rule upd_ids) (rule setting_update_id [OF f(3)])
  have same: "r = row" if "r \<in> set t" "st_id r = i" for r
    using assms row that by (metis (mono_tags, lifting) distinct_map inj_onD settings_ok_def)
  have "map st_key ?t = map (\<lambda>r. if st_id r = i then st_key (f row) else st_key r) t"
    by (auto dest: same)
  moreover have "distinct (map (\<lambda>r. if st_id r = i then st_key (f row) else st_key r) t)"
    using assms f(4) by (intro distinct_map_upd_one) (auto simp: settings_ok_def)
  ultimately have "settings_ok ?t" using assms ids by (simp only: settings_ok_def simp_thms)
  then show ?thesis using f by (auto simp: Update_setting_def)
next
  case False
  then have "snd (Update_setting V ok now i values t) = t"
    by (auto simp: Update_setting_def split: option.splits)
  with assms show ?thesis by simp
qed

lemma settings_ok_Delete: "settings_ok t \<Longrightarrow> settings_ok (snd (Delete_setting ok i t))"
  by (auto simp: Delete_setting_def delete_row_def settings_ok_def distinct_map_filter)

lemmas settings_ok_ops = settings_ok_Create settings_ok_Update settings_ok_Delete

end
