(* ===== verification/OrderTrades.thy ===== *)
theory OrderTrades
  imports KlineStore
begin

text \<open>
  Trades and the views of orders that join them (\<open>internal/repository/order_history.repository.go\<close>).
  The table \<open>order_trades\<close> is kept by a trigger of the migration
  \<open>20260620100000_create_order_trades.sql\<close>: after every change of a row of \<open>order_histories\<close> the trade
  of its entry order id is computed anew from the rows with that id, so the table is a function of
  \<open>order_histories\<close>. Sums and products of \<open>NUMERIC\<close> columns are exact, a \<open>NULL\<close> is \<open>None\<close>.
\<close>

subsection \<open>The trade of an entry order id\<close>

record order_trade =
  ot_entry_order_id :: string
  ot_history_id :: string
  ot_strategy_id :: string
  ot_exchange :: string
  ot_market_type :: string
  ot_symbol :: string
  ot_side :: string
  ot_entry_price :: "rat option"
  ot_exit_price :: "rat option"
  ot_quantity :: rat
  ot_realized_pnl :: "rat option"
  ot_entry_time :: gotime
  ot_exit_time :: "gotime option"

fun coalesce :: "'a option list \<Rightarrow> 'a option" where
  "coalesce [] = None"
| "coalesce (Some a # _) = Some a"
| "coalesce (None # xs) = coalesce xs"

definition filled_price :: "order_history \<Rightarrow> rat option" where
  "filled_price h = coalesce [oh_avg_fill_price h, oh_price h]"

text \<open>\<open>COALESCE(NULLIF(filled_quantity, 0), quantity)\<close>.\<close>

definition effective_quantity :: "order_history \<Rightarrow> rat" where
  "effective_quantity h = (if oh_filled_quantity h = 0 then oh_quantity h else oh_filled_quantity h)"

text \<open>\<open>ORDER BY created_at DESC LIMIT 1\<close>; of rows of the same instant the database may take any.\<close>

definition newest :: "(order_history \<Rightarrow> bool) \<Rightarrow> order_table \<Rightarrow> order_history option" where
  "newest P t = (case sort_key (\<lambda>h. - oh_created_at h) (filter P t) of [] \<Rightarrow> None | h # _ \<Rightarrow> Some h)"

definition is_entry :: "string \<Rightarrow> order_history \<Rightarrow> bool" where
  "is_entry pair h = (oh_entry_order_id h = pair \<and> oh_trade_condition h = TradeConditionEntry)"

definition is_exit :: "string \<Rightarrow> order_history \<Rightarrow> bool" where
  "is_exit pair h = (oh_entry_order_id h = pair \<and> oh_trade_condition h \<noteq> TradeConditionEntry
     \<and> oh_status h = ''FILLED'' \<and> filled_price h \<noteq> None)"

definition refresh_order_trade :: "order_table \<Rightarrow> string \<Rightarrow> order_trade option" where
  "refresh_order_trade t pair =
     (if pair = [] then None
      else case newest (is_entry pair) t of
        None \<Rightarrow> None
      | Some entry \<Rightarrow>
          (let closed = newest (is_exit pair) t
           in Some \<lparr>ot_entry_order_id = pair, ot_history_id = oh_id entry,
                ot_strategy_id = (if str_valid (oh_strategy_id entry) then str_val (oh_strategy_id entry) else []),
                ot_exchange = oh_exchange entry, ot_market_type = oh_market_type entry,
                ot_symbol = oh_symbol entry, ot_side = oh_side entry, ot_entry_price = filled_price entry,
                ot_exit_price = Option.bind closed filled_price, ot_quantity = effective_quantity entry,
                ot_realized_pnl = Option.bind closed oh_realized_pnl, ot_entry_time = oh_created_at entry,
                ot_exit_time = map_option oh_created_at closed\<rparr>))"

definition order_trades :: "order_table \<Rightarrow> order_trade list" where
  "order_trades t = List.map_filter (refresh_order_trade t) (remdups (map oh_entry_order_id t))"

definition is_long :: "string \<Rightarrow> bool" where
  "is_long side = (side = ''LONG'' \<or> side = ''BUY'')"

definition is_short :: "string \<Rightarrow> bool" where
  "is_short side = (side = ''SHORT'' \<or> side = ''SELL'')"

text \<open>The gain of a position between two prices; \<open>NULL\<close> for another side.\<close>

definition gain :: "string \<Rightarrow> rat \<Rightarrow> rat \<Rightarrow> rat \<Rightarrow> rat option" where
  "gain side entry_price exit_price quantity =
     (if is_long side then Some ((exit_price - entry_price) * quantity)
      else if is_short side then Some ((entry_price - exit_price) * quantity) else None)"

text \<open>The generated column \<open>profit\<close>.\<close>

definition trade_profit :: "order_trade \<Rightarrow> rat option" where
  "trade_profit tr = coalesce [ot_realized_pnl tr, do {
     exit_price \<leftarrow> ot_exit_price tr; entry_price \<leftarrow> ot_entry_price tr;
     gain (ot_side tr) entry_price exit_price (ot_quantity tr)}]"

subsection \<open>Orders with their metrics\<close>

record order_with_metrics =
  om_order :: order_history
  om_state :: string
  om_entry_price :: "rat option"
  om_exit_price :: "rat option"
  om_pnl :: "rat option"

definition trade_of :: "order_table \<Rightarrow> order_history \<Rightarrow> order_trade option" where
  "trade_of t h = find (\<lambda>tr. ot_history_id tr = oh_id h) (order_trades t)"

definition market_price :: "price_table \<Rightarrow> string \<Rightarrow> string \<Rightarrow> string \<Rightarrow> rat option" where
  "market_price prices exchange market symbol =
     map_option pr_price (find (\<lambda>p. price_key p = (exchange, market, symbol)) prices)"

definition orderHistoryMetricsSelect :: "order_table \<Rightarrow> price_table \<Rightarrow> order_history \<Rightarrow> order_with_metrics" where
  "orderHistoryMetricsSelect t prices h =
     (let trade = trade_of t h;
          exit_price = Option.bind trade ot_exit_price;
          entry_price = coalesce [Option.bind trade ot_entry_price, oh_avg_fill_price h, oh_price h];
          quantity = (case trade of Some tr \<Rightarrow> ot_quantity tr | None \<Rightarrow> effective_quantity h)
      in \<lparr>om_order = h, om_state = (if exit_price \<noteq> None then ''closed'' else ''running''),
          om_entry_price = entry_price, om_exit_price = exit_price,
          om_pnl = (case entry_price of
             None \<Rightarrow> None
           | Some entry \<Rightarrow>
               if exit_price \<noteq> None then Option.bind trade trade_profit
               else Option.bind (market_price prices (oh_exchange h) (oh_market_type h) (oh_symbol h))
                      (\<lambda>price. gain (oh_side h) entry price quantity))\<rparr>)"

definition FindByIDWithMetrics :: "bool \<Rightarrow> string \<Rightarrow> order_table \<Rightarrow> price_table
    \<Rightarrow> db_error + order_with_metrics option" where
  "FindByIDWithMetrics db_ok i t prices =
     (if \<not> db_ok then Inl DbFault
      else Inr (map_option (orderHistoryMetricsSelect t prices) (find (\<lambda>h. oh_id h = i) t)))"

definition ListOpenEntries :: "bool \<Rightarrow> string \<Rightarrow> string \<Rightarrow> string \<Rightarrow> string \<Rightarrow> order_table \<Rightarrow> price_table
    \<Rightarrow> db_error + order_with_metrics list" where
  "ListOpenEntries db_ok strategy exchange market symbol t prices =
     (if \<not> db_ok then Inl DbFault
      else Inr (map (orderHistoryMetricsSelect t prices) (sort_key (\<lambda>h. - oh_created_at h)
        (filter (\<lambda>h. oh_strategy_id h = some_string strategy \<and> oh_exchange h = exchange
             \<and> oh_market_type h = market \<and> oh_symbol h = symbol
             \<and> oh_trade_condition h = TradeConditionEntry
             \<and> Option.bind (trade_of t h) ot_exit_price = None) t))))"

definition ListExchanges_order :: "bool \<Rightarrow> order_table \<Rightarrow> db_error + string list" where
  "ListExchanges_order db_ok t =
     (if \<not> db_ok then Inl DbFault
      else Inr (sort (remdups (filter (\<lambda>e. e \<noteq> []) (map oh_exchange t)))))"

subsection \<open>The overview of the dashboard\<close>

record order_summary =
  ds_orders_24h :: nat
  ds_problem_orders_24h :: nat
  ds_closed_trades :: nat
  ds_winning_trades :: nat
  ds_running_trades :: nat
  ds_realized_pnl :: rat
  ds_running_pnl :: rat
  ds_last_price_at :: "gotime option"

definition exited_since :: "gotime \<Rightarrow> order_trade \<Rightarrow> bool" where
  "exited_since since tr = (case ot_exit_time tr of None \<Rightarrow> False | Some e \<Rightarrow> since \<le> e)"

definition has_problem :: "order_history \<Rightarrow> bool" where
  "has_problem h = (oh_status h = ''REJECTED'' \<or> oh_status h = ''EXPIRED''
     \<or> str_valid (oh_error_message h) \<and> str_val (oh_error_message h) \<noteq> [])"

text \<open>\<open>SUM\<close> leaves \<open>NULL\<close> out.\<close>

definition sum_some :: "rat option list \<Rightarrow> rat" where
  "sum_some xs = sum_list (List.map_filter id xs)"

definition order_summary_of :: "gotime \<Rightarrow> order_table \<Rightarrow> price_table \<Rightarrow> order_summary" where
  "order_summary_of since t prices =
     (let trades = order_trades t;
          recent = filter (\<lambda>h. since \<le> oh_created_at h) t;
          closed = filter (exited_since since) trades;
          running = filter (\<lambda>tr. ot_exit_time tr = None) trades
      in \<lparr>ds_orders_24h = length recent, ds_problem_orders_24h = length (filter has_problem recent),
          ds_closed_trades = length closed,
          ds_winning_trades = length (filter (\<lambda>tr. case trade_profit tr of None \<Rightarrow> False | Some p \<Rightarrow> 0 < p) closed),
          ds_running_trades = length running, ds_realized_pnl = sum_some (map trade_profit closed),
          ds_running_pnl = sum_some (map (\<lambda>tr. do {
             price \<leftarrow> market_price prices (ot_exchange tr) (ot_market_type tr) (ot_symbol tr);
             entry \<leftarrow> ot_entry_price tr; gain (ot_side tr) entry price (ot_quantity tr)}) running),
          ds_last_price_at = (case map pr_updated_at prices of [] \<Rightarrow> None | p # ps \<Rightarrow> Some (foldl max p ps))\<rparr>)"

definition GetDashboardOverview_orders ::
  "bool \<Rightarrow> bool \<Rightarrow> gotime \<Rightarrow> nat \<Rightarrow> order_table \<Rightarrow> price_table
     \<Rightarrow> db_error + order_summary \<times> order_with_metrics list" where
  "GetDashboardOverview_orders summary_ok recent_ok since recentLimit t prices =
     (if \<not> summary_ok \<or> \<not> recent_ok then Inl DbFault
      else Inr (order_summary_of since t prices,
        map (orderHistoryMetricsSelect t prices) (take recentLimit
          (sort_key (\<lambda>h. Option.bind (trade_of t h) ot_exit_time \<noteq> None)
            (sort_key (\<lambda>h. - oh_created_at h)
              (filter (\<lambda>h. oh_trade_condition h = TradeConditionEntry) t))))))"

subsection \<open>The report of trades\<close>

record trade_pnl =
  tp_trade :: order_trade
  tp_profit :: rat
  tp_running_profit :: rat

text \<open>The rows that the conditions of \<open>tradeReportWhere\<close> select.\<close>

definition trade_reported :: "report_filter \<Rightarrow> order_trade \<Rightarrow> bool" where
  "trade_reported filt tr =
     (ot_exit_price tr \<noteq> None \<and> trade_profit tr \<noteq> None
      \<and> (case rf_start filt of None \<Rightarrow> True | Some s \<Rightarrow> (case ot_exit_time tr of None \<Rightarrow> False | Some e \<Rightarrow> s \<le> e))
      \<and> (case rf_end filt of None \<Rightarrow> True | Some s \<Rightarrow> (case ot_exit_time tr of None \<Rightarrow> False | Some e \<Rightarrow> e \<le> s))
      \<and> (trim_space (rf_strategy filt) = [] \<or> ot_strategy_id tr = trim_space (rf_strategy filt))
      \<and> (trim_space (rf_symbol filt) = [] \<or> ot_symbol tr = trim_space (rf_symbol filt)))"

text \<open>\<open>SUM(profit) OVER (ORDER BY exit_time, entry_order_id)\<close>: no two trades share an entry order id.\<close>

fun running_profits :: "rat \<Rightarrow> order_trade list \<Rightarrow> trade_pnl list" where
  "running_profits acc [] = []"
| "running_profits acc (tr # trs) =
     (let profit = (case trade_profit tr of None \<Rightarrow> 0 | Some p \<Rightarrow> p)
      in \<lparr>tp_trade = tr, tp_profit = profit, tp_running_profit = acc + profit\<rparr> # running_profits (acc + profit) trs)"

definition exit_time_of :: "order_trade \<Rightarrow> gotime" where
  "exit_time_of tr = (case ot_exit_time tr of None \<Rightarrow> zero_time | Some e \<Rightarrow> e)"

definition ListTradePnL :: "bool \<Rightarrow> report_filter \<Rightarrow> order_table \<Rightarrow> db_error + int \<times> int \<times> nat \<times> trade_pnl list" where
  "ListTradePnL db_ok filt t =
     (let (page, limit) = orderReportPagination filt;
          rows = rev (running_profits 0 (sort_key exit_time_of (sort_key ot_entry_order_id
                   (filter (trade_reported filt) (order_trades t)))));
          items = take (nat limit) (drop (nat ((page - 1) * limit)) rows)
      in if \<not> db_ok then Inl DbFault
         else Inr (page, limit, if items = [] then 0 else length rows, items))"

end
