(* ===== verification/OrderActions.thy ===== *)
theory OrderActions
  imports DataValues OrderTrades OrderEngine
begin

text \<open>
  The orders the dashboard sends (\<open>internal/service/api/data.service.go\<close>): a manual entry, the close of
  a position, and the close of the open positions of a strategy that is switched off. Each is built
  here and published by \<open>DataService\<close>. The clock is read once.
\<close>

definition closeOrderSide :: "string \<Rightarrow> string \<Rightarrow> string option" where
  "closeOrderSide entrySide marketType =
     (if marketType = MarketTypeFutures then
        (if entrySide = OrderSideLong \<or> entrySide = OrderSideBuy then Some OrderSideShort
         else if entrySide = OrderSideShort \<or> entrySide = OrderSideSell then Some OrderSideLong else None)
      else
        (if entrySide = OrderSideBuy \<or> entrySide = OrderSideLong then Some OrderSideSell
         else if entrySide = OrderSideSell \<or> entrySide = OrderSideShort then Some OrderSideBuy else None))"

text \<open>A request with the fields most of these orders leave empty.\<close>

definition dashboard_order :: "gotime \<Rightarrow> order_request" where
  "dashboard_order now =
     \<lparr>rq_request_id = [], rq_user_id = [], rq_order_id = None, rq_entry_order_id = [], rq_exchange = [],
      rq_market_type = [], rq_position_side = [], rq_symbol = [], rq_type = OrderTypeMarket, rq_side = [],
      rq_price = 0, rq_quantity = 0, rq_requested_at = unix_milli now, rq_expired_at = None,
      rq_source = ''dashboard'', rq_strategy_id = None, rq_strategy_name = [], rq_interval = [],
      rq_internal = [], rq_entry_price = [], rq_exit_price = [], rq_pnl_percentage = [],
      rq_trade_condition = [], rq_order_reason = [], rq_exit_type = [], rq_need_notification = False,
      rq_is_paper_trading = False\<rparr>"

definition buildManualEntryOrder ::
  "decimal_ops \<Rightarrow> value_lib \<Rightarrow> gotime \<Rightarrow> string \<Rightarrow> string \<Rightarrow> values_map \<Rightarrow> order_request option" where
  "buildManualEntryOrder D V now userID requestID values =
     (let marketType = NormalizeMarketType (stringValue V values ''market_type'' ''spot'');
          side = NormalizeOrderSideByMarket (stringValue V values ''side'' []) marketType;
          quantity = decimalValue D V values ''quantity'' 0;
          price = decimalValue D V values ''price'' 0;
          exchange = to_lower (stringValue V values ''exchange'' []);
          symbol = to_upper (stringValue V values ''symbol'' []);
          isPaperTrading = boolValue V values ''is_paper_trading'' False
      in if trim_space userID = [] \<or> exchange = [] \<or> symbol = [] \<or> side = [] \<or> \<not> 0 < quantity
           \<or> isPaperTrading \<and> \<not> 0 < price
         then None
         else Some ((dashboard_order now)
           \<lparr>rq_request_id := requestID, rq_user_id := userID, rq_entry_order_id := requestID,
            rq_exchange := exchange, rq_market_type := marketType,
            rq_position_side := NormalizePositionSide (stringValue V values ''position_side'' ''BOTH''),
            rq_symbol := symbol, rq_side := side, rq_price := price, rq_quantity := quantity,
            rq_strategy_id := Some ''manual'', rq_strategy_name := ''manual'',
            rq_trade_condition := TradeConditionEntry, rq_order_reason := ''manual_entry'',
            rq_need_notification := boolValue V values ''need_notification'' True,
            rq_is_paper_trading := isPaperTrading\<rparr>))"

definition buildManualCloseOrder :: "gotime \<Rightarrow> order_history \<Rightarrow> order_request option" where
  "buildManualCloseOrder now entry =
     (let quantity = effective_quantity entry;
          entryOrderID = trim_space (oh_entry_order_id entry);
          strategyID = trim_space (str_val (oh_strategy_id entry))
      in case closeOrderSide (oh_side entry) (NormalizeMarketType (oh_market_type entry)) of
           None \<Rightarrow> None
         | Some side \<Rightarrow>
             if \<not> 0 < quantity \<or> entryOrderID = [] then None
             else Some ((dashboard_order now)
               \<lparr>rq_request_id := ''manual-close-'' @ oh_id entry, rq_user_id := oh_user_id entry,
                rq_entry_order_id := entryOrderID, rq_exchange := oh_exchange entry,
                rq_market_type := oh_market_type entry, rq_position_side := oh_position_side entry,
                rq_symbol := oh_symbol entry, rq_side := side, rq_quantity := quantity,
                rq_strategy_id := Some strategyID, rq_strategy_name := strategyID,
                rq_trade_condition := TradeConditionExit, rq_order_reason := ''manual_close'',
                rq_is_paper_trading := oh_is_paper_trading entry\<rparr>))"

subsection \<open>Closing the positions of a strategy\<close>

definition compactAlnum :: "string \<Rightarrow> nat \<Rightarrow> string" where
  "compactAlnum s limit = take limit (remove_char (remove_char (trim_space s) CHR ''-'') CHR ''_'')"

text \<open>\<open>strconv.FormatInt(n, 36)\<close> of a number that is not negative.\<close>

definition digit36 :: "nat \<Rightarrow> char" where
  "digit36 d = (if d < 10 then char_of (48 + d) else char_of (87 + d))"

fun base36 :: "nat \<Rightarrow> string" where
  "base36 n = (if n < 36 then [digit36 n] else base36 (n div 36) @ [digit36 (n mod 36)])"

declare base36.simps [simp del]

definition disableStrategyClientOrderID :: "gotime \<Rightarrow> string \<Rightarrow> string \<Rightarrow> string" where
  "disableStrategyClientOrderID now configID entryID =
     ''ds'' @ compactAlnum configID 8 @ compactAlnum entryID 10 @ base36 (nat (unix_milli now))"

definition buildDisableStrategyCloseOrder :: "gotime \<Rightarrow> strategy_config \<Rightarrow> order_history \<Rightarrow> order_request option" where
  "buildDisableStrategyCloseOrder now config entry =
     (let quantity = effective_quantity entry;
          entryOrderID = trim_space (oh_entry_order_id entry);
          entryOrderID = (if entryOrderID = [] then trim_space (oh_order_id entry) else entryOrderID);
          entryOrderID = (if entryOrderID = [] then trim_space (oh_id entry) else entryOrderID)
      in if quantity = 0 then None
         else case closeOrderSide (oh_side entry) (NormalizeMarketType (oh_market_type entry)) of
           None \<Rightarrow> None
         | Some side \<Rightarrow> Some ((dashboard_order now)
             \<lparr>rq_request_id := ''disable-strategy-'' @ sc_id config @ ''-'' @ oh_id entry @ ''-''
                @ format_int (unix_milli now),
              rq_user_id := oh_user_id entry,
              rq_order_id := Some (disableStrategyClientOrderID now (sc_id config) (oh_id entry)),
              rq_entry_order_id := entryOrderID, rq_exchange := oh_exchange entry,
              rq_market_type := oh_market_type entry, rq_position_side := oh_position_side entry,
              rq_symbol := oh_symbol entry, rq_side := side, rq_quantity := quantity,
              rq_strategy_id := Some (sc_strategy config), rq_strategy_name := sc_strategy config,
              rq_interval := sc_interval config,
              rq_internal := write_json (JObj [(''entry_id'', JStr (oh_id entry)),
                (''entry_order_id'', JStr entryOrderID), (''source'', JStr ''disable_strategy'')]),
              rq_trade_condition := TradeConditionExit, rq_order_reason := ''strategy_disabled'',
              rq_need_notification := sc_need_notification config,
              rq_is_paper_trading := oh_is_paper_trading entry\<rparr>))"

subsection \<open>Filling in an entity from a body\<close>

text \<open>The bodies name fields by their JSON names; a field that is not named keeps its value.\<close>

definition mapDashboardPage :: "value_lib \<Rightarrow> values_map \<Rightarrow> dashboard_page option \<Rightarrow> dashboard_page" where
  "mapDashboardPage V values current =
     (let p = (case current of Some c \<Rightarrow> c
          | None \<Rightarrow> \<lparr>dp_id = [], dp_resource_key = [], dp_parent_key = [], dp_label = [], dp_description = [],
              dp_short_description = [], dp_icon = [], dp_path = [], dp_read_permission = [],
              dp_write_permission = [], dp_sort_order = 0, dp_visible = True, dp_created_at = zero_time,
              dp_updated_at = zero_time\<rparr>)
      in p\<lparr>dp_resource_key := stringValue V values ''resource_key'' (dp_resource_key p),
           dp_parent_key := stringValue V values ''parent_key'' (dp_parent_key p),
           dp_label := stringValue V values ''label'' (dp_label p),
           dp_description := stringValue V values ''description'' (dp_description p),
           dp_short_description := stringValue V values ''short_description'' (dp_short_description p),
           dp_icon := stringValue V values ''icon'' (dp_icon p),
           dp_path := stringValue V values ''path'' (dp_path p),
           dp_read_permission := stringValue V values ''read_permission'' (dp_read_permission p),
           dp_write_permission := stringValue V values ''write_permission'' (dp_write_permission p),
           dp_sort_order := intValue V values ''sort_order'' (dp_sort_order p),
           dp_visible := boolValue V values ''visible'' (dp_visible p)\<rparr>)"

definition mapSymbolMapping :: "value_lib \<Rightarrow> gotime \<Rightarrow> values_map \<Rightarrow> symbol_mapping option \<Rightarrow> symbol_mapping" where
  "mapSymbolMapping V now values current =
     (let m = (case current of Some c \<Rightarrow> c\<lparr>sm_updated_at := now\<rparr>
          | None \<Rightarrow> \<lparr>sm_id = [], sm_exchange = [], sm_market_type = [], sm_symbol = [], sm_kline_symbol = [],
              sm_order_symbol = [], sm_created_at = now, sm_updated_at = now\<rparr>)
      in m\<lparr>sm_exchange := stringValue V values ''exchange'' (sm_exchange m),
           sm_market_type := stringValue V values ''market_type'' (sm_market_type m),
           sm_symbol := stringValue V values ''symbol'' (sm_symbol m),
           sm_kline_symbol := stringValue V values ''kline_symbol'' (sm_kline_symbol m),
           sm_order_symbol := stringValue V values ''order_symbol'' (sm_order_symbol m)\<rparr>)"

definition mapKlineSubscription ::
  "value_lib \<Rightarrow> gotime \<Rightarrow> values_map \<Rightarrow> kline_subscription option \<Rightarrow> kline_subscription" where
  "mapKlineSubscription V now values current =
     (let s = (case current of Some c \<Rightarrow> c\<lparr>ks_updated_at := now\<rparr>
          | None \<Rightarrow> \<lparr>ks_id = [], ks_exchange = [], ks_market_type = [], ks_symbol = [], ks_interval = [],
              ks_payload = [CHR 0x7B, CHR 0x7D], ks_max_kline_data = 1000, ks_created_at = now, ks_updated_at = now\<rparr>)
      in s\<lparr>ks_exchange := stringValue V values ''exchange'' (ks_exchange s),
           ks_market_type := stringValue V values ''market_type'' (ks_market_type s),
           ks_symbol := stringValue V values ''symbol'' (ks_symbol s),
           ks_interval := stringValue V values ''interval'' (ks_interval s),
           ks_payload := jsonStringValue V values ''payload'' (ks_payload s),
           ks_max_kline_data := intValue V values ''max_kline_data'' (ks_max_kline_data s)\<rparr>)"

definition default_strategy_config :: "gotime \<Rightarrow> strategy_config" where
  "default_strategy_config now =
     \<lparr>sc_id = [], sc_strategy = [], sc_exchange = [], sc_market_type = [], sc_symbol = [], sc_interval = [],
      sc_user_id = no_string, sc_position_side = ''BOTH'', sc_source = ''api'', sc_enabled = True,
      sc_monitor_url = [], sc_need_notification = True, sc_is_paper_trading = True, sc_order_type = ''MARKET'',
      sc_order_qty = 1, sc_limit_slippage_pct = 0, sc_cooldown_bars = 2, sc_sl_cooldown_bars = 3,
      sc_max_consecutive_stop_losses = 2, sc_sl_pause_bars = 10, sc_take_profit_pct = 25 / 100,
      sc_stop_loss_pct = 15 / 100, sc_trailing_stop_pct = 12 / 100, sc_trailing_stop_trigger_pct = 0,
      sc_max_hold_bars = 24, sc_max_positions = 1, sc_enable_intrabar_risk_exit = True,
      sc_created_at = now, sc_updated_at = now\<rparr>"

definition mapStrategyConfig ::
  "decimal_ops \<Rightarrow> value_lib \<Rightarrow> gotime \<Rightarrow> values_map \<Rightarrow> strategy_config option \<Rightarrow> strategy_config" where
  "mapStrategyConfig D V now values current =
     (let c = (case current of Some c \<Rightarrow> c\<lparr>sc_updated_at := now\<rparr> | None \<Rightarrow> default_strategy_config now);
          str = stringValue V values; num = intValue V values; flag = boolValue V values;
          dec = decimalValue D V values
      in c\<lparr>sc_strategy := str ''strategy'' (sc_strategy c), sc_exchange := str ''exchange'' (sc_exchange c),
           sc_market_type := str ''market_type'' (sc_market_type c), sc_symbol := str ''symbol'' (sc_symbol c),
           sc_interval := str ''interval'' (sc_interval c),
           sc_user_id := nullStringValue V values ''user_id'' (sc_user_id c),
           sc_position_side := str ''position_side'' (sc_position_side c),
           sc_source := str ''source'' (sc_source c), sc_enabled := flag ''enabled'' (sc_enabled c),
           sc_monitor_url := str ''monitor_url'' (sc_monitor_url c),
           sc_need_notification := flag ''need_notification'' (sc_need_notification c),
           sc_is_paper_trading := flag ''is_paper_trading'' (sc_is_paper_trading c),
           sc_order_type := str ''order_type'' (sc_order_type c),
           sc_order_qty := dec ''order_qty'' (sc_order_qty c),
           sc_limit_slippage_pct := dec ''limit_slippage_pct'' (sc_limit_slippage_pct c),
           sc_cooldown_bars := num ''cooldown_bars'' (sc_cooldown_bars c),
           sc_sl_cooldown_bars := num ''sl_cooldown_bars'' (sc_sl_cooldown_bars c),
           sc_max_consecutive_stop_losses := num ''max_consecutive_stop_losses'' (sc_max_consecutive_stop_losses c),
           sc_sl_pause_bars := num ''sl_pause_bars'' (sc_sl_pause_bars c),
           sc_take_profit_pct := dec ''take_profit_pct'' (sc_take_profit_pct c),
           sc_stop_loss_pct := dec ''stop_loss_pct'' (sc_stop_loss_pct c),
           sc_trailing_stop_pct := dec ''trailing_stop_pct'' (sc_trailing_stop_pct c),
           sc_trailing_stop_trigger_pct := dec ''trailing_stop_trigger_pct'' (sc_trailing_stop_trigger_pct c),
           sc_max_hold_bars := num ''max_hold_bars'' (sc_max_hold_bars c),
           sc_max_positions := num ''max_positions'' (sc_max_positions c),
           sc_enable_intrabar_risk_exit := flag ''enable_intrabar_risk_exit'' (sc_enable_intrabar_risk_exit c)\<rparr>)"

end
