(* ===== verification/TradeReports.thy ===== *)
theory TradeReports
  imports OrderTrades
begin

text \<open>
  The daily report and the report over strategies (\<open>ListDailyReport\<close>, \<open>ListStrategyPerformance\<close> of
  \<open>internal/repository/order_history.repository.go\<close>): the rows their statements select from \<open>order_trades\<close>
  and \<open>order_histories\<close>. Sums, products and quotients of \<open>NUMERIC\<close> values are exact here, days are those of
  UTC, and texts are compared by their bytes.
\<close>

subsection \<open>Groups and aggregates\<close>

definition group_rows :: "('r \<Rightarrow> 'k) \<Rightarrow> 'r list \<Rightarrow> ('k \<times> 'r list) list" where
  "group_rows key rows = map (\<lambda>k. (k, filter (\<lambda>r. key r = k) rows)) (remdups (map key rows))"

definition average :: "rat list \<Rightarrow> rat" where
  "average xs = (if xs = [] then 0 else sum_list xs / of_nat (length xs))"

definition largest :: "'a :: linorder \<Rightarrow> 'a list \<Rightarrow> 'a" where
  "largest d xs = (case xs of [] \<Rightarrow> d | x # xs \<Rightarrow> foldl max x xs)"

definition smallest :: "'a :: linorder \<Rightarrow> 'a list \<Rightarrow> 'a" where
  "smallest d xs = (case xs of [] \<Rightarrow> d | x # xs \<Rightarrow> foldl min x xs)"

definition profit_of :: "order_trade \<Rightarrow> rat" where
  "profit_of tr = (case trade_profit tr of None \<Rightarrow> 0 | Some p \<Rightarrow> p)"

definition how_many :: "('a \<Rightarrow> bool) \<Rightarrow> 'a list \<Rightarrow> nat" where
  "how_many P xs = length (filter P xs)"

definition reported_trades :: "report_filter \<Rightarrow> order_table \<Rightarrow> order_trade list" where
  "reported_trades filt t = filter (trade_reported filt) (order_trades t)"

subsection \<open>The daily report\<close>

record daily_report =
  dr_trade_date :: gotime
  dr_strategy_id :: string
  dr_symbol :: string
  dr_start_trade_at :: gotime
  dr_end_trade_at :: gotime
  dr_total_profit :: rat
  dr_win_rate :: rat
  dr_avg_size :: rat
  dr_total_trades :: nat
  dr_winning_trades :: nat
  dr_losing_trades :: nat

definition day_of :: "gotime \<Rightarrow> gotime" where
  "day_of t = t - t mod (24 * 60 * minute)"

definition daily_key :: "order_trade \<Rightarrow> gotime \<times> string \<times> string" where
  "daily_key tr = (day_of (exit_time_of tr), ot_strategy_id tr, ot_symbol tr)"

definition daily_row :: "(gotime \<times> string \<times> string) \<times> order_trade list \<Rightarrow> daily_report" where
  "daily_row g =
     (case g of ((day, strategy, symbol), trs) \<Rightarrow>
        \<lparr>dr_trade_date = day, dr_strategy_id = strategy, dr_symbol = symbol,
         dr_start_trade_at = smallest zero_time (map ot_entry_time trs),
         dr_end_trade_at = largest zero_time (map exit_time_of trs),
         dr_total_profit = sum_list (map profit_of trs),
         dr_win_rate = average (map (\<lambda>tr. if 0 < profit_of tr then 1 else 0) trs),
         dr_avg_size = average (map ot_quantity trs), dr_total_trades = length trs,
         dr_winning_trades = how_many (\<lambda>tr. 0 \<le> profit_of tr) trs,
         dr_losing_trades = how_many (\<lambda>tr. profit_of tr < 0) trs\<rparr>)"

definition daily_rows :: "report_filter \<Rightarrow> order_table \<Rightarrow> daily_report list" where
  "daily_rows filt t =
     sort_key (\<lambda>r. - dr_trade_date r) (sort_key dr_strategy_id (sort_key dr_symbol
       (map daily_row (group_rows daily_key (reported_trades filt t)))))"

definition ListDailyReport :: "bool \<Rightarrow> report_filter \<Rightarrow> order_table \<Rightarrow> db_error + int \<times> int \<times> nat \<times> daily_report list" where
  "ListDailyReport db_ok filt t =
     (let (page, limit) = orderReportPagination filt;
          rows = daily_rows filt t;
          items = take (nat limit) (drop (nat ((page - 1) * limit)) rows)
      in if \<not> db_ok then Inl DbFault
         else Inr (page, limit, if items = [] then 0 else length rows, items))"

subsection \<open>The report over strategies\<close>

record strategy_performance =
  sp_strategy_id :: string
  sp_total_profit :: rat
  sp_win_rate :: rat
  sp_avg_profit :: rat
  sp_avg_size :: rat
  sp_best_trade :: rat
  sp_worst_trade :: rat
  sp_profit_factor :: rat
  sp_total_trades :: nat
  sp_winning_trades :: nat
  sp_losing_trades :: nat
  sp_first_trade_at :: gotime
  sp_last_trade_at :: gotime

definition or_unknown :: "string \<Rightarrow> string" where
  "or_unknown s = (if s = [] then ''unknown'' else s)"

definition profit_factor :: "rat list \<Rightarrow> rat" where
  "profit_factor ps =
     (let lost = \<bar>sum_list (map (\<lambda>p. if p < 0 then p else 0) ps)\<bar>
      in if lost = 0 then 0 else sum_list (map (\<lambda>p. if 0 < p then p else 0) ps) / lost)"

definition paired_row :: "string \<times> order_trade list \<Rightarrow> strategy_performance" where
  "paired_row g =
     (case g of (strategy, trs) \<Rightarrow>
        (let ps = map profit_of trs
         in \<lparr>sp_strategy_id = strategy, sp_total_profit = sum_list ps,
             sp_win_rate = average (map (\<lambda>p. if 0 < p then 1 else 0) ps), sp_avg_profit = average ps,
             sp_avg_size = average (map ot_quantity trs), sp_best_trade = largest 0 ps,
             sp_worst_trade = smallest 0 ps, sp_profit_factor = profit_factor ps,
             sp_total_trades = length trs, sp_winning_trades = how_many (\<lambda>p. 0 < p) ps,
             sp_losing_trades = how_many (\<lambda>p. p < 0) ps,
             sp_first_trade_at = smallest zero_time (map ot_entry_time trs),
             sp_last_trade_at = largest zero_time (map exit_time_of trs)\<rparr>))"

definition paired_rows :: "report_filter \<Rightarrow> order_table \<Rightarrow> strategy_performance list" where
  "paired_rows filt t = map paired_row (group_rows (or_unknown \<circ> ot_strategy_id) (reported_trades filt t))"

text \<open>Orders of strategies that keep no positions: the query \<open>signal_pairs\<close>.\<close>

definition done_at :: "order_history \<Rightarrow> gotime" where
  "done_at h = (if time_valid (oh_filled_at h) then time_val (oh_filled_at h) else oh_created_at h)"

definition signal_strategy :: "order_history \<Rightarrow> string" where
  "signal_strategy h = or_unknown (if str_valid (oh_strategy_id h) then str_val (oh_strategy_id h) else [])"

definition signal_reported :: "report_filter \<Rightarrow> order_table \<Rightarrow> order_history \<Rightarrow> bool" where
  "signal_reported filt t h =
     (oh_status h = ''FILLED'' \<and> oh_market_type h = ''spot'' \<and> oh_trade_condition h = ''SIGNAL''
      \<and> (oh_side h = ''BUY'' \<or> oh_side h = ''SELL'') \<and> filled_price h \<noteq> None
      \<and> \<not> (\<exists>tr\<in>set (order_trades t). oh_strategy_id h = some_string (ot_strategy_id tr))
      \<and> (case rf_start filt of None \<Rightarrow> True | Some s \<Rightarrow> s \<le> done_at h)
      \<and> (case rf_end filt of None \<Rightarrow> True | Some s \<Rightarrow> done_at h \<le> s)
      \<and> (trim_space (rf_strategy filt) = [] \<or> oh_strategy_id h = some_string (trim_space (rf_strategy filt)))
      \<and> (trim_space (rf_symbol filt) = [] \<or> oh_symbol h = trim_space (rf_symbol filt)))"

record signal_pair =
  sg_strategy_id :: string
  sg_market :: "string \<times> string \<times> string"
  sg_buy_cost :: rat
  sg_sell_proceeds :: rat
  sg_fees :: rat
  sg_inventory :: rat
  sg_size :: rat
  sg_orders :: nat
  sg_first :: gotime
  sg_last :: gotime

definition worth :: "order_history \<Rightarrow> rat" where
  "worth h = (case filled_price h of None \<Rightarrow> 0 | Some p \<Rightarrow> p) * effective_quantity h"

definition signal_pair_of :: "(string \<times> string \<times> string \<times> string) \<times> order_history list \<Rightarrow> signal_pair" where
  "signal_pair_of g =
     (case g of ((strategy, market), hs) \<Rightarrow>
        \<lparr>sg_strategy_id = strategy, sg_market = market,
         sg_buy_cost = sum_list (map (\<lambda>h. if oh_side h = ''BUY'' then worth h else 0) hs),
         sg_sell_proceeds = sum_list (map (\<lambda>h. if oh_side h = ''SELL'' then worth h else 0) hs),
         sg_fees = sum_list (map (\<lambda>h. case oh_fee h of None \<Rightarrow> 0 | Some f \<Rightarrow> f) hs),
         sg_inventory = sum_list (map (\<lambda>h. if oh_side h = ''BUY'' then effective_quantity h else - effective_quantity h) hs),
         sg_size = sum_list (map effective_quantity hs), sg_orders = length hs,
         sg_first = smallest zero_time (map done_at hs), sg_last = largest zero_time (map done_at hs)\<rparr>)"

definition signal_profit :: "price_table \<Rightarrow> signal_pair \<Rightarrow> rat" where
  "signal_profit prices p =
     (case sg_market p of (exchange, market, symbol) \<Rightarrow>
        sg_sell_proceeds p
          + sg_inventory p * (case market_price prices exchange market symbol of None \<Rightarrow> 0 | Some x \<Rightarrow> x)
          - sg_buy_cost p - sg_fees p)"

definition signal_row :: "price_table \<Rightarrow> string \<times> signal_pair list \<Rightarrow> strategy_performance" where
  "signal_row prices g =
     (case g of (strategy, pairs) \<Rightarrow>
        (let gained = sum_list (map (signal_profit prices) pairs); orders = sum_list (map sg_orders pairs)
         in \<lparr>sp_strategy_id = strategy, sp_total_profit = gained, sp_win_rate = 0,
             sp_avg_profit = gained / of_nat orders, sp_avg_size = sum_list (map sg_size pairs) / of_nat orders,
             sp_best_trade = 0, sp_worst_trade = 0, sp_profit_factor = 0, sp_total_trades = orders,
             sp_winning_trades = 0, sp_losing_trades = 0,
             sp_first_trade_at = smallest zero_time (map sg_first pairs),
             sp_last_trade_at = largest zero_time (map sg_last pairs)\<rparr>))"

definition signal_pairs :: "report_filter \<Rightarrow> order_table \<Rightarrow> signal_pair list" where
  "signal_pairs filt t =
     map signal_pair_of (group_rows
       (\<lambda>h. (signal_strategy h, oh_exchange h, oh_market_type h, oh_symbol h)) (filter (signal_reported filt t) t))"

definition signal_rows :: "report_filter \<Rightarrow> order_table \<Rightarrow> price_table \<Rightarrow> strategy_performance list" where
  "signal_rows filt t prices = map (signal_row prices) (group_rows sg_strategy_id (signal_pairs filt t))"

definition ListStrategyPerformance ::
  "bool \<Rightarrow> report_filter \<Rightarrow> order_table \<Rightarrow> price_table \<Rightarrow> db_error + strategy_performance list" where
  "ListStrategyPerformance db_ok filt t prices =
     (if \<not> db_ok then Inl DbFault
      else Inr (take 1000
        (sort_key (\<lambda>r. - sp_total_profit r) (sort_key (\<lambda>r. - sp_win_rate r)
          (sort_key (\<lambda>r. - int (sp_total_trades r)) (sort_key sp_strategy_id
            (paired_rows filt t @ signal_rows filt t prices)))))))"

end
