(* ===== verification/DataService.thy ===== *)
theory DataService
  imports OrderActions TradeReports ApiHttp BackfillJobs
begin

text \<open>
  The data service of the dashboard (\<open>internal/service/api/data.service.go\<close>, \<open>response.go\<close>): what every
  call of a handler does to the tables and what it answers. The n-th database call of an operation is
  answered or fails as the environment says; the pages of lists come from a database that is a
  function of the query, as in \<open>Pagination\<close>. A call to a strategy's monitor is recorded.
\<close>

subsection \<open>State and environment\<close>

record data_state =
  dt_auth :: auth_db
  dt_settings :: setting_table
  dt_orders :: order_table
  dt_prices :: price_table
  dt_klines :: kline_table
  dt_mappings :: mapping_table
  dt_subs :: subscription_table
  dt_configs :: config_table
  dt_events :: "event list"
  dt_monitor_calls :: "(string \<times> string) list"   \<comment> \<open>method and address\<close>

text \<open>The answer of a monitor: an error, or the status code, its text and the body.\<close>

type_synonym monitor_answer = "string + nat \<times> string \<times> string"

record data_env =
  de_now :: gotime
  de_db :: "nat \<Rightarrow> bool"
  de_new_id :: string
  de_hash :: "string \<Rightarrow> string option"
  de_random :: "string option"
  de_js :: bool
  de_publish :: "nat \<Rightarrow> bool"
  de_monitor :: "string \<Rightarrow> string \<Rightarrow> monitor_answer"
  de_json_error :: "string \<Rightarrow> string"

record data_lib =
  dl_decimal :: decimal_ops
  dl_values :: value_lib
  dl_jsonb :: "json \<Rightarrow> string"       \<comment> \<open>the text of a \<open>JSONB\<close> value\<close>
  dl_time :: "gotime \<Rightarrow> string"      \<comment> \<open>RFC 3339\<close>

definition db_failure :: "db_error \<Rightarrow> service_error" where
  "db_failure e = (if e = ErrNoRows then NoRows else OtherError)"

definition from_db :: "db_error + 'a \<Rightarrow> service_error + 'a" where
  "from_db r = (case r of Inl e \<Rightarrow> Inl (db_failure e) | Inr a \<Rightarrow> Inr a)"

definition ensureFound :: "db_error + 'a option \<Rightarrow> service_error + 'a" where
  "ensureFound r =
     (case r of Inl e \<Rightarrow> Inl (db_failure e) | Inr None \<Rightarrow> Inl NoRows | Inr (Some a) \<Rightarrow> Inr a)"

text \<open>A statement without a result: its error, or the next step.\<close>

definition after_db :: "db_error option \<Rightarrow> (service_error + 'a) \<Rightarrow> service_error + 'a" where
  "after_db e next_step = (case e of Some e \<Rightarrow> Inl (db_failure e) | None \<Rightarrow> next_step)"

subsection \<open>Answers\<close>

definition nullStringPtr :: "null_string \<Rightarrow> string option" where
  "nullStringPtr s = (if str_valid s then Some (str_val s) else None)"

definition nullTimePtr :: "null_time \<Rightarrow> gotime option" where
  "nullTimePtr t = (if time_valid t then Some (time_val t) else None)"

record user_response =
  ur_id :: string
  ur_email :: string
  ur_name :: string
  ur_active :: bool
  ur_last_login_at :: "gotime option"
  ur_created_at :: gotime
  ur_updated_at :: gotime
  ur_roles :: "string list"

definition apiUserResponse :: "api_user \<Rightarrow> user_response" where
  "apiUserResponse u =
     \<lparr>ur_id = us_id u, ur_email = us_email u, ur_name = us_name u, ur_active = us_active u,
      ur_last_login_at = nullTimePtr (us_last_login_at u), ur_created_at = us_created_at u,
      ur_updated_at = us_updated_at u, ur_roles = []\<rparr>"

record order_history_response =
  or_id :: string
  or_request_id :: string
  or_user_id :: string
  or_exchange :: string
  or_market_type :: string
  or_position_side :: string
  or_symbol :: string
  or_order_id :: string
  or_entry_order_id :: string
  or_client_order_id :: "string option"
  or_side :: string
  or_type :: string
  or_price :: "rat option"
  or_quantity :: rat
  or_filled_quantity :: rat
  or_avg_fill_price :: "rat option"
  or_status :: string
  or_leverage :: "rat option"
  or_fee :: "rat option"
  or_realized_pnl :: "rat option"
  or_created_at_exchange :: "gotime option"
  or_sent_at :: "gotime option"
  or_acknowledged_at :: "gotime option"
  or_filled_at :: "gotime option"
  or_strategy_id :: "string option"
  or_state :: string
  or_entry_price :: "rat option"
  or_exit_price :: "rat option"
  or_pnl :: "rat option"
  or_trade_condition :: string
  or_order_reason :: string
  or_exit_type :: string
  or_error_message :: "string option"
  or_created_at :: gotime
  or_updated_at :: gotime
  or_is_paper_trading :: bool

definition orderHistoryResponse :: "order_history \<Rightarrow> order_history_response" where
  "orderHistoryResponse h =
     \<lparr>or_id = oh_id h, or_request_id = oh_request_id h, or_user_id = oh_user_id h, or_exchange = oh_exchange h,
      or_market_type = oh_market_type h, or_position_side = oh_position_side h, or_symbol = oh_symbol h,
      or_order_id = oh_order_id h, or_entry_order_id = oh_entry_order_id h,
      or_client_order_id = nullStringPtr (oh_client_order_id h), or_side = oh_side h, or_type = oh_type h,
      or_price = oh_price h, or_quantity = oh_quantity h, or_filled_quantity = oh_filled_quantity h,
      or_avg_fill_price = oh_avg_fill_price h, or_status = oh_status h, or_leverage = oh_leverage h,
      or_fee = oh_fee h, or_realized_pnl = oh_realized_pnl h,
      or_created_at_exchange = nullTimePtr (oh_created_at_exchange h), or_sent_at = nullTimePtr (oh_sent_at h),
      or_acknowledged_at = nullTimePtr (oh_acknowledged_at h), or_filled_at = nullTimePtr (oh_filled_at h),
      or_strategy_id = nullStringPtr (oh_strategy_id h), or_state = [], or_entry_price = None,
      or_exit_price = None, or_pnl = None, or_trade_condition = oh_trade_condition h,
      or_order_reason = oh_order_reason h, or_exit_type = oh_exit_type h,
      or_error_message = nullStringPtr (oh_error_message h), or_created_at = oh_created_at h,
      or_updated_at = oh_updated_at h, or_is_paper_trading = oh_is_paper_trading h\<rparr>"

definition orderHistoryWithMetricsResponse :: "order_with_metrics \<Rightarrow> order_history_response" where
  "orderHistoryWithMetricsResponse m =
     (orderHistoryResponse (om_order m))
       \<lparr>or_state := om_state m, or_entry_price := om_entry_price m, or_exit_price := om_exit_price m,
        or_pnl := om_pnl m\<rparr>"

text \<open>\<open>StrategyConfigResponse\<close> has the fields of the row, the user id as a pointer.\<close>

definition strategyConfigResponse :: "strategy_config \<Rightarrow> strategy_config \<times> string option" where
  "strategyConfigResponse c = (c, nullStringPtr (sc_user_id c))"

record manual_order_result =
  mo_request_id :: string
  mo_strategy_id :: string
  mo_status :: string

record monitor_response =
  mr_name :: string
  mr_url :: string
  mr_online :: bool
  mr_error :: string
  mr_payload :: values_map

record overview_response =
  ov_generated_at :: gotime
  ov_summary :: order_summary
  ov_enabled_strategies :: nat
  ov_total_strategies :: nat
  ov_recent_orders :: "order_history_response list"

datatype items =
    Orders_of "order_history_response list"
  | Klines_of "market_kline list"
  | Prices_of "price_reference list"
  | Mappings_of "symbol_mapping list"
  | Subs_of "kline_subscription list"
  | Configs_of "(strategy_config \<times> string option) list"
  | Settings_of "values_map list"
  | Users_of "user_response list"
  | Roles_of "(api_role \<times> string list) list"
  | Permissions_of "api_permission list"
  | Pages_of "dashboard_page list"

datatype data_payload =
    Page pagination_resp items | Single items
  | PayAuthConfig bool | PayEnums "(string \<times> string list) list" | PayOverview overview_response
  | PayManualOrder manual_order_result | PayTrades int int nat "trade_pnl list"
  | PayDaily int int nat "daily_report list" | PayPerformance "strategy_performance list"
  | PayMonitors "monitor_response list" | PayDeleted

type_synonym 'a data_result = "(service_error + 'a) \<times> data_state"

subsection \<open>Orders\<close>

definition publish_order :: "data_env \<Rightarrow> nat \<Rightarrow> order_request \<Rightarrow> data_state \<Rightarrow> bool \<times> data_state" where
  "publish_order env k order s =
     (case PublishEvent (de_publish env k) (PlaceOrderEvent order) (dt_events s) of
        (ok, evs) \<Rightarrow> (ok, s\<lparr>dt_events := evs\<rparr>))"

definition queued :: "order_request \<Rightarrow> string \<Rightarrow> manual_order_result" where
  "queued order strategyID =
     \<lparr>mo_request_id = rq_request_id order, mo_strategy_id = strategyID, mo_status = ''queued''\<rparr>"

definition invalid_manual_order :: service_error where
  "invalid_manual_order = InvalidManualOrder ''invalid manual order''"

definition DS_CreateManualOrder ::
  "data_lib \<Rightarrow> data_env \<Rightarrow> string \<Rightarrow> values_map \<Rightarrow> data_state \<Rightarrow> manual_order_result data_result" where
  "DS_CreateManualOrder L env userID values s =
     (if \<not> de_js env then (Inl OtherError, s)
      else case NewRandomToken (de_random env) of
        None \<Rightarrow> (Inl OtherError, s)
      | Some token \<Rightarrow>
          (case buildManualEntryOrder (dl_decimal L) (dl_values L) (de_now env) userID (''manual-'' @ token) values of
             None \<Rightarrow> (Inl invalid_manual_order, s)
           | Some order \<Rightarrow>
               (case publish_order env 0 order s of
                  (False, s') \<Rightarrow> (Inl OtherError, s')
                | (True, s') \<Rightarrow> (Inr (queued order ''manual''), s'))))"

text \<open>The price of a paper order is the current reference price.\<close>

definition close_price :: "data_env \<Rightarrow> order_request \<Rightarrow> data_state \<Rightarrow> service_error + order_request" where
  "close_price env order s =
     (if \<not> rq_is_paper_trading order then Inr order
      else case FindByMarket (de_db env 1) (rq_exchange order) (rq_market_type order) (rq_symbol order) (dt_prices s) of
        Inl e \<Rightarrow> Inl (db_failure e)
      | Inr found \<Rightarrow>
          (case found of
             Some p \<Rightarrow> if 0 < pr_price p then Inr (order\<lparr>rq_price := pr_price p\<rparr>)
               else Inl (InvalidManualOrder ''invalid manual order: current paper-trading price is unavailable'')
           | None \<Rightarrow> Inl (InvalidManualOrder ''invalid manual order: current paper-trading price is unavailable'')))"

definition DS_CloseOrder :: "data_env \<Rightarrow> string \<Rightarrow> data_state \<Rightarrow> manual_order_result data_result" where
  "DS_CloseOrder env i s =
     (if \<not> de_js env then (Inl OtherError, s)
      else case FindByIDWithMetrics (de_db env 0) i (dt_orders s) (dt_prices s) of
        Inl e \<Rightarrow> (Inl (db_failure e), s)
      | Inr found \<Rightarrow>
          (case found of
             None \<Rightarrow> (Inl (PositionNotRunning ''position is not running''), s)
           | Some entry \<Rightarrow>
               if om_state entry \<noteq> ''running'' \<or> oh_trade_condition (om_order entry) \<noteq> TradeConditionEntry
               then (Inl (PositionNotRunning ''position is not running''), s)
               else (case buildManualCloseOrder (de_now env) (om_order entry) of
                       None \<Rightarrow> (Inl invalid_manual_order, s)
                     | Some order \<Rightarrow>
                         (case close_price env order s of
                            Inl e \<Rightarrow> (Inl e, s)
                          | Inr order \<Rightarrow>
                              (case publish_order env 0 order s of
                                 (False, s') \<Rightarrow> (Inl OtherError, s')
                               | (True, s') \<Rightarrow>
                                   (Inr (queued order (case rq_strategy_id order of None \<Rightarrow> [] | Some x \<Rightarrow> x)), s'))))))"

definition GetOrder :: "data_env \<Rightarrow> string \<Rightarrow> data_state \<Rightarrow> service_error + order_history_response" where
  "GetOrder env i s =
     res_map orderHistoryWithMetricsResponse
       (ensureFound (FindByIDWithMetrics (de_db env 0) i (dt_orders s) (dt_prices s)))"

subsection \<open>Strategy configurations\<close>

text \<open>One close for every open trade that has a side and a quantity; the first failure ends it.\<close>

fun publish_closes :: "data_env \<Rightarrow> nat \<Rightarrow> strategy_config \<Rightarrow> order_history list \<Rightarrow> data_state \<Rightarrow> bool \<times> data_state" where
  "publish_closes env k config [] s = (True, s)"
| "publish_closes env k config (trade # trades) s =
     (case buildDisableStrategyCloseOrder (de_now env) config trade of
        None \<Rightarrow> publish_closes env k config trades s
      | Some order \<Rightarrow>
          (case publish_order env k order s of
             (False, s') \<Rightarrow> (False, s')
           | (True, s') \<Rightarrow> publish_closes env (Suc k) config trades s'))"

definition closeOpenTradesForDisabledStrategy ::
  "data_env \<Rightarrow> strategy_config \<Rightarrow> data_state \<Rightarrow> service_error option \<times> data_state" where
  "closeOpenTradesForDisabledStrategy env config s =
     (if \<not> de_js env then (Some OtherError, s)
      else case ListOpenEntries (de_db env 2) (sc_strategy config) (sc_exchange config) (sc_market_type config)
                 (sc_symbol config) (dt_orders s) (dt_prices s) of
        Inl e \<Rightarrow> (Some (db_failure e), s)
      | Inr trades \<Rightarrow>
          (case publish_closes env 0 config (map om_order trades) s of
             (ok, s') \<Rightarrow> (if ok then None else Some OtherError, s')))"

definition GetStrategyConfig :: "data_env \<Rightarrow> nat \<Rightarrow> string \<Rightarrow> data_state
    \<Rightarrow> service_error + strategy_config \<times> string option" where
  "GetStrategyConfig env k i s =
     res_map strategyConfigResponse (ensureFound (FindByID_config (de_db env k) i (dt_configs s)))"

definition CreateStrategyConfig :: "data_lib \<Rightarrow> data_env \<Rightarrow> values_map \<Rightarrow> data_state
    \<Rightarrow> (strategy_config \<times> string option) data_result" where
  "CreateStrategyConfig L env values s =
     (case Create_config (de_db env 0) (de_new_id env)
             (mapStrategyConfig (dl_decimal L) (dl_values L) (de_now env) values None) (dt_configs s) of
        (Inl e, t) \<Rightarrow> (Inl (db_failure e), s\<lparr>dt_configs := t\<rparr>)
      | (Inr row, t) \<Rightarrow>
          (let s' = s\<lparr>dt_configs := t\<rparr> in (GetStrategyConfig env 1 (sc_id row) s', s')))"

definition UpdateStrategyConfig :: "data_lib \<Rightarrow> data_env \<Rightarrow> string \<Rightarrow> values_map \<Rightarrow> data_state
    \<Rightarrow> (strategy_config \<times> string option) data_result" where
  "UpdateStrategyConfig L env i values s =
     (case ensureFound (FindByID_config (de_db env 0) i (dt_configs s)) of
        Inl e \<Rightarrow> (Inl e, s)
      | Inr current \<Rightarrow>
          (let config = (mapStrategyConfig (dl_decimal L) (dl_values L) (de_now env) values (Some current))
                 \<lparr>sc_id := sc_id current\<rparr>
           in case Update_config (de_db env 1) (de_now env) config (dt_configs s) of
                (Some e, t) \<Rightarrow> (Inl (db_failure e), s\<lparr>dt_configs := t\<rparr>)
              | (None, t) \<Rightarrow>
                  (let s = s\<lparr>dt_configs := t\<rparr>
                   in if sc_enabled current \<and> \<not> sc_enabled config
                      then (case closeOpenTradesForDisabledStrategy env config s of
                              (Some e, s') \<Rightarrow> (Inl e, s')
                            | (None, s') \<Rightarrow> (GetStrategyConfig env 3 i s', s'))
                      else (GetStrategyConfig env 3 i s, s))))"

definition DeleteStrategyConfig :: "data_env \<Rightarrow> string \<Rightarrow> data_state \<Rightarrow> unit data_result" where
  "DeleteStrategyConfig env i s =
     (case Delete_config (de_db env 0) i (dt_configs s) of (e, t) \<Rightarrow> (after_db e (Inr ()), s\<lparr>dt_configs := t\<rparr>))"

end
