(* ===== verification/DataCrud.thy ===== *)
theory DataCrud
  imports DataService
begin

text \<open>
  The rest of the data service (\<open>internal/service/api/data.service.go\<close>): reading, creating, changing and
  deleting the entities of the dashboard, the enumerations of its forms, its overview, the monitors of
  the strategies, and the table of all calls. The database calls of an operation are numbered in the
  order of the code.
\<close>

subsection \<open>Market configuration\<close>

definition GetSymbolMapping :: "data_env \<Rightarrow> nat \<Rightarrow> string \<Rightarrow> data_state \<Rightarrow> service_error + symbol_mapping" where
  "GetSymbolMapping env k i s = ensureFound (FindByID_mapping (de_db env k) i (dt_mappings s))"

definition CreateSymbolMapping :: "data_lib \<Rightarrow> data_env \<Rightarrow> values_map \<Rightarrow> data_state \<Rightarrow> symbol_mapping data_result" where
  "CreateSymbolMapping L env values s =
     (case Create_mapping (de_db env 0) (de_new_id env) (mapSymbolMapping (dl_values L) (de_now env) values None)
             (dt_mappings s) of
        (Inl e, t) \<Rightarrow> (Inl (db_failure e), s\<lparr>dt_mappings := t\<rparr>)
      | (Inr row, t) \<Rightarrow> (let s' = s\<lparr>dt_mappings := t\<rparr> in (GetSymbolMapping env 1 (sm_id row) s', s')))"

definition UpdateSymbolMapping ::
  "data_lib \<Rightarrow> data_env \<Rightarrow> string \<Rightarrow> values_map \<Rightarrow> data_state \<Rightarrow> symbol_mapping data_result" where
  "UpdateSymbolMapping L env i values s =
     (case GetSymbolMapping env 0 i s of
        Inl e \<Rightarrow> (Inl e, s)
      | Inr current \<Rightarrow>
          (case Update_mapping (de_db env 1)
                  ((mapSymbolMapping (dl_values L) (de_now env) values (Some current))\<lparr>sm_id := i\<rparr>) (dt_mappings s) of
             (e, t) \<Rightarrow> (let s' = s\<lparr>dt_mappings := t\<rparr> in (after_db e (GetSymbolMapping env 2 i s'), s'))))"

definition DeleteSymbolMapping :: "data_env \<Rightarrow> string \<Rightarrow> data_state \<Rightarrow> unit data_result" where
  "DeleteSymbolMapping env i s =
     (case Delete_mapping (de_db env 0) i (dt_mappings s) of (e, t) \<Rightarrow> (after_db e (Inr ()), s\<lparr>dt_mappings := t\<rparr>))"

definition GetKlineSubscription :: "data_env \<Rightarrow> nat \<Rightarrow> string \<Rightarrow> data_state \<Rightarrow> service_error + kline_subscription" where
  "GetKlineSubscription env k i s = ensureFound (FindByID_subscription (de_db env k) i (dt_subs s))"

definition CreateKlineSubscription ::
  "data_lib \<Rightarrow> data_env \<Rightarrow> values_map \<Rightarrow> data_state \<Rightarrow> kline_subscription data_result" where
  "CreateKlineSubscription L env values s =
     (case Create_subscription (de_db env 0) (de_new_id env)
             (mapKlineSubscription (dl_values L) (de_now env) values None) (dt_subs s) of
        (Inl e, t) \<Rightarrow> (Inl (db_failure e), s\<lparr>dt_subs := t\<rparr>)
      | (Inr row, t) \<Rightarrow> (let s' = s\<lparr>dt_subs := t\<rparr> in (GetKlineSubscription env 1 (ks_id row) s', s')))"

definition UpdateKlineSubscription ::
  "data_lib \<Rightarrow> data_env \<Rightarrow> string \<Rightarrow> values_map \<Rightarrow> data_state \<Rightarrow> kline_subscription data_result" where
  "UpdateKlineSubscription L env i values s =
     (case GetKlineSubscription env 0 i s of
        Inl e \<Rightarrow> (Inl e, s)
      | Inr current \<Rightarrow>
          (case Update_subscription (de_db env 1)
                  ((mapKlineSubscription (dl_values L) (de_now env) values (Some current))\<lparr>ks_id := i\<rparr>) (dt_subs s) of
             (e, t) \<Rightarrow> (let s' = s\<lparr>dt_subs := t\<rparr> in (after_db e (GetKlineSubscription env 2 i s'), s'))))"

definition DeleteKlineSubscription :: "data_env \<Rightarrow> string \<Rightarrow> data_state \<Rightarrow> unit data_result" where
  "DeleteKlineSubscription env i s =
     (case Delete_subscription (de_db env 0) i (dt_subs s) of (e, t) \<Rightarrow> (after_db e (Inr ()), s\<lparr>dt_subs := t\<rparr>))"

subsection \<open>Settings\<close>

definition GetAuthConfig_call :: "data_lib \<Rightarrow> data_env \<Rightarrow> data_state \<Rightarrow> service_error + bool" where
  "GetAuthConfig_call L env s =
     (case FindByKey_setting (de_db env 0) ''dashboard.show_setup_link'' (dt_settings s) of
        Inl e \<Rightarrow> if e = ErrNoRows then Inr True else Inl (db_failure e)
      | Inr row \<Rightarrow>
          Inr (settingBoolValue (value_or_nil (selectMaps (dl_jsonb L) (dl_time L) row) ''value'') True))"

definition setting_answer :: "data_lib \<Rightarrow> db_error + setting \<Rightarrow> service_error + values_map" where
  "setting_answer L r = res_map (selectMaps (dl_jsonb L) (dl_time L)) (from_db r)"

definition GetSetting :: "data_lib \<Rightarrow> data_env \<Rightarrow> string \<Rightarrow> data_state \<Rightarrow> service_error + values_map" where
  "GetSetting L env i s = setting_answer L (FindByID_setting (de_db env 0) i (dt_settings s))"

definition CreateSetting :: "data_lib \<Rightarrow> data_env \<Rightarrow> values_map \<Rightarrow> data_state \<Rightarrow> values_map data_result" where
  "CreateSetting L env values s =
     (case Create_setting (dl_values L) (de_db env 0) (de_new_id env) (de_now env) values (dt_settings s) of
        (r, t) \<Rightarrow> (setting_answer L r, s\<lparr>dt_settings := t\<rparr>))"

definition UpdateSetting :: "data_lib \<Rightarrow> data_env \<Rightarrow> string \<Rightarrow> values_map \<Rightarrow> data_state \<Rightarrow> values_map data_result" where
  "UpdateSetting L env i values s =
     (case Update_setting (dl_values L) (de_db env 0) (de_now env) i values (dt_settings s) of
        (r, t) \<Rightarrow> (setting_answer L r, s\<lparr>dt_settings := t\<rparr>))"

definition DeleteSetting :: "data_env \<Rightarrow> string \<Rightarrow> data_state \<Rightarrow> unit data_result" where
  "DeleteSetting env i s =
     (case Delete_setting (de_db env 0) i (dt_settings s) of (e, t) \<Rightarrow> (after_db e (Inr ()), s\<lparr>dt_settings := t\<rparr>))"

subsection \<open>Users\<close>

definition GetUser_call :: "data_env \<Rightarrow> nat \<Rightarrow> string \<Rightarrow> data_state \<Rightarrow> service_error + user_response" where
  "GetUser_call env k i s =
     bind_res (from_db (FindUserByID (de_db env k) i (dt_auth s))) (\<lambda>u.
     bind_res (from_db (ListRoleNamesByUserID (de_db env (Suc k)) i (dt_auth s))) (\<lambda>roles.
       Inr ((apiUserResponse u)\<lparr>ur_roles := roles\<rparr>)))"

definition CreateUser_call :: "data_lib \<Rightarrow> data_env \<Rightarrow> values_map \<Rightarrow> data_state \<Rightarrow> user_response data_result" where
  "CreateUser_call L env values s =
     (let V = dl_values L
      in case de_hash env (stringValue V values ''password'' []) of
           None \<Rightarrow> (Inl OtherError, s)
         | Some passwordHash \<Rightarrow>
             (let user = \<lparr>us_id = [], us_email = to_lower (stringValue V values ''email'' []),
                   us_name = stringValue V values ''name'' [], us_password_hash = passwordHash,
                   us_active = boolValue V values ''active'' True, us_last_login_at = no_time,
                   us_created_at = zero_time, us_updated_at = zero_time\<rparr>
              in case CreateUser (de_db env 0) (de_new_id env) (de_now env) user (stringSliceValue V values ''roles'')
                        (dt_auth s) of
                   (Inl e, db) \<Rightarrow> (Inl (db_failure e), s\<lparr>dt_auth := db\<rparr>)
                 | (Inr u, db) \<Rightarrow> (let s' = s\<lparr>dt_auth := db\<rparr> in (GetUser_call env 1 (us_id u) s', s'))))"

text \<open>An empty hash leaves the password, \<open>None\<close> the roles.\<close>

definition changed_user :: "value_lib \<Rightarrow> values_map \<Rightarrow> string \<Rightarrow> api_user \<Rightarrow> api_user" where
  "changed_user V values passwordHash current =
     current\<lparr>us_email := to_lower (stringValue V values ''email'' (us_email current)),
             us_name := stringValue V values ''name'' (us_name current),
             us_active := boolValue V values ''active'' (us_active current),
             us_password_hash := passwordHash\<rparr>"

definition named_names :: "value_lib \<Rightarrow> values_map \<Rightarrow> string \<Rightarrow> string list option" where
  "named_names V values key = (if named values key then Some (stringSliceValue V values key) else None)"

definition UpdateUser_call :: "data_lib \<Rightarrow> data_env \<Rightarrow> string \<Rightarrow> values_map \<Rightarrow> data_state \<Rightarrow> user_response data_result" where
  "UpdateUser_call L env i values s =
     (let V = dl_values L
      in case GetUserByID (de_db env 0) i (dt_auth s) of
           Inl e \<Rightarrow> (Inl (db_failure e), s)
         | Inr current \<Rightarrow>
             (let password = stringValue V values ''password'' []
              in case (if password \<noteq> [] then de_hash env password else Some []) of
                   None \<Rightarrow> (Inl OtherError, s)
                 | Some passwordHash \<Rightarrow>
                     (case UpdateUser (de_db env 1) (de_now env) (changed_user V values passwordHash current)
                             (named_names V values ''roles'') (dt_auth s) of
                        (e, db) \<Rightarrow> (let s' = s\<lparr>dt_auth := db\<rparr> in (after_db e (GetUser_call env 2 i s'), s')))))"

definition DeleteUser_call :: "data_env \<Rightarrow> string \<Rightarrow> data_state \<Rightarrow> unit data_result" where
  "DeleteUser_call env i s =
     (case DeleteUser (de_db env 0) i (dt_auth s) of (e, db) \<Rightarrow> (after_db e (Inr ()), s\<lparr>dt_auth := db\<rparr>))"

subsection \<open>Roles and permissions\<close>

definition GetRole :: "data_env \<Rightarrow> nat \<Rightarrow> string \<Rightarrow> data_state \<Rightarrow> service_error + api_role \<times> string list" where
  "GetRole env k i s =
     bind_res (from_db (FindRoleByID (de_db env k) i (dt_auth s))) (\<lambda>role.
     bind_res (from_db (ListPermissionNamesByRoleID (de_db env (Suc k)) i (dt_auth s))) (\<lambda>permissions.
       Inr (role, permissions)))"

definition CreateRole_call :: "data_lib \<Rightarrow> data_env \<Rightarrow> values_map \<Rightarrow> data_state \<Rightarrow> (api_role \<times> string list) data_result" where
  "CreateRole_call L env values s =
     (let V = dl_values L;
          role = \<lparr>ro_id = [], ro_name = stringValue V values ''name'' [],
                  ro_description = stringValue V values ''description'' [], ro_created_at = zero_time,
                  ro_updated_at = zero_time\<rparr>
      in case CreateRole (de_db env 0) (de_new_id env) (de_now env) role (stringSliceValue V values ''permissions'')
                (dt_auth s) of
           (Inl e, db) \<Rightarrow> (Inl (db_failure e), s\<lparr>dt_auth := db\<rparr>)
         | (Inr r, db) \<Rightarrow> (let s' = s\<lparr>dt_auth := db\<rparr> in (GetRole env 1 (ro_id r) s', s')))"

definition UpdateRole_call ::
  "data_lib \<Rightarrow> data_env \<Rightarrow> string \<Rightarrow> values_map \<Rightarrow> data_state \<Rightarrow> (api_role \<times> string list) data_result" where
  "UpdateRole_call L env i values s =
     (let V = dl_values L
      in case FindRoleByID (de_db env 0) i (dt_auth s) of
           Inl e \<Rightarrow> (Inl (db_failure e), s)
         | Inr current \<Rightarrow>
             (let role = current\<lparr>ro_name := stringValue V values ''name'' (ro_name current),
                            ro_description := stringValue V values ''description'' (ro_description current)\<rparr>
              in case UpdateRole (de_db env 1) (de_now env) role (named_names V values ''permissions'') (dt_auth s) of
                   (e, db) \<Rightarrow> (let s' = s\<lparr>dt_auth := db\<rparr> in (after_db e (GetRole env 2 i s'), s'))))"

definition DeleteRole_call :: "data_env \<Rightarrow> string \<Rightarrow> data_state \<Rightarrow> unit data_result" where
  "DeleteRole_call env i s =
     (case DeleteRole (de_db env 0) i (dt_auth s) of (e, db) \<Rightarrow> (after_db e (Inr ()), s\<lparr>dt_auth := db\<rparr>))"

definition GetPermission :: "data_env \<Rightarrow> nat \<Rightarrow> string \<Rightarrow> data_state \<Rightarrow> service_error + api_permission" where
  "GetPermission env k i s = from_db (FindPermissionByID (de_db env k) i (dt_auth s))"

definition CreatePermission_call :: "data_lib \<Rightarrow> data_env \<Rightarrow> values_map \<Rightarrow> data_state \<Rightarrow> api_permission data_result" where
  "CreatePermission_call L env values s =
     (let V = dl_values L;
          permission = \<lparr>pe_id = [], pe_name = stringValue V values ''name'' [],
                        pe_description = stringValue V values ''description'' [], pe_created_at = zero_time\<rparr>
      in case CreatePermission (de_db env 0) (de_new_id env) (de_now env) permission (dt_auth s) of
           (Inl e, db) \<Rightarrow> (Inl (db_failure e), s\<lparr>dt_auth := db\<rparr>)
         | (Inr p, db) \<Rightarrow> (let s' = s\<lparr>dt_auth := db\<rparr> in (GetPermission env 1 (pe_id p) s', s')))"

definition UpdatePermission_call ::
  "data_lib \<Rightarrow> data_env \<Rightarrow> string \<Rightarrow> values_map \<Rightarrow> data_state \<Rightarrow> api_permission data_result" where
  "UpdatePermission_call L env i values s =
     (let V = dl_values L
      in case FindPermissionByID (de_db env 0) i (dt_auth s) of
           Inl e \<Rightarrow> (Inl (db_failure e), s)
         | Inr current \<Rightarrow>
             (let permission = current\<lparr>pe_name := stringValue V values ''name'' (pe_name current),
                   pe_description := stringValue V values ''description'' (pe_description current)\<rparr>
              in case UpdatePermission (de_db env 1) permission (dt_auth s) of
                   (e, db) \<Rightarrow> (let s' = s\<lparr>dt_auth := db\<rparr> in (after_db e (GetPermission env 2 i s'), s'))))"

definition DeletePermission_call :: "data_env \<Rightarrow> string \<Rightarrow> data_state \<Rightarrow> unit data_result" where
  "DeletePermission_call env i s =
     (case DeletePermission (de_db env 0) i (dt_auth s) of (e, db) \<Rightarrow> (after_db e (Inr ()), s\<lparr>dt_auth := db\<rparr>))"

subsection \<open>Dashboard pages\<close>

definition GetDashboardPage :: "data_env \<Rightarrow> nat \<Rightarrow> string \<Rightarrow> data_state \<Rightarrow> service_error + dashboard_page" where
  "GetDashboardPage env k i s = from_db (FindDashboardPageByID (de_db env k) i (dt_auth s))"

definition CreateDashboardPage_call :: "data_lib \<Rightarrow> data_env \<Rightarrow> values_map \<Rightarrow> data_state \<Rightarrow> dashboard_page data_result" where
  "CreateDashboardPage_call L env values s =
     (case CreateDashboardPage (de_db env 0) (de_new_id env) (de_now env)
             (mapDashboardPage (dl_values L) values None) (dt_auth s) of
        (Inl e, db) \<Rightarrow> (Inl (db_failure e), s\<lparr>dt_auth := db\<rparr>)
      | (Inr p, db) \<Rightarrow> (let s' = s\<lparr>dt_auth := db\<rparr> in (GetDashboardPage env 1 (dp_id p) s', s')))"

definition UpdateDashboardPage_call ::
  "data_lib \<Rightarrow> data_env \<Rightarrow> string \<Rightarrow> values_map \<Rightarrow> data_state \<Rightarrow> dashboard_page data_result" where
  "UpdateDashboardPage_call L env i values s =
     (case GetDashboardPage env 0 i s of
        Inl e \<Rightarrow> (Inl e, s)
      | Inr current \<Rightarrow>
          (case UpdateDashboardPage (de_db env 1) (de_now env)
                  ((mapDashboardPage (dl_values L) values (Some current))\<lparr>dp_id := i\<rparr>) (dt_auth s) of
             (e, db) \<Rightarrow> (let s' = s\<lparr>dt_auth := db\<rparr> in (after_db e (GetDashboardPage env 2 i s'), s'))))"

definition DeleteDashboardPage_call :: "data_env \<Rightarrow> string \<Rightarrow> data_state \<Rightarrow> unit data_result" where
  "DeleteDashboardPage_call env i s =
     (case DeleteDashboardPage (de_db env 0) i (dt_auth s) of (e, db) \<Rightarrow> (after_db e (Inr ()), s\<lparr>dt_auth := db\<rparr>))"

end
