(* ===== verification/DataCalls.thy ===== *)
theory DataCalls
  imports DataCrud
begin

text \<open>
  The enumerations of the forms, the overview, the monitors of the strategies and the lists
  (\<open>internal/service/api/data.service.go\<close>), and \<open>run_data_call\<close>, which carries out every call a handler
  of \<open>ApiHttp\<close> makes to the data service.
\<close>

subsection \<open>Enumerations and overview\<close>

definition listExchangeEnums :: "data_env \<Rightarrow> data_state \<Rightarrow> service_error + string list" where
  "listExchangeEnums env s =
     bind_res (from_db (ListExchanges_order (de_db env 0) (dt_orders s))) (\<lambda>a.
     bind_res (from_db (ListExchanges (de_db env 1) (dt_klines s))) (\<lambda>b.
     bind_res (from_db (ListExchanges_mapping (de_db env 2) (dt_mappings s))) (\<lambda>c.
     bind_res (from_db (ListExchanges_config (de_db env 3) (dt_configs s))) (\<lambda>d.
       Inr (NormalizeExchangeEnums [a, b, c, d])))))"

definition form_enums :: "string list \<Rightarrow> string list \<Rightarrow> string list \<Rightarrow> (string \<times> string list) list" where
  "form_enums exchanges roles permissions =
     [(''exchange'', exchanges), (''role'', roles), (''permission'', permissions),
      (''dashboard_page'', [''orders'', ''orderPnL'', ''dailyReports'', ''strategyPerformance'',
        ''strategyConfigs'', ''strategyMonitors'', ''marketKlines'', ''priceReferences'', ''marketBackfills'',
        ''symbolMappings'', ''klineSubscriptions'', ''users'', ''roles'', ''permissions'', ''settings'',
        ''dashboardPages'']),
      (''market_type'', [''spot'', ''futures'']),
      (''position_side'', [''BOTH'', ''LONG'', ''SHORT'']),
      (''order_side'', [''BUY'', ''SELL'', ''LONG'', ''SHORT'']),
      (''order_type'', [''MARKET'', ''LIMIT'']),
      (''order_status'', [''NEW'', ''PARTIALLY_FILLED'', ''FILLED'', ''CANCELED'', ''REJECTED'', ''EXPIRED'']),
      (''order_state'', [''running'', ''closed'']),
      (''trade_condition'', [''ENTRY'', ''EXIT'', ''TAKE_PROFIT'', ''STOP_LOSS'', ''TRAILING_STOP'', ''SIGNAL'', ''UNKNOWN'']),
      (''exit_type'', [[], ''TAKE_PROFIT'', ''STOP_LOSS'', ''TRAILING_STOP'']),
      (''interval'', [''1m'', ''3m'', ''5m'', ''15m'', ''30m'', ''1h'', ''4h'', ''1d'']),
      (''kline_event_type'', [''kline'']),
      (''source'', [''dashboard'', ''api'', ''strategy'']),
      (''boolean'', [''true'', ''false''])]"

definition GetFormEnums_call :: "data_env \<Rightarrow> data_state \<Rightarrow> service_error + (string \<times> string list) list" where
  "GetFormEnums_call env s =
     bind_res (listExchangeEnums env s) (\<lambda>exchanges.
     bind_res (from_db (ListRoleNames (de_db env 4) (dt_auth s))) (\<lambda>roles.
     bind_res (from_db (ListPermissionNames (de_db env 5) (dt_auth s))) (\<lambda>permissions.
       Inr (form_enums exchanges roles permissions))))"

definition GetDashboardOverview_call :: "data_env \<Rightarrow> data_state \<Rightarrow> service_error + overview_response" where
  "GetDashboardOverview_call env s =
     bind_res (from_db (GetDashboardOverview_orders (de_db env 0) (de_db env 1)
       (de_now env - 24 * 60 * minute) 20 (dt_orders s) (dt_prices s))) (\<lambda>(summary, recent).
     bind_res (from_db (CountEnabled (de_db env 2) (dt_configs s))) (\<lambda>(enabled, count).
       Inr \<lparr>ov_generated_at = de_now env, ov_summary = summary, ov_enabled_strategies = enabled,
            ov_total_strategies = count, ov_recent_orders = map orderHistoryWithMetricsResponse recent\<rparr>))"

subsection \<open>Monitors\<close>

definition configuredStrategyMonitors :: "data_env \<Rightarrow> data_state \<Rightarrow> service_error + (string \<times> string) list" where
  "configuredStrategyMonitors env s =
     res_map (map (\<lambda>c. (sc_strategy c, trim_space (sc_monitor_url c))))
       (from_db (ListMonitors (de_db env 0) (dt_configs s)))"

definition monitor_target :: "string \<Rightarrow> string \<Rightarrow> string" where
  "monitor_target url action =
     (let target = trim_right_char url (CHR ''/'') in if action \<noteq> [] then target @ ''/'' @ action else target)"

definition fetchStrategyMonitor :: "data_env \<Rightarrow> string \<times> string \<Rightarrow> string \<Rightarrow> string \<Rightarrow> monitor_response" where
  "fetchStrategyMonitor env monitor meth action =
     (let (name, url) = monitor;
          resp = \<lparr>mr_name = name, mr_url = url, mr_online = False, mr_error = [], mr_payload = []\<rparr>
      in case de_monitor env meth (monitor_target url action) of
           Inl e \<Rightarrow> resp\<lparr>mr_error := e\<rparr>
         | Inr (code, status, body) \<Rightarrow>
             (case Option.bind (parse_json body) as_map of
                None \<Rightarrow> resp\<lparr>mr_error := de_json_error env body\<rparr>
              | Some payload \<Rightarrow>
                  (let online = 200 \<le> code \<and> code < 300
                   in resp\<lparr>mr_payload := payload, mr_online := online,
                           mr_error := (if online then [] else status)\<rparr>)))"

definition record_call :: "string \<Rightarrow> string \<Rightarrow> data_state \<Rightarrow> data_state" where
  "record_call meth target s = s\<lparr>dt_monitor_calls := dt_monitor_calls s @ [(meth, target)]\<rparr>"

definition ListStrategyMonitors_call :: "data_env \<Rightarrow> data_state \<Rightarrow> monitor_response list data_result" where
  "ListStrategyMonitors_call env s =
     (case configuredStrategyMonitors env s of
        Inl e \<Rightarrow> (Inl e, s)
      | Inr monitors \<Rightarrow>
          (Inr (map (\<lambda>m. fetchStrategyMonitor env m ''GET'' []) monitors),
           fold (\<lambda>m. record_call ''GET'' (monitor_target (snd m) [])) monitors s))"

definition StrategyMonitorAction_call ::
  "data_env \<Rightarrow> string \<Rightarrow> string \<Rightarrow> data_state \<Rightarrow> monitor_response data_result" where
  "StrategyMonitorAction_call env name action s =
     (if action \<noteq> ''reset'' \<and> action \<noteq> ''restart''
      then (Inl (InvalidManualOrder ''invalid manual order: invalid strategy monitor action''), s)
      else case configuredStrategyMonitors env s of
        Inl e \<Rightarrow> (Inl e, s)
      | Inr monitors \<Rightarrow>
          (case find (\<lambda>m. fst m = trim_space name) monitors of
             None \<Rightarrow> (Inl NoRows, s)
           | Some monitor \<Rightarrow>
               (Inr (fetchStrategyMonitor env monitor ''POST'' action),
                record_call ''POST'' (monitor_target (snd monitor) action) s)))"

subsection \<open>Lists\<close>

text \<open>The pages of every table.\<close>

record data_pages =
  dg_orders :: "order_with_metrics page_db"
  dg_klines :: "market_kline page_db"
  dg_prices :: "price_reference page_db"
  dg_mappings :: "symbol_mapping page_db"
  dg_subs :: "kline_subscription page_db"
  dg_configs :: "strategy_config page_db"
  dg_settings :: "values_map page_db"
  dg_users :: "api_user page_db"
  dg_roles :: "api_role page_db"
  dg_permissions :: "api_permission page_db"
  dg_pages :: "dashboard_page page_db"

text \<open>
  The orders are selected from the sub-query of \<open>orderHistoryMetricsSelect\<close> restricted to entries, the
  running ones first.
\<close>

definition orderHistoryMetricsOrderBy :: "pagination_req \<Rightarrow> string" where
  "orderHistoryMetricsOrderBy req =
     ''CASE WHEN state = '' @ [CHR 0x27] @ ''running'' @ [CHR 0x27] @ '' THEN 0 ELSE 1 END ASC, ''
       @ fst (pr_sort req) @ '' '' @ snd (pr_sort req) @ '' NULLS LAST''"

definition GetPaginationWithMetrics :: "'r paginated" where
  "GetPaginationWithMetrics db req =
     run_page_query db ((page_query_of [''*''] ''orders_with_metrics'' OrderHistory_model req)
       \<lparr>pq_order := orderHistoryMetricsOrderBy req\<rparr>) req"

definition page_answer :: "('r list \<Rightarrow> items) \<Rightarrow> (pagination_resp \<times> 'r list) option \<Rightarrow> service_error + data_payload" where
  "page_answer f r = (case r of None \<Rightarrow> Inl OtherError | Some (p, rows) \<Rightarrow> Inr (Page p (f rows)))"

fun list_call :: "data_pages \<Rightarrow> resource \<Rightarrow> pagination_req \<Rightarrow> service_error + data_payload" where
  "list_call P Order req =
     page_answer (Orders_of \<circ> map orderHistoryWithMetricsResponse) (GetPaginationWithMetrics (dg_orders P) req)"
| "list_call P MarketKline req = page_answer Klines_of (GetMarketKlinesPagination (dg_klines P) req)"
| "list_call P PriceReference req = page_answer Prices_of (GetPriceReferencesPagination (dg_prices P) req)"
| "list_call P SymbolMapping req = page_answer Mappings_of (GetSymbolMappingsPagination (dg_mappings P) req)"
| "list_call P KlineSubscription req = page_answer Subs_of (GetKlineSubscriptionsPagination (dg_subs P) req)"
| "list_call P StrategyConfig req =
     page_answer (Configs_of \<circ> map strategyConfigResponse) (GetStrategyConfigsPagination (dg_configs P) req)"
| "list_call P Setting req = page_answer Settings_of (GetSettingsPagination (dg_settings P) req)"
| "list_call P User req = page_answer (Users_of \<circ> map apiUserResponse) (GetUsersPagination (dg_users P) req)"
| "list_call P Role req = page_answer (Roles_of \<circ> map (\<lambda>r. (r, []))) (GetRolesPagination (dg_roles P) req)"
| "list_call P Permission req = page_answer Permissions_of (GetPermissionsPagination (dg_permissions P) req)"
| "list_call P DashboardPage req = page_answer Pages_of (GetDashboardPagesPagination (dg_pages P) req)"

subsection \<open>All calls\<close>

definition one :: "('a \<Rightarrow> items) \<Rightarrow> service_error + 'a \<Rightarrow> service_error + data_payload" where
  "one f r = res_map (\<lambda>a. Single (f a)) r"

fun get_call :: "data_lib \<Rightarrow> data_env \<Rightarrow> resource \<Rightarrow> string \<Rightarrow> data_state \<Rightarrow> service_error + data_payload" where
  "get_call L env Order i s = one (\<lambda>a. Orders_of [a]) (GetOrder env i s)"
| "get_call L env MarketKline i s =
     one (\<lambda>a. Klines_of [a]) (ensureFound (FindByID_kline (de_db env 0) i (dt_klines s)))"
| "get_call L env PriceReference i s =
     one (\<lambda>a. Prices_of [a]) (ensureFound (FindByID_price (de_db env 0) i (dt_prices s)))"
| "get_call L env SymbolMapping i s = one (\<lambda>a. Mappings_of [a]) (GetSymbolMapping env 0 i s)"
| "get_call L env KlineSubscription i s = one (\<lambda>a. Subs_of [a]) (GetKlineSubscription env 0 i s)"
| "get_call L env StrategyConfig i s = one (\<lambda>a. Configs_of [a]) (GetStrategyConfig env 0 i s)"
| "get_call L env Setting i s = one (\<lambda>a. Settings_of [a]) (GetSetting L env i s)"
| "get_call L env User i s = one (\<lambda>a. Users_of [a]) (GetUser_call env 0 i s)"
| "get_call L env Role i s = one (\<lambda>a. Roles_of [a]) (GetRole env 0 i s)"
| "get_call L env Permission i s = one (\<lambda>a. Permissions_of [a]) (GetPermission env 0 i s)"
| "get_call L env DashboardPage i s = one (\<lambda>a. Pages_of [a]) (GetDashboardPage env 0 i s)"

text \<open>The service has no such method for orders, candles and prices, and no handler asks for one.\<close>

fun create_call :: "data_lib \<Rightarrow> data_env \<Rightarrow> resource \<Rightarrow> values_map \<Rightarrow> data_state \<Rightarrow> data_payload data_result" where
  "create_call L env SymbolMapping v s = apfst (one (\<lambda>a. Mappings_of [a])) (CreateSymbolMapping L env v s)"
| "create_call L env KlineSubscription v s = apfst (one (\<lambda>a. Subs_of [a])) (CreateKlineSubscription L env v s)"
| "create_call L env StrategyConfig v s = apfst (one (\<lambda>a. Configs_of [a])) (CreateStrategyConfig L env v s)"
| "create_call L env Setting v s = apfst (one (\<lambda>a. Settings_of [a])) (CreateSetting L env v s)"
| "create_call L env User v s = apfst (one (\<lambda>a. Users_of [a])) (CreateUser_call L env v s)"
| "create_call L env Role v s = apfst (one (\<lambda>a. Roles_of [a])) (CreateRole_call L env v s)"
| "create_call L env Permission v s = apfst (one (\<lambda>a. Permissions_of [a])) (CreatePermission_call L env v s)"
| "create_call L env DashboardPage v s = apfst (one (\<lambda>a. Pages_of [a])) (CreateDashboardPage_call L env v s)"
| "create_call L env _ v s = (Inl OtherError, s)"

fun update_call ::
  "data_lib \<Rightarrow> data_env \<Rightarrow> resource \<Rightarrow> string \<Rightarrow> values_map \<Rightarrow> data_state \<Rightarrow> data_payload data_result" where
  "update_call L env SymbolMapping i v s = apfst (one (\<lambda>a. Mappings_of [a])) (UpdateSymbolMapping L env i v s)"
| "update_call L env KlineSubscription i v s = apfst (one (\<lambda>a. Subs_of [a])) (UpdateKlineSubscription L env i v s)"
| "update_call L env StrategyConfig i v s = apfst (one (\<lambda>a. Configs_of [a])) (UpdateStrategyConfig L env i v s)"
| "update_call L env Setting i v s = apfst (one (\<lambda>a. Settings_of [a])) (UpdateSetting L env i v s)"
| "update_call L env User i v s = apfst (one (\<lambda>a. Users_of [a])) (UpdateUser_call L env i v s)"
| "update_call L env Role i v s = apfst (one (\<lambda>a. Roles_of [a])) (UpdateRole_call L env i v s)"
| "update_call L env Permission i v s = apfst (one (\<lambda>a. Permissions_of [a])) (UpdatePermission_call L env i v s)"
| "update_call L env DashboardPage i v s = apfst (one (\<lambda>a. Pages_of [a])) (UpdateDashboardPage_call L env i v s)"
| "update_call L env _ i v s = (Inl OtherError, s)"

definition deleted :: "unit data_result \<Rightarrow> data_payload data_result" where
  "deleted r = apfst (res_map (\<lambda>_. PayDeleted)) r"

fun delete_call :: "data_env \<Rightarrow> resource \<Rightarrow> string \<Rightarrow> data_state \<Rightarrow> data_payload data_result" where
  "delete_call env SymbolMapping i s = deleted (DeleteSymbolMapping env i s)"
| "delete_call env KlineSubscription i s = deleted (DeleteKlineSubscription env i s)"
| "delete_call env StrategyConfig i s = deleted (DeleteStrategyConfig env i s)"
| "delete_call env Setting i s = deleted (DeleteSetting env i s)"
| "delete_call env User i s = deleted (DeleteUser_call env i s)"
| "delete_call env Role i s = deleted (DeleteRole_call env i s)"
| "delete_call env Permission i s = deleted (DeletePermission_call env i s)"
| "delete_call env DashboardPage i s = deleted (DeleteDashboardPage_call env i s)"
| "delete_call env _ i s = (Inl OtherError, s)"

text \<open>
  The calls to the data service. The backfill service has a state of its own (\<open>BackfillJobs\<close>), so its
  answers are a parameter.
\<close>

fun run_data_call ::
  "data_lib \<Rightarrow> data_pages \<Rightarrow> (data_call \<Rightarrow> service_error + data_payload) \<Rightarrow> data_env \<Rightarrow> data_call \<Rightarrow> data_state
     \<Rightarrow> data_payload data_result" where
  "run_data_call L P backfills env (ListOf res req) s = (list_call P res req, s)"
| "run_data_call L P backfills env (Get res i) s = (get_call L env res i s, s)"
| "run_data_call L P backfills env (CreateOf res v) s = create_call L env res v s"
| "run_data_call L P backfills env (UpdateOf res i v) s = update_call L env res i v s"
| "run_data_call L P backfills env (DeleteOf res i) s = delete_call env res i s"
| "run_data_call L P backfills env GetAuthConfig s = (res_map PayAuthConfig (GetAuthConfig_call L env s), s)"
| "run_data_call L P backfills env GetFormEnums s = (res_map PayEnums (GetFormEnums_call env s), s)"
| "run_data_call L P backfills env ListVisiblePages s =
     (one Pages_of (from_db (ListVisibleDashboardPages (de_db env 0) (dt_auth s))), s)"
| "run_data_call L P backfills env GetDashboardOverview s =
     (res_map PayOverview (GetDashboardOverview_call env s), s)"
| "run_data_call L P backfills env (CreateManualOrder userID v) s =
     apfst (res_map PayManualOrder) (DS_CreateManualOrder L env userID v s)"
| "run_data_call L P backfills env (CloseOrder i) s = apfst (res_map PayManualOrder) (DS_CloseOrder env i s)"
| "run_data_call L P backfills env (ListOrderTradePnL filt) s =
     (res_map (\<lambda>(page, limit, n, rows). PayTrades page limit n rows)
        (from_db (ListTradePnL (de_db env 0) filt (dt_orders s))), s)"
| "run_data_call L P backfills env (ListDailyOrderReports filt) s =
     (res_map (\<lambda>(page, limit, n, rows). PayDaily page limit n rows)
        (from_db (ListDailyReport (de_db env 0) filt (dt_orders s))), s)"
| "run_data_call L P backfills env (ListStrategyPerformanceReports filt) s =
     (res_map PayPerformance (from_db (ListStrategyPerformance (de_db env 0) filt (dt_orders s) (dt_prices s))), s)"
| "run_data_call L P backfills env ListStrategyMonitors s = apfst (res_map PayMonitors) (ListStrategyMonitors_call env s)"
| "run_data_call L P backfills env (StrategyMonitorAction name action) s =
     apfst (res_map (\<lambda>m. PayMonitors [m])) (StrategyMonitorAction_call env name action s)"
| "run_data_call L P backfills env call s = (backfills call, s)"

end
