(* ===== verification/TradeProps.thy ===== *)
theory TradeProps
  imports DataCalls EngineProps KlineProps ApiProps
begin

text \<open>
  The properties of the orders the dashboard sends and of what becomes of them in the order engine.
\<close>

subsection \<open>Orders the engine accepts\<close>


lemma prepare_order_accepts:
  assumes "NormalizeOrderSideByMarket (rq_side r) (NormalizeMarketType (rq_market_type r)) \<noteq> []"
    and "trim_space (rq_entry_order_id r) \<noteq> []"
  obtains r' where "prepare_order ft r = Inr r'" "rq_entry_order_id r' = trim_space (rq_entry_order_id r)"
  using assms by (auto simp: prepare_order_def ensureEntryOrderID_def Let_def)

lemma same_order_fields:
  assumes "same_order r r'"
  shows "rq_request_id r' = rq_request_id r" "rq_user_id r' = rq_user_id r" "rq_symbol r' = rq_symbol r"
    "rq_type r' = rq_type r" "rq_price r' = rq_price r" "rq_quantity r' = rq_quantity r"
    "rq_is_paper_trading r' = rq_is_paper_trading r" "rq_strategy_id r' = rq_strategy_id r"
  using assms unfolding same_order_def by (cases r; cases r'; simp)+

lemma side_lits:
  "NormalizeOrderSideByMarket ''BUY'' ''spot'' = ''BUY''" "NormalizeOrderSideByMarket ''SELL'' ''spot'' = ''SELL''"
  "NormalizeOrderSideByMarket ''LONG'' ''futures'' = ''LONG''" "NormalizeOrderSideByMarket ''SHORT'' ''futures'' = ''SHORT''"
  by code_simp+

lemma closeOrderSide_opposite:
  assumes "closeOrderSide side (NormalizeMarketType mt) = Some s"
  shows "s \<noteq> []" "NormalizeOrderSideByMarket s (NormalizeMarketType mt) = s"
    "is_long s = is_short side" "is_short s = is_long side"
proof -
  consider "NormalizeMarketType mt = ''futures''" | "NormalizeMarketType mt = ''spot''"
    using NormalizeMarketType_cases by blast
  then have "s \<noteq> [] \<and> NormalizeOrderSideByMarket s (NormalizeMarketType mt) = s
      \<and> is_long s = is_short side \<and> is_short s = is_long side"
  proof cases
    case 1
    then show ?thesis
      using assms unfolding 1
      by (auto simp: closeOrderSide_def side_lits is_long_def is_short_def split: if_splits)
  next
    case 2
    then show ?thesis
      using assms unfolding 2
      by (auto simp: closeOrderSide_def side_lits is_long_def is_short_def split: if_splits)
  qed
  then show "s \<noteq> []" "NormalizeOrderSideByMarket s (NormalizeMarketType mt) = s"
    "is_long s = is_short side" "is_short s = is_long side" by blast+
qed

text \<open>What a close asks of the engine, for the position of an entry.\<close>

definition closes_entry :: "order_history \<Rightarrow> order_request \<Rightarrow> bool" where
  "closes_entry entry order =
     (order_wf order \<and> is_long (rq_side order) = is_short (oh_side entry)
      \<and> is_short (rq_side order) = is_long (oh_side entry)
      \<and> rq_quantity order = effective_quantity entry \<and> rq_quantity order \<noteq> 0
      \<and> rq_market_type order = NormalizeMarketType (oh_market_type entry) \<and> rq_symbol order = oh_symbol entry
      \<and> rq_exchange order = norm_lower (oh_exchange entry) \<and> rq_user_id order = oh_user_id entry
      \<and> rq_type order = OrderTypeMarket \<and> rq_trade_condition order = TradeConditionExit
      \<and> rq_is_paper_trading order = oh_is_paper_trading entry)"

lemma close_accepted:
  assumes "closeOrderSide (oh_side entry) (NormalizeMarketType (oh_market_type entry)) = Some (rq_side order)"
    and "rq_market_type order = oh_market_type entry" "trim_space (rq_entry_order_id order) \<noteq> []"
    and "rq_quantity order = effective_quantity entry" "rq_quantity order \<noteq> 0"
    and "rq_symbol order = oh_symbol entry" "rq_exchange order = oh_exchange entry"
    and "rq_user_id order = oh_user_id entry" "rq_type order = OrderTypeMarket"
    and "rq_trade_condition order = TradeConditionExit" "rq_is_paper_trading order = oh_is_paper_trading entry"
  shows "\<exists>order'. prepare_order ft order = Inr order' \<and> closes_entry entry order'
    \<and> rq_request_id order' = rq_request_id order \<and> rq_price order' = rq_price order
    \<and> rq_entry_order_id order' = trim_space (rq_entry_order_id order)"
proof -
  note S = closeOrderSide_opposite [OF assms(1)]
  have side: "NormalizeOrderSideByMarket (rq_side order) (NormalizeMarketType (rq_market_type order)) = rq_side order"
    unfolding assms(2) by (rule S(2))
  have "NormalizeOrderSideByMarket (rq_side order) (NormalizeMarketType (rq_market_type order)) \<noteq> []"
    unfolding side by (rule S(1))
  then obtain o' where o': "prepare_order ft order = Inr o'" "rq_entry_order_id o' = trim_space (rq_entry_order_id order)"
    using prepare_order_accepts [of order ft] assms(3) by metis
  note P = prepare_order_Inr [OF o'(1)]
  note F = same_order_fields [OF P(11)]
  have "closes_entry entry o'"
    unfolding closes_entry_def P(2-4,6) F side using prepare_order_wf_aux [OF o'(1)] S(3,4) assms by simp
  then show ?thesis using o' F by blast
qed

subsection \<open>Trades\<close>

lemma newest_Some: "newest P t = Some h \<Longrightarrow> h \<in> set t \<and> P h"
proof -
  assume "newest P t = Some h"
  then obtain hs where "sort_key (\<lambda>h. - oh_created_at h) (filter P t) = h # hs"
    by (auto simp: newest_def split: list.splits)
  then have "h \<in> set (sort_key (\<lambda>h. - oh_created_at h) (filter P t))" by simp
  then show ?thesis by simp
qed

lemma newest_None: "newest P t = None \<longleftrightarrow> (\<forall>h\<in>set t. \<not> P h)"
proof -
  have "newest P t = None \<longleftrightarrow> set (sort_key (\<lambda>h. - oh_created_at h) (filter P t)) = {}"
    unfolding newest_def by (cases "sort_key (\<lambda>h. - oh_created_at h) (filter P t)") simp_all
  then show ?thesis by auto
qed

lemma refresh_order_trade_Some:
  assumes "refresh_order_trade t pair = Some tr"
  shows "\<exists>e. newest (is_entry pair) t = Some e \<and> ot_history_id tr = oh_id e
    \<and> ot_exit_price tr = Option.bind (newest (is_exit pair) t) filled_price"
  using assms by (auto simp: refresh_order_trade_def Let_def split: if_splits option.splits)

lemma trade_of_entry:
  assumes ids: "distinct (map oh_id t)" and h: "newest (is_entry eid) t = Some h" and "eid \<noteq> []"
  shows "\<exists>tr. trade_of t h = Some tr \<and> ot_exit_price tr = Option.bind (newest (is_exit eid) t) filled_price"
proof -
  have t: "h \<in> set t" "oh_entry_order_id h = eid" using newest_Some [OF h] by (auto simp: is_entry_def)
  have trades: "tr \<in> set (order_trades t) \<longleftrightarrow> (\<exists>x\<in>set t. refresh_order_trade t (oh_entry_order_id x) = Some tr)" for tr
    by (force simp: order_trades_def List.map_filter_def)
  obtain tr0 where tr0: "refresh_order_trade t eid = Some tr0" "ot_history_id tr0 = oh_id h"
    using h assms(3) by (auto simp: refresh_order_trade_def Let_def)
  then have "tr0 \<in> set (order_trades t)" using trades t by auto
  then obtain tr where tr: "trade_of t h = Some tr"
    using tr0(2) unfolding trade_of_def by (metis (mono_tags, lifting) find_None_iff2 not_None_eq)
  then have "tr \<in> set (order_trades t)" "ot_history_id tr = oh_id h"
    unfolding trade_of_def by (auto dest: find_Some_prop)
  then obtain pair where p: "refresh_order_trade t pair = Some tr" using trades by blast
  then obtain e where e: "newest (is_entry pair) t = Some e" "ot_history_id tr = oh_id e"
    "ot_exit_price tr = Option.bind (newest (is_exit pair) t) filled_price"
    using refresh_order_trade_Some by blast
  have "e = h"
    using newest_Some [OF e(1)] t(1) e(2) \<open>ot_history_id tr = oh_id h\<close> ids
    by (metis distinct_map inj_onD)
  then have "pair = eid" using newest_Some [OF e(1)] t(2) by (auto simp: is_entry_def)
  with tr e(3) show ?thesis by blast
qed

lemma exit_found: "x \<in> set t \<Longrightarrow> is_exit eid x \<Longrightarrow> Option.bind (newest (is_exit eid) t) filled_price \<noteq> None"
proof -
  assume "x \<in> set t" "is_exit eid x"
  then obtain y where "newest (is_exit eid) t = Some y" using newest_None by fastforce
  then show ?thesis using newest_Some [of "is_exit eid" t y] by (simp add: is_exit_def)
qed

lemma newest_append:
  assumes "newest P t = Some h" "\<not> P x"
  shows "newest P (t @ [x]) = Some h"
  using assms by (simp add: newest_def)

subsection \<open>Closing a position by hand\<close>

lemma state_running:
  "om_state (orderHistoryMetricsSelect t prices h) = ''running'' \<longleftrightarrow> Option.bind (trade_of t h) ot_exit_price = None"
  by (simp add: orderHistoryMetricsSelect_def Let_def)

lemma metrics_order [simp]: "om_order (orderHistoryMetricsSelect t prices h) = h"
  by (simp add: orderHistoryMetricsSelect_def Let_def)

lemma publish_order_True:
  "publish_order env k order s = (True, s') \<longleftrightarrow>
     de_publish env k \<and> s' = s\<lparr>dt_events := dt_events s @ [PlaceOrderEvent order]\<rparr>"
  by (auto simp: publish_order_def PublishEvent_def)

text \<open>What a close that was queued found in the tables and built.\<close>

lemma DS_CloseOrder_Inr:
  assumes "DS_CloseOrder env i s = (Inr r, s')"
  obtains entry built order where "find (\<lambda>h. oh_id h = i) (dt_orders s) = Some entry"
    "Option.bind (trade_of (dt_orders s) entry) ot_exit_price = None"
    "oh_trade_condition entry = TradeConditionEntry" "buildManualCloseOrder (de_now env) entry = Some built"
    "close_price env built s = Inr order" "s' = s\<lparr>dt_events := dt_events s @ [PlaceOrderEvent order]\<rparr>"
    "mo_request_id r = rq_request_id order"
  using assms
  by (auto simp: DS_CloseOrder_def FindByIDWithMetrics_def state_running publish_order_True queued_def
      split: if_splits sum.splits option.splits prod.splits bool.splits)

lemma manual_close_order:
  assumes "buildManualCloseOrder now entry = Some built" "close_price env built s = Inr order"
  shows "\<exists>order'. prepare_order ft order = Inr order' \<and> closes_entry entry order'
      \<and> rq_request_id order' = rq_request_id order \<and> rq_price order' = rq_price order
      \<and> rq_entry_order_id order' = trim_space (oh_entry_order_id entry)"
    and "rq_request_id order = ''manual-close-'' @ oh_id entry"
    and "rq_is_paper_trading order = oh_is_paper_trading entry" "rq_order_reason order = ''manual_close''"
    and "if oh_is_paper_trading entry
      then market_price (dt_prices s) (oh_exchange entry) (oh_market_type entry) (oh_symbol entry) = Some (rq_price order)
        \<and> 0 < rq_price order
      else rq_price order = 0"
proof -
  note B = assms(1) [unfolded buildManualCloseOrder_def Let_def dashboard_order_def]
  have side: "closeOrderSide (oh_side entry) (NormalizeMarketType (oh_market_type entry)) = Some (rq_side built)"
    and qty: "rq_quantity built = effective_quantity entry" "rq_quantity built \<noteq> 0"
    and eid: "rq_entry_order_id built = trim_space (oh_entry_order_id entry)" "rq_entry_order_id built \<noteq> []"
    and rest: "rq_market_type built = oh_market_type entry" "rq_symbol built = oh_symbol entry"
      "rq_exchange built = oh_exchange entry" "rq_user_id built = oh_user_id entry"
      "rq_type built = OrderTypeMarket" "rq_trade_condition built = TradeConditionExit"
      "rq_is_paper_trading built = oh_is_paper_trading entry" "rq_price built = 0"
      "rq_request_id built = ''manual-close-'' @ oh_id entry" "rq_order_reason built = ''manual_close''"
    using B by (auto split: option.splits if_splits)
  have order: "order = built\<lparr>rq_price := rq_price order\<rparr>"
    and price: "rq_is_paper_trading built \<Longrightarrow> 0 < rq_price order \<and> market_price (dt_prices s) (rq_exchange built)
      (rq_market_type built) (rq_symbol built) = Some (rq_price order)"
      "\<not> rq_is_paper_trading built \<Longrightarrow> order = built"
    using assms(2) by (auto simp: close_price_def market_price_def FindByMarket_def
        split: if_splits sum.splits option.splits)
  show "\<exists>order'. prepare_order ft order = Inr order' \<and> closes_entry entry order'
      \<and> rq_request_id order' = rq_request_id order \<and> rq_price order' = rq_price order
      \<and> rq_entry_order_id order' = trim_space (oh_entry_order_id entry)"
    using close_accepted [of entry "built\<lparr>rq_price := rq_price order\<rparr>" ft] side qty eid rest
    by (subst (1 2 3) order) simp
  show "rq_request_id order = ''manual-close-'' @ oh_id entry"
    "rq_is_paper_trading order = oh_is_paper_trading entry" "rq_order_reason order = ''manual_close''"
    by (subst order, simp add: rest)+
  show "if oh_is_paper_trading entry
      then market_price (dt_prices s) (oh_exchange entry) (oh_market_type entry) (oh_symbol entry) = Some (rq_price order)
        \<and> 0 < rq_price order
      else rq_price order = 0"
    using price rest by auto
qed


lemma PlaceOrder_paper:
  assumes "PlaceOrder D ft reg cenv order w = (Inr h, w')" "rq_is_paper_trading order"
  obtains order' where "prepare_order ft order = Inr order'"
    "h = (buildPaperOrderHistory (ce_now cenv) order')\<lparr>oh_id := ce_new_id cenv\<rparr>" "w_table w' = w_table w @ [h]"
    "table_ok (w_table w) \<Longrightarrow> table_ok (w_table w')"
  using assms(1)
proof (cases rule: PlaceOrder_cases)
  case (refused e x evs)
  then show ?thesis by simp
next
  case (paper order')
  note R = record_order_Inr [OF paper(4) [symmetric]]
  have "table_ok (w_table w) \<Longrightarrow> table_ok (w_table w')"
    using record_order_step(3) [OF paper(4)] table_ok_Create by metis
  with R(1,2) paper(1) that show ?thesis by blast
next
  case (live order' ex h' x)
  then show ?thesis
    using assms(2) same_order_flags [OF prepare_order_Inr(11) [OF live(1)]] by simp
qed

text \<open>
  Once the engine has placed the close of a paper position, the position is not running any more:
  closing it again is refused and queues nothing. The entry is the newest with its entry order id, and
  that id is trimmed, as the engine stores it.
\<close>

theorem closed_paper_position_refused:
  assumes "DS_CloseOrder env i s = (Inr r, s1)" "dt_events s1 = dt_events s @ [PlaceOrderEvent order]"
    and "PlaceOrder D ft reg cenv order w = (Inr h, w1)" "w_table w = dt_orders s" "table_ok (dt_orders s)"
    and "find (\<lambda>h. oh_id h = i) (dt_orders s) = Some entry" "oh_is_paper_trading entry"
    and "newest (is_entry (oh_entry_order_id entry)) (dt_orders s) = Some entry"
    and "trim_space (oh_entry_order_id entry) = oh_entry_order_id entry"
    and "de_js env2" "de_db env2 0" "dt_orders s2 = w_table w1"
  shows "DS_CloseOrder env2 i s2 = (Inl (PositionNotRunning ''position is not running''), s2)"
proof -
  let ?eid = "oh_entry_order_id entry"
  obtain entry' built order0 where f: "find (\<lambda>h. oh_id h = i) (dt_orders s) = Some entry'"
    "buildManualCloseOrder (de_now env) entry' = Some built" "close_price env built s = Inr order0"
    "s1 = s\<lparr>dt_events := dt_events s @ [PlaceOrderEvent order0]\<rparr>"
    using assms(1) by (rule DS_CloseOrder_Inr)
  have same: "entry' = entry" "order0 = order" using f(1,4) assms(2,6) by auto
  note M = manual_close_order [OF f(2,3), unfolded same]
  have "rq_is_paper_trading order" using M(3) assms(7) by simp
  then obtain order' where p: "prepare_order ft order = Inr order'"
    "h = (buildPaperOrderHistory (ce_now cenv) order')\<lparr>oh_id := ce_new_id cenv\<rparr>" "w_table w1 = dt_orders s @ [h]"
    "table_ok (w_table w1)"
    using PlaceOrder_paper [OF assms(3)] assms(4,5) by metis
  have o': "closes_entry entry order'" "rq_price order' = rq_price order" "rq_entry_order_id order' = ?eid"
    using M(1) [of ft] p(1) assms(9) by auto
  then have exit: "is_exit ?eid h" and no_entry: "\<not> is_entry ?eid h"
    using p(2) assms(9) by (auto simp: is_exit_def is_entry_def closes_entry_def buildPaperOrderHistory_def filled_price_def)
  have "?eid \<noteq> []" using o'(3) prepare_order_Inr(10) [OF p(1)] by simp
  moreover have "newest (is_entry ?eid) (w_table w1) = Some entry"
    unfolding p(3) using assms(8) no_entry by (rule newest_append)
  moreover have "distinct (map oh_id (w_table w1))" using p(4) by (simp add: table_ok_def)
  ultimately obtain tr where tr: "trade_of (w_table w1) entry = Some tr"
    "ot_exit_price tr = Option.bind (newest (is_exit ?eid) (w_table w1)) filled_price"
    using trade_of_entry by blast
  have "ot_exit_price tr \<noteq> None" unfolding tr(2) by (rule exit_found [OF _ exit]) (simp add: p(3))
  then have "om_state (orderHistoryMetricsSelect (w_table w1) (dt_prices s2) entry) \<noteq> ''running''"
    unfolding state_running by (simp add: tr(1))
  moreover have "find (\<lambda>h. oh_id h = i) (w_table w1) = Some entry" using assms(6) by (simp add: p(3) find_append)
  ultimately show ?thesis
    using assms(10-12) by (simp add: DS_CloseOrder_def FindByIDWithMetrics_def)
qed


subsection \<open>Switching a strategy off\<close>













subsection \<open>Manual entries\<close>



subsection \<open>A small desk\<close>

text \<open>An open paper position of a strategy, its configuration and the reference price of its symbol.\<close>

definition demo_position :: order_history where
  "demo_position = (buildPaperOrderHistory 0 demo_prepared)\<lparr>oh_id := ''p1'', oh_strategy_id := some_string ''s''\<rparr>"

definition demo_config :: strategy_config where
  "demo_config = (default_strategy_config 0)\<lparr>sc_id := ''c1'', sc_strategy := ''s'', sc_exchange := ''binance'',
     sc_market_type := ''spot'', sc_symbol := ''BTCUSDT'', sc_interval := ''1m''\<rparr>"


definition demo_desk :: data_state where
  "demo_desk = \<lparr>dt_auth = empty_auth_db, dt_settings = [], dt_orders = [demo_position],
     dt_prices = [demo_price\<lparr>pr_market_type := ''spot''\<rparr>], dt_klines = [], dt_mappings = [], dt_subs = [],
     dt_configs = [demo_config], dt_events = [], dt_monitor_calls = []\<rparr>"

definition demo_desk_env :: data_env where
  "demo_desk_env = \<lparr>de_now = 7, de_db = (\<lambda>_. True), de_new_id = ''n'', de_hash = (\<lambda>_. None), de_random = None,
     de_js = True, de_publish = (\<lambda>_. True), de_monitor = (\<lambda>_ _. Inl []), de_json_error = (\<lambda>_. [])\<rparr>"

definition demo_close :: order_request where
  "demo_close = (the (buildManualCloseOrder 7 demo_position))\<lparr>rq_price := 6\<rparr>"

lemma demo_close_call: "DS_CloseOrder demo_desk_env ''p1'' demo_desk =
    (Inr (queued demo_close ''s''), demo_desk\<lparr>dt_events := [PlaceOrderEvent demo_close]\<rparr>)"
  by code_simp

lemma demo_find: "find (\<lambda>h. oh_id h = ''p1'') (dt_orders demo_desk) = Some demo_position"
  by (simp add: demo_desk_def demo_position_def)

lemma demo_ev: "dt_events (demo_desk\<lparr>dt_events := [PlaceOrderEvent demo_close]\<rparr>) =
    dt_events demo_desk @ [PlaceOrderEvent demo_close]"
  by (simp add: demo_desk_def)

lemma demo_close_placed:
  "\<exists>h w1. PlaceOrder ref_decimal id (initConfiguredExchanges demo_app) demo_env demo_close
      (demo_world\<lparr>w_table := dt_orders demo_desk\<rparr>) = (Inr h, w1)"
proof -
  have "\<not> isl (fst (PlaceOrder ref_decimal id (initConfiguredExchanges demo_app) demo_env demo_close
      (demo_world\<lparr>w_table := dt_orders demo_desk\<rparr>)))"
    by code_simp
  then show ?thesis by (metis isl_def sum.exhaust prod.collapse)
qed


theorem closed_paper_position_refused_witness:
  "\<exists>w1 h. PlaceOrder ref_decimal id (initConfiguredExchanges demo_app) demo_env demo_close
      (demo_world\<lparr>w_table := dt_orders demo_desk\<rparr>) = (Inr h, w1)
    \<and> DS_CloseOrder demo_desk_env ''p1'' (demo_desk\<lparr>dt_orders := w_table w1\<rparr>) =
        (Inl (PositionNotRunning ''position is not running''), demo_desk\<lparr>dt_orders := w_table w1\<rparr>)"
proof -
  obtain h w1 where run: "PlaceOrder ref_decimal id (initConfiguredExchanges demo_app) demo_env demo_close
      (demo_world\<lparr>w_table := dt_orders demo_desk\<rparr>) = (Inr h, w1)" using demo_close_placed by blast
  have tables: "w_table (demo_world\<lparr>w_table := dt_orders demo_desk\<rparr>) = dt_orders demo_desk"
    "table_ok (dt_orders demo_desk)" by (simp_all add: demo_desk_def table_ok_def)
  have env: "de_js demo_desk_env" "de_db demo_desk_env 0" by (simp_all add: demo_desk_env_def)
  have entry: "oh_is_paper_trading demo_position"
    "newest (is_entry (oh_entry_order_id demo_position)) (dt_orders demo_desk) = Some demo_position"
    "trim_space (oh_entry_order_id demo_position) = oh_entry_order_id demo_position"
    by code_simp+
  have "DS_CloseOrder demo_desk_env ''p1'' (demo_desk\<lparr>dt_orders := w_table w1\<rparr>) =
        (Inl (PositionNotRunning ''position is not running''), demo_desk\<lparr>dt_orders := w_table w1\<rparr>)"
    by (rule closed_paper_position_refused [OF demo_close_call demo_ev run tables demo_find entry env]) simp
  with run show ?thesis by blast
qed




end
