(* ===== verification/DataProps.thy ===== *)
theory DataProps
  imports TradeProps
begin

text \<open>
  The properties of the data service as a whole: what its calls keep of the tables, which requests only
  read, and what a manual order is.
\<close>

subsection \<open>What every call keeps\<close>

definition data_tables_ok :: "data_state \<Rightarrow> bool" where
  "data_tables_ok s = (auth_db_ok (dt_auth s) \<and> settings_ok (dt_settings s) \<and> mappings_ok (dt_mappings s)
     \<and> subscriptions_ok (dt_subs s) \<and> configs_ok (dt_configs s))"

definition desk_step :: "data_state \<Rightarrow> data_state \<Rightarrow> bool" where
  "desk_step s s' = ((data_tables_ok s \<longrightarrow> data_tables_ok s') \<and> dt_orders s' = dt_orders s
     \<and> dt_prices s' = dt_prices s \<and> dt_klines s' = dt_klines s \<and> prefix (dt_events s) (dt_events s'))"

lemma desk_step_refl [simp]: "desk_step s s"
  by (simp add: desk_step_def)


























subsection \<open>Requests that only read\<close>









end
