(* ===== verification/ReportProps.thy ===== *)
theory ReportProps
  imports TradeReports EngineProps "HOL-Library.Multiset"
begin











text \<open>
  A trade without profit is a winning one of its day, with a win rate of zero, and no winning one of its
  strategy.
\<close>

lemma break_even_trade:
  assumes "profit_of tr = 0"
  shows "dr_winning_trades (daily_row (daily_key tr, [tr])) = 1 \<and> dr_win_rate (daily_row (daily_key tr, [tr])) = 0
    \<and> sp_winning_trades (paired_row (ot_strategy_id tr, [tr])) = 0"
  using assms by (simp add: daily_row_def daily_key_def paired_row_def how_many_def average_def Let_def)




end
