(* ===== verification/KlineStream.thy ===== *)
theory KlineStream
  imports Binance Tokocrypto
begin

text \<open>
  The websocket subscriber of candles (\<open>internal/service/exchange/kline_ws_subscriber.go\<close>) and the
  configurations the exchanges give it (\<open>newExchangeKlineWSConfig\<close>, \<open>SubscribeKlineData\<close>). The outside
  world is a list of rounds, one per pass of the outer loop: whether the context is done, what the
  dial and the writes return, the jitter of the delays, and the events the read loop selects, in the
  order it takes them. The goroutines that ping, close and read only produce such events. A subscriber
  is run on its own: the symbol mapping it shares with the one of the other market changes between
  two events only through its own resynchronisation.
\<close>

subsection \<open>Configuration and state\<close>

type_synonym subscriptions = "kline_subscription list"

text \<open>
  \<open>'e\<close> is what a callback sees of the world when it is called, \<open>'s\<close> what it keeps. The value of the
  environment variable \<open>WSURLEnvKey\<close> is \<open>wc_env_url\<close>, and \<open>wc_url_ok\<close> says which addresses \<open>url.Parse\<close> takes.
\<close>

record ('e, 's) ws_config =
  wc_exchange :: string
  wc_env_url :: string
  wc_default_url :: string
  wc_url_ok :: "string \<Rightarrow> bool"
  wc_resolve :: "('s \<Rightarrow> subscriptions \<Rightarrow> string) option"
  wc_normalize :: "('s \<Rightarrow> subscriptions \<Rightarrow> subscriptions) option"
  wc_resync :: "('e \<Rightarrow> bool \<Rightarrow> subscriptions \<Rightarrow> 's \<Rightarrow> (subscriptions \<times> kline_resync_state) option \<times> bool \<times> 's) option"
  wc_load :: "('e \<Rightarrow> 's \<Rightarrow> kline_resync_state option) option"
  wc_handle :: "('e \<Rightarrow> string \<Rightarrow> 's \<Rightarrow> bool \<times> 's) option"

text \<open>What the subscriber does, in order.\<close>

datatype ws_effect = Dialed string | Sent string | Handled string bool | Waited duration | Dropped

record 's ws_state =
  ws_subs :: subscriptions       \<comment> \<open>\<open>activeSubscriptions\<close>\<close>
  ws_last :: kline_resync_state
  ws_attempt :: nat
  ws_keeps :: 's
  ws_log :: "ws_effect list"

datatype 'e ws_event = CtxDone | Tick 'e | Message 'e string | ReadFailed bool \<comment> \<open>with \<open>ctx.Err() \<noteq> nil\<close>\<close>

text \<open>
  The \<open>n\<close>-th subscription that is sent meets \<open>wr_write_ok n\<close>, which is the outcome of \<open>SetWriteDeadline\<close> and
  \<open>WriteMessage\<close> together; the \<open>n\<close>-th delay has the jitter \<open>wr_jitter n\<close> and ends, unless the context does.
\<close>

record 'e conn_round =
  wr_ctx_done :: bool
  wr_dial_ok :: bool
  wr_deadline_ok :: bool
  wr_write_ok :: "nat \<Rightarrow> bool"
  wr_jitter :: "nat \<Rightarrow> duration"
  wr_awake :: "nat \<Rightarrow> bool"
  wr_events :: "'e ws_event list"

definition did :: "ws_effect \<Rightarrow> 's ws_state \<Rightarrow> 's ws_state" where
  "did x w = w\<lparr>ws_log := ws_log w @ [x]\<rparr>"

definition backoff :: "duration \<Rightarrow> 's ws_state \<Rightarrow> 's ws_state" where
  "backoff jitter w = (did (Waited (wsReconnectDelay (ws_attempt w) jitter)) w)\<lparr>ws_attempt := Suc (ws_attempt w)\<rparr>"

definition normalized :: "('e, 's) ws_config \<Rightarrow> 's \<Rightarrow> subscriptions \<Rightarrow> subscriptions" where
  "normalized C s subs = (case wc_normalize C of None \<Rightarrow> subs | Some f \<Rightarrow> f s subs)"

subsection \<open>Resynchronisation\<close>

text \<open>Whether it succeeded, and the state; \<open>conn\<close> says whether there is a connection to close.\<close>

definition ws_resync :: "('e, 's) ws_config \<Rightarrow> 'e \<Rightarrow> bool \<Rightarrow> 's ws_state \<Rightarrow> bool \<times> 's ws_state" where
  "ws_resync C e conn w =
     (case wc_resync C of
        None \<Rightarrow> (False, w)
      | Some f \<Rightarrow>
          (case f e conn (ws_subs w) (ws_keeps w) of (result, hung_up, s) \<Rightarrow>
             (let w = (if hung_up then did Dropped w else w)\<lparr>ws_keeps := s\<rparr>
              in case result of
                   None \<Rightarrow> (False, w)
                 | Some (subs, state) \<Rightarrow> (True, w\<lparr>ws_subs := normalized C s subs, ws_last := state\<rparr>))))"

definition ws_tick :: "('e, 's) ws_config \<Rightarrow> 'e \<Rightarrow> 's ws_state \<Rightarrow> bool \<times> 's ws_state" where
  "ws_tick C e w =
     (case wc_load C of
        None \<Rightarrow> ws_resync C e True w
      | Some load \<Rightarrow>
          (case load e (ws_keeps w) of
             None \<Rightarrow> (False, w)
           | Some current \<Rightarrow> if Equal current (ws_last w) then (False, w) else ws_resync C e True w))"

text \<open>What happens before the loop: \<open>e\<close> is the world at the load, \<open>e'\<close> at the resynchronisation.\<close>

definition ws_start :: "('e, 's) ws_config \<Rightarrow> 'e \<Rightarrow> 'e \<Rightarrow> subscriptions \<Rightarrow> 's \<Rightarrow> 's ws_state" where
  "ws_start C e e' subs s =
     (let loaded = (case wc_load C of
            None \<Rightarrow> initial_resync_state
          | Some load \<Rightarrow> (case load e s of None \<Rightarrow> initial_resync_state | Some state \<Rightarrow> state))
      in snd (ws_resync C e' False
           \<lparr>ws_subs = normalized C s subs, ws_last = loaded, ws_attempt = 0, ws_keeps = s, ws_log = []\<rparr>))"

subsection \<open>One connection\<close>

definition ws_url :: "('e, 's) ws_config \<Rightarrow> 's ws_state \<Rightarrow> string" where
  "ws_url C w =
     (let wsURL = trim_space (wc_env_url C);
          wsURL = (if wsURL = [] then wc_default_url C else wsURL)
      in case wc_resolve C of
           None \<Rightarrow> wsURL
         | Some f \<Rightarrow> (let resolved = trim_space (f (ws_keeps w) (ws_subs w)) in if resolved \<noteq> [] then resolved else wsURL))"

definition to_send :: "('e, 's) ws_config \<Rightarrow> kline_subscription \<Rightarrow> bool" where
  "to_send C v = (ks_exchange v = wc_exchange C \<and> trim_space (ks_payload v) \<noteq> [])"

text \<open>
  The subscriptions that are left, from the \<open>n\<close>-th on: whether the context ended, whether the connection
  is open, and the number of those tried. After a failure the connection is closed and the delay taken, and then
  \<open>continue\<close> goes on with the next subscription, whose write fails on the closed connection.
\<close>

fun send_subs ::
  "('e, 's) ws_config \<Rightarrow> 'e conn_round \<Rightarrow> nat \<Rightarrow> bool \<Rightarrow> subscriptions \<Rightarrow> 's ws_state \<Rightarrow> bool \<times> bool \<times> nat \<times> 's ws_state" where
  "send_subs C r n open_conn [] w = (False, open_conn, n, w)"
| "send_subs C r n open_conn (v # vs) w =
     (if \<not> to_send C v then send_subs C r n open_conn vs w
      else if open_conn \<and> wr_write_ok r n then send_subs C r (Suc n) True vs (did (Sent (ks_payload v)) w)
      else if wr_awake r n then send_subs C r (Suc n) False vs (backoff (wr_jitter r n) w)
      else (True, False, Suc n, backoff (wr_jitter r n) w))"

datatype loop_end = LoopStopped | LoopResubscribe | LoopReadError | LoopRunning

fun read_loop :: "('e, 's) ws_config \<Rightarrow> 'e ws_event list \<Rightarrow> bool \<Rightarrow> 's ws_state \<Rightarrow> loop_end \<times> 's ws_state" where
  "read_loop C [] resubscribe w = (LoopRunning, w)"
| "read_loop C (CtxDone # evs) resubscribe w = (LoopStopped, w)"
| "read_loop C (Tick e # evs) resubscribe w =
     (case ws_tick C e w of (hit, w) \<Rightarrow> read_loop C evs (resubscribe \<or> hit) w)"
| "read_loop C (Message e m # evs) resubscribe w =
     (case wc_handle C of
        None \<Rightarrow> read_loop C evs resubscribe w
      | Some h \<Rightarrow> (case h e m (ws_keeps w) of
          (ok, s) \<Rightarrow> read_loop C evs resubscribe (did (Handled m ok) (w\<lparr>ws_keeps := s\<rparr>))))"
| "read_loop C (ReadFailed ctx_done # evs) resubscribe w =
     (if ctx_done then LoopStopped else if resubscribe then LoopResubscribe else LoopReadError, w)"

text \<open>\<open>Returned\<close> says whether \<open>nil\<close> was returned; \<open>Running\<close> is the read loop at the end of its events.\<close>

datatype ws_next = Returned bool | Again | Running

definition wait_then :: "'e conn_round \<Rightarrow> nat \<Rightarrow> 's ws_state \<Rightarrow> ws_next \<times> 's ws_state" where
  "wait_then r n w = (if wr_awake r n then Again else Returned True, backoff (wr_jitter r n) w)"

definition ws_round :: "('e, 's) ws_config \<Rightarrow> 'e conn_round \<Rightarrow> 's ws_state \<Rightarrow> ws_next \<times> 's ws_state" where
  "ws_round C r w =
     (if wr_ctx_done r then (Returned True, w)
      else if \<not> wc_url_ok C (ws_url C w) then (Returned False, w)
      else
        (let w = did (Dialed (ws_url C w)) w
         in if \<not> wr_dial_ok r then wait_then r 0 w
            else
              (let w = w\<lparr>ws_attempt := 0\<rparr>
               in if \<not> wr_deadline_ok r then wait_then r 0 w
                  else case send_subs C r 0 True (ws_subs w) w of (stopped, _, n, w) \<Rightarrow>
                    if stopped then (Returned True, w)
                    else (case read_loop C (wr_events r) False w of
                            (LoopStopped, w) \<Rightarrow> (Returned True, w)
                          | (LoopRunning, w) \<Rightarrow> (Running, w)
                          | (LoopResubscribe, w) \<Rightarrow> (Again, w)
                          | (LoopReadError, w) \<Rightarrow> wait_then r n w))))"

fun ws_rounds :: "('e, 's) ws_config \<Rightarrow> 'e conn_round list \<Rightarrow> 's ws_state \<Rightarrow> ws_next \<times> 's ws_state" where
  "ws_rounds C [] w = (Again, w)"
| "ws_rounds C (r # rs) w =
     (case ws_round C r w of (Again, w) \<Rightarrow> ws_rounds C rs w | (res, w) \<Rightarrow> (res, w))"

definition subscribeKlineDataWithAutoResync ::
  "('e, 's) ws_config \<Rightarrow> 'e \<Rightarrow> 'e \<Rightarrow> 'e conn_round list \<Rightarrow> subscriptions \<Rightarrow> 's \<Rightarrow> ws_next \<times> 's ws_state option" where
  "subscribeKlineDataWithAutoResync C e e' rounds subs s =
     (case wc_handle C of
        None \<Rightarrow> (Returned False, None)
      | Some _ \<Rightarrow> apsnd Some (ws_rounds C rounds (ws_start C e e' subs s)))"

subsection \<open>The subscribers of the exchanges\<close>

text \<open>What the callbacks see: the clock, the answer of the message broker, and the database.\<close>

record feed_env =
  fe_now :: gotime
  fe_publish_ok :: bool
  fe_db :: market_db

record feed =
  fd_venue :: venue
  fd_events :: "event list"

definition with_mapping :: "(exchange_symbol_mapping option \<Rightarrow> 's \<Rightarrow> 's) \<Rightarrow> ('a \<times> bool \<times> resync_deps) \<Rightarrow> 's \<Rightarrow> 'a \<times> bool \<times> 's" where
  "with_mapping put r s = (case r of (result, hung_up, deps) \<Rightarrow> (result, hung_up, put (rd_mapping deps) s))"

text \<open>\<open>deps\<close> and \<open>put\<close> read and write the symbol mapping of the exchange.\<close>

definition newExchangeKlineWSConfig ::
  "('s \<Rightarrow> resync_deps) \<Rightarrow> (exchange_symbol_mapping option \<Rightarrow> 's \<Rightarrow> 's) \<Rightarrow> string \<Rightarrow> string \<Rightarrow> string \<Rightarrow> (string \<Rightarrow> bool)
     \<Rightarrow> ('s \<Rightarrow> subscriptions \<Rightarrow> string) option \<Rightarrow> bool \<Rightarrow> (feed_env \<Rightarrow> string \<Rightarrow> 's \<Rightarrow> bool \<times> 's) \<Rightarrow> (feed_env, 's) ws_config" where
  "newExchangeKlineWSConfig deps put exchange envURL defaultURL url_ok resolve subscriptionsInURL handle =
     \<lparr>wc_exchange = exchange, wc_env_url = envURL, wc_default_url = defaultURL, wc_url_ok = url_ok,
      wc_resolve = resolve,
      wc_normalize = Some (\<lambda>s subs.
        (let subs = normalizeExchangeSubscriptions (deps s) subs
         in if subscriptionsInURL then clearSubscriptionPayloads subs else subs)),
      wc_resync = Some (\<lambda>e conn fallback s.
        with_mapping put (resyncExchangeKlineSubscriptions (fe_db e) conn fallback (deps s)) s),
      wc_load = Some (\<lambda>e s. loadExchangeResyncState (fe_db e) (deps s)),
      wc_handle = Some handle\<rparr>"

definition handled_feed :: "(venue \<Rightarrow> bool \<Rightarrow> string \<Rightarrow> event list \<Rightarrow> kline_error option \<times> event list)
    \<Rightarrow> feed_env \<Rightarrow> string \<Rightarrow> feed \<Rightarrow> bool \<times> feed" where
  "handled_feed handle e message s =
     (case handle ((fd_venue s)\<lparr>vn_now := fe_now e\<rparr>) (fe_publish_ok e) message (fd_events s) of
        (err, evs) \<Rightarrow> (err = None, s\<lparr>fd_events := evs\<rparr>))"

text \<open>
  The parts of an address that \<open>resolveBinanceKlineWSURL\<close> changes, as \<open>url.Parse\<close> finds them; its path is
  written as it is, so one that needs escapes is not modelled.
\<close>

record ws_address =
  wa_base :: string
  wa_path :: string
  wa_query :: "(string \<times> string list) list"

definition url_text :: "ws_address \<Rightarrow> string" where
  "url_text a =
     (let pairs = concat (map (\<lambda>(k, vs). map (\<lambda>v. query_escape k @ ''='' @ query_escape v) vs) (sort_key fst (wa_query a)))
      in wa_base a @ wa_path a @ (if pairs = [] then [] else ''?'' @ join_with ''&'' pairs))"

definition stream_path :: "string \<Rightarrow> string" where
  "stream_path path =
     (let path = (if has_suffix path ''/ws'' then trim_suffix path ''/ws'' @ ''/stream'' else path)
      in if \<not> has_suffix path ''/stream'' then trim_right_char path CHR ''/'' @ ''/stream'' else path)"

definition resolveBinanceKlineWSURL ::
  "exchange_lib \<Rightarrow> (string \<Rightarrow> ws_address option) \<Rightarrow> string \<Rightarrow> resync_deps \<Rightarrow> subscriptions \<Rightarrow> string" where
  "resolveBinanceKlineWSURL L parse marketType deps subs =
     (let wsURL = trim_space (xl_getenv L (wsURLEnvKeyByMarketType marketType));
          wsURL = (if wsURL = [] then defaultWSURLByMarketType marketType else wsURL);
          streams = kline_streams marketType deps subs
      in case parse (trim_space wsURL) of
           None \<Rightarrow> wsURL
         | Some a \<Rightarrow>
             if streams = [] then wsURL
             else url_text (a\<lparr>wa_path := stream_path (wa_path a),
               wa_query := (''streams'', [join_with ''/'' streams]) # filter (\<lambda>(k, _). k \<noteq> ''streams'') (wa_query a)\<rparr>))"

definition binance_ws_config ::
  "exchange_lib \<Rightarrow> (string \<Rightarrow> ws_address option) \<Rightarrow> string \<Rightarrow> (feed_env, feed) ws_config" where
  "binance_ws_config L parse marketType =
     newExchangeKlineWSConfig (\<lambda>s. binance_deps (fd_venue s) marketType)
       (\<lambda>m s. s\<lparr>fd_venue := (fd_venue s)\<lparr>vn_binance_mapping := m\<rparr>\<rparr>) ExchangeBinance
       (xl_getenv L (wsURLEnvKeyByMarketType marketType)) (defaultWSURLByMarketType marketType)
       (\<lambda>u. parse u \<noteq> None)
       (Some (\<lambda>s. resolveBinanceKlineWSURL L parse marketType (binance_deps (fd_venue s) marketType))) True
       (handled_feed (\<lambda>v ok message. handleKlineDataByMarketType (xl_decimal L) v ok message marketType))"

text \<open>The subscribers \<open>SubscribeKlineData\<close> starts: one for each market that has a subscription.\<close>

definition SubscribeKlineData_binance ::
  "exchange_lib \<Rightarrow> (string \<Rightarrow> ws_address option) \<Rightarrow> subscriptions \<Rightarrow> feed
     \<Rightarrow> ((feed_env, feed) ws_config \<times> subscriptions) list" where
  "SubscribeKlineData_binance L parse subs s =
     filter (\<lambda>(_, subs). subs \<noteq> [])
       (map (\<lambda>mt. (binance_ws_config L parse mt, normalizeExchangeSubscriptions (binance_deps (fd_venue s) mt) subs))
         [MarketTypeSpot, MarketTypeFutures])"

definition toko_ws_config :: "exchange_lib \<Rightarrow> (string \<Rightarrow> ws_address option) \<Rightarrow> (feed_env, feed) ws_config" where
  "toko_ws_config L parse =
     newExchangeKlineWSConfig (\<lambda>s. toko_deps (fd_venue s))
       (\<lambda>m s. s\<lparr>fd_venue := (fd_venue s)\<lparr>vn_toko_mapping := m\<rparr>\<rparr>) ExchangeTokoCrypto
       (xl_getenv L ''TOKOCRYPTO_WS_URL'') ''wss://stream-cloud.tokocrypto.site/stream''
       (\<lambda>u. parse u \<noteq> None) None False
       (handled_feed (\<lambda>v ok message. HandleKlineData (xl_decimal L) v ok message))"

definition SubscribeKlineData_toko ::
  "exchange_lib \<Rightarrow> (string \<Rightarrow> ws_address option) \<Rightarrow> feed_env \<Rightarrow> feed_env \<Rightarrow> feed_env conn_round list \<Rightarrow> subscriptions \<Rightarrow> feed
     \<Rightarrow> ws_next \<times> feed ws_state option" where
  "SubscribeKlineData_toko L parse e e' rounds subs s =
     subscribeKlineDataWithAutoResync (toko_ws_config L parse) e e' rounds subs s"

end
