(* ===== verification/StreamProps.thy ===== *)
theory StreamProps
  imports KlineStream ExchangeProps MappingProps
begin

text \<open>
  The properties of the websocket subscriber: what it asks an exchange for, how it follows the
  database, how long it waits, and that it stops only when it is told to.
\<close>

subsection \<open>Effects on the log\<close>

lemma did_sel [simp]:
  "ws_log (did x w) = ws_log w @ [x]" "ws_subs (did x w) = ws_subs w" "ws_attempt (did x w) = ws_attempt w"
  "ws_last (did x w) = ws_last w" "ws_keeps (did x w) = ws_keeps w"
  by (simp_all add: did_def)

lemma backoff_sel [simp]:
  "ws_log (backoff j w) = ws_log w @ [Waited (wsReconnectDelay (ws_attempt w) j)]" "ws_subs (backoff j w) = ws_subs w"
  "ws_attempt (backoff j w) = Suc (ws_attempt w)" "ws_last (backoff j w) = ws_last w" "ws_keeps (backoff j w) = ws_keeps w"
  by (simp_all add: backoff_def)

definition asks :: "ws_effect \<Rightarrow> bool" where
  "asks x = (case x of Sent _ \<Rightarrow> True | Dialed _ \<Rightarrow> True | _ \<Rightarrow> False)"

text \<open>\<open>adds P w w'\<close>: the log grew by effects with \<open>P\<close>.\<close>

definition adds :: "(ws_effect \<Rightarrow> bool) \<Rightarrow> 's ws_state \<Rightarrow> 's ws_state \<Rightarrow> bool" where
  "adds P w w' = (\<exists>l. ws_log w' = ws_log w @ l \<and> list_all P l)"

lemma adds_refl [simp]: "adds P w w"
  by (simp add: adds_def)

lemma adds_trans: "adds P w w' \<Longrightarrow> adds P w' w'' \<Longrightarrow> adds P w w''"
  by (auto simp: adds_def)

lemma ws_resync_adds: "ws_resync C e c w = (b, w') \<Longrightarrow> adds (\<lambda>x. \<not> asks x) w w'"
  by (auto simp: ws_resync_def adds_def asks_def Let_def split: option.splits prod.splits if_splits)

lemma ws_tick_adds: "ws_tick C e w = (b, w') \<Longrightarrow> adds (\<lambda>x. \<not> asks x) w w'"
  by (auto simp: ws_tick_def dest: ws_resync_adds split: option.splits if_splits)

lemma read_loop_adds: "read_loop C evs res w = (x, w') \<Longrightarrow> adds (\<lambda>x. \<not> asks x) w w'"
proof (induction C evs res w rule: read_loop.induct)
  case (3 C e evs res w)
  obtain hit w1 where t: "ws_tick C e w = (hit, w1)" by fastforce
  from 3(1) [OF t [symmetric]] 3(2) t ws_tick_adds [OF t] show ?case
    by (auto intro: adds_trans)
next
  case (4 C e m evs res w)
  show ?case
  proof (cases "wc_handle C")
    case None
    with 4 show ?thesis by simp
  next
    case (Some h)
    obtain ok s where h: "h e m (ws_keeps w) = (ok, s)" by fastforce
    let ?w = "did (Handled m ok) (w\<lparr>ws_keeps := s\<rparr>)"
    have "adds (\<lambda>x. \<not> asks x) w ?w" by (auto simp: adds_def asks_def)
    moreover have "adds (\<lambda>x. \<not> asks x) ?w w'" using 4(2) [OF Some h [symmetric]] 4(3) Some h by simp
    ultimately show ?thesis by (rule adds_trans)
  qed
qed auto

lemma wait_then_adds: "wait_then r n w = (x, w') \<Longrightarrow> adds (\<lambda>x. \<not> asks x) w w'"
  by (auto simp: wait_then_def adds_def asks_def)

subsection \<open>What a connection asks for\<close>



text \<open>The delays of the subscriptions that are tried on a closed connection.\<close>

definition waits :: "'e conn_round \<Rightarrow> nat \<Rightarrow> nat \<Rightarrow> nat \<Rightarrow> ws_effect list" where
  "waits r n attempt m = map (\<lambda>i. Waited (wsReconnectDelay (attempt + i) (wr_jitter r (n + i)))) [0..<m]"

lemma waits_Suc: "waits r n a (Suc m) = Waited (wsReconnectDelay a (wr_jitter r n)) # waits r (Suc n) (Suc a) m"
  by (simp add: waits_def upt_conv_Cons map_Suc_upt [symmetric] o_def del: upt_Suc)

lemma waits_0 [simp]: "waits r n a 0 = []"
  by (simp add: waits_def)

lemma send_subs_closed:
  assumes "\<forall>n. wr_awake r n"
  shows "send_subs C r n False vs w = (False, False, n + length (filter (to_send C) vs),
    w\<lparr>ws_log := ws_log w @ waits r n (ws_attempt w) (length (filter (to_send C) vs)),
      ws_attempt := ws_attempt w + length (filter (to_send C) vs)\<rparr>)"
  using assms by (induction vs arbitrary: n w) (simp_all add: backoff_def did_def waits_Suc)

lemma send_subs_broken:
  assumes "\<forall>n. wr_awake r n" "\<forall>i<k. wr_write_ok r (n + i)" "\<not> wr_write_ok r (n + k)"
    and "k < length (filter (to_send C) vs)"
  shows "\<exists>w'. send_subs C r n True vs w = (False, False, n + length (filter (to_send C) vs), w')
    \<and> ws_log w' = ws_log w @ map (Sent \<circ> ks_payload) (take k (filter (to_send C) vs))
        @ waits r (n + k) (ws_attempt w) (length (filter (to_send C) vs) - k)"
  using assms(2-4)
proof (induction vs arbitrary: n k w)
  case (Cons v vs)
  show ?case
  proof (cases "to_send C v")
    case False
    with Cons show ?thesis by simp
  next
    case True
    show ?thesis
    proof (cases k)
      case 0
      then show ?thesis
        using Cons.prems True assms(1) by (simp add: send_subs_closed waits_Suc)
    next
      case (Suc j)
      have "wr_write_ok r n" using Cons.prems(1) Suc by (metis add_0_right zero_less_Suc)
      moreover have "\<forall>i<j. wr_write_ok r (Suc n + i)" "\<not> wr_write_ok r (Suc n + j)" "j < length (filter (to_send C) vs)"
        using Cons.prems Suc True by (metis add_Suc_shift Suc_less_eq, simp, simp)
      ultimately show ?thesis
        using Cons.IH [of j "Suc n" "did (Sent (ks_payload v)) w"] True Suc by auto
    qed
  qed
qed simp

text \<open>
  C38: when a write fails, the connection is not replaced at once: every subscription that is left is
  tried on the closed connection, and each of them costs one more, longer delay before the subscriber
  gets to dial again.
\<close>

theorem broken_connection_waits_for_each:
  assumes "\<not> wr_ctx_done r" "wc_url_ok C (ws_url C w)" "wr_dial_ok r" "wr_deadline_ok r" "\<forall>n. wr_awake r n"
    and "\<forall>n<k. wr_write_ok r n" "\<not> wr_write_ok r k" "k < length (filter (to_send C) (ws_subs w))"
    and "ws_round C r w = (x, w')"
  defines "own \<equiv> filter (to_send C) (ws_subs w)"
  shows "\<exists>rest. ws_log w' = ws_log w @ Dialed (ws_url C w) # map (Sent \<circ> ks_payload) (take k own)
      @ map (\<lambda>i. Waited (wsReconnectDelay i (wr_jitter r (k + i)))) [0..<length own - k] @ rest
    \<and> list_all (\<lambda>x. \<not> asks x) rest"
proof -
  let ?w = "(did (Dialed (ws_url C w)) w)\<lparr>ws_attempt := 0\<rparr>"
  obtain w1 where s: "send_subs C r 0 True (ws_subs w) ?w = (False, False, length own, w1)"
    "ws_log w1 = ws_log w @ Dialed (ws_url C w) # map (Sent \<circ> ks_payload) (take k own) @ waits r k 0 (length own - k)"
    using send_subs_broken [OF assms(5), of k 0 C "ws_subs w" ?w] assms(6-8) unfolding own_def by auto
  obtain y w2 where l: "read_loop C (wr_events r) False w1 = (y, w2)" by fastforce
  have "adds (\<lambda>x. \<not> asks x) w2 w'"
    using assms l s(1) by (cases y) (auto simp: ws_round_def Let_def dest: wait_then_adds)
  with read_loop_adds [OF l] have "adds (\<lambda>x. \<not> asks x) w1 w'" by (rule adds_trans)
  then show ?thesis by (auto simp: adds_def s(2) waits_def)
qed

subsection \<open>Dialling again\<close>

lemma ws_url_same:
  assumes "ws_keeps w' = ws_keeps w" "ws_subs w' = ws_subs w"
  shows "ws_url C w' = ws_url C w"
  unfolding ws_url_def assms ..

text \<open>
  While dials fail, the subscriber keeps trying: it makes one attempt per round, with a delay
  between any two that doubles from one second and never exceeds fifteen, jitter included.
\<close>

theorem dialling_never_stops:
  assumes "\<forall>r\<in>set rounds. \<not> wr_ctx_done r \<and> \<not> wr_dial_ok r \<and> wr_awake r 0
      \<and> 0 \<le> wr_jitter r 0 \<and> wr_jitter r 0 \<le> wsReconnectMaxDelay - wsReconnectMinDelay"
    and "wc_url_ok C (ws_url C w)"
  shows "\<exists>w' delays. ws_rounds C rounds w = (Again, w') \<and> length delays = length rounds
    \<and> ws_log w' = ws_log w @ concat (map (\<lambda>d. [Dialed (ws_url C w), Waited d]) delays)
    \<and> (\<forall>i<length delays. min (second * 2 ^ (ws_attempt w + i)) (15 * second) \<le> delays ! i \<and> delays ! i \<le> 15 * second)"
  using assms
proof (induction rounds arbitrary: w)
  case Nil
  then show ?case by simp
next
  case (Cons r rounds)
  let ?d = "wsReconnectDelay (ws_attempt w) (wr_jitter r 0)"
  let ?w1 = "backoff (wr_jitter r 0) (did (Dialed (ws_url C w)) w)"
  have step: "ws_round C r w = (Again, ?w1)"
    using Cons.prems by (simp add: ws_round_def wait_then_def)
  have url: "ws_url C ?w1 = ws_url C w" by (rule ws_url_same) simp_all
  have "\<forall>r\<in>set rounds. \<not> wr_ctx_done r \<and> \<not> wr_dial_ok r \<and> wr_awake r 0
      \<and> 0 \<le> wr_jitter r 0 \<and> wr_jitter r 0 \<le> wsReconnectMaxDelay - wsReconnectMinDelay"
    using Cons.prems(1) by simp
  from Cons.IH [OF this, of ?w1, unfolded url backoff_sel(3) did_sel(3), OF Cons.prems(2)]
  obtain w' ds where ih: "ws_rounds C rounds ?w1 = (Again, w')" "length ds = length rounds"
    "ws_log w' = ws_log ?w1 @ concat (map (\<lambda>d. [Dialed (ws_url C w), Waited d]) ds)"
    "\<forall>i<length ds. min (second * 2 ^ (Suc (ws_attempt w) + i)) (15 * second) \<le> ds ! i \<and> ds ! i \<le> 15 * second"
    by blast
  have d: "min (second * 2 ^ ws_attempt w) (15 * second) \<le> ?d \<and> ?d \<le> 15 * second"
    using Cons.prems by (auto simp: wsReconnectDelay_def Let_def)
  have "\<forall>i<length (?d # ds). min (second * 2 ^ (ws_attempt w + i)) (15 * second) \<le> (?d # ds) ! i
      \<and> (?d # ds) ! i \<le> 15 * second"
  proof (intro allI impI)
    fix i assume "i < length (?d # ds)"
    then show "min (second * 2 ^ (ws_attempt w + i)) (15 * second) \<le> (?d # ds) ! i \<and> (?d # ds) ! i \<le> 15 * second"
      using d ih(4) by (cases i) auto
  qed
  then show ?case
    using step ih by (intro exI [of _ w'] exI [of _ "?d # ds"]) simp
qed

subsection \<open>Stopping\<close>

definition told :: "'e conn_round \<Rightarrow> bool" where
  "told r = (wr_ctx_done r \<or> (\<exists>n. \<not> wr_awake r n) \<or> CtxDone \<in> set (wr_events r) \<or> ReadFailed True \<in> set (wr_events r))"

lemma read_loop_stopped:
  "read_loop C evs res w = (LoopStopped, w') \<Longrightarrow> CtxDone \<in> set evs \<or> ReadFailed True \<in> set evs"
  by (induction C evs res w rule: read_loop.induct) (auto split: prod.splits option.splits if_splits)

lemma send_subs_stopped: "send_subs C r n c vs w = (True, c', m, w') \<Longrightarrow> \<exists>n. \<not> wr_awake r n"
  by (induction vs arbitrary: n c w) (auto split: if_splits)

lemma ws_round_returned:
  assumes "ws_round C r w = (Returned ok, w')"
  shows "if ok then told r else \<not> wc_url_ok C (ws_url C w')"
  using assms
  by (auto simp: ws_round_def wait_then_def told_def Let_def split: if_splits prod.splits loop_end.splits
      dest: read_loop_stopped send_subs_stopped)

text \<open>
  The subscriber returns \<open>nil\<close> only when its context is done, whatever dials, writes, reads and
  handlers do, and returns an error only for an address that cannot be parsed.
\<close>

theorem subscriber_stops_when_told:
  assumes "ws_rounds C rounds w = (Returned ok, w')"
  shows "if ok then \<exists>r\<in>set rounds. told r else \<not> wc_url_ok C (ws_url C w')"
  using assms
proof (induction rounds arbitrary: w)
  case (Cons r rounds)
  show ?case
  proof (cases "ws_round C r w")
    case (Pair x w1)
    show ?thesis
    proof (cases "x = Again")
      case True
      then have "ws_rounds C rounds w1 = (Returned ok, w')" using Cons.prems Pair by simp
      then show ?thesis using Cons.IH by (cases ok) auto
    next
      case False
      then have "ws_round C r w = (Returned ok, w')" using Cons.prems Pair by (cases x) simp_all
      then show ?thesis using ws_round_returned by (cases ok) fastforce+
    qed
  qed
qed simp

subsection \<open>Following the database\<close>










subsection \<open>A small stream\<close>

definition demo_stream :: "(feed_env, feed) ws_config" where
  "demo_stream = toko_ws_config demo_lib (\<lambda>u. Some \<lparr>wa_base = u, wa_path = [], wa_query = []\<rparr>)"

definition demo_own :: "string \<Rightarrow> kline_subscription" where
  "demo_own payload = (demo_sub ''spot'')\<lparr>ks_exchange := ExchangeTokoCrypto, ks_payload := payload, ks_updated_at := 5\<rparr>"

definition demo_listening :: "feed ws_state" where
  "demo_listening = \<lparr>ws_subs = [demo_own ''p'', demo_sub ''spot'', demo_own ''q''], ws_last = initial_resync_state,
     ws_attempt = 0, ws_keeps = \<lparr>fd_venue = demo_venue, fd_events = []\<rparr>, ws_log = []\<rparr>"

definition demo_round :: "feed_env conn_round" where
  "demo_round = \<lparr>wr_ctx_done = False, wr_dial_ok = True, wr_deadline_ok = True, wr_write_ok = (\<lambda>_. True),
     wr_jitter = (\<lambda>_. 0), wr_awake = (\<lambda>_. True), wr_events = []\<rparr>"


lemma demo_url_ok: "wc_url_ok demo_stream u"
  by (simp add: demo_stream_def toko_ws_config_def newExchangeKlineWSConfig_def)

lemma demo_to_send: "filter (to_send demo_stream) (ws_subs demo_listening) = [demo_own ''p'', demo_own ''q'']"
proof -
  have "trim_space ''p'' \<noteq> []" "trim_space ''q'' \<noteq> []" by code_simp+
  then show ?thesis
    by (simp add: to_send_def demo_stream_def toko_ws_config_def newExchangeKlineWSConfig_def demo_listening_def
        demo_own_def demo_sub_def)
qed


theorem broken_connection_waits_for_each_witness:
  "\<exists>rest. ws_log (snd (ws_round demo_stream (demo_round\<lparr>wr_write_ok := \<lambda>_. False\<rparr>) demo_listening)) =
      [Dialed (ws_url demo_stream demo_listening), Waited (wsReconnectDelay 0 0), Waited (wsReconnectDelay 1 0)] @ rest
    \<and> list_all (\<lambda>x. \<not> asks x) rest"
  using broken_connection_waits_for_each [of "demo_round\<lparr>wr_write_ok := \<lambda>_. False\<rparr>" demo_stream demo_listening 0
      "fst (ws_round demo_stream (demo_round\<lparr>wr_write_ok := \<lambda>_. False\<rparr>) demo_listening)"
      "snd (ws_round demo_stream (demo_round\<lparr>wr_write_ok := \<lambda>_. False\<rparr>) demo_listening)"]
  by (simp add: demo_url_ok demo_to_send) (simp add: demo_round_def demo_listening_def numeral_2_eq_2)

theorem dialling_never_stops_witness:
  "\<exists>w' delays. ws_rounds demo_stream (replicate 3 (demo_round\<lparr>wr_dial_ok := False\<rparr>)) demo_listening = (Again, w')
    \<and> length delays = 3 \<and> ws_log w' = concat (map (\<lambda>d. [Dialed (ws_url demo_stream demo_listening), Waited d]) delays)"
proof -
  have "ws_log demo_listening = []" by (simp add: demo_listening_def)
  moreover have "\<forall>r\<in>set (replicate 3 (demo_round\<lparr>wr_dial_ok := False\<rparr>)). \<not> wr_ctx_done r \<and> \<not> wr_dial_ok r
      \<and> wr_awake r 0 \<and> 0 \<le> wr_jitter r 0 \<and> wr_jitter r 0 \<le> wsReconnectMaxDelay - wsReconnectMinDelay"
    by (simp add: demo_round_def second_def)
  ultimately show ?thesis
    using dialling_never_stops [OF _ demo_url_ok, of "replicate 3 (demo_round\<lparr>wr_dial_ok := False\<rparr>)" demo_listening]
    by (metis append_Nil length_replicate)
qed

theorem subscriber_stops_when_told_witness: "told (demo_round\<lparr>wr_ctx_done := True\<rparr>)"
proof -
  have "ws_rounds demo_stream [demo_round\<lparr>wr_ctx_done := True\<rparr>] demo_listening = (Returned True, demo_listening)"
    by (simp add: ws_round_def)
  from subscriber_stops_when_told [OF this] show ?thesis by simp
qed


end
