(* ===== verification/HttpServer.thy ===== *)
theory HttpServer
  imports GoNum
begin

text \<open>
  The HTTP server in front of the dashboard and of the order engine
  (\<open>internal/infrastructure/http.go\<close>): its settings and the middlewares around every handler. A handler
  works on a response writer and on a world of its own; it returns or panics. The identity of a
  response is what has been sent: the first status with the headers set until then, and the body.
\<close>

subsection \<open>Requests and responses\<close>

record web_request =
  wq_method :: string
  wq_path :: string
  wq_header :: "string \<Rightarrow> string"     \<comment> \<open>\<open>Header.Get\<close>: empty when absent\<close>
  wq_remote :: string

record access_entry =
  ae_method :: string
  ae_path :: string
  ae_client :: string
  ae_status :: nat

record 'w serving =
  rw_header :: "(string \<times> string) list"
  rw_sent :: "(nat \<times> (string \<times> string) list) option"
  rw_codes :: "nat list"                 \<comment> \<open>every status that was asked for\<close>
  rw_body :: string
  rw_access :: "access_entry list"
  rw_panics :: nat
  rw_world :: 'w

type_synonym 'w web_handler = "web_request \<Rightarrow> 'w serving \<Rightarrow> bool \<times> 'w serving" \<comment> \<open>\<open>False\<close>: a panic\<close>

definition set_header :: "string \<Rightarrow> string \<Rightarrow> 'w serving \<Rightarrow> 'w serving" where
  "set_header k v w = w\<lparr>rw_header := filter (\<lambda>(x, _). x \<noteq> k) (rw_header w) @ [(k, v)]\<rparr>"

definition write_header :: "nat \<Rightarrow> 'w serving \<Rightarrow> 'w serving" where
  "write_header code w =
     w\<lparr>rw_codes := rw_codes w @ [code],
       rw_sent := (case rw_sent w of None \<Rightarrow> Some (code, rw_header w) | Some x \<Rightarrow> Some x)\<rparr>"

definition write_body :: "string \<Rightarrow> 'w serving \<Rightarrow> 'w serving" where
  "write_body s w =
     w\<lparr>rw_body := rw_body w @ s,
       rw_sent := (case rw_sent w of None \<Rightarrow> Some (200, rw_header w) | Some x \<Rightarrow> Some x)\<rparr>"

text \<open>The end of a request: a handler that wrote nothing has answered 200. \<open>None\<close> is a broken connection.\<close>

definition finished :: "bool \<times> 'w serving \<Rightarrow> (nat \<times> (string \<times> string) list \<times> string) option" where
  "finished r =
     (case r of (returned, w) \<Rightarrow>
        if \<not> returned then None
        else (case rw_sent w of None \<Rightarrow> Some (200, rw_header w, rw_body w)
              | Some (code, hs) \<Rightarrow> Some (code, hs, rw_body w)))"

subsection \<open>Client addresses\<close>

text \<open>\<open>net.SplitHostPort\<close>, the host only.\<close>

definition last_colon :: "string \<Rightarrow> nat option" where
  "last_colon s = (if CHR '':'' \<in> set s then Some (length s - 1 - length (takeWhile (\<lambda>c. c \<noteq> CHR '':'') (rev s))) else None)"

definition first_index :: "char \<Rightarrow> string \<Rightarrow> nat option" where
  "first_index c s = (if c \<in> set s then Some (length (takeWhile (\<lambda>x. x \<noteq> c) s)) else None)"

definition split_host_port :: "string \<Rightarrow> string option" where
  "split_host_port s =
     (case last_colon s of
        None \<Rightarrow> None
      | Some i \<Rightarrow>
          if has_prefix s ''['' then
            (case first_index CHR '']'' s of
               None \<Rightarrow> None
             | Some e \<Rightarrow>
                 if Suc e \<noteq> i \<or> CHR ''['' \<in> set (drop 1 s) \<or> CHR '']'' \<in> set (drop (Suc e) s) then None
                 else Some (drop 1 (take e s)))
          else
            (let host = take i s
             in if CHR '':'' \<in> set host \<or> CHR ''['' \<in> set s \<or> CHR '']'' \<in> set s then None else Some host))"

definition clientIPFromRequest :: "web_request \<Rightarrow> string" where
  "clientIPFromRequest r =
     (let forwarded = trim_space (wq_header r ''X-Forwarded-For''); real_ip = trim_space (wq_header r ''X-Real-Ip'')
      in if forwarded \<noteq> [] then trim_space (hd (split_on CHR '','' forwarded))
         else if real_ip \<noteq> [] then real_ip
         else (case split_host_port (trim_space (wq_remote r)) of
                 Some host \<Rightarrow> if host \<noteq> [] then host else trim_space (wq_remote r)
               | None \<Rightarrow> trim_space (wq_remote r)))"

subsection \<open>Middlewares\<close>

text \<open>The bytes of \<open>crypto/rand\<close>, or the clock when it fails.\<close>

definition hex_char :: "nat \<Rightarrow> char" where
  "hex_char n = (if n < 10 then digit_char n else char_of (n + 87))"

definition newRequestID :: "string option \<Rightarrow> gotime \<Rightarrow> string" where
  "newRequestID random now =
     (case random of
        None \<Rightarrow> format_int now
      | Some bytes \<Rightarrow> concat (map (\<lambda>c. [hex_char (of_char c div 16), hex_char (of_char c mod 16)]) bytes))"

definition httpRequestIDMiddleware :: "string \<Rightarrow> 'w web_handler \<Rightarrow> 'w web_handler" where
  "httpRequestIDMiddleware new_id next_handler r w =
     (let given = trim_space (wq_header r ''X-Request-Id'')
      in next_handler r (set_header ''X-Request-Id'' (if given = [] then new_id else given) w))"

definition httpSecurityHeadersMiddleware :: "'w web_handler \<Rightarrow> 'w web_handler" where
  "httpSecurityHeadersMiddleware next_handler r w =
     next_handler r (set_header ''Referrer-Policy'' ''no-referrer'' (set_header ''X-Frame-Options'' ''DENY''
       (set_header ''X-Content-Type-Options'' ''nosniff'' w)))"

definition cors_headers :: "(string \<times> string) list" where
  "cors_headers =
     [(''Access-Control-Allow-Origin'', ''*''),
      (''Access-Control-Allow-Methods'', ''GET, POST, PUT, PATCH, DELETE, OPTIONS''),
      (''Access-Control-Allow-Headers'', ''Authorization, Content-Type, X-API-Key, X-Request-Id''),
      (''Access-Control-Expose-Headers'', ''X-Request-Id''), (''Access-Control-Max-Age'', ''86400'')]"

definition preflight :: "web_request \<Rightarrow> bool" where
  "preflight r = (trim_space (wq_header r ''Origin'') \<noteq> [] \<and> wq_method r = ''OPTIONS''
     \<and> trim_space (wq_header r ''Access-Control-Request-Method'') \<noteq> [])"

definition httpCORSMiddleware :: "'w web_handler \<Rightarrow> 'w web_handler" where
  "httpCORSMiddleware next_handler r w =
     (let w = (if trim_space (wq_header r ''Origin'') \<noteq> [] then fold (\<lambda>(k, v). set_header k v) cors_headers w else w)
      in if preflight r then (True, write_header 204 w) else next_handler r w)"

definition httpRecoveryMiddleware :: "'w web_handler \<Rightarrow> 'w web_handler" where
  "httpRecoveryMiddleware next_handler r w =
     (case next_handler r w of
        (True, w) \<Rightarrow> (True, w)
      | (False, w) \<Rightarrow> (True, write_body ''internal server error'' (write_header 500 (w\<lparr>rw_panics := Suc (rw_panics w)\<rparr>))))"

text \<open>The recorder sees the last status the handler asked for; a panic passes the log by.\<close>

definition httpAccessLogMiddleware :: "'w web_handler \<Rightarrow> 'w web_handler" where
  "httpAccessLogMiddleware next_handler r w =
     (case next_handler r w of
        (False, w') \<Rightarrow> (False, w')
      | (True, w') \<Rightarrow>
          (let codes = drop (length (rw_codes w)) (rw_codes w')
           in (True, w'\<lparr>rw_access := rw_access w' @
                [\<lparr>ae_method = wq_method r, ae_path = wq_path r, ae_client = clientIPFromRequest r,
                  ae_status = (if codes = [] then 200 else last codes)\<rparr>]\<rparr>)))"

definition chainHTTPMiddleware :: "'w web_handler \<Rightarrow> ('w web_handler \<Rightarrow> 'w web_handler) list \<Rightarrow> 'w web_handler" where
  "chainHTTPMiddleware h middlewares = foldr (\<lambda>m wrapped. m wrapped) middlewares h"

text \<open>The probes of the default multiplexer; it answers other paths with 404.\<close>

definition defaultHTTPMux :: "'w web_handler" where
  "defaultHTTPMux r w =
     (True, if wq_path r = ''/healthz'' then write_body ''ok'' (write_header 200 w)
            else if wq_path r = ''/readyz'' then write_body ''ready'' (write_header 200 w)
            else write_body ''404 page not found'' (write_header 404 w))"

definition served :: "string \<Rightarrow> 'w web_handler option \<Rightarrow> 'w web_handler" where
  "served new_id h =
     chainHTTPMiddleware (case h of None \<Rightarrow> defaultHTTPMux | Some h \<Rightarrow> h)
       [httpRequestIDMiddleware new_id, httpRecoveryMiddleware, httpSecurityHeadersMiddleware, httpCORSMiddleware,
        httpAccessLogMiddleware]"

subsection \<open>Settings\<close>

record http_server_config =
  hs_addr :: string
  hs_read_timeout :: duration
  hs_read_header_timeout :: duration
  hs_write_timeout :: duration
  hs_idle_timeout :: duration
  hs_shutdown_timeout :: duration
  hs_max_header_bytes :: int

definition with_colon :: "string \<Rightarrow> string" where
  "with_colon port = (if has_prefix port '':'' then port else '':'' @ port)"

text \<open>The environment, and the port of \<open>config.Env\<close> when that is loaded.\<close>

definition resolveHTTPAddr :: "(string \<Rightarrow> string) \<Rightarrow> string option \<Rightarrow> string" where
  "resolveHTTPAddr getenv config_port =
     (let addr = trim_space (getenv ''HTTP_ADDR''); port = trim_space (getenv ''HTTP_PORT'');
          configured = (case config_port of None \<Rightarrow> [] | Some p \<Rightarrow> trim_space p)
      in if addr \<noteq> [] then addr else if port \<noteq> [] then with_colon port
         else if configured \<noteq> [] then with_colon configured else '':8080'')"

definition DefaultHTTPServerConfig :: "(string \<Rightarrow> string) \<Rightarrow> string option \<Rightarrow> http_server_config" where
  "DefaultHTTPServerConfig getenv config_port =
     \<lparr>hs_addr = resolveHTTPAddr getenv config_port, hs_read_timeout = 5 * second, hs_read_header_timeout = 2 * second,
      hs_write_timeout = 15 * second, hs_idle_timeout = 60 * second, hs_shutdown_timeout = 10 * second,
      hs_max_header_bytes = 1048576\<rparr>"

definition positive_or :: "int \<Rightarrow> int \<Rightarrow> int" where
  "positive_or d x = (if x \<le> 0 then d else x)"

definition server_settings :: "http_server_config \<Rightarrow> http_server_config" where
  "server_settings c =
     \<lparr>hs_addr = (if hs_addr c = [] then '':8080'' else hs_addr c),
      hs_read_timeout = positive_or (5 * second) (hs_read_timeout c),
      hs_read_header_timeout = positive_or (2 * second) (hs_read_header_timeout c),
      hs_write_timeout = positive_or (15 * second) (hs_write_timeout c),
      hs_idle_timeout = positive_or (60 * second) (hs_idle_timeout c),
      hs_shutdown_timeout = positive_or (10 * second) (hs_shutdown_timeout c),
      hs_max_header_bytes = positive_or 1048576 (hs_max_header_bytes c)\<rparr>"

text \<open>What the dashboard's server is started with (\<open>internal/bootstrap/api.bootstrap.go\<close>).\<close>

definition api_server_config :: "string \<Rightarrow> duration \<Rightarrow> http_server_config" where
  "api_server_config port shutdown_timeout =
     \<lparr>hs_addr = '':'' @ port, hs_read_timeout = 0, hs_read_header_timeout = 0, hs_write_timeout = 0,
      hs_idle_timeout = 0, hs_shutdown_timeout = shutdown_timeout, hs_max_header_bytes = 0\<rparr>"

end
