(* ===== verification/Infrastructure.thy ===== *)
theory Infrastructure
  imports GoNum Complex_Main "HOL-Library.Word"
begin

text \<open>
  Connections to the database, the message broker and the cache (\<open>internal/infrastructure/database.go\<close>,
  \<open>jetstream.go\<close>, \<open>redis.go\<close>): their settings, the delays between attempts, and the text a log shows of an address.
  \<open>scaled\<close> is the \<open>float64\<close> product of the smallest delay and a power of the factor.
\<close>

subsection \<open>Delays\<close>

definition backoffWithJitter :: "rat \<Rightarrow> duration \<Rightarrow> duration \<Rightarrow> duration \<Rightarrow> duration" where
  "backoffWithJitter scaled lo hi jitter =
     (let base = \<lfloor>if scaled > of_int hi then of_int hi else scaled\<rfloor>
      in if hi \<le> lo then base
         else (let result = base + jitter in if result > hi then hi else result))"

definition reconnectDelayWithJitter :: "rat \<Rightarrow> duration \<Rightarrow> duration \<Rightarrow> duration \<Rightarrow> duration" where
  "reconnectDelayWithJitter scaled lo hi jitter =
     (let base = \<lfloor>if scaled > of_int hi then of_int hi else scaled\<rfloor>
      in if hi \<le> lo then base
         else (let result = base + jitter in if result > hi then hi else result))"

subsection \<open>The database\<close>

record database_config =
  dc_dsn :: string
  dc_ping_interval :: duration
  dc_max_retry :: int
  dc_factor :: rat
  dc_min_jitter :: duration
  dc_max_jitter :: duration
  dc_max_idle :: int
  dc_max_active :: int
  dc_lifetime :: duration

text \<open>The settings in force.\<close>

definition millisecond :: duration where
  "millisecond = 1000000"

definition database_settings :: "database_config \<Rightarrow> database_config" where
  "database_settings c =
     (let lo = (if dc_min_jitter c \<le> 0 then 100 * millisecond else dc_min_jitter c);
          hi = (if dc_max_jitter c \<le> 0 then 1 * second else dc_max_jitter c)
      in c\<lparr>dc_ping_interval := (if dc_ping_interval c \<le> 0 then 5 * second else dc_ping_interval c),
           dc_max_retry := (if dc_max_retry c < 0 then 0 else dc_max_retry c),
           dc_factor := (if dc_factor c < 1 then 2 else dc_factor c),
           dc_min_jitter := lo, dc_max_jitter := (if hi < lo then lo else hi),
           dc_max_idle := (if dc_max_idle c \<le> 0 then 10 else dc_max_idle c),
           dc_max_active := (if dc_max_active c \<le> 0 then 100 else dc_max_active c),
           dc_lifetime := (if dc_lifetime c \<le> 0 then 60 * minute else dc_lifetime c)\<rparr>)"

datatype connect_result = Connected | NoDSN | Cancelled | GaveUp

text \<open>
  One attempt: whether the context is done before it, whether it connects, the scaled delay and the
  jitter after it, and whether the delay is waited out.
\<close>

record attempt_world =
  aw_ctx_done :: bool
  aw_connects :: bool
  aw_scaled :: rat
  aw_jitter :: duration
  aw_awake :: bool

text \<open>The attempts that are left, \<open>0\<close> being the last one, and the delays waited.\<close>

fun connect_attempts ::
  "database_config \<Rightarrow> nat \<Rightarrow> (nat \<Rightarrow> attempt_world) \<Rightarrow> nat \<Rightarrow> connect_result \<times> duration list" where
  "connect_attempts c attempt world left =
     (let w = world attempt; d = backoffWithJitter (aw_scaled w) (dc_min_jitter c) (dc_max_jitter c) (aw_jitter w)
      in if aw_ctx_done w then (Cancelled, [])
         else if aw_connects w then (Connected, [])
         else (case left of
                 0 \<Rightarrow> (GaveUp, [])
               | Suc left \<Rightarrow>
                   if \<not> aw_awake w then (Cancelled, [d])
                   else apsnd ((#) d) (connect_attempts c (Suc attempt) world left)))"

definition NewPostgresConnection :: "database_config \<Rightarrow> (nat \<Rightarrow> attempt_world) \<Rightarrow> connect_result \<times> duration list" where
  "NewPostgresConnection c world =
     (if trim_space (dc_dsn c) = [] then (NoDSN, [])
      else (let c = database_settings c in connect_attempts c 0 world (nat (dc_max_retry c))))"

text \<open>The address in the log, without the part before the first \<open>@\<close>.\<close>

definition last_scheme :: "string \<Rightarrow> nat option" where
  "last_scheme s =
     (case filter (\<lambda>i. has_prefix (drop i s) ''://'') (rev [0..<length s]) of [] \<Rightarrow> None | i # _ \<Rightarrow> Some i)"

definition maskDSN :: "string \<Rightarrow> string" where
  "maskDSN dsn =
     (if CHR ''@'' \<notin> set dsn then dsn
      else (let start = takeWhile (\<lambda>c. c \<noteq> CHR ''@'') dsn; rest = dropWhile (\<lambda>c. c \<noteq> CHR ''@'') dsn
            in case last_scheme start of
                 None \<Rightarrow> ''***'' @ rest
               | Some i \<Rightarrow> take (i + 3) start @ ''***'' @ rest))"

subsection \<open>The message broker\<close>

record broker_config =
  bk_url :: string
  bk_max_retries :: "64 word"
  bk_factor :: rat
  bk_min_jitter :: duration
  bk_max_jitter :: duration

definition broker_settings :: "broker_config \<Rightarrow> broker_config option" where
  "broker_settings c =
     (if trim_space (bk_url c) = [] then None
      else (let lo = (if bk_min_jitter c \<le> 0 then 100 * millisecond else bk_min_jitter c);
                hi = (if bk_max_jitter c \<le> 0 then 2 * second else bk_max_jitter c)
            in Some (c\<lparr>bk_max_retries := (if bk_max_retries c = 0 then 10 else bk_max_retries c),
                 bk_factor := (if bk_factor c < 1 then 2 else bk_factor c),
                 bk_min_jitter := lo, bk_max_jitter := (if hi < lo then lo else hi)\<rparr>)))"

text \<open>\<open>int(maxRetries)\<close>: negative, which means without end, from \<open>2 ^ 63\<close> on.\<close>

definition max_reconnects :: "broker_config \<Rightarrow> int" where
  "max_reconnects c = sint (bk_max_retries c)"

subsection \<open>The cache\<close>

record redis_config =
  rc_dsn :: string
  rc_max_retry :: int
  rc_max_idle :: int
  rc_max_active :: int
  rc_lifetime :: duration

text \<open>The options that are set; the address gives the others.\<close>

record redis_options =
  rx_max_retries :: int
  rx_max_idle :: int
  rx_pool_size :: int
  rx_lifetime :: duration

definition redis_settings :: "redis_config \<Rightarrow> redis_options \<Rightarrow> redis_options" where
  "redis_settings c x =
     \<lparr>rx_max_retries = (if 0 < rc_max_retry c then rc_max_retry c else rx_max_retries x),
      rx_max_idle = (if 0 < rc_max_idle c then rc_max_idle c else rx_max_idle x),
      rx_pool_size = (if 0 < rc_max_active c then rc_max_active c else rx_pool_size x),
      rx_lifetime = (if 0 < rc_lifetime c then rc_lifetime c else rx_lifetime x)\<rparr>"

text \<open>\<open>None\<close>: no client is configured. \<open>parse\<close> is \<open>redis.ParseURL\<close>.\<close>

definition NewRedisClient :: "(string \<Rightarrow> redis_options option) \<Rightarrow> bool \<Rightarrow> redis_config \<Rightarrow> unit + redis_options option" where
  "NewRedisClient parse ping_ok c =
     (if trim_space (rc_dsn c) = [] then Inr None
      else case parse (rc_dsn c) of
        None \<Rightarrow> Inl ()
      | Some x \<Rightarrow> if ping_ok then Inr (Some (redis_settings c x)) else Inl ())"

subsection \<open>Facts\<close>

lemma backoffWithJitter_bounds:
  assumes "of_int lo \<le> scaled" "lo \<le> hi" "0 \<le> jitter"
  shows "lo \<le> backoffWithJitter scaled lo hi jitter" "backoffWithJitter scaled lo hi jitter \<le> hi"
proof -
  let ?base = "\<lfloor>if scaled > of_int hi then of_int hi else scaled\<rfloor>"
  have b: "lo \<le> ?base" "?base \<le> hi" using assms(1,2) by (auto simp: le_floor_iff floor_le_iff)
  then show "lo \<le> backoffWithJitter scaled lo hi jitter" "backoffWithJitter scaled lo hi jitter \<le> hi"
    using assms(2,3) by (auto simp: backoffWithJitter_def Let_def)
qed

lemma reconnectDelay_backoff: "reconnectDelayWithJitter = backoffWithJitter"
  by (intro ext) (simp add: reconnectDelayWithJitter_def backoffWithJitter_def)

lemma database_settings_ok:
  "0 < dc_min_jitter (database_settings c)" "dc_min_jitter (database_settings c) \<le> dc_max_jitter (database_settings c)"
  "0 \<le> dc_max_retry (database_settings c)"
  by (simp_all add: database_settings_def Let_def millisecond_def second_def)

end
