(* ===== verification/Notification.thy ===== *)
theory Notification
  imports OrderEngine JsonText
begin

text \<open>
  The notification service (\<open>internal/service/notification/notification.service.go\<close>): the message an
  order leaves on the stream, and the alert that is posted to the webhook for it. The HTTP client answers
  with a status, or with nothing when the request fails.
\<close>

subsection \<open>The message\<close>

text \<open>The struct tags of \<open>OrderNotification\<close>; a member with \<open>omitempty\<close> is left out when it is empty.\<close>

definition notification_tags :: "string list" where
  "notification_tags =
     [''request_id'', ''entry_order_id'', ''exchange'', ''market_type'', ''strategy_id'', ''strategy_name'', ''symbol'',
      ''interval'', ''side'', ''price'', ''entry_price'', ''exit_price'', ''pnl_percentage'', ''trade_condition'',
      ''order_reason'', ''exit_type'']"

definition omitempty :: "string \<Rightarrow> string \<Rightarrow> (string \<times> json) list" where
  "omitempty k v = (if v = [] then [] else [(k, JStr v)])"

definition notification_members :: "order_notification \<Rightarrow> (string \<times> json) list" where
  "notification_members n =
     [(''request_id'', JStr (on_request_id n)), (''entry_order_id'', JStr (on_entry_order_id n)),
      (''exchange'', JStr (on_exchange n)), (''market_type'', JStr (on_market_type n))]
     @ omitempty ''strategy_id'' (on_strategy_id n) @ omitempty ''strategy_name'' (on_strategy_name n)
     @ [(''symbol'', JStr (on_symbol n))] @ omitempty ''interval'' (on_interval n)
     @ [(''side'', JStr (on_side n)), (''price'', JStr (on_price n))]
     @ omitempty ''entry_price'' (on_entry_price n) @ omitempty ''exit_price'' (on_exit_price n)
     @ omitempty ''pnl_percentage'' (on_pnl_percentage n)
     @ [(''trade_condition'', JStr (on_trade_condition n))]
     @ omitempty ''order_reason'' (on_order_reason n) @ omitempty ''exit_type'' (on_exit_type n)"

definition notification_message :: "order_notification \<Rightarrow> string" where
  "notification_message n = write_json (JObj [(''data'', JObj (notification_members n))])"

definition notification_of :: "(string \<times> json) list \<Rightarrow> order_notification option" where
  "notification_of ms = do {
     let f = fstr notification_tags ms;
     a \<leftarrow> f ''request_id''; b \<leftarrow> f ''entry_order_id''; c \<leftarrow> f ''exchange''; d \<leftarrow> f ''market_type'';
     e \<leftarrow> f ''strategy_id''; g \<leftarrow> f ''strategy_name''; h \<leftarrow> f ''symbol''; i \<leftarrow> f ''interval''; j \<leftarrow> f ''side'';
     k \<leftarrow> f ''price''; l \<leftarrow> f ''entry_price''; m \<leftarrow> f ''exit_price''; n \<leftarrow> f ''pnl_percentage'';
     q \<leftarrow> f ''trade_condition''; r \<leftarrow> f ''order_reason''; s \<leftarrow> f ''exit_type'';
     Some \<lparr>on_request_id = a, on_entry_order_id = b, on_exchange = c, on_market_type = d, on_strategy_id = e,
       on_strategy_name = g, on_symbol = h, on_interval = i, on_side = j, on_price = k, on_entry_price = l,
       on_exit_price = m, on_pnl_percentage = n, on_trade_condition = q, on_order_reason = r, on_exit_type = s\<rparr>
   }"

definition decode_notification :: "string \<Rightarrow> order_notification option" where
  "decode_notification body =
     (case parse_json body of
        Some JNull \<Rightarrow> notification_of []
      | Some (JObj ms) \<Rightarrow> Option.bind (fobj [''data''] ms ''data'') notification_of
      | _ \<Rightarrow> None)"

subsection \<open>The alert\<close>

definition fallback :: "string \<Rightarrow> string \<Rightarrow> string" where
  "fallback primary secondary = (if trim_space primary \<noteq> [] then trim_space primary else trim_space secondary)"

definition alert_side :: "order_notification \<Rightarrow> string" where
  "alert_side n = (let side = to_upper (trim_space (on_side n)) in if side = [] then ''-'' else side)"

definition embed_color :: "string \<Rightarrow> string" where
  "embed_color side =
     (if side = ''BUY'' \<or> side = ''LONG'' then ''5763719''
      else if side = ''SELL'' \<or> side = ''SHORT'' then ''15548997'' else ''3447003'')"

text \<open>\<open>json.Marshal\<close> writes the members of a map in the order of their names.\<close>

definition embed_field :: "bool \<Rightarrow> string \<Rightarrow> string \<Rightarrow> json" where
  "embed_field inline name v = JObj [(''inline'', JBool inline), (''name'', JStr name), (''value'', JStr v)]"

definition discord_body :: "string \<Rightarrow> order_notification \<Rightarrow> string" where
  "discord_body timestamp n =
     (let side = alert_side n; strategy = fallback (on_strategy_name n) (on_strategy_id n)
      in write_json (JObj [(''embeds'', JArr [JObj
           [(''color'', JNum (embed_color side)),
            (''description'', JStr (''['' @ fallback (on_symbol n) ''-'' @ ''] '' @ side @ '' @''
               @ fallback (on_price n) ''-'')),
            (''fields'', JArr
              [embed_field True ''Strategy'' strategy, embed_field True ''Symbol'' (fallback (on_symbol n) ''-''),
               embed_field True ''Interval'' (fallback (on_interval n) ''-''), embed_field True ''Side'' side,
               embed_field True ''Entry Price'' (fallback (on_entry_price n) ''-''),
               embed_field True ''Exit Price'' (fallback (on_exit_price n) ''-''),
               embed_field True ''PnL %'' (fallback (on_pnl_percentage n) ''-''),
               embed_field False ''Reason'' (fallback (on_order_reason n) ''-''),
               embed_field True ''Exit Type'' (fallback (on_exit_type n) ''-''),
               embed_field True ''Condition'' (fallback (on_trade_condition n) ''-'')]),
            (''timestamp'', JStr timestamp),
            (''title'', JStr (''['' @ strategy @ ''] New Order''))]])]))"

datatype alert_error = WebhookMissing | AlertUndecodable | AlertNotSent | AlertRefused nat

record alert_world =
  al_now :: string                \<comment> \<open>the clock in RFC 3339\<close>
  al_url_ok :: bool               \<comment> \<open>whether \<open>NewRequest\<close> takes the address\<close>
  al_reply :: "nat option"

definition sendDiscordAlert ::
  "string \<Rightarrow> alert_world \<Rightarrow> order_notification \<Rightarrow> (string \<times> string) list \<Rightarrow> alert_error option \<times> (string \<times> string) list" where
  "sendDiscordAlert webhook w n posts =
     (if \<not> al_url_ok w then (Some AlertNotSent, posts)
      else (let posts = posts @ [(webhook, discord_body (al_now w) n)]
            in case al_reply w of
                 None \<Rightarrow> (Some AlertNotSent, posts)
               | Some status \<Rightarrow> (if status < 200 \<or> 300 \<le> status then Some (AlertRefused status) else None, posts)))"

definition handleOrderNotificationEvent ::
  "string \<Rightarrow> string \<Rightarrow> alert_world \<Rightarrow> (string \<times> string) list \<Rightarrow> alert_error outcome \<times> (string \<times> string) list" where
  "handleOrderNotificationEvent webhook body w posts =
     (if trim_space webhook = [] then (Returned (Some WebhookMissing), posts)
      else case decode_notification body of
        None \<Rightarrow> (Returned (Some AlertUndecodable), posts)
      | Some n \<Rightarrow> (case sendDiscordAlert webhook w n posts of (e, posts) \<Rightarrow> (Returned e, posts)))"

subsection \<open>Facts\<close>

lemma members_append: "members tags t (ms @ ms') = members tags t ms @ members tags t ms'"
  by (simp add: members_def)

lemma own_tag: "k \<in> set tags \<Longrightarrow> match_tag tags k = Some k"
  by (simp add: match_tag_def)

lemma members_own:
  assumes "k \<in> set tags"
  shows "members tags t ((k, v) # ms) = (if k = t then [v] else []) @ members tags t ms"
    "members tags t (omitempty k s) = (if k = t \<and> s \<noteq> [] then [JStr s] else [])"
  using own_tag [OF assms] by (auto simp: members_def omitempty_def)

lemma notification_members_tags:
  "members notification_tags ''request_id'' (notification_members n) = [JStr (on_request_id n)]"
  "members notification_tags ''entry_order_id'' (notification_members n) = [JStr (on_entry_order_id n)]"
  "members notification_tags ''exchange'' (notification_members n) = [JStr (on_exchange n)]"
  "members notification_tags ''market_type'' (notification_members n) = [JStr (on_market_type n)]"
  "members notification_tags ''strategy_id'' (notification_members n) = (if on_strategy_id n = [] then [] else [JStr (on_strategy_id n)])"
  "members notification_tags ''strategy_name'' (notification_members n) = (if on_strategy_name n = [] then [] else [JStr (on_strategy_name n)])"
  "members notification_tags ''symbol'' (notification_members n) = [JStr (on_symbol n)]"
  "members notification_tags ''interval'' (notification_members n) = (if on_interval n = [] then [] else [JStr (on_interval n)])"
  "members notification_tags ''side'' (notification_members n) = [JStr (on_side n)]"
  "members notification_tags ''price'' (notification_members n) = [JStr (on_price n)]"
  "members notification_tags ''entry_price'' (notification_members n) = (if on_entry_price n = [] then [] else [JStr (on_entry_price n)])"
  "members notification_tags ''exit_price'' (notification_members n) = (if on_exit_price n = [] then [] else [JStr (on_exit_price n)])"
  "members notification_tags ''pnl_percentage'' (notification_members n) = (if on_pnl_percentage n = [] then [] else [JStr (on_pnl_percentage n)])"
  "members notification_tags ''trade_condition'' (notification_members n) = [JStr (on_trade_condition n)]"
  "members notification_tags ''order_reason'' (notification_members n) = (if on_order_reason n = [] then [] else [JStr (on_order_reason n)])"
  "members notification_tags ''exit_type'' (notification_members n) = (if on_exit_type n = [] then [] else [JStr (on_exit_type n)])"
  by (simp_all add: notification_members_def members_append members_own notification_tags_def del: members_Cons)

lemma notification_of_members: "notification_of (notification_members n) = Some n"
  unfolding notification_of_def field_def Let_def notification_members_tags by simp

lemma json_valid_members: "json_valid (JObj (notification_members n))"
  by (auto simp: notification_members_def omitempty_def)

text \<open>What the stream carries is what was published.\<close>

lemma decode_notification_message: "decode_notification (notification_message n) = Some n"
proof -
  have "parse_json (notification_message n) = Some (JObj [(''data'', JObj (notification_members n))])"
    unfolding notification_message_def using json_valid_members by (intro parse_json_write) simp
  then show ?thesis
    by (simp add: decode_notification_def fobj_def own_tag notification_of_members)
qed

end
