(* ===== verification/ServerProps.thy ===== *)
theory ServerProps
  imports HttpServer Infrastructure Notification ApiHttp EngineProps
begin

text \<open>
  The properties of the server around the handlers, of the connections and of the alerts.
\<close>

subsection \<open>Every request is answered\<close>

lemma set_header_sel [simp]:
  "rw_sent (set_header k v w) = rw_sent w" "rw_codes (set_header k v w) = rw_codes w" "rw_body (set_header k v w) = rw_body w"
  "rw_access (set_header k v w) = rw_access w" "rw_panics (set_header k v w) = rw_panics w"
  "rw_world (set_header k v w) = rw_world w"
  "(x, y) \<in> set (rw_header (set_header k v w)) \<longleftrightarrow> (if x = k then y = v else (x, y) \<in> set (rw_header w))"
  by (auto simp: set_header_def)

lemma fold_set_header_sel [simp]:
  "rw_sent (fold (\<lambda>(k, v). set_header k v) kvs w) = rw_sent w" "rw_codes (fold (\<lambda>(k, v). set_header k v) kvs w) = rw_codes w"
  "rw_body (fold (\<lambda>(k, v). set_header k v) kvs w) = rw_body w" "rw_access (fold (\<lambda>(k, v). set_header k v) kvs w) = rw_access w"
  "rw_panics (fold (\<lambda>(k, v). set_header k v) kvs w) = rw_panics w" "rw_world (fold (\<lambda>(k, v). set_header k v) kvs w) = rw_world w"
  by (induction kvs arbitrary: w) auto


lemma write_header_sel [simp]:
  "rw_header (write_header c w) = rw_header w" "rw_access (write_header c w) = rw_access w"
  "rw_panics (write_header c w) = rw_panics w" "rw_world (write_header c w) = rw_world w"
  "rw_sent (write_header c w) = Some (case rw_sent w of None \<Rightarrow> (c, rw_header w) | Some x \<Rightarrow> x)"
  "rw_codes (write_header c w) = rw_codes w @ [c]" "rw_body (write_header c w) = rw_body w"
  by (simp_all add: write_header_def split: option.splits)

lemma write_body_sel [simp]:
  "rw_header (write_body s w) = rw_header w" "rw_access (write_body s w) = rw_access w"
  "rw_panics (write_body s w) = rw_panics w" "rw_world (write_body s w) = rw_world w"
  "rw_sent (write_body s w) = Some (case rw_sent w of None \<Rightarrow> (200, rw_header w) | Some x \<Rightarrow> x)"
  "rw_body (write_body s w) = rw_body w @ s"
  by (simp_all add: write_body_def split: option.splits)




lemma served_eq:
  "served new_id (Some h) r w =
     httpRequestIDMiddleware new_id (httpRecoveryMiddleware (httpSecurityHeadersMiddleware
       (httpCORSMiddleware (httpAccessLogMiddleware h)))) r w"
  by (simp add: served_def chainHTTPMiddleware_def)

text \<open>The writer as the handler gets it.\<close>

definition dressed :: "string \<Rightarrow> web_request \<Rightarrow> 'w serving \<Rightarrow> 'w serving" where
  "dressed new_id r w =
     (let given = trim_space (wq_header r ''X-Request-Id'');
          w = set_header ''Referrer-Policy'' ''no-referrer'' (set_header ''X-Frame-Options'' ''DENY''
            (set_header ''X-Content-Type-Options'' ''nosniff''
              (set_header ''X-Request-Id'' (if given = [] then new_id else given) w)))
      in if trim_space (wq_header r ''Origin'') \<noteq> [] then fold (\<lambda>(k, v). set_header k v) cors_headers w else w)"



lemma served_cases:
  "served new_id (Some h) r w =
     (if preflight r then (True, write_header 204 (dressed new_id r w))
      else case h r (dressed new_id r w) of
        (True, w') \<Rightarrow> httpAccessLogMiddleware (\<lambda>_ _. (True, w')) r (dressed new_id r w)
      | (False, w') \<Rightarrow> (True, write_body ''internal server error'' (write_header 500 (w'\<lparr>rw_panics := Suc (rw_panics w')\<rparr>))))"
  by (auto simp: served_eq httpRequestIDMiddleware_def httpRecoveryMiddleware_def httpSecurityHeadersMiddleware_def
      httpCORSMiddleware_def httpAccessLogMiddleware_def dressed_def Let_def split: prod.splits bool.splits)





text \<open>A request whose handler panics leaves no entry in the access log.\<close>

lemma panic_not_logged:
  assumes "h r (dressed new_id r w) = (False, w')" "\<not> preflight r"
  shows "rw_access (snd (served new_id (Some h) r w)) = rw_access w'"
  using assms by (simp add: served_cases)

subsection \<open>Waiting for a backfill\<close>

text \<open>
  The time a request may wait for a backfill is at most thirty seconds, but the server that answers it
  ends every response after fifteen: whoever waits longer gets none.
\<close>

theorem wait_outlives_write_timeout:
  assumes "parse_int64 (trim_space (hi_query r ''wait'')) = Some seconds"
  shows "parseWaitDuration r \<le> 30 * second
    \<and> (hs_write_timeout (server_settings (api_server_config port t)) < parseWaitDuration r \<longleftrightarrow> 15 < seconds)"
proof -
  have "trim_space (hi_query r ''wait'') \<noteq> []" using assms by (auto simp: parse_int64_def parse_nat_def)
  then show ?thesis
    using assms by (auto simp: parseWaitDuration_def server_settings_def api_server_config_def positive_or_def second_def)
qed

theorem wait_outlives_write_timeout_witness:
  "hs_write_timeout (server_settings (api_server_config ''9800'' 0))
     < parseWaitDuration (\<lparr>hi_method = ''GET'', hi_path = [], hi_authorization = [], hi_body = [], hi_query = (\<lambda>_. ''20'')\<rparr>)"
proof -
  have "parse_int64 (trim_space ''20'') = Some 20" by code_simp
  then show ?thesis
    using wait_outlives_write_timeout [of "\<lparr>hi_method = ''GET'', hi_path = [], hi_authorization = [], hi_body = [], hi_query = (\<lambda>_. ''20'')\<rparr>" 20]
    by simp
qed

subsection \<open>Connections\<close>

lemma connect_attempts_bounds:
  assumes "\<And>k. of_int (dc_min_jitter c) \<le> aw_scaled (world k) \<and> 0 \<le> aw_jitter (world k)"
    and "dc_min_jitter c \<le> dc_max_jitter c" "connect_attempts c attempt world left = (res, delays)"
  shows "length delays \<le> left" "\<forall>d\<in>set delays. dc_min_jitter c \<le> d \<and> d \<le> dc_max_jitter c"
    "res = GaveUp \<longrightarrow> length delays = left \<and> (\<forall>k\<le>left. \<not> aw_connects (world (attempt + k)))"
    "res = Connected \<longrightarrow> aw_connects (world (attempt + length delays))" "res \<noteq> NoDSN"
proof -
  have "length delays \<le> left \<and> (\<forall>d\<in>set delays. dc_min_jitter c \<le> d \<and> d \<le> dc_max_jitter c)
    \<and> (res = GaveUp \<longrightarrow> length delays = left \<and> (\<forall>k\<le>left. \<not> aw_connects (world (attempt + k))))
    \<and> (res = Connected \<longrightarrow> aw_connects (world (attempt + length delays))) \<and> res \<noteq> NoDSN"
    using assms(3)
  proof (induction left arbitrary: attempt delays)
    case 0
    then show ?case by (auto simp: Let_def split: if_splits)
  next
    case (Suc left)
    let ?w = "world attempt"
    let ?d = "backoffWithJitter (aw_scaled ?w) (dc_min_jitter c) (dc_max_jitter c) (aw_jitter ?w)"
    have d: "dc_min_jitter c \<le> ?d" "?d \<le> dc_max_jitter c"
      using backoffWithJitter_bounds [OF _ assms(2)] assms(1) by blast+
    consider "aw_ctx_done ?w" | "\<not> aw_ctx_done ?w" "aw_connects ?w"
      | "\<not> aw_ctx_done ?w" "\<not> aw_connects ?w" "\<not> aw_awake ?w"
      | "\<not> aw_ctx_done ?w" "\<not> aw_connects ?w" "aw_awake ?w" by blast
    then show ?case
    proof cases
      case 4
      obtain r ds where ds: "connect_attempts c (Suc attempt) world left = (r, ds)" by fastforce
      then have "res = r" "delays = ?d # ds" using Suc.prems 4 by (auto simp: Let_def)
      moreover note Suc.IH [OF ds [folded \<open>res = r\<close>]]
      moreover have "(\<forall>k\<le>Suc left. \<not> aw_connects (world (attempt + k)))"
        if "\<forall>k\<le>left. \<not> aw_connects (world (Suc attempt + k))"
      proof (intro allI impI)
        fix k assume "k \<le> Suc left"
        then show "\<not> aw_connects (world (attempt + k))" using that 4 by (cases k) auto
      qed
      ultimately show ?thesis using d by auto
    qed (use Suc.prems d in \<open>auto simp: Let_def\<close>)
  qed
  then show "length delays \<le> left" "\<forall>d\<in>set delays. dc_min_jitter c \<le> d \<and> d \<le> dc_max_jitter c"
    "res = GaveUp \<longrightarrow> length delays = left \<and> (\<forall>k\<le>left. \<not> aw_connects (world (attempt + k)))"
    "res = Connected \<longrightarrow> aw_connects (world (attempt + length delays))" "res \<noteq> NoDSN" by blast+
qed

text \<open>
  Connecting to the database ends after at most one attempt more than the retries allowed, whatever
  the settings are; the delays stay between the smallest and the largest one in force, it gives up only
  when every attempt has failed, and it returns a connection only when one has succeeded.
\<close>

theorem connection_attempts_bounded:
  assumes "NewPostgresConnection c world = (res, delays)" "trim_space (dc_dsn c) \<noteq> []"
    and "\<And>k. of_int (dc_min_jitter (database_settings c)) \<le> aw_scaled (world k) \<and> 0 \<le> aw_jitter (world k)"
  shows "int (length delays) \<le> max 0 (dc_max_retry c)
    \<and> (\<forall>d\<in>set delays. 0 < d \<and> dc_min_jitter (database_settings c) \<le> d \<and> d \<le> dc_max_jitter (database_settings c))
    \<and> (res = GaveUp \<longrightarrow> (\<forall>k\<le>nat (dc_max_retry c). \<not> aw_connects (world k)))
    \<and> (res = Connected \<longrightarrow> aw_connects (world (length delays)))"
proof -
  have run: "connect_attempts (database_settings c) 0 world (nat (dc_max_retry (database_settings c))) = (res, delays)"
    using assms(1,2) by (simp add: NewPostgresConnection_def Let_def)
  have retry: "nat (dc_max_retry (database_settings c)) = nat (dc_max_retry c)"
    by (simp add: database_settings_def Let_def)
  note B = connect_attempts_bounds [OF assms(3) database_settings_ok(2) run, unfolded retry]
  have "0 < d" if "dc_min_jitter (database_settings c) \<le> d" for d
    using that database_settings_ok(1) [of c] by linarith
  then show ?thesis using B by auto
qed

definition demo_database :: database_config where
  "demo_database = \<lparr>dc_dsn = ''x'', dc_ping_interval = 0, dc_max_retry = 2, dc_factor = 2, dc_min_jitter = 1,
     dc_max_jitter = 5, dc_max_idle = 0, dc_max_active = 0, dc_lifetime = 0\<rparr>"

definition demo_attempt :: attempt_world where
  "demo_attempt = \<lparr>aw_ctx_done = False, aw_connects = False, aw_scaled = 3, aw_jitter = 1, aw_awake = True\<rparr>"

theorem connection_attempts_bounded_witness:
  "int (length (snd (NewPostgresConnection demo_database (\<lambda>_. demo_attempt)))) \<le> 2"
proof -
  have "trim_space (dc_dsn demo_database) \<noteq> []" by code_simp
  moreover have "of_int (dc_min_jitter (database_settings demo_database)) \<le> aw_scaled demo_attempt \<and> 0 \<le> aw_jitter demo_attempt"
    by (simp add: demo_attempt_def database_settings_def demo_database_def Let_def)
  ultimately show ?thesis
    using connection_attempts_bounded [of demo_database "\<lambda>_. demo_attempt"
        "fst (NewPostgresConnection demo_database (\<lambda>_. demo_attempt))" "snd (NewPostgresConnection demo_database (\<lambda>_. demo_attempt))"]
    by (simp add: demo_database_def)
qed

text \<open>
  The address a log shows is not always without its password: one that contains an \<open>@\<close> keeps its tail,
  and an address in key-value form is shown as it is.
\<close>

lemma maskDSN_shows_password:
  "maskDSN ''postgres://u:p@ss@h/d'' = ''postgres://***@ss@h/d''"
  "maskDSN ''host=h password=p'' = ''host=h password=p''"
  by code_simp+

subsection \<open>Alerts\<close>

text \<open>
  C40: the alert for an order is the order's: what the notification service reads from the message that was
  published for it is the notification itself, and it posts it once, to its webhook; the delivery
  succeeds exactly if the webhook answers with a status of success.
\<close>

theorem notification_reaches_webhook:
  assumes "trim_space webhook \<noteq> []" "al_url_ok w" "al_reply w = Some status"
  shows "decode_notification (notification_message n) = Some n
    \<and> handleOrderNotificationEvent webhook (notification_message n) w sent =
      (Returned (if 200 \<le> status \<and> status < 300 then None else Some (AlertRefused status)),
       sent @ [(webhook, discord_body (al_now w) n)])"
  using assms by (simp add: handleOrderNotificationEvent_def decode_notification_message sendDiscordAlert_def)

theorem notification_reaches_webhook_witness:
  "handleOrderNotificationEvent ''http'' (notification_message (order_notification_of ref_decimal demo_prepared demo_history))
      \<lparr>al_now = ''now'', al_url_ok = True, al_reply = Some 204\<rparr> [] =
    (Returned None, [(''http'', discord_body ''now'' (order_notification_of ref_decimal demo_prepared demo_history))])"
proof -
  have "trim_space ''http'' \<noteq> []" by code_simp
  then show ?thesis
    using notification_reaches_webhook [of "''http''" "\<lparr>al_now = ''now'', al_url_ok = True, al_reply = Some 204\<rparr>" 204
        "order_notification_of ref_decimal demo_prepared demo_history" "[]"] by simp
qed

end
