(* ===== verification/EventStreams.thy ===== *)
theory EventStreams
  imports OrderEngine ExchangeCommon Token
begin

text \<open>
  The streams and consumers of the message broker: \<open>JetstreamEventInit\<close> and \<open>JetstreamEventSubscribe\<close> of the order
  engine, the notification service and the exchanges, \<open>ensureStream\<close>, \<open>ensureKlineStream\<close>,
  \<open>subscribeKlineInsertEvents\<close>, \<open>Subscribe\<close> of the price references, and the names of
  \<open>internal/constant/kline.go\<close>. The broker is a library and a server: its requests are the fields of \<open>broker_api\<close>, over
  any type of its states, and what their documentation promises is the locale \<open>stream_broker\<close>, which extends
  \<open>subject_matching\<close>, the rules of subject patterns. Every request may be refused.
\<close>

subsection \<open>The broker\<close>

datatype retention = LimitsPolicy | WorkQueuePolicy

record stream_config =
  st_name :: string
  st_subjects :: "string list"
  st_retention :: retention
  st_max_age :: duration
  st_replicas :: nat      \<comment> \<open>\<open>0\<close>: not set\<close>

datatype consumer_handler = PlaceOrders | SendAlerts | InsertCandles string | UpdatePrices

record durable =
  cu_name :: string
  cu_queue :: string
  cu_filter :: string
  cu_new_only :: bool
  cu_timeout :: duration
  cu_handler :: consumer_handler

text \<open>
  A request that is answered, as a function of the broker; \<open>ba_kept\<close> is a configuration as the broker keeps
  it, with its defaults for what is not set.
\<close>

record 'b broker_api =
  ba_stream :: "'b \<Rightarrow> string \<rightharpoonup> stream_config"       \<comment> \<open>\<open>StreamInfo\<close>\<close>
  ba_add :: "stream_config \<Rightarrow> 'b \<Rightarrow> 'b"             \<comment> \<open>\<open>AddStream\<close>\<close>
  ba_update :: "stream_config \<Rightarrow> 'b \<Rightarrow> 'b"          \<comment> \<open>\<open>UpdateStream\<close>\<close>
  ba_subscribe :: "durable \<Rightarrow> 'b \<Rightarrow> 'b"             \<comment> \<open>\<open>QueueSubscribe\<close>\<close>
  ba_subscriptions :: "'b \<Rightarrow> durable list"
  ba_kept :: "stream_config \<Rightarrow> stream_config"
  ba_matches :: "string \<Rightarrow> string \<Rightarrow> bool"

text \<open>A request with its answer: a refused one is an error and leaves the broker.\<close>

definition request :: "bool \<Rightarrow> ('b \<Rightarrow> 'b) \<Rightarrow> 'b \<Rightarrow> bool \<times> 'b" where
  "request answered f b = (if answered then (True, f b) else (False, b))"

subsection \<open>Streams\<close>

text \<open>Whether the two requests are answered; a stream that is not found is no error.\<close>

definition ensureStream :: "'b broker_api \<Rightarrow> bool \<Rightarrow> bool \<Rightarrow> stream_config \<Rightarrow> 'b \<Rightarrow> bool \<times> 'b" where
  "ensureStream J info_ok write_ok c b =
     (if \<not> info_ok then (False, b)
      else case ba_stream J b (st_name c) of
        None \<Rightarrow> request write_ok (ba_add J c) b
      | Some _ \<Rightarrow> request write_ok (ba_update J c) b)"

definition hour :: duration where
  "hour = 60 * minute"

definition order_engine_stream :: stream_config where
  "order_engine_stream =
     \<lparr>st_name = ''order_engine'', st_subjects = [''order_engine.*''], st_retention = WorkQueuePolicy,
      st_max_age = 24 * hour, st_replicas = 0\<rparr>"

definition strategy_control_stream :: stream_config where
  "strategy_control_stream =
     \<lparr>st_name = ''strategy_control'', st_subjects = [''strategy_control.position_closed''],
      st_retention = LimitsPolicy, st_max_age = 7 * 24 * hour, st_replicas = 0\<rparr>"

definition kline_stream_config :: stream_config where
  "kline_stream_config =
     \<lparr>st_name = ''KLINE'', st_subjects = [''KLINE.>''], st_retention = LimitsPolicy, st_max_age = 5 * minute,
      st_replicas = 1\<rparr>"

text \<open>The \<open>n\<close>-th request of a service is answered or not.\<close>

type_synonym answers = "nat \<Rightarrow> bool"

definition engine_JetstreamEventInit :: "'b broker_api \<Rightarrow> answers \<Rightarrow> 'b \<Rightarrow> bool \<times> 'b" where
  "engine_JetstreamEventInit J a b =
     (case ensureStream J (a 0) (a 1) order_engine_stream b of
        (False, b) \<Rightarrow> (False, b)
      | (True, b) \<Rightarrow> ensureStream J (a 2) (a 3) strategy_control_stream b)"

text \<open>The notification service declares the stream of the order engine once more.\<close>

definition alert_stream :: stream_config where
  "alert_stream =
     \<lparr>st_name = ''order_engine'', st_subjects = [''order_engine.*''], st_retention = WorkQueuePolicy,
      st_max_age = 24 * hour, st_replicas = 0\<rparr>"

definition alert_JetstreamEventInit :: "'b broker_api \<Rightarrow> answers \<Rightarrow> 'b \<Rightarrow> bool \<times> 'b" where
  "alert_JetstreamEventInit J a b =
     (if \<not> a 0 then (False, b)
      else case ba_stream J b (st_name alert_stream) of
        None \<Rightarrow> request (a 1) (ba_add J alert_stream) b
      | Some _ \<Rightarrow> request (a 1) (ba_update J alert_stream) b)"

definition ensureKlineStream :: "'b broker_api \<Rightarrow> answers \<Rightarrow> 'b \<Rightarrow> bool \<times> 'b" where
  "ensureKlineStream J a b =
     (if \<not> a 0 then (False, b)
      else case ba_stream J b (st_name kline_stream_config) of
        None \<Rightarrow> request (a 1) (ba_add J kline_stream_config) b
      | Some _ \<Rightarrow> request (a 1) (ba_update J kline_stream_config) b)"

text \<open>\<open>kline.service.go\<close> has the same body and no caller.\<close>

definition kline_JetstreamEventInit :: "'b broker_api \<Rightarrow> answers \<Rightarrow> 'b \<Rightarrow> bool \<times> 'b" where
  "kline_JetstreamEventInit J a b =
     (if \<not> a 0 then (False, b)
      else case ba_stream J b ''KLINE'' of
        None \<Rightarrow> request (a 1) (ba_add J kline_stream_config) b
      | Some _ \<Rightarrow> request (a 1) (ba_update J kline_stream_config) b)"

subsection \<open>Subjects and consumers\<close>

definition GetKlineExchangeStreamSubject :: "string \<Rightarrow> string" where
  "GetKlineExchangeStreamSubject exchange = to_upper (''KLINE.'' @ exchange @ ''.>'')"

definition GetKlineInsertQueueGroup :: "string \<Rightarrow> string" where
  "GetKlineInsertQueueGroup exchange = to_upper (''KLINE_INSERT_'' @ exchange)"

text \<open>The configured time for a handler, \<open>0\<close> when there is none.\<close>

definition handler_timeout :: "(string \<rightharpoonup> duration) \<Rightarrow> string \<Rightarrow> duration" where
  "handler_timeout T name = (case T name of None \<Rightarrow> 0 | Some d \<Rightarrow> d)"

definition engine_consumer :: "(string \<rightharpoonup> duration) \<Rightarrow> durable" where
  "engine_consumer T =
     \<lparr>cu_name = ''order_engine_group'', cu_queue = ''order_engine_queue'', cu_filter = ''order_engine.place_order'',
      cu_new_only = False, cu_timeout = handler_timeout T ''place_order'', cu_handler = PlaceOrders\<rparr>"

definition alert_consumer :: "(string \<rightharpoonup> duration) \<Rightarrow> durable" where
  "alert_consumer T =
     (let timeout = handler_timeout T ''notification_alert''
      in \<lparr>cu_name = ''notification_group'', cu_queue = ''notification_queue'',
          cu_filter = ''order_engine.notification_alert'', cu_new_only = False,
          cu_timeout = (if timeout \<le> 0 then 5 * second else timeout), cu_handler = SendAlerts\<rparr>)"

definition candle_consumer :: "(string \<rightharpoonup> duration) \<Rightarrow> string \<Rightarrow> durable" where
  "candle_consumer T exchange =
     \<lparr>cu_name = GetKlineInsertQueueGroup exchange, cu_queue = GetKlineInsertQueueGroup exchange,
      cu_filter = GetKlineExchangeStreamSubject exchange, cu_new_only = True,
      cu_timeout = handler_timeout T ''insert_kline'', cu_handler = InsertCandles exchange\<rparr>"

definition price_consumer :: "(string \<rightharpoonup> duration) \<Rightarrow> durable" where
  "price_consumer T =
     \<lparr>cu_name = ''PRICE_REFERENCE'', cu_queue = ''PRICE_REFERENCE'', cu_filter = ''KLINE.>'', cu_new_only = True,
      cu_timeout = handler_timeout T ''insert_kline'', cu_handler = UpdatePrices\<rparr>"

text \<open>The order engine and the exchanges end their process when a subscription is refused.\<close>

datatype start_result = Started | StartError | Fatal

definition engine_JetstreamEventSubscribe :: "'b broker_api \<Rightarrow> (string \<rightharpoonup> duration) \<Rightarrow> answers \<Rightarrow> 'b \<Rightarrow> start_result \<times> 'b" where
  "engine_JetstreamEventSubscribe J T a b =
     (case engine_JetstreamEventInit J a b of
        (False, b) \<Rightarrow> (StartError, b)
      | (True, b) \<Rightarrow> (case request (a 4) (ba_subscribe J (engine_consumer T)) b of
           (False, b) \<Rightarrow> (Fatal, b) | (True, b) \<Rightarrow> (Started, b)))"

definition alert_JetstreamEventSubscribe :: "'b broker_api \<Rightarrow> (string \<rightharpoonup> duration) \<Rightarrow> answers \<Rightarrow> 'b \<Rightarrow> start_result \<times> 'b" where
  "alert_JetstreamEventSubscribe J T a b =
     (case alert_JetstreamEventInit J a b of
        (False, b) \<Rightarrow> (StartError, b)
      | (True, b) \<Rightarrow> (case request (a 2) (ba_subscribe J (alert_consumer T)) b of
           (False, b) \<Rightarrow> (StartError, b) | (True, b) \<Rightarrow> (Started, b)))"

definition subscribeKlineInsertEvents :: "'b broker_api \<Rightarrow> (string \<rightharpoonup> duration) \<Rightarrow> answers \<Rightarrow> string \<Rightarrow> 'b \<Rightarrow> start_result \<times> 'b" where
  "subscribeKlineInsertEvents J T a exchange b =
     (case ensureKlineStream J a b of
        (False, b) \<Rightarrow> (StartError, b)
      | (True, b) \<Rightarrow> (case request (a 2) (ba_subscribe J (candle_consumer T exchange)) b of
           (False, b) \<Rightarrow> (Fatal, b) | (True, b) \<Rightarrow> (Started, b)))"

definition price_Subscribe :: "'b broker_api \<Rightarrow> (string \<rightharpoonup> duration) \<Rightarrow> answers \<Rightarrow> 'b \<Rightarrow> start_result \<times> 'b" where
  "price_Subscribe J T a b =
     (case request (a 0) (ba_subscribe J (price_consumer T)) b of
        (False, b) \<Rightarrow> (StartError, b) | (True, b) \<Rightarrow> (Started, b))"

subsection \<open>The services together\<close>

datatype service = EngineService | AlertService | BinanceService | TokocryptoService | PriceService

fun start_service :: "'b broker_api \<Rightarrow> (string \<rightharpoonup> duration) \<Rightarrow> answers \<Rightarrow> service \<Rightarrow> 'b \<Rightarrow> start_result \<times> 'b" where
  "start_service J T a EngineService b = engine_JetstreamEventSubscribe J T a b"
| "start_service J T a AlertService b = alert_JetstreamEventSubscribe J T a b"
| "start_service J T a BinanceService b = subscribeKlineInsertEvents J T a ExchangeBinance b"
| "start_service J T a TokocryptoService b = subscribeKlineInsertEvents J T a ExchangeTokoCrypto b"
| "start_service J T a PriceService b = price_Subscribe J T a b"

text \<open>Services are started one after the other, by any number of processes.\<close>

fun start_services :: "'b broker_api \<Rightarrow> (string \<rightharpoonup> duration) \<Rightarrow> (answers \<times> service) list \<Rightarrow> 'b \<Rightarrow> start_result \<times> 'b" where
  "start_services J T [] b = (Started, b)"
| "start_services J T ((a, srv) # rest) b =
     (case start_service J T a srv b of
        (Started, b) \<Rightarrow> start_services J T rest b
      | (res, b) \<Rightarrow> (res, b))"

text \<open>The subject an event is published on.\<close>

fun event_subject :: "event \<Rightarrow> string" where
  "event_subject (PlaceOrderEvent _) = ''order_engine.place_order''"
| "event_subject (NotificationEvent _) = ''order_engine.notification_alert''"
| "event_subject (PositionClosedEvent _) = ''strategy_control.position_closed''"
| "event_subject (KlineEvent subject _) = subject"

text \<open>The streams that store a message, and the consumers that are given it.\<close>

definition stored_by :: "'b broker_api \<Rightarrow> 'b \<Rightarrow> string \<Rightarrow> string set" where
  "stored_by J b subject = {n. \<exists>c. ba_stream J b n = Some c \<and> (\<exists>p\<in>set (st_subjects c). ba_matches J p subject)}"

definition receivers :: "'b broker_api \<Rightarrow> 'b \<Rightarrow> string \<Rightarrow> durable list" where
  "receivers J b subject = filter (\<lambda>c. ba_matches J (cu_filter c) subject) (ba_subscriptions J b)"

subsection \<open>What a pattern matches\<close>

definition no_wildcard :: "string \<Rightarrow> bool" where
  "no_wildcard p = (CHR ''*'' \<notin> set p \<and> CHR ''>'' \<notin> set p)"

locale subject_matching =
  fixes matches :: "string \<Rightarrow> string \<Rightarrow> bool"
  assumes exact: "no_wildcard p \<Longrightarrow> matches p s \<longleftrightarrow> p = s"
    and one_token: "no_wildcard p \<Longrightarrow>
      matches (p @ ''.*'') s \<longleftrightarrow> (\<exists>t. s = p @ ''.'' @ t \<and> t \<noteq> [] \<and> CHR ''.'' \<notin> set t)"
    and rest_tokens: "no_wildcard p \<Longrightarrow> matches (p @ ''.>'') s \<longleftrightarrow> (\<exists>t. s = p @ ''.'' @ t \<and> t \<noteq> [])"
begin

lemma literal_patterns:
  "matches ''order_engine.place_order'' s \<longleftrightarrow> s = ''order_engine.place_order''"
  "matches ''order_engine.notification_alert'' s \<longleftrightarrow> s = ''order_engine.notification_alert''"
  "matches ''strategy_control.position_closed'' s \<longleftrightarrow> s = ''strategy_control.position_closed''"
  by (subst exact; force simp: no_wildcard_def)+

lemma engine_pattern:
  "matches ''order_engine.*'' s \<longleftrightarrow> (\<exists>t. s = ''order_engine.'' @ t \<and> t \<noteq> [] \<and> CHR ''.'' \<notin> set t)"
  using one_token [of "''order_engine''" s] by (simp add: no_wildcard_def)

lemma candle_patterns:
  "matches ''KLINE.>'' s \<longleftrightarrow> (\<exists>t. s = ''KLINE.'' @ t \<and> t \<noteq> [])"
  "matches ''KLINE.BINANCE.>'' s \<longleftrightarrow> (\<exists>t. s = ''KLINE.BINANCE.'' @ t \<and> t \<noteq> [])"
  "matches ''KLINE.TOKOCRYPTO.>'' s \<longleftrightarrow> (\<exists>t. s = ''KLINE.TOKOCRYPTO.'' @ t \<and> t \<noteq> [])"
  using rest_tokens [of "''KLINE''" s] rest_tokens [of "''KLINE.BINANCE''" s] rest_tokens [of "''KLINE.TOKOCRYPTO''" s]
  by (simp_all add: no_wildcard_def)

lemmas patterns = literal_patterns engine_pattern candle_patterns

end

text \<open>The rule of the broker's documentation: token by token, \<open>*\<close> for one, \<open>>\<close> for the rest.\<close>

fun token_match :: "string list \<Rightarrow> string list \<Rightarrow> bool" where
  "token_match [] ts = (ts = [])"
| "token_match (p # ps) [] = False"
| "token_match (p # ps) (t # ts) =
     (if p = ''>'' \<and> ps = [] then t \<noteq> [] \<or> ts \<noteq> []
      else (p = t \<or> p = ''*'' \<and> t \<noteq> []) \<and> token_match ps ts)"

definition nats_matches :: "string \<Rightarrow> string \<Rightarrow> bool" where
  "nats_matches p s = token_match (split_on CHR ''.'' p) (split_on CHR ''.'' s)"

lemma split_on_append: "split_on c (s @ c # u) = split_on c s @ split_on c u"
  by (induction s) (auto split: list.splits)

lemma join_split_on: "join_with [c] (split_on c s) = s"
proof (induction s)
  case (Cons x s)
  obtain p ps where "split_on c s = p # ps" by (cases "split_on c s") auto
  then show ?case using Cons by (cases ps) auto
qed simp

lemma split_on_inj: "split_on c s = split_on c u \<longleftrightarrow> s = u"
  by (metis join_split_on)

lemma split_on_no_sep: "t \<in> set (split_on c s) \<Longrightarrow> c \<notin> set t"
  by (induction s arbitrary: t) (auto split: list.splits if_splits)

lemma split_on_one: "split_on c s = [t] \<Longrightarrow> s = t \<and> c \<notin> set t"
  using join_split_on [of c s] split_on_no_sep [of t c s] by simp

lemma set_split_on: "t \<in> set (split_on c s) \<Longrightarrow> x \<in> set t \<Longrightarrow> x \<in> set s"
proof (induction s arbitrary: t)
  case (Cons y s)
  obtain p ps where "split_on c s = p # ps" by (cases "split_on c s") auto
  moreover from this have "x \<in> set p \<Longrightarrow> x \<in> set s" using Cons.IH [of p] Cons.prems(2) by simp
  ultimately show ?case using Cons.IH [of t] Cons.prems by (auto split: if_splits)
qed simp

lemma token_match_plain:
  "\<forall>p\<in>set ps. p \<noteq> ''*'' \<and> p \<noteq> ''>'' \<Longrightarrow>
     token_match (ps @ qs) ts \<longleftrightarrow> (\<exists>us. ts = ps @ us \<and> token_match qs us)"
proof (induction ps arbitrary: ts)
  case (Cons p ps)
  then show ?case by (cases ts) auto
qed simp

lemma no_wildcard_tokens: "no_wildcard p \<Longrightarrow> \<forall>t\<in>set (split_on CHR ''.'' p). t \<noteq> ''*'' \<and> t \<noteq> ''>''"
  using set_split_on [of _ "CHR ''.''" p] by (auto simp: no_wildcard_def)

lemma split_join: "vs \<noteq> [] \<Longrightarrow> \<forall>t\<in>set vs. c \<notin> set t \<Longrightarrow> split_on c (join_with [c] vs) = vs"
proof (induction vs)
  case (Cons v vs)
  then show ?case by (cases vs) (auto simp: split_on_plain split_on_append)
qed simp

lemma split_prefix:
  "(\<exists>us. split_on c s = split_on c p @ us \<and> us \<noteq> [] \<and> P us) \<longleftrightarrow> (\<exists>t. s = p @ c # t \<and> P (split_on c t))"
proof
  assume "\<exists>us. split_on c s = split_on c p @ us \<and> us \<noteq> [] \<and> P us"
  then obtain us where us: "split_on c s = split_on c p @ us" "us \<noteq> []" "P us" by blast
  have "\<forall>t\<in>set us. c \<notin> set t" using us(1) split_on_no_sep [of _ c s] by auto
  then have "split_on c (join_with [c] us) = us" using us(2) split_join by blast
  then have "split_on c s = split_on c (p @ c # join_with [c] us)" "P (split_on c (join_with [c] us))"
    using us by (simp_all add: split_on_append)
  then show "\<exists>t. s = p @ c # t \<and> P (split_on c t)" unfolding split_on_inj by blast
next
  assume "\<exists>t. s = p @ c # t \<and> P (split_on c t)"
  then show "\<exists>us. split_on c s = split_on c p @ us \<and> us \<noteq> [] \<and> P us" using split_on_append by fastforce
qed

lemma nats_matches_append:
  assumes "no_wildcard p"
  shows "nats_matches (p @ CHR ''.'' # q) s \<longleftrightarrow>
    (\<exists>us. split_on CHR ''.'' s = split_on CHR ''.'' p @ us \<and> token_match (split_on CHR ''.'' q) us)"
  using token_match_plain [OF no_wildcard_tokens [OF assms]] by (simp add: nats_matches_def split_on_append)

interpretation nats: subject_matching nats_matches
proof
  fix p s
  assume p: "no_wildcard p"
  show "nats_matches p s \<longleftrightarrow> p = s"
    using token_match_plain [OF no_wildcard_tokens [OF p], of "[]"] by (auto simp: nats_matches_def split_on_inj)
  have star: "token_match (split_on CHR ''.'' ''*'') us \<longleftrightarrow> us \<noteq> [] \<and> (\<exists>t. us = [t] \<and> t \<noteq> [])" for us
    by (cases us; cases "tl us") auto
  show "nats_matches (p @ ''.*'') s \<longleftrightarrow> (\<exists>t. s = p @ ''.'' @ t \<and> t \<noteq> [] \<and> CHR ''.'' \<notin> set t)"
    using nats_matches_append [OF p, of "''*''" s] unfolding star
    using split_prefix [of "CHR ''.''" s p "\<lambda>us. \<exists>t. us = [t] \<and> t \<noteq> []"]
    by (auto simp: split_on_plain dest: split_on_one)
  have rest: "token_match (split_on CHR ''.'' ''>'') us \<longleftrightarrow> us \<noteq> [] \<and> us \<noteq> [[]]" for us
    by (cases us; cases "tl us") auto
  show "nats_matches (p @ ''.>'') s \<longleftrightarrow> (\<exists>t. s = p @ ''.'' @ t \<and> t \<noteq> [])"
    using nats_matches_append [OF p, of "''>''" s] unfolding rest
    using split_prefix [of "CHR ''.''" s p "\<lambda>us. us \<noteq> [[]]"] split_on_inj [of "CHR ''.''" _ "[]"]
    by auto
qed

subsection \<open>What the broker promises\<close>

text \<open>
  After an answered request the stream is kept as it was asked for, a subscription is added, and nothing
  else has changed.
\<close>

locale stream_broker = subject_matching "ba_matches J" for J :: "'b broker_api" +
  assumes added: "ba_stream J b (st_name c) = None \<Longrightarrow> ba_stream J (ba_add J c b) = (ba_stream J b)(st_name c \<mapsto> ba_kept J c)"
    and updated: "ba_stream J b (st_name c) \<noteq> None \<Longrightarrow>
      ba_stream J (ba_update J c b) = (ba_stream J b)(st_name c \<mapsto> ba_kept J c)"
    and subscribed: "ba_subscriptions J (ba_subscribe J d b) = ba_subscriptions J b @ [d]"
    and streams_subscribed: "ba_stream J (ba_subscribe J d b) = ba_stream J b"
    and subscriptions_added: "ba_subscriptions J (ba_add J c b) = ba_subscriptions J b"
    and subscriptions_updated: "ba_subscriptions J (ba_update J c b) = ba_subscriptions J b"
    and kept_subjects: "st_subjects (ba_kept J c) = st_subjects c"
begin

text \<open>Creating or updating comes to the same.\<close>

lemma ensureStream_True:
  assumes "ensureStream J i w c b = (True, b')"
  shows "ba_stream J b' = (ba_stream J b)(st_name c \<mapsto> ba_kept J c)" "ba_subscriptions J b' = ba_subscriptions J b"
  using assms added [of b c] updated [of b c] subscriptions_added subscriptions_updated
  by (auto simp: ensureStream_def request_def split: if_splits option.splits)

end

text \<open>A broker that keeps what it is given meets the promises.\<close>

record broker =
  mb_streams :: "string \<rightharpoonup> stream_config"
  mb_consumers :: "durable list"

definition put_stream :: "stream_config \<Rightarrow> broker \<Rightarrow> broker" where
  "put_stream c b = b\<lparr>mb_streams := (mb_streams b)(st_name c \<mapsto> c)\<rparr>"

definition plain_broker :: "broker broker_api" where
  "plain_broker =
     \<lparr>ba_stream = mb_streams, ba_add = put_stream, ba_update = put_stream,
      ba_subscribe = (\<lambda>d b. b\<lparr>mb_consumers := mb_consumers b @ [d]\<rparr>), ba_subscriptions = mb_consumers,
      ba_kept = (\<lambda>c. c), ba_matches = nats_matches\<rparr>"

lemma plain_broker_sel [simp]:
  "ba_stream plain_broker = mb_streams" "ba_add plain_broker = put_stream" "ba_update plain_broker = put_stream"
  "ba_subscribe plain_broker = (\<lambda>d b. b\<lparr>mb_consumers := mb_consumers b @ [d]\<rparr>)"
  "ba_subscriptions plain_broker = mb_consumers" "ba_kept plain_broker = (\<lambda>c. c)" "ba_matches plain_broker = nats_matches"
  by (simp_all add: plain_broker_def)

interpretation plain: stream_broker plain_broker
  by (intro stream_broker.intro stream_broker_axioms.intro) (simp_all add: nats.subject_matching_axioms put_stream_def)

end
