(* ===== verification/EventProps.thy ===== *)
theory EventProps
  imports EventStreams
begin

text \<open>
  The properties of streams and consumers: what is left in the broker whatever the order the services
  are started in, and who is given which event.
\<close>

subsection \<open>What a service declares\<close>

text \<open>The specification: the streams a service declares and the consumer it adds.\<close>

fun streams_of :: "service \<Rightarrow> stream_config list" where
  "streams_of EngineService = [order_engine_stream, strategy_control_stream]"
| "streams_of AlertService = [order_engine_stream]"
| "streams_of BinanceService = [kline_stream_config]"
| "streams_of TokocryptoService = [kline_stream_config]"
| "streams_of PriceService = []"

fun consumer_of :: "(string \<rightharpoonup> duration) \<Rightarrow> service \<Rightarrow> durable" where
  "consumer_of T EngineService = engine_consumer T"
| "consumer_of T AlertService = alert_consumer T"
| "consumer_of T BinanceService = candle_consumer T ExchangeBinance"
| "consumer_of T TokocryptoService = candle_consumer T ExchangeTokoCrypto"
| "consumer_of T PriceService = price_consumer T"

definition declared :: "(stream_config \<Rightarrow> stream_config) \<Rightarrow> stream_config list \<Rightarrow> (string \<rightharpoonup> stream_config) \<Rightarrow> (string \<rightharpoonup> stream_config)" where
  "declared kept cs m = fold (\<lambda>c m. m(st_name c \<mapsto> kept c)) cs m"

lemma stream_sel [simp]:
  "st_name order_engine_stream = ''order_engine''" "st_subjects order_engine_stream = [''order_engine.*'']"
  "st_name strategy_control_stream = ''strategy_control''"
  "st_subjects strategy_control_stream = [''strategy_control.position_closed'']"
  "st_name kline_stream_config = ''KLINE''" "st_subjects kline_stream_config = [''KLINE.>'']"
  by (simp_all add: order_engine_stream_def strategy_control_stream_def kline_stream_config_def)

lemma alert_stream_same: "alert_stream = order_engine_stream"
  by (simp add: alert_stream_def order_engine_stream_def)

lemma init_ensure:
  "alert_JetstreamEventInit J a b = ensureStream J (a 0) (a 1) order_engine_stream b"
  "ensureKlineStream J a b = ensureStream J (a 0) (a 1) kline_stream_config b"
  "kline_JetstreamEventInit J a b = ensureStream J (a 0) (a 1) kline_stream_config b"
  unfolding alert_JetstreamEventInit_def ensureStream_def ensureKlineStream_def kline_JetstreamEventInit_def
    alert_stream_same stream_sel by simp_all

lemma request_True: "request x f b = (True, b') \<longleftrightarrow> x \<and> b' = f b"
  by (auto simp: request_def)

text \<open>Streams of the same name are the same.\<close>

lemma streams_agree:
  "c \<in> set (streams_of srv) \<Longrightarrow> c' \<in> set (streams_of srv') \<Longrightarrow> st_name c = st_name c' \<Longrightarrow> c = c'"
  by (cases srv; cases srv') auto

lemma declared_append: "declared kept (cs @ ds) m = declared kept ds (declared kept cs m)"
  by (simp add: declared_def)

lemma declared_other: "n \<notin> st_name ` set cs \<Longrightarrow> declared kept cs m n = m n"
  by (induction cs arbitrary: m) (auto simp: declared_def)

lemma declared_own:
  assumes "c \<in> set cs" "\<And>d. d \<in> set cs \<Longrightarrow> st_name d = st_name c \<Longrightarrow> d = c"
  shows "declared kept cs m (st_name c) = Some (kept c)"
  using assms
proof (induction cs rule: rev_induct)
  case (snoc d cs)
  show ?case
  proof (cases "st_name d = st_name c")
    case True
    then have "d = c" using snoc.prems(2) [of d] by simp
    then show ?thesis by (simp add: declared_def)
  next
    case False
    then have "c \<in> set cs" using snoc.prems(1) by auto
    then have "declared kept cs m (st_name c) = Some (kept c)" using snoc.IH snoc.prems(2) by simp
    then show ?thesis using False by (simp add: declared_def)
  qed
qed simp

context stream_broker begin

lemma init_engine:
  assumes "engine_JetstreamEventInit J a b = (True, b')"
  shows "ba_stream J b' = declared (ba_kept J) (streams_of EngineService) (ba_stream J b)"
    "ba_subscriptions J b' = ba_subscriptions J b"
proof -
  obtain b1 where "ensureStream J (a 0) (a 1) order_engine_stream b = (True, b1)"
    "ensureStream J (a 2) (a 3) strategy_control_stream b1 = (True, b')"
    using assms by (auto simp: engine_JetstreamEventInit_def split: prod.splits bool.splits)
  from this [THEN ensureStream_True(1)] this [THEN ensureStream_True(2)]
  show "ba_stream J b' = declared (ba_kept J) (streams_of EngineService) (ba_stream J b)"
    "ba_subscriptions J b' = ba_subscriptions J b"
    by (simp_all add: declared_def)
qed

text \<open>A service declares its streams and subscribes once.\<close>

lemma start_service_cases:
  assumes "start_service J T a srv b = (Started, b')"
  obtains b1 where "b' = ba_subscribe J (consumer_of T srv) b1"
    "ba_stream J b1 = declared (ba_kept J) (streams_of srv) (ba_stream J b)" "ba_subscriptions J b1 = ba_subscriptions J b"
proof (cases srv)
  case EngineService
  then obtain b1 where b1: "engine_JetstreamEventInit J a b = (True, b1)" "b' = ba_subscribe J (consumer_of T srv) b1"
    using assms by (auto simp: engine_JetstreamEventSubscribe_def request_def split: prod.splits bool.splits if_splits)
  from init_engine [OF b1(1)] show ?thesis by (intro that [OF b1(2)]) (simp_all add: EngineService)
next
  case AlertService
  then obtain b1 where b1: "ensureStream J (a 0) (a 1) order_engine_stream b = (True, b1)" "b' = ba_subscribe J (consumer_of T srv) b1"
    using assms by (auto simp: alert_JetstreamEventSubscribe_def request_def init_ensure split: prod.splits bool.splits if_splits)
  from ensureStream_True [OF b1(1)] show ?thesis by (intro that [OF b1(2)]) (simp_all add: AlertService declared_def)
next
  case BinanceService
  then obtain b1 where b1: "ensureStream J (a 0) (a 1) kline_stream_config b = (True, b1)" "b' = ba_subscribe J (consumer_of T srv) b1"
    using assms by (auto simp: subscribeKlineInsertEvents_def request_def init_ensure split: prod.splits bool.splits if_splits)
  from ensureStream_True [OF b1(1)] show ?thesis by (intro that [OF b1(2)]) (simp_all add: BinanceService declared_def)
next
  case TokocryptoService
  then obtain b1 where b1: "ensureStream J (a 0) (a 1) kline_stream_config b = (True, b1)" "b' = ba_subscribe J (consumer_of T srv) b1"
    using assms by (auto simp: subscribeKlineInsertEvents_def request_def init_ensure split: prod.splits bool.splits if_splits)
  from ensureStream_True [OF b1(1)] show ?thesis by (intro that [OF b1(2)]) (simp_all add: TokocryptoService declared_def)
next
  case PriceService
  then have "b' = ba_subscribe J (consumer_of T srv) b"
    using assms by (auto simp: price_Subscribe_def request_def split: if_splits)
  then show ?thesis by (rule that) (simp_all add: PriceService declared_def)
qed

lemma start_service_Started:
  assumes "start_service J T a srv b = (Started, b')"
  shows "ba_stream J b' = declared (ba_kept J) (streams_of srv) (ba_stream J b)"
    and "ba_subscriptions J b' = ba_subscriptions J b @ [consumer_of T srv]"
  using assms by (rule start_service_cases; simp add: subscribed streams_subscribed)+

text \<open>Together they declare their streams one after the other.\<close>

lemma services_declare:
  assumes "start_services J T calls b = (Started, b')"
  shows "ba_stream J b' = declared (ba_kept J) (concat (map (streams_of \<circ> snd) calls)) (ba_stream J b)
    \<and> ba_subscriptions J b' = ba_subscriptions J b @ map (consumer_of T \<circ> snd) calls"
  using assms
proof (induction calls arbitrary: b)
  case (Cons call calls)
  obtain a srv where call: "call = (a, srv)" by (cases call)
  with Cons.prems obtain b1 where b1: "start_service J T a srv b = (Started, b1)" "start_services J T calls b1 = (Started, b')"
    by (auto split: prod.splits start_result.splits)
  show ?case using Cons.IH [OF b1(2)] start_service_Started [OF b1(1)] by (simp add: call declared_append)
qed (simp add: declared_def)

lemma services_started:
  assumes "start_services J T calls b = (Started, b')"
  shows "srv \<in> snd ` set calls \<Longrightarrow> c \<in> set (streams_of srv) \<Longrightarrow> ba_stream J b' (st_name c) = Some (ba_kept J c)"
    and "(\<forall>srv\<in>snd ` set calls. n \<notin> st_name ` set (streams_of srv)) \<Longrightarrow> ba_stream J b' n = ba_stream J b n"
    and "ba_subscriptions J b' = ba_subscriptions J b @ map (consumer_of T \<circ> snd) calls"
proof -
  let ?cs = "concat (map (streams_of \<circ> snd) calls)"
  note S = services_declare [OF assms]
  show "ba_stream J b' (st_name c) = Some (ba_kept J c)" if "srv \<in> snd ` set calls" "c \<in> set (streams_of srv)"
  proof -
    have "c \<in> set ?cs" using that by auto
    moreover have "d = c" if d: "d \<in> set ?cs" "st_name d = st_name c" for d
      using d streams_agree \<open>c \<in> set (streams_of srv)\<close> by fastforce
    ultimately show ?thesis unfolding conjunct1 [OF S] by (rule declared_own)
  qed
  show "ba_stream J b' n = ba_stream J b n" if "\<forall>srv\<in>snd ` set calls. n \<notin> st_name ` set (streams_of srv)"
    unfolding conjunct1 [OF S] by (rule declared_other) (use that in auto)
  show "ba_subscriptions J b' = ba_subscriptions J b @ map (consumer_of T \<circ> snd) calls" using S by blast
qed

end

text \<open>
  C19: the services can be started in any order and any number of times: when all have started, every
  stream one of them declares is kept as it declares it, whatever the broker held before and
  whoever declared it last, no other stream is touched, and each service has added its one consumer.
\<close>

theorem services_share_streams:
  assumes "stream_broker J" "start_services J T calls b = (Started, b')"
  shows "(\<forall>srv\<in>snd ` set calls. \<forall>c\<in>set (streams_of srv). ba_stream J b' (st_name c) = Some (ba_kept J c))
    \<and> (\<forall>n. (\<forall>srv\<in>snd ` set calls. n \<notin> st_name ` set (streams_of srv)) \<longrightarrow> ba_stream J b' n = ba_stream J b n)
    \<and> ba_subscriptions J b' = ba_subscriptions J b @ map (consumer_of T \<circ> snd) calls"
  using stream_broker.services_started [OF assms] by blast

subsection \<open>Who is given an event\<close>

lemma candle_subjects:
  "GetKlineStreamSubject ''binance'' symbol interval = ''KLINE.BINANCE.'' @ to_upper (symbol @ ''.'' @ interval)"
  "GetKlineStreamSubject ''tokocrypto'' symbol interval = ''KLINE.TOKOCRYPTO.'' @ to_upper (symbol @ ''.'' @ interval)"
proof -
  have "to_upper ''KLINE.binance.'' = ''KLINE.BINANCE.''" "to_upper ''KLINE.tokocrypto.'' = ''KLINE.TOKOCRYPTO.''"
    by code_simp+
  then show "GetKlineStreamSubject ''binance'' symbol interval = ''KLINE.BINANCE.'' @ to_upper (symbol @ ''.'' @ interval)"
    "GetKlineStreamSubject ''tokocrypto'' symbol interval = ''KLINE.TOKOCRYPTO.'' @ to_upper (symbol @ ''.'' @ interval)"
    by (simp_all add: GetKlineStreamSubject_def to_upper_def)
qed

lemma exchange_subjects:
  "GetKlineExchangeStreamSubject ''binance'' = ''KLINE.BINANCE.>''"
  "GetKlineExchangeStreamSubject ''tokocrypto'' = ''KLINE.TOKOCRYPTO.>''"
  by code_simp+

context subject_matching begin

lemma consumer_filters:
  "matches (cu_filter (consumer_of T srv)) ''order_engine.place_order'' \<longleftrightarrow> srv = EngineService"
  "matches (cu_filter (consumer_of T srv)) ''order_engine.notification_alert'' \<longleftrightarrow> srv = AlertService"
  "\<not> matches (cu_filter (consumer_of T srv)) ''strategy_control.position_closed''"
  "matches (cu_filter (consumer_of T srv)) (GetKlineStreamSubject ''binance'' symbol interval)
     \<longleftrightarrow> srv = BinanceService \<or> srv = PriceService"
  "matches (cu_filter (consumer_of T srv)) (GetKlineStreamSubject ''tokocrypto'' symbol interval)
     \<longleftrightarrow> srv = TokocryptoService \<or> srv = PriceService"
  by (cases srv; simp add: engine_consumer_def alert_consumer_def candle_consumer_def price_consumer_def Let_def
      exchange_subjects candle_subjects patterns to_upper_def)+

lemma declared_subjects:
  assumes "c \<in> set (streams_of srv)"
  shows "(\<exists>p\<in>set (st_subjects c). matches p ''order_engine.place_order'') \<longleftrightarrow> st_name c = ''order_engine''"
    "(\<exists>p\<in>set (st_subjects c). matches p ''order_engine.notification_alert'') \<longleftrightarrow> st_name c = ''order_engine''"
    "(\<exists>p\<in>set (st_subjects c). matches p ''strategy_control.position_closed'') \<longleftrightarrow> st_name c = ''strategy_control''"
    "(\<exists>p\<in>set (st_subjects c). matches p (GetKlineStreamSubject ''binance'' symbol interval)) \<longleftrightarrow> st_name c = ''KLINE''"
    "(\<exists>p\<in>set (st_subjects c). matches p (GetKlineStreamSubject ''tokocrypto'' symbol interval)) \<longleftrightarrow> st_name c = ''KLINE''"
  using assms
  by (cases srv; auto simp: candle_subjects patterns to_upper_def)+

end

context stream_broker begin

lemma known_stream:
  assumes "ba_stream J b = Map.empty" "start_services J T calls b = (Started, b')" "ba_stream J b' n = Some d"
  obtains srv c where "srv \<in> snd ` set calls" "c \<in> set (streams_of srv)" "st_name c = n" "d = ba_kept J c"
proof -
  have "\<exists>srv\<in>snd ` set calls. n \<in> st_name ` set (streams_of srv)"
  proof (rule ccontr)
    assume "\<not> (\<exists>srv\<in>snd ` set calls. n \<in> st_name ` set (streams_of srv))"
    then have "ba_stream J b' n = ba_stream J b n" by (intro services_started(2) [OF assms(2)]) blast
    then show False using assms(1,3) by simp
  qed
  then obtain srv c where c: "srv \<in> snd ` set calls" "c \<in> set (streams_of srv)" "st_name c = n" by blast
  then have "ba_stream J b' n = Some (ba_kept J c)" using services_started(1) [OF assms(2)] by blast
  then show ?thesis using that c assms(3) by simp
qed

lemma stored_in:
  assumes "ba_stream J b = Map.empty" "start_services J T calls b = (Started, b')"
    and home: "\<And>c srv. c \<in> set (streams_of srv) \<Longrightarrow> (\<exists>p\<in>set (st_subjects c). ba_matches J p s) \<longleftrightarrow> st_name c = name"
  shows "stored_by J b' s = (if \<exists>srv\<in>snd ` set calls. name \<in> st_name ` set (streams_of srv) then {name} else {})"
proof -
  have "n \<in> stored_by J b' s \<longleftrightarrow> n = name \<and> (\<exists>srv\<in>snd ` set calls. name \<in> st_name ` set (streams_of srv))" for n
  proof
    assume "n \<in> stored_by J b' s"
    then obtain d where d: "ba_stream J b' n = Some d" "\<exists>p\<in>set (st_subjects d). ba_matches J p s"
      by (auto simp: stored_by_def)
    then obtain srv c where "srv \<in> snd ` set calls" "c \<in> set (streams_of srv)" "st_name c = n" "d = ba_kept J c"
      using known_stream [OF assms(1,2)] by blast
    with d(2) home show "n = name \<and> (\<exists>srv\<in>snd ` set calls. name \<in> st_name ` set (streams_of srv))"
      by (auto simp: kept_subjects)
  next
    assume "n = name \<and> (\<exists>srv\<in>snd ` set calls. name \<in> st_name ` set (streams_of srv))"
    then obtain srv c where c: "n = name" "srv \<in> snd ` set calls" "c \<in> set (streams_of srv)" "st_name c = name" by blast
    then have "ba_stream J b' n = Some (ba_kept J c)" using services_started(1) [OF assms(2)] by blast
    moreover have "\<exists>p\<in>set (st_subjects c). ba_matches J p s" using home c by blast
    ultimately show "n \<in> stored_by J b' s" by (auto simp: stored_by_def kept_subjects)
  qed
  then show ?thesis by (simp add: set_eq_iff)
qed

lemma received_by:
  assumes "ba_subscriptions J b = []" "start_services J T calls b = (Started, b')"
    and "\<And>srv. ba_matches J (cu_filter (consumer_of T srv)) s \<longleftrightarrow> srv \<in> served"
  shows "cu_handler ` set (receivers J b' s) = (\<lambda>srv. cu_handler (consumer_of T srv)) ` (snd ` set calls \<inter> served)"
  using assms services_started(3) [OF assms(2)] by (auto simp: receivers_def)

end

text \<open>The specification: the services an event is meant for, and the stream that keeps it.\<close>

inductive routed :: "event \<Rightarrow> service set \<Rightarrow> string \<Rightarrow> bool" where
  "routed (PlaceOrderEvent order) {EngineService} ''order_engine''"
| "routed (NotificationEvent n) {AlertService} ''order_engine''"
| "routed (PositionClosedEvent pos) {} ''strategy_control''"
| "routed (KlineEvent (GetKlineStreamSubject ''binance'' symbol interval) k) {BinanceService, PriceService} ''KLINE''"
| "routed (KlineEvent (GetKlineStreamSubject ''tokocrypto'' symbol interval) k) {TokocryptoService, PriceService} ''KLINE''"

lemma routed_consumers:
  assumes "subject_matching matches" "routed e takers home"
  shows "matches (cu_filter (consumer_of T srv)) (event_subject e) \<longleftrightarrow> srv \<in> takers"
    and "c \<in> set (streams_of srv) \<Longrightarrow> (\<exists>p\<in>set (st_subjects c). matches p (event_subject e)) \<longleftrightarrow> st_name c = home"
  using assms(2)
  by (cases rule: routed.cases; simp add: subject_matching.consumer_filters [OF assms(1)]
      subject_matching.declared_subjects [OF assms(1)])+

text \<open>
  C18: over a broker that held nothing, with the services that have started: every published event is kept
  by its one stream, once a service that declares it is there, and is given to the consumers it is
  meant for and to no other. An order goes to the order engine, a notification to the notification
  service, a closed position to no service of this program, and a candle to the inserter of its exchange
  and to the reference prices.
\<close>

theorem events_reach_their_consumers:
  assumes "stream_broker J" "ba_stream J b = Map.empty" "ba_subscriptions J b = []"
    and "start_services J T calls b = (Started, b')" "routed e takers home"
  shows "cu_handler ` set (receivers J b' (event_subject e)) =
      (\<lambda>srv. cu_handler (consumer_of T srv)) ` (snd ` set calls \<inter> takers)
    \<and> stored_by J b' (event_subject e) =
      (if \<exists>srv\<in>snd ` set calls. home \<in> st_name ` set (streams_of srv) then {home} else {})"
proof -
  have matching: "subject_matching (ba_matches J)" using assms(1) by (rule stream_broker.axioms)
  show ?thesis
    using stream_broker.received_by [OF assms(1,3,4)] stream_broker.stored_in [OF assms(1,2,4)]
      routed_consumers [OF matching assms(5)] by simp
qed

text \<open>A consumer without a configured time has none, except that of the notifications.\<close>

lemma unconfigured_timeouts:
  "cu_timeout (engine_consumer Map.empty) = 0" "cu_timeout (price_consumer Map.empty) = 0"
  "cu_timeout (candle_consumer Map.empty x) = 0" "cu_timeout (alert_consumer Map.empty) = 5 * second"
  by (simp_all add: engine_consumer_def price_consumer_def candle_consumer_def alert_consumer_def handler_timeout_def)

subsection \<open>Witnesses\<close>

definition demo_calls :: "(answers \<times> service) list" where
  "demo_calls = [(\<lambda>_. True, AlertService), (\<lambda>_. True, EngineService), (\<lambda>_. True, BinanceService), (\<lambda>_. True, PriceService)]"

definition no_streams :: broker where
  "no_streams = \<lparr>mb_streams = Map.empty, mb_consumers = []\<rparr>"

lemma demo_started:
  "start_services plain_broker Map.empty demo_calls no_streams
    = (Started, snd (start_services plain_broker Map.empty demo_calls no_streams))"
  by (simp add: demo_calls_def no_streams_def engine_JetstreamEventSubscribe_def engine_JetstreamEventInit_def
      alert_JetstreamEventSubscribe_def subscribeKlineInsertEvents_def price_Subscribe_def init_ensure ensureStream_def
      put_stream_def request_def split: option.splits)

theorem services_share_streams_witness:
  "mb_streams (snd (start_services plain_broker Map.empty demo_calls no_streams)) ''order_engine'' = Some order_engine_stream"
  using services_share_streams [OF plain.stream_broker_axioms demo_started] by (simp add: demo_calls_def)

theorem events_reach_their_consumers_witness:
  "cu_handler ` set (receivers plain_broker (snd (start_services plain_broker Map.empty demo_calls no_streams))
      (GetKlineStreamSubject ''binance'' ''BTCUSDT'' ''1m'')) = {InsertCandles ''binance'', UpdatePrices}"
proof -
  have "cu_handler ` set (receivers plain_broker (snd (start_services plain_broker Map.empty demo_calls no_streams))
      (event_subject (KlineEvent (GetKlineStreamSubject ''binance'' ''BTCUSDT'' ''1m'') undefined))) =
    (\<lambda>srv. cu_handler (consumer_of Map.empty srv)) ` (snd ` set demo_calls \<inter> {BinanceService, PriceService})"
    using events_reach_their_consumers [OF plain.stream_broker_axioms _ _ demo_started routed.intros(4)]
    by (simp add: no_streams_def)
  then show ?thesis by (simp add: demo_calls_def candle_consumer_def price_consumer_def insert_commute)
qed

end
