(* ===== verification/Processes.thy ===== *)
theory Processes
  imports EventStreams
begin

text \<open>
  The processes of the service (\<open>internal/bootstrap/\<close>): what each opens and starts, in order, and how it is
  shut down (\<open>gracefulShutdown\<close> of \<open>common.go\<close>, \<open>Shutdown\<close> and \<open>CloseJetstream\<close> of \<open>internal/infrastructure/\<close>). An
  error at start-up ends the process (\<open>ContinueOrFatal\<close>), a missing redis client too. The clean-up operations run concurrently, so the
  shutdown is a step relation.
\<close>

subsection \<open>Starting\<close>

datatype resource = Database string | Nats | Redis | GrpcClient | GrpcListener | HttpServer | Subscribers

datatype boot_step =
    Open resource
  | ServeHTTP                     \<comment> \<open>in a goroutine; an error is logged\<close>
  | StartSubscribers              \<comment> \<open>one goroutine for each exchange\<close>
  | InitStreams service
  | SubscribeEvents service
  | Background

text \<open>An operation of the shutdown, with the call of \<open>cancel\<close> it may start with.\<close>

record cleanup =
  cl_cancels :: bool
  cl_closes :: resource

record process =
  pc_boot :: "boot_step list"
  pc_cleanup :: "cleanup list"

definition closing :: "bool \<Rightarrow> resource \<Rightarrow> cleanup" where
  "closing cancels r = \<lparr>cl_cancels = cancels, cl_closes = r\<rparr>"

definition StartAPI :: process where
  "StartAPI =
     \<lparr>pc_boot = [Open (Database ''api''), Open (Database ''market_data''), Open (Database ''order_engine''), Open Redis,
        Open Nats, Open GrpcClient, ServeHTTP],
      pc_cleanup = [closing True (Database ''api''), closing True (Database ''market_data''),
        closing True (Database ''order_engine''), closing False Redis, closing False Nats, closing False GrpcClient,
        closing False HttpServer]\<rparr>"

text \<open>\<open>xs\<close> are the registered exchanges, in the order the map is iterated.\<close>

definition StartMarketDataGateway :: "service list \<Rightarrow> process" where
  "StartMarketDataGateway xs =
     \<lparr>pc_boot = [Open (Database ''market_data''), Open Nats, StartSubscribers] @ map InitStreams xs @ [Open GrpcListener],
      pc_cleanup = [closing False GrpcListener, closing True Subscribers, closing True (Database ''market_data''),
        closing False Nats]\<rparr>"

definition StartMarketDataWorker :: "service list \<Rightarrow> process" where
  "StartMarketDataWorker xs =
     \<lparr>pc_boot = [Open (Database ''market_data''), Open Nats] @ map SubscribeEvents xs,
      pc_cleanup = [closing True (Database ''market_data''), closing False Nats]\<rparr>"

definition StartNotificationService :: process where
  "StartNotificationService =
     \<lparr>pc_boot = [Open Nats, SubscribeEvents AlertService], pc_cleanup = [closing True Nats]\<rparr>"

definition StartOrderEngineGateway :: process where
  "StartOrderEngineGateway =
     \<lparr>pc_boot = [Open (Database ''market_data''), Open (Database ''order_engine''), Open Nats, InitStreams EngineService,
        SubscribeEvents EngineService, Open GrpcListener, ServeHTTP],
      pc_cleanup = [closing True (Database ''market_data''), closing True (Database ''order_engine''),
        closing False GrpcListener, closing False HttpServer, closing False Nats]\<rparr>"

definition StartOrderEngineWorker :: process where
  "StartOrderEngineWorker =
     \<lparr>pc_boot = [Open (Database ''market_data''), Open (Database ''order_engine''), Open Nats,
        SubscribeEvents PriceService, Background],
      pc_cleanup = [closing True (Database ''market_data''), closing True (Database ''order_engine''), closing False Nats]\<rparr>"

record 'b boot_state =
  bs_broker :: 'b
  bs_open :: "resource list"

fun init_streams :: "'b broker_api \<Rightarrow> answers \<Rightarrow> service \<Rightarrow> 'b \<Rightarrow> bool \<times> 'b" where
  "init_streams J a EngineService b = engine_JetstreamEventInit J a b"
| "init_streams J a AlertService b = alert_JetstreamEventInit J a b"
| "init_streams J a BinanceService b = ensureKlineStream J a b"
| "init_streams J a TokocryptoService b = ensureKlineStream J a b"
| "init_streams J a PriceService b = (True, b)"    \<comment> \<open>no \<open>Publisher\<close>\<close>

text \<open>Whether the process goes on.\<close>

fun boot :: "'b broker_api \<Rightarrow> (string \<rightharpoonup> duration) \<Rightarrow> answers \<Rightarrow> boot_step \<Rightarrow> 'b boot_state \<Rightarrow> bool \<times> 'b boot_state" where
  "boot J T a (Open r) s = (if a 0 then (True, s\<lparr>bs_open := bs_open s @ [r]\<rparr>) else (False, s))"
| "boot J T a ServeHTTP s = (True, s\<lparr>bs_open := bs_open s @ [HttpServer]\<rparr>)"
| "boot J T a StartSubscribers s = (True, s\<lparr>bs_open := bs_open s @ [Subscribers]\<rparr>)"
| "boot J T a (InitStreams srv) s = (case init_streams J a srv (bs_broker s) of (ok, b) \<Rightarrow> (ok, s\<lparr>bs_broker := b\<rparr>))"
| "boot J T a (SubscribeEvents srv) s =
     (case start_service J T a srv (bs_broker s) of (res, b) \<Rightarrow> (res = Started, s\<lparr>bs_broker := b\<rparr>))"
| "boot J T a Background s = (True, s)"

fun run_boot :: "'b broker_api \<Rightarrow> (string \<rightharpoonup> duration) \<Rightarrow> answers list \<Rightarrow> boot_step list \<Rightarrow> 'b boot_state \<Rightarrow> bool \<times> 'b boot_state" where
  "run_boot J T as [] s = (True, s)"
| "run_boot J T [] (x # xs) s = (False, s)"
| "run_boot J T (a # as) (x # xs) s =
     (case boot J T a x s of (False, s) \<Rightarrow> (False, s) | (True, s) \<Rightarrow> run_boot J T as xs s)"

subsection \<open>Shutting down\<close>

datatype exit_kind = Graceful | Forced

record shutdown =
  sd_waiting :: "cleanup list"
  sd_running :: "cleanup list"
  sd_closed :: "resource list"
  sd_cancelled :: bool            \<comment> \<open>the root context\<close>
  sd_requests :: nat              \<comment> \<open>HTTP requests in flight\<close>
  sd_subscribers :: nat           \<comment> \<open>subscribers of candles that run\<close>
  sd_exit :: "exit_kind option"

definition shutting_down :: "process \<Rightarrow> nat \<Rightarrow> nat \<Rightarrow> shutdown" where
  "shutting_down p requests subscribers =
     \<lparr>sd_waiting = pc_cleanup p, sd_running = [], sd_closed = [], sd_cancelled = False, sd_requests = requests,
      sd_subscribers = subscribers, sd_exit = None\<rparr>"

text \<open>
  When the call of an operation may return: \<open>Shutdown\<close> of the HTTP server waits for the requests in flight or
  for its context, which is the root context; the subscribers are waited for.
\<close>

fun may_finish :: "resource \<Rightarrow> shutdown \<Rightarrow> bool" where
  "may_finish HttpServer s = (sd_requests s = 0 \<or> sd_cancelled s)"
| "may_finish Subscribers s = (sd_subscribers s = 0)"
| "may_finish _ s = True"

inductive shutdown_step :: "shutdown \<Rightarrow> shutdown \<Rightarrow> bool" where
  begins: "sd_exit s = None \<Longrightarrow> c \<in> set (sd_waiting s) \<Longrightarrow>
    shutdown_step s (s\<lparr>sd_waiting := remove1 c (sd_waiting s), sd_running := c # sd_running s,
      sd_cancelled := sd_cancelled s \<or> cl_cancels c\<rparr>)"
| finishes: "sd_exit s = None \<Longrightarrow> c \<in> set (sd_running s) \<Longrightarrow> may_finish (cl_closes c) s \<Longrightarrow>
    shutdown_step s (s\<lparr>sd_running := remove1 c (sd_running s), sd_closed := cl_closes c # sd_closed s\<rparr>)"
| request_arrives: "sd_exit s = None \<Longrightarrow> HttpServer \<in> cl_closes ` set (sd_waiting s) \<Longrightarrow>
    shutdown_step s (s\<lparr>sd_requests := Suc (sd_requests s)\<rparr>)"
| request_ends: "sd_exit s = None \<Longrightarrow> sd_requests s = Suc n \<Longrightarrow> shutdown_step s (s\<lparr>sd_requests := n\<rparr>)"
| subscriber_ends: "sd_exit s = None \<Longrightarrow> sd_cancelled s \<Longrightarrow> sd_subscribers s = Suc n \<Longrightarrow>
    shutdown_step s (s\<lparr>sd_subscribers := n\<rparr>)"
| all_done: "sd_exit s = None \<Longrightarrow> sd_waiting s = [] \<Longrightarrow> sd_running s = [] \<Longrightarrow>
    shutdown_step s (s\<lparr>sd_exit := Some Graceful\<rparr>)"
| timeout: "sd_exit s = None \<Longrightarrow> shutdown_step s (s\<lparr>sd_exit := Some Forced\<rparr>)"

text \<open>\<open>CloseJetstream\<close>: whether it succeeds; the connection is closed either way.\<close>

definition CloseJetstream :: "bool \<Rightarrow> bool \<Rightarrow> bool \<times> bool" where
  "CloseJetstream has_conn drain_ok = (if \<not> has_conn then (True, False) else if \<not> drain_ok then (False, True) else (True, True))"

subsection \<open>Settings of the processes\<close>

definition port_of :: "(string \<rightharpoonup> string) \<Rightarrow> string \<Rightarrow> string" where
  "port_of ports name = (case ports name of None \<Rightarrow> [] | Some p \<Rightarrow> p)"

text \<open>The address the gateway of market data listens on, and the one the dashboard calls.\<close>

definition market_data_grpc_listen :: "(string \<rightharpoonup> string) \<Rightarrow> string" where
  "market_data_grpc_listen ports =
     (let port = port_of ports ''market_data_gateway_grpc'' in '':'' @ (if port = [] then ''9802'' else port))"

definition marketDataGatewayGRPCAddress :: "string \<Rightarrow> (string \<rightharpoonup> string) \<Rightarrow> string" where
  "marketDataGatewayGRPCAddress env_addr ports =
     (let raw = trim_space env_addr; address = trim_space (port_of ports ''market_data_gateway_grpc_address'');
          port = trim_space (port_of ports ''market_data_gateway_grpc'')
      in if raw \<noteq> [] then raw else if address \<noteq> [] then address
         else ''localhost:'' @ (if port = [] then ''9802'' else port))"

text \<open>\<open>time.ParseDuration\<close> is a parameter; \<open>0\<close> asks for the default.\<close>

definition resolveOrderHistorySyncInterval :: "(string \<Rightarrow> duration option) \<Rightarrow> string \<Rightarrow> duration" where
  "resolveOrderHistorySyncInterval parse env =
     (let raw = trim_space env
      in if raw = [] then 0
         else case parse raw of None \<Rightarrow> 0 | Some parsed \<Rightarrow> if parsed \<le> 0 then 0 else parsed)"

subsection \<open>Migrations\<close>

datatype goose_call = GooseCreate string | GooseUp | GooseUpByOne | GooseUpTo int | GooseDown | GooseDownTo int | GooseStatus | GooseReset

text \<open>The calls made and whether the command succeeds.\<close>

definition migrate_action :: "(goose_call \<Rightarrow> bool) \<Rightarrow> string \<Rightarrow> string \<Rightarrow> int \<Rightarrow> goose_call list \<times> bool" where
  "migrate_action ok action name version =
     (let once = (\<lambda>c. ([c], ok c))
      in if action = ''create'' then once (GooseCreate name)
         else if action = ''up'' then once GooseUp
         else if action = ''up-by-one'' then once GooseUpByOne
         else if action = ''up-to'' then once (GooseUpTo version)
         else if action = ''down'' then once GooseDown
         else if action = ''down-to'' then once (GooseDownTo version)
         else if action = ''status'' then once GooseStatus
         else if action = ''reset''
           then (if ok GooseReset then ([GooseReset, GooseUp], ok GooseUp) else ([GooseReset], False))
         else ([], False))"

definition StartMigrate ::
  "bool \<Rightarrow> bool \<Rightarrow> (string \<Rightarrow> goose_call \<Rightarrow> bool) \<Rightarrow> string \<Rightarrow> string \<Rightarrow> string \<Rightarrow> int \<Rightarrow> goose_call list \<times> bool" where
  "StartMigrate open_ok dialect_ok ok databaseName action name version =
     (if \<not> open_ok \<or> \<not> dialect_ok then ([], False)
      else migrate_action (ok (''migration/postgresql/'' @ databaseName)) action name version)"

end
