(* ===== verification/ProcessProps.thy ===== *)
theory ProcessProps
  imports Processes EventProps "HOL-Library.Multiset"
begin

text \<open>
  The properties of the processes: what a started process has, what a shutdown leaves, and that it can
  always come to its end.
\<close>

subsection \<open>Resources\<close>

text \<open>The processes, for any registered exchanges.\<close>

definition processes :: "process set" where
  "processes = {StartAPI, StartNotificationService, StartOrderEngineGateway, StartOrderEngineWorker}
     \<union> {p. \<exists>xs. set xs \<subseteq> {BinanceService, TokocryptoService} \<and> (p = StartMarketDataGateway xs \<or> p = StartMarketDataWorker xs)}"

text \<open>What a step opens.\<close>

fun opens :: "boot_step \<Rightarrow> resource list" where
  "opens (Open r) = [r]"
| "opens ServeHTTP = [HttpServer]"
| "opens StartSubscribers = [Subscribers]"
| "opens _ = []"

lemma boot_opens: "boot J T a x s = (True, s') \<Longrightarrow> bs_open s' = bs_open s @ opens x"
  by (cases x) (auto split: if_splits prod.splits)

lemma run_boot_opens: "run_boot J T as steps s = (True, s') \<Longrightarrow> bs_open s' = bs_open s @ concat (map opens steps)"
proof (induction J T as steps s rule: run_boot.induct)
  case (3 J T a as x xs s)
  then obtain s1 where "boot J T a x s = (True, s1)" "run_boot J T as xs s1 = (True, s')"
    by (auto split: prod.splits bool.splits)
  then show ?case using 3 boot_opens by fastforce
qed simp_all

lemma concat_opens: "concat (map opens (map InitStreams xs)) = []" "concat (map opens (map SubscribeEvents xs)) = []"
  by (induction xs) simp_all

lemma process_balance:
  assumes "p \<in> processes"
  shows "mset (concat (map opens (pc_boot p))) = mset (map cl_closes (pc_cleanup p))" "distinct (map cl_closes (pc_cleanup p))"
  using assms
  by (auto simp: processes_def StartAPI_def StartNotificationService_def StartOrderEngineGateway_def
      StartOrderEngineWorker_def StartMarketDataGateway_def StartMarketDataWorker_def closing_def concat_opens
      simp flip: map_map)

subsection \<open>Shutdown\<close>

text \<open>What holds while a process \<open>p\<close> is shut down, with \<open>subs\<close> subscribers at first.\<close>

definition shutdown_ok :: "process \<Rightarrow> shutdown \<Rightarrow> bool" where
  "shutdown_ok p s =
     (mset (map cl_closes (sd_waiting s)) + mset (map cl_closes (sd_running s)) + mset (sd_closed s)
        = mset (map cl_closes (pc_cleanup p))
      \<and> set (sd_waiting s) \<union> set (sd_running s) \<subseteq> set (pc_cleanup p)
      \<and> (sd_cancelled s \<longrightarrow> (\<exists>c\<in>set (pc_cleanup p). cl_cancels c))
      \<and> (\<forall>c\<in>set (sd_running s). cl_cancels c \<longrightarrow> sd_cancelled s)
      \<and> (Subscribers \<in> set (sd_closed s) \<longrightarrow> sd_subscribers s = 0)
      \<and> (HttpServer \<in> set (sd_closed s) \<longrightarrow> sd_requests s = 0 \<or> sd_cancelled s)
      \<and> (sd_exit s = Some Graceful \<longrightarrow> sd_waiting s = [] \<and> sd_running s = []))"

lemma shutdown_ok_start: "shutdown_ok p (shutting_down p r n)"
  by (simp add: shutdown_ok_def shutting_down_def)

lemma mset_map_remove1: "c \<in> set cs \<Longrightarrow> mset (map f cs) = add_mset (f c) (mset (map f (remove1 c cs)))"
proof -
  assume "c \<in> set cs"
  then have "mset cs = add_mset c (mset (remove1 c cs))" by simp
  then show ?thesis unfolding mset_map by (metis image_mset_add_mset)
qed

lemma not_waiting_when_closed:
  assumes "shutdown_ok p s" "distinct (map cl_closes (pc_cleanup p))" "r \<in> set (sd_closed s)"
  shows "r \<notin> cl_closes ` set (sd_waiting s)"
proof -
  have "mset (map cl_closes (sd_waiting s) @ map cl_closes (sd_running s) @ sd_closed s) = mset (map cl_closes (pc_cleanup p))"
    using assms(1) by (simp add: shutdown_ok_def add.assoc)
  then have "distinct (map cl_closes (sd_waiting s) @ map cl_closes (sd_running s) @ sd_closed s)"
    using assms(2) mset_eq_imp_distinct_iff by blast
  then show ?thesis using assms(3) by auto
qed

lemma shutdown_ok_step:
  assumes "shutdown_step s s'" "shutdown_ok p s" "distinct (map cl_closes (pc_cleanup p))"
  shows "shutdown_ok p s'"
  using assms(1)
proof cases
  case (begins c)
  then show ?thesis
    using assms(2) mset_map_remove1 [OF begins(3), of cl_closes] set_remove1_subset [of c "sd_waiting s"]
    by (auto simp: shutdown_ok_def)
next
  case (finishes c)
  then show ?thesis
    using assms(2) mset_map_remove1 [OF finishes(3), of cl_closes] set_remove1_subset [of c "sd_running s"]
    by (auto simp: shutdown_ok_def)
next
  case request_arrives
  then show ?thesis
    using assms(2) not_waiting_when_closed [OF assms(2,3), of HttpServer] by (auto simp: shutdown_ok_def)
qed (use assms(2) in \<open>auto simp: shutdown_ok_def\<close>)


text \<open>A shutdown of \<open>p\<close> that has begun.\<close>

definition reachable_shutdown :: "process \<Rightarrow> nat \<Rightarrow> nat \<Rightarrow> shutdown \<Rightarrow> bool" where
  "reachable_shutdown p requests subscribers s = shutdown_step\<^sup>*\<^sup>* (shutting_down p requests subscribers) s"

lemma reachable_ok:
  assumes "p \<in> processes" "reachable_shutdown p r n s"
  shows "shutdown_ok p s"
  using assms(2) unfolding reachable_shutdown_def
  by (induction rule: rtranclp_induct)
    (use shutdown_ok_start shutdown_ok_step process_balance(2) [OF assms(1)] in blast)+

text \<open>
  C20: whatever process is started, when its shutdown ends by itself, exactly what the start opened has been
  closed, each once; a process with subscribers of candles has none left; and a process with an HTTP
  server has no request left, unless one of its clean-ups cancelled the root context.
\<close>

theorem every_resource_released:
  assumes "p \<in> processes" "run_boot J T as (pc_boot p) \<lparr>bs_broker = b, bs_open = []\<rparr> = (True, s)"
    and "shutdown_step\<^sup>*\<^sup>* (shutting_down p r n) d" "sd_exit d = Some Graceful"
  shows "mset (sd_closed d) = mset (bs_open s) \<and> distinct (sd_closed d)
    \<and> (Subscribers \<in> set (bs_open s) \<longrightarrow> sd_subscribers d = 0)
    \<and> (HttpServer \<in> set (bs_open s) \<longrightarrow> sd_requests d = 0 \<or> (\<exists>c\<in>set (pc_cleanup p). cl_cancels c))"
proof -
  have ok: "shutdown_ok p d" using reachable_ok assms(1,3) unfolding reachable_shutdown_def by blast
  have same: "mset (sd_closed d) = mset (map cl_closes (pc_cleanup p))"
    using ok assms(4) by (auto simp: shutdown_ok_def)
  moreover have "mset (bs_open s) = mset (map cl_closes (pc_cleanup p))"
    using run_boot_opens [OF assms(2)] process_balance(1) [OF assms(1)] by simp
  ultimately have opened: "mset (sd_closed d) = mset (bs_open s)" by metis
  then have "set (sd_closed d) = set (bs_open s)" by (rule mset_eq_setD)
  moreover have "distinct (sd_closed d)"
    using mset_eq_imp_distinct_iff [OF same] process_balance(2) [OF assms(1)] by blast
  ultimately show ?thesis using ok opened unfolding shutdown_ok_def by blast
qed

subsection \<open>A shutdown that ends\<close>

text \<open>The clean-up that waits for the subscribers tells them to stop.\<close>

lemma subscribers_told: "p \<in> processes \<Longrightarrow> c \<in> set (pc_cleanup p) \<Longrightarrow> cl_closes c = Subscribers \<Longrightarrow> cl_cancels c"
  by (auto simp: processes_def StartAPI_def StartNotificationService_def StartOrderEngineGateway_def
      StartOrderEngineWorker_def StartMarketDataGateway_def StartMarketDataWorker_def closing_def)

definition shutdown_work :: "shutdown \<Rightarrow> nat" where
  "shutdown_work s = 2 * length (sd_waiting s) + length (sd_running s) + sd_requests s + sd_subscribers s"

text \<open>Every step but the arrival of a request leaves less to do.\<close>

lemma shutdown_progress:
  assumes "p \<in> processes" "shutdown_ok p s" "sd_exit s = None"
  shows "\<exists>s'. shutdown_step s s'
    \<and> (sd_exit s' = Some Graceful \<or> sd_exit s' = None \<and> shutdown_work s' < shutdown_work s)"
proof (cases "sd_waiting s")
  case (Cons c cs)
  then have "shutdown_step s (s\<lparr>sd_waiting := remove1 c (sd_waiting s), sd_running := c # sd_running s,
      sd_cancelled := sd_cancelled s \<or> cl_cancels c\<rparr>)"
    using assms(3) by (intro shutdown_step.begins) simp_all
  then show ?thesis by (intro exI conjI) (assumption, simp add: Cons shutdown_work_def assms(3))
next
  case Nil
  show ?thesis
  proof (cases "sd_running s")
    case Nil
    then show ?thesis using shutdown_step.all_done [OF assms(3) \<open>sd_waiting s = []\<close>] by force
  next
    case (Cons c cs)
    consider "may_finish (cl_closes c) s" | n where "sd_requests s = Suc n"
      | n where "cl_closes c = Subscribers" "sd_subscribers s = Suc n"
      by (cases "sd_requests s"; cases "sd_subscribers s"; cases "cl_closes c") auto
    then show ?thesis
    proof cases
      case 1
      then have "shutdown_step s (s\<lparr>sd_running := remove1 c (sd_running s), sd_closed := cl_closes c # sd_closed s\<rparr>)"
        using assms(3) Cons by (intro shutdown_step.finishes) simp_all
      then show ?thesis by (intro exI conjI) (assumption, simp add: Cons shutdown_work_def assms(3))
    next
      case (2 n)
      from shutdown_step.request_ends [OF assms(3) this] show ?thesis
        by (intro exI conjI) (assumption, simp add: 2 shutdown_work_def assms(3))
    next
      case (3 n)
      then have "cl_cancels c" using assms(1,2) Cons subscribers_told by (auto simp: shutdown_ok_def)
      then have "sd_cancelled s" using assms(2) Cons by (simp add: shutdown_ok_def)
      from shutdown_step.subscriber_ends [OF assms(3) this 3(2)] show ?thesis
        by (intro exI conjI) (assumption, simp add: 3 shutdown_work_def assms(3))
    qed
  qed
qed

lemma shutdown_ends:
  assumes "p \<in> processes" "shutdown_ok p s" "sd_exit s = None"
  shows "\<exists>d. shutdown_step\<^sup>*\<^sup>* s d \<and> sd_exit d = Some Graceful"
  using assms(2,3)
proof (induction s rule: measure_induct_rule [of shutdown_work])
  case (less s)
  from shutdown_progress [OF assms(1) less.prems] obtain s' where
    s': "shutdown_step s s'" "sd_exit s' = Some Graceful \<or> sd_exit s' = None \<and> shutdown_work s' < shutdown_work s" by blast
  have "shutdown_ok p s'" using shutdown_ok_step [OF s'(1) less.prems(1)] process_balance(2) [OF assms(1)] by blast
  with s' less.IH show ?case by (meson converse_rtranclp_into_rtranclp r_into_rtranclp)
qed

text \<open>
  C21: no shutdown gets stuck: from every point it has come to, whatever requests and subscribers are left,
  it can end by itself, without the timeout.
\<close>

theorem shutdown_can_finish:
  assumes "p \<in> processes" "shutdown_step\<^sup>*\<^sup>* (shutting_down p r n) s" "sd_exit s = None"
  shows "\<exists>d. shutdown_step\<^sup>*\<^sup>* s d \<and> sd_exit d = Some Graceful"
  using shutdown_ends [OF assms(1) _ assms(3)] reachable_ok [OF assms(1)] assms(2)
  unfolding reachable_shutdown_def by blast

subsection \<open>Requests that are cut off\<close>

lemma begin_all:
  assumes "sd_exit s = None"
  shows "\<exists>d. shutdown_step\<^sup>*\<^sup>* s d \<and> sd_exit d = None \<and> sd_waiting d = [] \<and> sd_requests d = sd_requests s
    \<and> sd_closed d = sd_closed s \<and> set (sd_running d) = set (sd_waiting s) \<union> set (sd_running s)
    \<and> sd_cancelled d = (sd_cancelled s \<or> (\<exists>c\<in>set (sd_waiting s). cl_cancels c))"
  using assms
proof (induction "sd_waiting s" arbitrary: s)
  case Nil
  then show ?case by (intro exI [of _ s]) (simp flip: Nil.hyps)
next
  case (Cons c cs)
  let ?s = "s\<lparr>sd_waiting := cs, sd_running := c # sd_running s, sd_cancelled := sd_cancelled s \<or> cl_cancels c\<rparr>"
  have "shutdown_step s ?s"
    using shutdown_step.begins [OF Cons.prems, of c] by (simp flip: Cons.hyps(2))
  moreover obtain d where "shutdown_step\<^sup>*\<^sup>* ?s d" "sd_exit d = None" "sd_waiting d = []" "sd_requests d = sd_requests s"
    "sd_closed d = sd_closed s" "set (sd_running d) = set cs \<union> insert c (set (sd_running s))"
    "sd_cancelled d = ((sd_cancelled s \<or> cl_cancels c) \<or> (\<exists>c\<in>set cs. cl_cancels c))"
    using Cons.hyps(1) [of ?s] Cons.prems by auto
  ultimately show ?case
    by (intro exI [of _ d] conjI) (auto simp flip: Cons.hyps(2) intro: converse_rtranclp_into_rtranclp)
qed

text \<open>Once the root context is cancelled, only the subscribers are waited for.\<close>

lemma finish_all:
  assumes "sd_exit s = None" "sd_waiting s = []" "sd_cancelled s" "Subscribers \<notin> cl_closes ` set (sd_running s)"
  shows "\<exists>d. shutdown_step\<^sup>*\<^sup>* s d \<and> sd_exit d = Some Graceful \<and> sd_requests d = sd_requests s
    \<and> set (sd_closed d) = cl_closes ` set (sd_running s) \<union> set (sd_closed s)"
  using assms
proof (induction "sd_running s" arbitrary: s)
  case Nil
  then show ?case
    using shutdown_step.all_done [of s]
    by (intro exI [of _ "s\<lparr>sd_exit := Some Graceful\<rparr>"]) (simp flip: Nil.hyps)
next
  case (Cons c cs)
  let ?s = "s\<lparr>sd_running := cs, sd_closed := cl_closes c # sd_closed s\<rparr>"
  have "may_finish (cl_closes c) s" using Cons.prems by (cases "cl_closes c") (auto simp flip: Cons.hyps(2))
  then have "shutdown_step s ?s"
    using shutdown_step.finishes [OF Cons.prems(1), of c] by (simp flip: Cons.hyps(2))
  moreover obtain d where "shutdown_step\<^sup>*\<^sup>* ?s d" "sd_exit d = Some Graceful" "sd_requests d = sd_requests s"
    "set (sd_closed d) = cl_closes ` set cs \<union> insert (cl_closes c) (set (sd_closed s))"
    using Cons.hyps(1) [of ?s] Cons.prems by (auto simp flip: Cons.hyps(2))
  ultimately show ?case
    by (intro exI [of _ d] conjI) (auto simp flip: Cons.hyps(2) intro: converse_rtranclp_into_rtranclp)
qed

lemma cut_off:
  assumes "\<exists>c\<in>set (pc_cleanup p). cl_cancels c" "Subscribers \<notin> cl_closes ` set (pc_cleanup p)"
  shows "\<exists>d. shutdown_step\<^sup>*\<^sup>* (shutting_down p r n) d \<and> sd_exit d = Some Graceful \<and> sd_requests d = r
    \<and> set (sd_closed d) = cl_closes ` set (pc_cleanup p)"
proof -
  obtain s where s: "shutdown_step\<^sup>*\<^sup>* (shutting_down p r n) s" "sd_exit s = None" "sd_waiting s = []" "sd_requests s = r"
    "sd_closed s = []" "set (sd_running s) = set (pc_cleanup p)" "sd_cancelled s"
    using begin_all [of "shutting_down p r n"] assms(1) by (auto simp: shutting_down_def)
  then show ?thesis using finish_all [OF s(2,3,7)] assms(2) by (auto intro: rtranclp_trans)
qed

text \<open>
  C22: the processes that serve HTTP do not wait for the requests in flight: a shutdown with any number of
  them can end gracefully with all of them unanswered and every database closed, because \<open>Shutdown\<close> of the server waits
  on the root context, which the clean-up of a database cancels; its own \<open>shutdownTimeout\<close> is never used.
\<close>

theorem requests_cut_off:
  "(\<exists>d. shutdown_step\<^sup>*\<^sup>* (shutting_down StartAPI r n) d \<and> sd_exit d = Some Graceful \<and> sd_requests d = r
      \<and> {Database ''api'', Database ''market_data'', Database ''order_engine'', HttpServer} \<subseteq> set (sd_closed d))
    \<and> (\<exists>d. shutdown_step\<^sup>*\<^sup>* (shutting_down StartOrderEngineGateway r n) d \<and> sd_exit d = Some Graceful
      \<and> sd_requests d = r \<and> {Database ''market_data'', Database ''order_engine'', HttpServer} \<subseteq> set (sd_closed d))"
  using cut_off [of StartAPI r n] cut_off [of StartOrderEngineGateway r n]
  by (simp add: StartAPI_def StartOrderEngineGateway_def closing_def) blast

subsection \<open>Candles before their stream\<close>

text \<open>
  When the gateway of market data starts its subscribers it has not declared the stream of candles yet: over a
  broker without it, no stream keeps the candles they publish until then.
\<close>

lemma subscribers_start_first:
  assumes "run_boot J T as (take 3 (pc_boot (StartMarketDataGateway xs))) \<lparr>bs_broker = b, bs_open = []\<rparr> = (True, s)"
    and "ba_stream J b ''KLINE'' = None"
  shows "Subscribers \<in> set (bs_open s) \<and> ba_stream J (bs_broker s) ''KLINE'' = None"
  using assms
  by (cases as; cases "tl as"; cases "tl (tl as)")
    (auto simp: StartMarketDataGateway_def split: if_splits)

text \<open>The dashboard calls the gateway of market data where it listens, unless it is told another address.\<close>

lemma grpc_address_agrees:
  assumes "trim_space env = []" "trim_space (port_of ports ''market_data_gateway_grpc_address'') = []"
    "trim_space (port_of ports ''market_data_gateway_grpc'') = port_of ports ''market_data_gateway_grpc''"
  shows "marketDataGatewayGRPCAddress env ports = ''localhost'' @ market_data_grpc_listen ports"
  using assms by (simp add: marketDataGatewayGRPCAddress_def market_data_grpc_listen_def Let_def)

subsection \<open>Witnesses\<close>

lemma api_processes: "StartAPI \<in> processes" "StartMarketDataGateway [] \<in> processes"
  by (auto simp: processes_def intro: exI [of _ "[]"])

lemma gateway_boots:
  "run_boot plain_broker Map.empty (replicate 4 (\<lambda>_. True)) (pc_boot (StartMarketDataGateway [])) \<lparr>bs_broker = no_streams, bs_open = []\<rparr>
    = (True, \<lparr>bs_broker = no_streams, bs_open = [Database ''market_data'', Nats, Subscribers, GrpcListener]\<rparr>)"
  by (simp add: StartMarketDataGateway_def numeral_eq_Suc)

theorem every_resource_released_witness:
  "\<exists>d. shutdown_step\<^sup>*\<^sup>* (shutting_down (StartMarketDataGateway []) 0 2) d \<and> sd_subscribers d = 0
    \<and> mset (sd_closed d) = {#Database ''market_data'', Nats, Subscribers, GrpcListener#}"
proof -
  obtain d where "shutdown_step\<^sup>*\<^sup>* (shutting_down (StartMarketDataGateway []) 0 2) d" "sd_exit d = Some Graceful"
    using shutdown_ends [OF api_processes(2) shutdown_ok_start, of 0 2] by (auto simp: shutting_down_def)
  with every_resource_released [OF api_processes(2) gateway_boots this] show ?thesis by auto
qed

theorem shutdown_can_finish_witness:
  "\<exists>d. shutdown_step\<^sup>*\<^sup>* (shutting_down StartAPI 5 0) d \<and> sd_exit d = Some Graceful"
  using shutdown_can_finish [OF api_processes(1) rtranclp.rtrancl_refl, of 5 0] by (simp add: shutting_down_def)

end
