(* ===== verification/Spec2Isabelle.thy ===== *)
theory Spec2Isabelle
  imports KlineProps MappingProps ApiProps GatewayProps JobProps TradeProps DataProps ReportProps StreamProps ServerProps
    EventProps ProcessProps
begin

text \<open>
  A verification of the trading service under \<open>src/\<close>.

  \<^bold>\<open>The program.\<close> Strategies and a dashboard ask for orders over HTTP, gRPC or a queue (JetStream). The order
  engine places each of them on an exchange (Binance, Tokocrypto) or, for paper trading, in its own
  books, keeps one row of history for each, and announces what it did; a loop brings the rows that are still open
  up to date. Subscribers read candles from the exchanges' websockets and publish them; consumers write
  candles and reference prices; a backfill fetches what is missing. A dashboard with users, roles and
  tokens reads and changes all of it through the data service. Parts meet only in the tables and in the
  published events, so each is a function on its tables, events and the answers of the outside world.

  \<^bold>\<open>How it is modelled.\<close> A Go struct is a record, an enumeration of strings its strings, a call returning
  \<open>(T, error)\<close> a sum, a panic a value of \<open>outcome\<close>. State is passed explicitly. Every call that can fail
  takes its outcome from an environment record, so a theorem quantifies over all failures. Code outside \<open>src/\<close>
  is a parameter: \<open>decimal_ops\<close> (shopspring/decimal, its laws the locale \<open>decimal_lib\<close>), HMAC,
  SHA-256 and bcrypt, float conversions, the time parser, the requests of the message broker (\<open>broker_api\<close>), and the
  exchanges' replies. Times are
  nanoseconds as integers, delays and offsets of 64 bits words where they can wrap, text is a list of bytes, and JSON is
  parsed and written by functions of the development.

  \<^bold>\<open>Theories and code\<close> (paths under \<open>src/internal\<close>).
  \<^item> \<open>Prelude\<close>, \<open>GoLib\<close>, \<open>GoNum\<close>, \<open>GoTime\<close>, \<open>Decimal\<close>, \<open>Json\<close>, \<open>JsonText\<close>: results, strings, numbers, times, decimals and
    JSON as the standard library and the drivers have them.
  \<^item> \<open>Entity\<close> (\<open>entity/\<close>): orders, histories, candles, and the normalisers of their fields.
  \<^item> \<open>Delivery\<close> (\<open>util/event.go\<close>): \<open>ProcessWithTimeout\<close>, the retry decision, publication.
  \<^item> \<open>OrderStore\<close>, \<open>OrderTrades\<close>, \<open>TradeReports\<close> (\<open>repository/order_history.repository.go\<close>): the table, the
    trades a trigger derives from it, the views with metrics and the reports.
  \<^item> \<open>OrderEngine\<close>, \<open>OrderSync\<close>, \<open>EngineRun\<close> (\<open>service/orderengine/\<close>): \<open>PlaceOrder\<close>, \<open>PlaceOrderAsync\<close>, the queue
    handler, the synchronisation, and their runs as a step relation.
  \<^item> \<open>OrderGateway\<close> (\<open>handler/orderengine/\<close>): the HTTP handlers with their keys and the gRPC server.
  \<^item> \<open>ExchangeCommon\<close>, \<open>Binance\<close>, \<open>Tokocrypto\<close>, \<open>Registry\<close> (\<open>service/exchange/\<close>, \<open>bootstrap/exchange_init.go\<close>): the adapters.
  \<^item> \<open>SymbolMap\<close>, \<open>KlineSubs\<close>, \<open>KlineStream\<close> (\<open>kline_resync.go\<close>, \<open>kline_ws_subscriber.go\<close>): the symbol index, the
    subscriptions, and the websocket subscriber with the configurations the exchanges give it.
  \<^item> \<open>KlineStore\<close>, \<open>Klines\<close> (\<open>market_kline.repository.go\<close>, \<open>price_reference.*\<close>, \<open>kline_backfill.go\<close>): the tables
    of candles and prices, their consumers, and the backfill loop.
  \<^item> \<open>BackfillJobs\<close> (\<open>service/api/backfill.service.go\<close>, \<open>handler/marketdata/\<close>): the jobs and the server they call.
  \<^item> \<open>Token\<close>, \<open>AuthStore\<close>, \<open>AuthService\<close> (\<open>api/token.go\<close>, \<open>api_auth.repository.go\<close>, \<open>auth.service.go\<close>, \<open>auth_cache.go\<close>).
  \<^item> \<open>Pagination\<close>, \<open>ApiHttp\<close> (\<open>api/pagination.go\<close>, \<open>handler/api/http/\<close>): query strings, routes, rights, handlers.
  \<^item> \<open>ConfigStore\<close>, \<open>DataValues\<close>, \<open>OrderActions\<close>, \<open>DataService\<close>, \<open>DataCrud\<close>, \<open>DataCalls\<close> (\<open>service/api/data.service.go\<close>,
    \<open>response.go\<close>, the repositories of settings, mappings, subscriptions and strategies): every call a handler
    makes, from the decoded body to the tables and the answer.
  \<^item> \<open>Notification\<close> (\<open>service/notification/\<close>): the message of an order and the alert posted for it.
  \<^item> \<open>HttpServer\<close>, \<open>Infrastructure\<close> (\<open>infrastructure/\<close>): middlewares, settings, attempts to connect.
  \<^item> \<open>EventStreams\<close> (\<open>JetstreamEventInit\<close> and \<open>JetstreamEventSubscribe\<close> of every service, \<open>constant/kline.go\<close>): the streams and
    consumers of the broker. \<open>Processes\<close> (\<open>bootstrap/\<close>): what a process opens, in order, its shutdown as a step relation,
    its settings, the migrations.

  \<^bold>\<open>Interfaces.\<close> \<open>history_store\<close> (interpreted as \<open>order_store\<close>) and \<open>upsert_table\<close> (\<open>kline_rows\<close>, \<open>price_rows\<close>), \<open>keyed_rows\<close>
  (\<open>mapping_rows\<close>, \<open>subscription_rows\<close>, \<open>config_rows\<close>) are what tables promise; \<open>exchange_registry\<close>, with its
  extensions \<open>sync_registry\<close> and \<open>live_registry\<close> (\<open>configured\<close>, \<open>venues\<close>), what the engine needs of an exchange; it is a \<open>once_handler\<close>
  for \<open>Delivery\<close>. \<open>symbol_resolver\<close> (\<open>kline_symbols\<close>, \<open>order_symbols\<close>) and \<open>code_table\<close> (\<open>binance_*\<close>, \<open>toko_*\<close>) give round
  trips; \<open>candle_feed\<close> (\<open>binance_feed\<close>, \<open>toko_feed\<close>) is what the subscriber needs of its callbacks; \<open>decimal_lib\<close>
  (\<open>refdec\<close>) are the laws of the decimal library, met by exact arithmetic with rounded division;
  \<open>subject_matching\<close> (\<open>nats\<close>) is what the broker's patterns promise, \<open>stream_broker\<close>, which extends it (\<open>plain\<close>), what its
  requests do.

  \<^bold>\<open>What the lemmas show.\<close>
  \<^item> \<open>EngineProps\<close>: a request is placed at most once under redelivery; the constraints and the ledger of request ids hold over
    every run; what success, failure and paper trading store. Two gaps are stated too: a placement that cannot be
    stored after a timeout is repeated.
  \<^item> \<open>GatewayProps\<close>: keys guard the doors; a queued request does what the direct one would; gRPC and HTTP agree.
  \<^item> \<open>TradeProps\<close>: closing by hand sends the opposite order of the running position, once; switching a strategy off
    closes all its positions; manual orders are ones the engine accepts.
  \<^item> \<open>ExchangeProps\<close>, \<open>MappingProps\<close>: retries end, final rows stay, how much is sent, rounding to steps, codes and symbols
    come back.
  \<^item> \<open>KlineProps\<close>, \<open>JobProps\<close>, \<open>StreamProps\<close>: candles and prices are idempotent and monotone, a backfill ends and
    stays in its window, the life of a job, what a connection asks for, when it is replaced and when it stops.
  \<^item> \<open>ApiProps\<close>, \<open>DataProps\<close>, \<open>ReportProps\<close>, \<open>ServerProps\<close>: no call without its rights, tokens and sessions, constraints of
    all tables, reading requests read, reports that agree, an answer for every request, alerts.
  \<^item> \<open>EventProps\<close>, \<open>ProcessProps\<close>: every published event reaches the consumers it is meant for whatever the order of
    start-up; a shutdown closes what was opened and can always end, but does not wait for HTTP requests.

  \<^bold>\<open>Fuel and bounds.\<close> The JSON parser has fuel \<open>2 * length + 2\<close>, enough for every text that is written
  (\<open>parse_json_write\<close>). The backfill loop has fuel: \<open>backfill_terminates\<close> shows that one unit for each millisecond of the
  window and one more is enough when the exchange honours the start time, \<open>backfill_may_not_end\<close> that nothing is
  when it does not. All other loops recurse on data, or have a measure.

  \<^bold>\<open>Simplifications.\<close> A call of the data service reads the clock once; column widths are not checked; \<open>NUMERIC\<close>
  columns are exact; days are those of UTC and text is ordered by its bytes; the table of trades is a function of the histories,
  as its trigger keeps it; the order of rows the database leaves open is that of insertion. A subscriber's
  goroutines appear as the events of a round, and one subscriber is run at a time; the path of a
  websocket address is written as it is. A statement's transaction is one step.

  \<^bold>\<open>Not modelled.\<close> Loading the configuration file and the command line (\<open>cmd/\<close>, \<open>LoadConfig\<close>), the goroutines of the
  health checks: they only call libraries. Generated code (\<open>pb/\<close>). Logging, apart from the access log and the masking
  of addresses.
\<close>

end
